(* ===== verification/Prelude.thy ===== *)
theory Prelude
  imports Main "HOL-Library.State_Monad" "HOL-Library.Word"
begin

text \<open>
  Shared material of the development.

  \<^item> The Go string functions the sources use (\<open>strings.HasPrefix\<close>, \<open>TrimSpace\<close>, \<open>ToLower\<close>,
    \<open>Contains\<close>, \<open>Cut\<close>, \<open>Fields\<close>, \<open>strconv.Itoa\<close>, \<open>strconv.Quote\<close>). A Go string is a byte
    sequence and is modelled as \<open>string\<close>; case folding and white space are those of ASCII.
  \<^item> \<open>int64\<close> arithmetic: \<open>wrap64\<close> and Go's truncating division.
  \<^item> A weakest-precondition calculus for the state monad of the library (\<open>wp\<close>), collected in
    \<open>wp_simps\<close>; \<open>wp_mono\<close> uses a proved specification of a callee.
  \<^item> Two generic interfaces as locales: \<open>claim\<close> (an exclusive claim on a key, the pattern behind
    the provider's \<open>deleting\<close>, \<open>resumedOps\<close> and \<open>pendingRecheck\<close> sets) and \<open>backoff\<close> (a capped
    growing delay, the pattern behind every retry loop).
\<close>

named_theorems wp_simps "weakest preconditions of the monad's operations"
named_theorems tab_simps "projections of the provider state after a table operation"

section \<open>Strings\<close>

definition hasPrefix :: "string \<Rightarrow> string \<Rightarrow> bool" where
  "hasPrefix s p \<longleftrightarrow> take (length p) s = p"

definition hasSuffix :: "string \<Rightarrow> string \<Rightarrow> bool" where
  "hasSuffix s p \<longleftrightarrow> length p \<le> length s \<and> drop (length s - length p) s = p"

definition isSpace :: "char \<Rightarrow> bool" where
  "isSpace c \<longleftrightarrow> of_char c \<in> {9, 10, 11, 12, 13, 32 :: nat}"

definition trimSpace :: "string \<Rightarrow> string" where
  "trimSpace s = rev (dropWhile isSpace (rev (dropWhile isSpace s)))"

definition lowerChar :: "char \<Rightarrow> char" where
  "lowerChar c = (let n = of_char c :: nat in if 65 \<le> n \<and> n \<le> 90 then char_of (n + 32) else c)"

definition toLower :: "string \<Rightarrow> string" where
  "toLower s = map lowerChar s"

definition equalFold :: "string \<Rightarrow> string \<Rightarrow> bool" where
  "equalFold a b \<longleftrightarrow> toLower a = toLower b"

text \<open>\<open>strings.Cut\<close>: the text before and after the first separator.\<close>

fun cutStr :: "string \<Rightarrow> string \<Rightarrow> (string \<times> string) option" where
  "cutStr [] sep = (if sep = [] then Some ([], []) else None)"
| "cutStr (c # s) sep =
     (if hasPrefix (c # s) sep then Some ([], drop (length sep) (c # s))
      else map_option (\<lambda>(a, b). (c # a, b)) (cutStr s sep))"

definition containsStr :: "string \<Rightarrow> string \<Rightarrow> bool" where
  "containsStr s sub \<longleftrightarrow> cutStr s sub \<noteq> None"

text \<open>\<open>strings.Fields\<close>: the maximal runs of non-space bytes.\<close>

fun fieldsAcc :: "string \<Rightarrow> string \<Rightarrow> string list" where
  "fieldsAcc [] acc = (if acc = [] then [] else [rev acc])"
| "fieldsAcc (c # s) acc =
     (if isSpace c then (if acc = [] then fieldsAcc s [] else rev acc # fieldsAcc s [])
      else fieldsAcc s (c # acc))"

definition fieldsStr :: "string \<Rightarrow> string list" where
  "fieldsStr s = fieldsAcc s []"

definition trimSuffix :: "string \<Rightarrow> string \<Rightarrow> string" where
  "trimSuffix s p = (if hasSuffix s p then take (length s - length p) s else s)"

fun joinStr :: "string list \<Rightarrow> string \<Rightarrow> string" where
  "joinStr [] sep = []"
| "joinStr [x] sep = x"
| "joinStr (x # y # xs) sep = x @ sep @ joinStr (y # xs) sep"

text \<open>\<open>cmp.Or\<close> on strings and integers: the first non-zero argument.\<close>

definition orStr :: "string \<Rightarrow> string \<Rightarrow> string" where
  "orStr a b = (if a = [] then b else a)"

definition orInt :: "int \<Rightarrow> int \<Rightarrow> int" where
  "orInt a b = (if a = 0 then b else a)"

text \<open>\<open>strconv.Itoa\<close>.\<close>

fun natDigits :: "nat \<Rightarrow> string" where
  "natDigits n = (if n < 10 then [char_of (48 + n)] else natDigits (n div 10) @ [char_of (48 + n mod 10)])"

declare natDigits.simps [simp del]

definition itoa :: "int \<Rightarrow> string" where
  "itoa i = (if i < 0 then ''-'' @ natDigits (nat (- i)) else natDigits (nat i))"

text \<open>\<open>strconv.Quote\<close>, the verb \<open>%q\<close>, on ASCII text.\<close>

definition hexDigit :: "nat \<Rightarrow> char" where
  "hexDigit n = char_of (if n < 10 then 48 + n else 87 + n)"

definition quoteChar :: "char \<Rightarrow> string" where
  "quoteChar c =
     (let n = of_char c :: nat; esc = (\<lambda>k. [char_of (92 :: nat), char_of (k :: nat)]) in
      if n = 34 \<or> n = 92 then esc n
      else if 32 \<le> n \<and> n < 127 then [c]
      else if n = 7 then esc 97 else if n = 8 then esc 98 else if n = 12 then esc 102
      else if n = 10 then esc 110 else if n = 13 then esc 114 else if n = 9 then esc 116
      else if n = 11 then esc 118
      else esc 120 @ [hexDigit (n div 16), hexDigit (n mod 16)])"

definition quoteStr :: "string \<Rightarrow> string" where
  "quoteStr s = [char_of (34 :: nat)] @ concat (map quoteChar s) @ [char_of (34 :: nat)]"

lemma hasPrefix_append [simp]: "hasPrefix (p @ s) p"
  by (simp add: hasPrefix_def)

lemma hasPrefix_iff: "hasPrefix s p \<longleftrightarrow> (\<exists>t. s = p @ t)"
  by (metis append_eq_conv_conj append_take_drop_id hasPrefix_def)

lemma cutStr_Some:
  "cutStr s sep = Some (a, b) \<Longrightarrow> s = a @ sep @ b"
proof (induction s sep arbitrary: a b rule: cutStr.induct)
  case (1 sep)
  then show ?case by (simp split: if_splits)
next
  case (2 c s sep)
  show ?case
  proof (cases "hasPrefix (c # s) sep")
    case True
    then obtain t where t: "c # s = sep @ t" by (auto simp: hasPrefix_iff)
    from True 2(2) have "a = []" and "b = drop (length sep) (c # s)" by auto
    with t show ?thesis by simp
  next
    case False
    with 2 show ?thesis by auto
  qed
qed

lemma cutStr_append: "\<exists>a b. cutStr (u @ sep @ v) sep = Some (a, b)"
proof (induction u)
  case Nil
  show ?case
  proof (cases "sep @ v")
    case Nil
    then show ?thesis by simp
  next
    case (Cons c t)
    then have "hasPrefix (c # t) sep" by (metis hasPrefix_append)
    with Cons show ?thesis by simp
  qed
next
  case (Cons c u)
  then show ?case by auto
qed

lemma containsStr_iff: "containsStr s sub \<longleftrightarrow> (\<exists>u v. s = u @ sub @ v)"
  unfolding containsStr_def using cutStr_Some cutStr_append by fastforce

section \<open>Machine integers\<close>

text \<open>
  Go's \<open>int64\<close> (and \<open>int\<close> on the 64-bit targets the program is built for) wraps around;
  \<open>wrap64\<close> is the two's complement reading of an unbounded result. Division truncates.
\<close>

definition wrap64 :: "int \<Rightarrow> int" where
  "wrap64 i = (i + 2 ^ 63) mod 2 ^ 64 - 2 ^ 63"

definition quot :: "int \<Rightarrow> int \<Rightarrow> int" where
  "quot a b = sgn a * sgn b * (\<bar>a\<bar> div \<bar>b\<bar>)"

lemma wrap64_id: "- (2 ^ 63) \<le> i \<Longrightarrow> i < 2 ^ 63 \<Longrightarrow> wrap64 i = i"
  by (simp add: wrap64_def mod_pos_pos_trivial)

lemma wrap64_bounds: "- (2 ^ 63) \<le> wrap64 i \<and> wrap64 i < 2 ^ 63"
  using pos_mod_bound [of "2 ^ 64" "i + 2 ^ 63"] pos_mod_sign [of "2 ^ 64" "i + 2 ^ 63"]
  by (simp add: wrap64_def)

lemma quot_nonneg: "0 \<le> a \<Longrightarrow> 0 < b \<Longrightarrow> quot a b = a div b"
  by (cases "a = 0") (simp_all add: quot_def)

section \<open>Weakest preconditions\<close>

definition wp :: "('s, 'a) state \<Rightarrow> ('a \<Rightarrow> 's \<Rightarrow> bool) \<Rightarrow> 's \<Rightarrow> bool" where
  "wp m Q s = (case run_state m s of (r, s') \<Rightarrow> Q r s')"

lemma wp_return [simp, wp_simps]: "wp (State_Monad.return x) Q = Q x"
  by (simp add: wp_def fun_eq_iff)

lemma wp_bind [simp, wp_simps]: "wp (State_Monad.bind m f) Q = wp m (\<lambda>r. wp (f r) Q)"
  by (simp add: wp_def fun_eq_iff split: prod.splits)

lemma wp_State [simp, wp_simps]: "wp (State f) Q s = (case f s of (r, s') \<Rightarrow> Q r s')"
  by (simp add: wp_def)

lemma wp_if [simp, wp_simps]: "wp (if b then m else n) Q = (if b then wp m Q else wp n Q)"
  by simp

lemma wp_case_option [wp_simps]:
  "wp (case x of None \<Rightarrow> m | Some y \<Rightarrow> f y) Q =
    (case x of None \<Rightarrow> wp m Q | Some y \<Rightarrow> wp (f y) Q)"
  by (cases x) simp_all

lemma wp_case_sum [wp_simps]:
  "wp (case x of Inl a \<Rightarrow> f a | Inr b \<Rightarrow> g b) Q =
    (case x of Inl a \<Rightarrow> wp (f a) Q | Inr b \<Rightarrow> wp (g b) Q)"
  by (cases x) simp_all

lemma wp_case_prod [wp_simps]:
  "wp (case x of (a, b) \<Rightarrow> f a b) Q = (case x of (a, b) \<Rightarrow> wp (f a b) Q)"
  by (cases x) simp_all

lemma wp_mono: "wp m P s \<Longrightarrow> (\<And>r t. P r t \<Longrightarrow> Q r t) \<Longrightarrow> wp m Q s"
  by (auto simp: wp_def split: prod.splits)

lemma wp_conj: "wp m (\<lambda>r t. P r t \<and> Q r t) s \<longleftrightarrow> wp m P s \<and> wp m Q s"
  by (auto simp: wp_def split: prod.splits)

lemma wp_True [simp]: "wp m (\<lambda>r t. True) s"
  by (simp add: wp_def split: prod.splits)

lemma wp_run: "wp m Q s \<Longrightarrow> Q (fst (run_state m s)) (snd (run_state m s))"
  by (simp add: wp_def split: prod.splits)

lemma wp_runI: "Q (fst (run_state m s)) (snd (run_state m s)) \<Longrightarrow> wp m Q s"
  by (simp add: wp_def case_prod_beta)

lemma wp_runD: "wp m Q s \<Longrightarrow> run_state m s = (r, t) \<Longrightarrow> Q r t"
  by (simp add: wp_def)

section \<open>Exclusive claims\<close>

text \<open>
  A claim is taken on a key at most once until it is released: \<open>acquire\<close> fails on a held key,
  and neither operation touches another key. A request carries what the acquiring caller
  presents (an incarnation, a VM).
\<close>

datatype ('k, 'r, 's) claim_op = Attempt 'k 'r | Release 'k | Other "'s \<Rightarrow> 's"

locale claim =
  fixes held :: "'s \<Rightarrow> 'k \<Rightarrow> bool"
    and acquire :: "'r \<Rightarrow> 'k \<Rightarrow> 's \<Rightarrow> bool \<times> 's"
    and release :: "'k \<Rightarrow> 's \<Rightarrow> 's"
  assumes acquire_held: "held s k \<Longrightarrow> acquire r k s = (False, s)"
    and acquire_sets: "acquire r k s = (True, t) \<Longrightarrow> held t k"
    and acquire_frame: "acquire r k s = (b, t) \<Longrightarrow> j \<noteq> k \<Longrightarrow> held t j = held s j"
    and release_frame: "j \<noteq> k \<Longrightarrow> held (release k s) j = held s j"
begin

text \<open>A history of claim operations interleaved with others, with the outcome of each.\<close>

fun run_claims :: "('k, 'r, 's) claim_op list \<Rightarrow> 's \<Rightarrow> bool list" where
  "run_claims [] s = []"
| "run_claims (Attempt k r # os) s = (let (b, t) = acquire r k s in b # run_claims os t)"
| "run_claims (Release k # os) s = True # run_claims os (release k s)"
| "run_claims (Other g # os) s = True # run_claims os (g s)"

definition neutral :: "('s \<Rightarrow> 's) \<Rightarrow> bool" where
  "neutral g \<longleftrightarrow> (\<forall>s k. held (g s) k = held s k)"

definition well_formed :: "('k, 'r, 's) claim_op list \<Rightarrow> bool" where
  "well_formed os \<longleftrightarrow> (\<forall>g. Other g \<in> set os \<longrightarrow> neutral g)"

lemma well_formed_Cons [simp]:
  "well_formed (x # os) \<longleftrightarrow> (case x of Other g \<Rightarrow> neutral g | _ \<Rightarrow> True) \<and> well_formed os"
  by (auto simp: well_formed_def split: claim_op.splits)

lemma acquire_keeps: "acquire r j s = (b, t) \<Longrightarrow> held s k \<Longrightarrow> held t k"
  using acquire_frame [of r j s b t k] acquire_held [of s k r] by (cases "j = k") auto

text \<open>A held key stays held, and refuses every attempt, until it is released.\<close>

lemma held_refuses:
  "held s k \<Longrightarrow> well_formed os \<Longrightarrow> n < length os \<Longrightarrow> os ! n = Attempt k r \<Longrightarrow>
   run_claims os s ! n \<Longrightarrow> \<exists>m < n. os ! m = Release k"
proof (induction os s arbitrary: n rule: run_claims.induct)
  case (2 j r' os s)
  obtain b t where bt: "acquire r' j s = (b, t)" by fastforce
  show ?case
  proof (cases n)
    case 0
    with 2 bt acquire_held [of s k r'] show ?thesis by auto
  next
    case (Suc i)
    with 2(1) [OF bt [symmetric] refl acquire_keeps [OF bt 2(2)]] 2(3-) bt
    obtain m where "m < i" "os ! m = Release k" by auto
    with Suc show ?thesis by (intro exI [of _ "Suc m"]) simp
  qed
next
  case (3 j os s)
  show ?case
  proof (cases "j = k")
    case True
    with 3(4-) show ?thesis by (cases n) auto
  next
    case False
    then have "held (release j s) k" using 3(2) release_frame [of k j s] by simp
    with 3 show ?thesis by (cases n) fastforce+
  qed
next
  case (4 g os s)
  then have "held (g s) k" by (simp add: neutral_def)
  with 4 show ?case by (cases n) fastforce+
qed simp

text \<open>Two successful attempts on one key are separated by a release of it.\<close>

lemma exclusive_run:
  "well_formed os \<Longrightarrow> i < j \<Longrightarrow> j < length os \<Longrightarrow>
   os ! i = Attempt k r \<Longrightarrow> run_claims os s ! i \<Longrightarrow>
   os ! j = Attempt k r' \<Longrightarrow> run_claims os s ! j \<Longrightarrow>
   \<exists>m. i < m \<and> m < j \<and> os ! m = Release k"
proof (induction i arbitrary: os s j)
  case 0
  then obtain os' where os: "os = Attempt k r # os'" by (cases os) auto
  obtain b t where bt: "acquire r k s = (b, t)" by fastforce
  with 0 os have "held t k" by (auto intro: acquire_sets)
  moreover have "j - 1 < length os'" using 0 os by simp
  ultimately obtain m where "m < j - 1" "os' ! m = Release k"
    using 0 os bt held_refuses [of t k os' "j - 1" r'] by (auto simp: nth_Cons')
  with os show ?case by (intro exI [of _ "Suc m"]) auto
next
  case (Suc i)
  then obtain x os' where os: "os = x # os'" by (cases os) auto
  have j: "j = Suc (j - 1)" using Suc.prems by simp
  have "\<exists>s'. run_claims os s = (run_claims [x] s ! 0) # run_claims os' s'"
    unfolding os by (cases x) (auto simp: case_prod_beta)
  then obtain s' where "run_claims os s = (run_claims [x] s ! 0) # run_claims os' s'" by blast
  with Suc.prems Suc.IH [of os' "j - 1" s'] os j
  obtain m where "i < m" "m < j - 1" "os' ! m = Release k"
    by (metis Suc_less_eq length_Cons nth_Cons_Suc well_formed_Cons)
  with os show ?case by (intro exI [of _ "Suc m"]) auto
qed

end

section \<open>Capped back-off\<close>

text \<open>
  A delay that starts at \<open>base\<close>, never shrinks below it and never exceeds \<open>cap\<close>: what the
  provider's retry queue, its deferred recheck, its event watcher and the probe agents all use.
\<close>

locale backoff =
  fixes step :: "int \<Rightarrow> int"
    and base :: int
    and cap :: int
  assumes base_pos: "0 < base"
    and base_cap: "base \<le> cap"
    and step_cap: "step d \<le> cap"
    and step_grows: "base \<le> d \<Longrightarrow> d < cap \<Longrightarrow> d < step d"
    and step_at_cap: "step cap = cap"
begin

fun delay :: "nat \<Rightarrow> int" where
  "delay 0 = base"
| "delay (Suc n) = step (delay n)"

lemma delay_bounds: "base \<le> delay n \<and> delay n \<le> cap"
proof (induction n)
  case 0
  show ?case by (simp add: base_cap)
next
  case (Suc n)
  show ?case
  proof (cases "delay n < cap")
    case True
    with Suc step_grows [of "delay n"] step_cap [of "delay n"] show ?thesis by simp
  next
    case False
    with Suc have "delay n = cap" by simp
    then show ?thesis by (simp add: step_at_cap base_cap)
  qed
qed

lemma delay_mono: "delay n \<le> delay (Suc n)"
proof (cases "delay n < cap")
  case True
  with delay_bounds [of n] step_grows [of "delay n"] show ?thesis by simp
next
  case False
  with delay_bounds [of n] have "delay n = cap" by simp
  then show ?thesis by (simp add: step_at_cap)
qed

text \<open>The cap is reached, and kept from then on.\<close>

lemma delay_progress: "delay n < cap \<Longrightarrow> base + int n \<le> delay n"
proof (induction n)
  case 0
  show ?case by simp
next
  case (Suc n)
  have "delay n < cap"
  proof (rule ccontr)
    assume "\<not> delay n < cap"
    with delay_bounds [of n] have "delay n = cap" by simp
    with Suc.prems show False by (simp add: step_at_cap)
  qed
  with Suc.IH delay_bounds [of n] step_grows [of "delay n"] show ?case by simp
qed

lemma delay_reaches_cap: "nat (cap - base) \<le> n \<Longrightarrow> delay n = cap"
proof (rule ccontr)
  assume n: "nat (cap - base) \<le> n" and ne: "delay n \<noteq> cap"
  with delay_bounds [of n] have "delay n < cap" by simp
  with delay_progress have "base + int n < cap" by fastforce
  with n base_cap show False by simp
qed

end

end
