(* ===== verification/Probes.thy ===== *)
theory Probes
  imports Prelude
begin

text \<open>
  The probe manager (\<open>src/probes/probes.go\<close>): a table of the latest result per pod key and one
  agent goroutine per key. An agent is identified by a number; its context is cancelled when the
  number is in \<open>cancelled\<close>. The probe runs outside the manager's lock, so \<open>Start\<close> is modelled by
  its two critical sections, \<open>startRegister\<close> and \<open>startPublish\<close>, between which any other operation
  may happen; \<open>mgr_step\<close> interleaves them freely. The agent's own loop is \<open>runTick\<close>, one iteration
  of \<open>run\<close> on the outcome of its probe.

  Shown: no agent leaks (each is registered or cancelled), a replaced or forgotten agent cannot
  write a result, the readiness an agent acts on (its \<open>lastReady\<close>) is the specified hysteresis of
  its probe outcomes, the update callback runs exactly when that readiness flips, and the polling
  interval is bounded. The stored \<open>Result\<close> carries the raw outcome of the last probe, without the
  hysteresis, as in the source.
\<close>

section \<open>Manager\<close>

record probe_result =
  prReady :: bool
  prLastSeen :: "int option"
  prMessage :: string

record manager =
  results :: "string \<rightharpoonup> probe_result"
  agents :: "string \<rightharpoonup> nat"
  nextAgent :: nat
  cancelled :: "nat set"
  rootCancelled :: bool

definition NewManager :: manager where
  "NewManager = \<lparr>results = Map.empty, agents = Map.empty, nextAgent = 0, cancelled = {},
     rootCancelled = False\<rparr>"

definition mgrClose :: "manager \<Rightarrow> manager" where
  "mgrClose m = m\<lparr>rootCancelled := True\<rparr>"

definition mgrSet :: "string \<Rightarrow> probe_result \<Rightarrow> int \<Rightarrow> manager \<Rightarrow> manager" where
  "mgrSet key r now m = m\<lparr>results := (results m)(key \<mapsto> r\<lparr>prLastSeen := Some now\<rparr>)\<rparr>"

text \<open>A missing key reads as the zero \<open>Result\<close>.\<close>

definition mgrGet :: "string \<Rightarrow> manager \<Rightarrow> probe_result" where
  "mgrGet key m = (case results m key of
      Some r \<Rightarrow> r
    | None \<Rightarrow> \<lparr>prReady = False, prLastSeen = None, prMessage = []\<rparr>)"

definition mgrForget :: "string \<Rightarrow> manager \<Rightarrow> manager" where
  "mgrForget key m =
     m\<lparr>agents := (agents m)(key := None), results := (results m)(key := None),
       cancelled := cancelled m \<union> set_option (agents m key)\<rparr>"

definition startRegister :: "string \<Rightarrow> manager \<Rightarrow> nat \<times> manager" where
  "startRegister key m =
     (nextAgent m,
      m\<lparr>cancelled := cancelled m \<union> set_option (agents m key),
        agents := (agents m)(key \<mapsto> nextAgent m), nextAgent := Suc (nextAgent m)\<rparr>)"

definition setOwned :: "string \<Rightarrow> nat \<Rightarrow> probe_result \<Rightarrow> int \<Rightarrow> manager \<Rightarrow> bool \<times> manager" where
  "setOwned key ag r now m =
     (if agents m key \<noteq> Some ag then (False, m)
      else (True, m\<lparr>results := (results m)(key \<mapsto> r\<lparr>prLastSeen := Some now\<rparr>)\<rparr>))"

text \<open>The tail of \<open>Start\<close>: publish the first result, or cancel the agent that lost its key. The
  flag says whether the agent's loop is launched.\<close>

definition startPublish :: "string \<Rightarrow> nat \<Rightarrow> bool \<Rightarrow> string \<Rightarrow> int \<Rightarrow> manager \<Rightarrow> bool \<times> manager" where
  "startPublish key ag ready msg now m =
     (case setOwned key ag \<lparr>prReady = ready, prLastSeen = None, prMessage = msg\<rparr> now m of
        (True, m') \<Rightarrow> (True, m')
      | (False, m') \<Rightarrow> (False, m'\<lparr>cancelled := insert ag (cancelled m')\<rparr>))"

text \<open>\<open>Start\<close> with nothing happening while its first probe runs.\<close>

definition mgrStart :: "string \<Rightarrow> bool \<Rightarrow> string \<Rightarrow> int \<Rightarrow> manager \<Rightarrow> bool \<times> manager" where
  "mgrStart key ready msg now m =
     (let (ag, m1) = startRegister key m in startPublish key ag ready msg now m1)"

section \<open>The agent loop\<close>

text \<open>Durations are nanoseconds. The interval grows by \<open>float64(d) * 1.5\<close>, exact on the values that
  occur (below \<open>2 ^ 52\<close>), truncated towards zero.\<close>

definition defaultInitialInterval :: int where "defaultInitialInterval = 100 * 10 ^ 6"
definition defaultInitialBackoffMax :: int where "defaultInitialBackoffMax = 10 ^ 9"
definition defaultSteadyInterval :: int where "defaultSteadyInterval = 5 * 10 ^ 9"
definition defaultFailureThreshold :: int where "defaultFailureThreshold = 3"

definition nextInitialInterval :: "int \<Rightarrow> int" where
  "nextInitialInterval d = min (quot (d * 3) 2) defaultInitialBackoffMax"

record agent_loop =
  lastReady :: bool
  interval :: int
  failures :: int

definition runInit :: "bool \<Rightarrow> agent_loop" where
  "runInit ready = \<lparr>lastReady = ready,
     interval = (if ready then defaultSteadyInterval else defaultInitialInterval), failures = 0\<rparr>"

text \<open>One iteration of \<open>run\<close> after its probe returned \<open>ready\<close>; the flag says whether \<open>onUpdate\<close>
  is called.\<close>

definition runTick :: "bool \<Rightarrow> agent_loop \<Rightarrow> bool \<times> agent_loop" where
  "runTick ready l =
     (if ready \<and> \<not> lastReady l
      then (True, l\<lparr>lastReady := True, failures := 0, interval := defaultSteadyInterval\<rparr>)
      else if ready then (False, l\<lparr>failures := 0\<rparr>)
      else if \<not> lastReady l then (False, l\<lparr>interval := nextInitialInterval (interval l)\<rparr>)
      else if failures l + 1 \<ge> defaultFailureThreshold
      then (True, l\<lparr>failures := failures l + 1, lastReady := False,
                    interval := defaultInitialInterval\<rparr>)
      else (False, l\<lparr>failures := failures l + 1\<rparr>))"

fun runTicks :: "bool list \<Rightarrow> agent_loop \<Rightarrow> bool list \<times> agent_loop" where
  "runTicks [] l = ([], l)"
| "runTicks (r # rs) l =
     (let (n, l') = runTick r l; (ns, l'') = runTicks rs l' in (n # ns, l''))"

lemmas probe_const_defs =
  defaultInitialInterval_def defaultInitialBackoffMax_def defaultSteadyInterval_def
  defaultFailureThreshold_def

interpretation probe_backoff:
  backoff nextInitialInterval defaultInitialInterval defaultInitialBackoffMax
proof unfold_locales
  fix d :: int
  assume d: "defaultInitialInterval \<le> d" "d < defaultInitialBackoffMax"
  then have "quot (d * 3) 2 = d * 3 div 2"
    by (intro quot_nonneg) (auto simp: probe_const_defs)
  with d show "d < nextInitialInterval d"
    by (auto simp: nextInitialInterval_def probe_const_defs)
qed (simp_all add: nextInitialInterval_def probe_const_defs quot_def)

section \<open>No leaked agent, no stale result\<close>

text \<open>The manager under any interleaving of its operations. A result is written by an agent that
  \<open>startRegister\<close> handed out for that key, whether or not it still owns it.\<close>

inductive mgr_step :: "manager \<Rightarrow> manager \<Rightarrow> bool" where
  register: "mgr_step m (snd (startRegister key m))"
| publish: "ag < nextAgent m \<Longrightarrow> mgr_step m (snd (startPublish key ag ready msg now m))"
| tick: "ag < nextAgent m \<Longrightarrow> mgr_step m (snd (setOwned key ag r now m))"
| forget: "mgr_step m (mgrForget key m)"
| close: "mgr_step m (mgrClose m)"

inductive mgr_reachable :: "manager \<Rightarrow> bool" where
  init: "mgr_reachable NewManager"
| step: "mgr_reachable m \<Longrightarrow> mgr_step m m' \<Longrightarrow> mgr_reachable m'"

definition mgr_inv :: "manager \<Rightarrow> bool" where
  "mgr_inv m \<longleftrightarrow>
     (\<forall>k a. agents m k = Some a \<longrightarrow> a < nextAgent m) \<and>
     (\<forall>k k' a. agents m k = Some a \<longrightarrow> agents m k' = Some a \<longrightarrow> k = k') \<and>
     (\<forall>a < nextAgent m. a \<in> cancelled m \<or> (\<exists>k. agents m k = Some a)) \<and>
     (\<forall>k. results m k \<noteq> None \<longrightarrow> agents m k \<noteq> None)"

lemma mgr_invI:
  assumes "\<And>k a. agents m k = Some a \<Longrightarrow> a < nextAgent m"
    and "\<And>k k' a. agents m k = Some a \<Longrightarrow> agents m k' = Some a \<Longrightarrow> k = k'"
    and "\<And>a. a < nextAgent m \<Longrightarrow> a \<in> cancelled m \<or> (\<exists>k. agents m k = Some a)"
    and "\<And>k. results m k \<noteq> None \<Longrightarrow> agents m k \<noteq> None"
  shows "mgr_inv m"
  using assms unfolding mgr_inv_def by blast

lemma mgr_inv_init: "mgr_inv NewManager"
  by (simp add: mgr_inv_def NewManager_def)

lemma mgr_inv_register: "mgr_inv m \<Longrightarrow> mgr_inv (snd (startRegister key m))"
proof (rule mgr_invI)
  fix k a
  assume "mgr_inv m" "agents (snd (startRegister key m)) k = Some a"
  then show "a < nextAgent (snd (startRegister key m))"
    by (auto simp: mgr_inv_def startRegister_def less_Suc_eq split: if_splits)
next
  fix k k' a
  assume "mgr_inv m" "agents (snd (startRegister key m)) k = Some a"
    "agents (snd (startRegister key m)) k' = Some a"
  then show "k = k'"
    by (auto simp: mgr_inv_def startRegister_def split: if_splits)
next
  fix a
  assume m: "mgr_inv m" and "a < nextAgent (snd (startRegister key m))"
  then consider "a = nextAgent m" | "a \<in> cancelled m" | k where "agents m k = Some a"
    by (auto simp: mgr_inv_def startRegister_def less_Suc_eq)
  then show "a \<in> cancelled (snd (startRegister key m)) \<or>
      (\<exists>k. agents (snd (startRegister key m)) k = Some a)"
  proof cases
    case (3 k)
    then show ?thesis by (cases "k = key") (auto simp: startRegister_def)
  qed (auto simp: startRegister_def)
next
  fix k
  assume "mgr_inv m" "results (snd (startRegister key m)) k \<noteq> None"
  then show "agents (snd (startRegister key m)) k \<noteq> None"
    by (auto simp: mgr_inv_def startRegister_def)
qed

lemma mgr_inv_setOwned: "mgr_inv m \<Longrightarrow> mgr_inv (snd (setOwned key ag r now m))"
  by (auto simp: mgr_inv_def setOwned_def)

lemma mgr_inv_cancel: "mgr_inv m \<Longrightarrow> mgr_inv (m\<lparr>cancelled := insert a (cancelled m)\<rparr>)"
  by (auto simp: mgr_inv_def)

lemma mgr_inv_publish: "mgr_inv m \<Longrightarrow> mgr_inv (snd (startPublish key ag ready msg now m))"
  using mgr_inv_setOwned [of m key ag _ now] mgr_inv_cancel
  by (auto simp: startPublish_def split: prod.splits bool.splits) (metis snd_conv)+

lemma mgr_inv_forget: "mgr_inv m \<Longrightarrow> mgr_inv (mgrForget key m)"
proof (rule mgr_invI)
  fix a
  assume m: "mgr_inv m" and a: "a < nextAgent (mgrForget key m)"
  then consider "a \<in> cancelled m" | k where "agents m k = Some a"
    by (auto simp: mgr_inv_def mgrForget_def)
  then show "a \<in> cancelled (mgrForget key m) \<or> (\<exists>k. agents (mgrForget key m) k = Some a)"
  proof cases
    case (2 k)
    then show ?thesis by (cases "k = key") (auto simp: mgrForget_def)
  qed (simp add: mgrForget_def)
qed (auto simp: mgr_inv_def mgrForget_def split: if_splits)

lemma mgr_step_inv: "mgr_step m m' \<Longrightarrow> mgr_inv m \<Longrightarrow> mgr_inv m'"
proof (induction rule: mgr_step.induct)
  case (close m)
  then show ?case by (simp add: mgr_inv_def mgrClose_def)
qed (auto intro: mgr_inv_register mgr_inv_publish mgr_inv_setOwned mgr_inv_forget)

lemma mgr_reachable_inv: "mgr_reachable m \<Longrightarrow> mgr_inv m"
  by (induction rule: mgr_reachable.induct) (auto intro: mgr_inv_init mgr_step_inv)

section \<open>Hysteresis\<close>

text \<open>What an agent should report after a series of probe outcomes: ready once a probe succeeded,
  until three probes in a row failed.\<close>

definition trailing_failures :: "bool list \<Rightarrow> nat" where
  "trailing_failures rs = length (takeWhile Not (rev rs))"

definition ready_spec :: "bool \<Rightarrow> bool list \<Rightarrow> bool" where
  "ready_spec first rs \<longleftrightarrow> (first \<or> True \<in> set rs) \<and> trailing_failures rs < 3"

definition loop_inv :: "bool \<Rightarrow> bool list \<Rightarrow> agent_loop \<Rightarrow> bool" where
  "loop_inv first rs l \<longleftrightarrow>
     lastReady l = ready_spec first rs \<and>
     (lastReady l \<longrightarrow> failures l = int (trailing_failures rs) \<and> interval l = defaultSteadyInterval) \<and>
     (\<not> lastReady l \<longrightarrow> defaultInitialInterval \<le> interval l \<and> interval l \<le> defaultInitialBackoffMax)"

lemma trailing_failures_snoc [simp]:
  "trailing_failures (rs @ [r]) = (if r then 0 else Suc (trailing_failures rs))"
  by (simp add: trailing_failures_def)

lemma nextInitialInterval_bounds:
  "defaultInitialInterval \<le> d \<Longrightarrow> d \<le> defaultInitialBackoffMax \<Longrightarrow>
   defaultInitialInterval \<le> nextInitialInterval d \<and> nextInitialInterval d \<le> defaultInitialBackoffMax"
  using probe_backoff.step_grows [of d] probe_backoff.step_cap [of d] probe_backoff.step_at_cap
    probe_backoff.base_cap
  by (cases "d < defaultInitialBackoffMax") auto

lemma loop_inv_init: "loop_inv first [] (runInit first)"
  by (simp add: loop_inv_def runInit_def ready_spec_def trailing_failures_def probe_const_defs)

lemma loop_inv_tick:
  "loop_inv first rs l \<Longrightarrow> runTick r l = (n, l') \<Longrightarrow>
   loop_inv first (rs @ [r]) l' \<and> n = (lastReady l' \<noteq> lastReady l)"
  using nextInitialInterval_bounds [of "interval l"]
  by (auto simp: loop_inv_def runTick_def ready_spec_def defaultFailureThreshold_def
      defaultInitialInterval_def defaultInitialBackoffMax_def split: if_splits)

lemma runTicks_spec:
  "loop_inv first ps l \<Longrightarrow> runTicks rs l = (ns, l') \<Longrightarrow>
   loop_inv first (ps @ rs) l' \<and> length ns = length rs \<and>
   (\<forall>i < length rs. ns ! i =
      (ready_spec first (ps @ take (Suc i) rs) \<noteq> ready_spec first (ps @ take i rs)))"
proof (induction rs arbitrary: ps l ns l')
  case Nil
  then show ?case by simp
next
  case (Cons r rs)
  obtain n l1 where t: "runTick r l = (n, l1)" by fastforce
  obtain ns1 l2 where u: "runTicks rs l1 = (ns1, l2)" by fastforce
  from loop_inv_tick [OF Cons.prems(1) t]
  have inv1: "loop_inv first (ps @ [r]) l1" and n: "n = (lastReady l1 \<noteq> lastReady l)" by auto
  from Cons.IH [OF inv1 u]
  have IH: "loop_inv first ((ps @ [r]) @ rs) l2" "length ns1 = length rs"
    "\<And>i. i < length rs \<Longrightarrow> ns1 ! i = (ready_spec first ((ps @ [r]) @ take (Suc i) rs) \<noteq>
        ready_spec first ((ps @ [r]) @ take i rs))" by auto
  have eq: "ns = n # ns1" "l' = l2" using Cons.prems(2) t u by auto
  have n0: "n = (ready_spec first (ps @ [r]) \<noteq> ready_spec first ps)"
    using n inv1 Cons.prems(1) by (simp add: loop_inv_def)
  have "ns ! i = (ready_spec first (ps @ take (Suc i) (r # rs)) \<noteq> ready_spec first (ps @ take i (r # rs)))"
    if "i < length (r # rs)" for i
    using that n0 IH(3) [of "i - 1"] eq by (cases i) auto
  with IH eq show ?case by auto
qed

section \<open>An agent that lost its key never writes again\<close>

definition unregistered :: "nat \<Rightarrow> manager \<Rightarrow> bool" where
  "unregistered a m \<longleftrightarrow> a < nextAgent m \<and> (\<forall>k. agents m k \<noteq> Some a)"

lemma unregistered_step: "mgr_step m m' \<Longrightarrow> unregistered a m \<Longrightarrow> unregistered a m'"
  by (induction rule: mgr_step.induct)
    (auto simp: unregistered_def startRegister_def startPublish_def setOwned_def mgrForget_def
      mgrClose_def split: if_splits)

lemma unregistered_steps: "mgr_step\<^sup>*\<^sup>* m m' \<Longrightarrow> unregistered a m \<Longrightarrow> unregistered a m'"
  by (induction rule: rtranclp_induct) (auto intro: unregistered_step)

section \<open>Properties\<close>

text \<open>C20: in every reachable state of the probe manager, under any interleaving of \<open>Start\<close>,
  \<open>Forget\<close>, \<open>Close\<close> and agent writes, each agent ever created is cancelled or registered under
  exactly one key, and every stored result belongs to a key with a registered agent: no goroutine
  is leaked and no result outlives its agent.\<close>

theorem probe_no_leak:
  assumes "mgr_reachable m"
  shows "(a < nextAgent m \<longrightarrow> a \<in> cancelled m \<or> (\<exists>!k. agents m k = Some a)) \<and>
    (results m key \<noteq> None \<longrightarrow> agents m key \<noteq> None)"
  using mgr_reachable_inv [OF assms] unfolding mgr_inv_def by blast

theorem probe_no_leak_witness:
  "0 \<in> cancelled (snd (startRegister ''k'' (snd (startRegister ''k'' NewManager)))) \<or>
   (\<exists>!k. agents (snd (startRegister ''k'' (snd (startRegister ''k'' NewManager)))) k = Some 0)"
  using probe_no_leak [of "snd (startRegister ''k'' (snd (startRegister ''k'' NewManager)))" 0 "''k''",
      OF mgr_reachable.step [OF mgr_reachable.step [OF mgr_reachable.init mgr_step.register]
        mgr_step.register]]
  by (simp add: startRegister_def NewManager_def)

text \<open>An agent replaced by a later \<open>Start\<close> or dropped by \<open>Forget\<close> can never again write a
  result, whatever happens afterwards: its \<open>setOwned\<close> is refused for every key and changes
  nothing.\<close>

theorem probe_no_stale_write:
  assumes "mgr_reachable m" and "agents m key = Some a"
    and "mgr_step\<^sup>*\<^sup>* (mgrForget key m) m' \<or> mgr_step\<^sup>*\<^sup>* (snd (startRegister key m)) m'"
  shows "setOwned k a r now m' = (False, m')"
proof -
  from mgr_reachable_inv [OF assms(1)] assms(2)
  have a: "a < nextAgent m" and uniq: "\<And>k. agents m k = Some a \<Longrightarrow> k = key"
    unfolding mgr_inv_def by blast+
  have "unregistered a (mgrForget key m)" "unregistered a (snd (startRegister key m))"
    using a uniq by (auto simp: unregistered_def mgrForget_def startRegister_def split: if_splits)
  with assms(3) have "unregistered a m'" using unregistered_steps by blast
  then show ?thesis by (simp add: setOwned_def unregistered_def)
qed

theorem probe_no_stale_write_witness:
  "setOwned ''k'' 0 \<lparr>prReady = True, prLastSeen = None, prMessage = []\<rparr> 7
     (mgrForget ''k'' (snd (startRegister ''k'' NewManager))) =
   (False, mgrForget ''k'' (snd (startRegister ''k'' NewManager)))"
  by (rule probe_no_stale_write [where key = "''k''" and m = "snd (startRegister ''k'' NewManager)",
        OF mgr_reachable.step [OF mgr_reachable.init mgr_step.register]])
    (simp_all add: startRegister_def NewManager_def)

text \<open>C21: after any series of probe outcomes the agent loop considers the pod ready exactly when a
  probe succeeded and fewer than three failed since the last success; \<open>onUpdate\<close> ran on exactly
  the probes that flipped this readiness; and the next polling interval is 5s when ready and
  between 100ms and 1s when not.\<close>

theorem probe_hysteresis:
  assumes "runTicks rs (runInit first) = (ns, l)"
  shows "lastReady l = ready_spec first rs \<and>
    (\<forall>i < length rs. ns ! i = (ready_spec first (take (Suc i) rs) \<noteq> ready_spec first (take i rs))) \<and>
    (if lastReady l then interval l = defaultSteadyInterval
     else defaultInitialInterval \<le> interval l \<and> interval l \<le> defaultInitialBackoffMax)"
  using runTicks_spec [OF loop_inv_init assms] by (auto simp: loop_inv_def)

theorem probe_hysteresis_witness:
  "lastReady (snd (runTicks [True, False, False, False] (runInit False))) =
   ready_spec False [True, False, False, False]"
  using probe_hysteresis [of "[True, False, False, False]" False
      "fst (runTicks [True, False, False, False] (runInit False))"
      "snd (runTicks [True, False, False, False] (runInit False))"]
  by simp

end
