(* ===== verification/VM_Runtime.thy ===== *)
theory VM_Runtime
  imports Prelude
begin

text \<open>
  The \<open>vm\<close> package (\<open>src/vm\<close>): the data that crosses the \<open>Runtime\<close> interface, the sentinel errors,
  and the pure part of the \<open>cocoon\<close> CLI client: argument vectors, error-text classification,
  record conversion and path layout.

  A Go \<open>error\<close> is \<open>Err kinds msg\<close>: the sentinels its wrapping chain carries (what \<open>errors.Is\<close> and the
  \<open>apierrors\<close> predicates see) and the text of \<open>Error()\<close>. \<open>fmt.Errorf\<close> with \<open>%w\<close> keeps the sentinels
  and extends the text.
\<close>

section \<open>Errors\<close>

datatype sentinel =
    ErrVMNotFound
  | ErrImageNotFound
  | ErrSnapshotNotFound
  | ErrNoLease
  | ErrManifestNotFound
  | ErrDeleteKeptVM
  | ErrStaleLocalSnapshot
  | ErrSnapshotBeforeReady
  | ApiNotFound
  | ApiConflict
  | ApiInvalid
  | CtxCanceled
  | CtxDeadlineExceeded

datatype err = Err (errKinds: "sentinel list") (errMsg: string)

definition errIs :: "err \<Rightarrow> sentinel \<Rightarrow> bool" where
  "errIs e k \<longleftrightarrow> k \<in> set (errKinds e)"

definition newErr :: "string \<Rightarrow> err" where
  "newErr msg = Err [] msg"

text \<open>\<open>fmt.Errorf\<close> of a text before, the wrapped error, and a text after.\<close>

definition wrapErr :: "string \<Rightarrow> err \<Rightarrow> string \<Rightarrow> err" where
  "wrapErr pre e post = Err (errKinds e) (pre @ errMsg e @ post)"

lemma errIs_wrapErr [simp]: "errIs (wrapErr pre e post) k = errIs e k"
  by (simp add: errIs_def wrapErr_def)

lemma errIs_newErr [simp]: "\<not> errIs (newErr msg) k"
  by (simp add: errIs_def newErr_def)

lemma errMsg_wrapErr [simp]: "errMsg (wrapErr pre e post) = pre @ errMsg e @ post"
  by (simp add: wrapErr_def)

section \<open>Data of the Runtime interface\<close>

record network_info =
  niIP :: string
  niGateway :: string
  niPrefix :: int

record network_config =
  ncTap :: string
  ncMAC :: string
  ncNetwork :: "network_info option"

record vm =
  vID :: string
  vName :: string
  vHypervisor :: string
  vState :: string
  vIP :: string
  vMAC :: string
  vPID :: int
  vDiskPath :: string
  vNetworkConfigs :: "network_config list"

record snapshot =
  snID :: string
  snName :: string
  snImage :: string
  snImageDigest :: string
  snHypervisor :: string
  snDescription :: string

definition StateRunning :: string where "StateRunning = ''running''"
definition StateCreating :: string where "StateCreating = ''creating''"
definition StateCreated :: string where "StateCreated = ''created''"

definition BackendFirecracker :: string where "BackendFirecracker = ''firecracker''"

datatype stale_create_outcome =
    StaleCreateCollected
  | StaleCreateBusy
  | StaleCreateNotCreating
  | StaleCreateNotFound
  | StaleCreateOther string

record cpu_policy =
  cpuWeight :: int
  cpuQuotaUs :: int
  cpuPeriodUs :: int

record clone_options =
  coFrom :: string
  coTo :: string
  coNetwork :: string
  coBackend :: string
  coNoDirectIO :: bool
  coPull :: bool
  coRestoreMode :: string
  coCPUPolicy :: cpu_policy
  coFromDir :: string
  coNICs :: "int option"

record run_options =
  roImage :: string
  roName :: string
  roCPU :: int
  roMemory :: string
  roNetwork :: string
  roStorage :: string
  roOS :: string
  roBackend :: string
  roNoDirectIO :: bool
  roCPUPolicy :: cpu_policy

definition RestoreCopy :: string where "RestoreCopy = ''copy''"
definition RestoreOnDemand :: string where "RestoreOnDemand = ''ondemand''"
definition RestoreMmap :: string where "RestoreMmap = ''mmap''"

definition ParseRestoreMode :: "string \<Rightarrow> err + string" where
  "ParseRestoreMode s =
     (let m = toLower (trimSpace s) in
      if m = RestoreCopy \<or> m = RestoreOnDemand \<or> m = RestoreMmap then Inr m
      else Inl (newErr (''restore mode must be '' @ RestoreCopy @ '', '' @ RestoreOnDemand @ '' or ''
             @ RestoreMmap @ '', got '' @ quoteStr s)))"

section \<open>Records from the CLI\<close>

text \<open>\<open>network_configs\<close> is a list of pointers in Go; \<open>cocoon\<close> emits no null entry, and the model has
  none. Decoding a null first entry would panic in the source.\<close>

record inspect_json =
  ijID :: string
  ijHypervisor :: string
  ijState :: string
  ijPID :: int
  ijName :: string
  ijNetworkConfigs :: "network_config list"

definition inspectJSONToVM :: "inspect_json \<Rightarrow> vm" where
  "inspectJSONToVM d =
     \<lparr>vID = ijID d, vName = ijName d, vHypervisor = ijHypervisor d, vState = ijState d,
      vIP = (case ijNetworkConfigs d of
               [] \<Rightarrow> []
             | nc # _ \<Rightarrow> (case ncNetwork nc of None \<Rightarrow> [] | Some n \<Rightarrow> niIP n)),
      vMAC = (case ijNetworkConfigs d of [] \<Rightarrow> [] | nc # _ \<Rightarrow> ncMAC nc),
      vPID = ijPID d, vDiskPath = [], vNetworkConfigs = ijNetworkConfigs d\<rparr>"

text \<open>The JSON decoder is the parameter \<open>unmarshal\<close>; \<open>cocoon\<close> prints a banner for an empty list.\<close>

definition decodeListJSON ::
  "(string \<Rightarrow> err + 'a list) \<Rightarrow> string \<Rightarrow> string \<Rightarrow> string \<Rightarrow> err + 'a list" where
  "decodeListJSON unmarshal raw emptyBanner what =
     (let trimmed = trimSpace raw in
      if trimmed = [] \<or> trimmed = emptyBanner then Inr []
      else (case unmarshal trimmed of
              Inl e \<Rightarrow> Inl (wrapErr (''decode '' @ what @ '': '') e [])
            | Inr docs \<Rightarrow> Inr docs))"

definition parseVMListJSON :: "(string \<Rightarrow> err + inspect_json list) \<Rightarrow> string \<Rightarrow> err + vm list" where
  "parseVMListJSON unmarshal raw =
     (case decodeListJSON unmarshal raw ''No VMs found.'' ''vm list'' of
        Inl e \<Rightarrow> Inl e
      | Inr docs \<Rightarrow> Inr (map inspectJSONToVM (filter (\<lambda>d. ijID d \<noteq> []) docs)))"

definition parseInspectJSON :: "(string \<Rightarrow> err + inspect_json) \<Rightarrow> string \<Rightarrow> err + vm" where
  "parseInspectJSON unmarshal raw =
     (case unmarshal raw of
        Inl e \<Rightarrow> Inl (wrapErr ''decode inspect: '' e [])
      | Inr d \<Rightarrow> Inr (inspectJSONToVM d))"

definition parseSnapshotJSON :: "(string \<Rightarrow> err + snapshot) \<Rightarrow> string \<Rightarrow> err + snapshot" where
  "parseSnapshotJSON unmarshal raw =
     (case unmarshal raw of
        Inl e \<Rightarrow> Inl (wrapErr ''decode snapshot inspect: '' e [])
      | Inr d \<Rightarrow> Inr d)"

section \<open>Argument vectors\<close>

definition appendCPUPolicyArgs :: "string list \<Rightarrow> cpu_policy \<Rightarrow> string list" where
  "appendCPUPolicyArgs args p =
     args
     @ (if cpuWeight p > 0 then [''--cpu-weight'', itoa (cpuWeight p)] else [])
     @ (if cpuQuotaUs p > 0 then [''--cpu-quota-us'', itoa (cpuQuotaUs p)] else [])
     @ (if cpuPeriodUs p > 0 then [''--cpu-period-us'', itoa (cpuPeriodUs p)] else [])"

definition buildCloneArgs :: "clone_options \<Rightarrow> string list" where
  "buildCloneArgs opts =
     (let args = [''vm'', ''clone'', ''--output'', ''json'']
            @ (if coTo opts \<noteq> [] then [''--name'', coTo opts] else [])
            @ (if coNetwork opts \<noteq> [] then [''--network'', coNetwork opts] else [])
            @ (if coNoDirectIO opts then [''--no-direct-io''] else [])
            @ (if coPull opts \<or> coFromDir opts \<noteq> [] then [''--pull''] else [])
            @ (if coRestoreMode opts \<noteq> [] \<and> coBackend opts \<noteq> BackendFirecracker
               then [''--restore-mode'', coRestoreMode opts] else [])
            @ (case coNICs opts of
                 Some n \<Rightarrow> if coBackend opts \<noteq> BackendFirecracker then [''--nics'', itoa n] else []
               | None \<Rightarrow> []);
          args = appendCPUPolicyArgs args (coCPUPolicy opts)
      in if coFromDir opts \<noteq> [] then args @ [''--from-dir'', coFromDir opts]
         else args @ [coFrom opts])"

text \<open>\<open>NormalizeSizeArg\<close> relies on \<open>resource.ParseQuantity\<close> of Kubernetes, a parameter here: the
  value of the quantity, or nothing when the text does not parse.\<close>

definition NormalizeSizeArg :: "(string \<Rightarrow> int option) \<Rightarrow> string \<Rightarrow> string" where
  "NormalizeSizeArg parseQuantity raw =
     (let raw = trimSpace raw in
      if raw = [] then []
      else (case parseQuantity raw of
              None \<Rightarrow> raw
            | Some n \<Rightarrow> if n > 0 then itoa n else raw))"

definition buildRunArgs :: "(string \<Rightarrow> int option) \<Rightarrow> run_options \<Rightarrow> string list" where
  "buildRunArgs parseQuantity opts =
     (let args = [''vm'', ''run'', ''--output'', ''json'']
            @ (if roName opts \<noteq> [] then [''--name'', roName opts] else [])
            @ (if roCPU opts > 0 then [''--cpu'', itoa (roCPU opts)] else []);
          args = appendCPUPolicyArgs args (roCPUPolicy opts);
          memory = NormalizeSizeArg parseQuantity (roMemory opts);
          storage = NormalizeSizeArg parseQuantity (roStorage opts)
      in args
         @ (if memory \<noteq> [] then [''--memory'', memory] else [])
         @ (if storage \<noteq> [] then [''--storage'', storage] else [])
         @ (if roNetwork opts \<noteq> [] then [''--network'', roNetwork opts] else [])
         @ (if equalFold (roOS opts) ''windows'' then [''--windows''] else [])
         @ (if roBackend opts = BackendFirecracker then [''--fc''] else [])
         @ (if roNoDirectIO opts then [''--no-direct-io''] else [])
         @ [roImage opts])"

section \<open>Classifying the CLI's error text\<close>

definition containsAny :: "string \<Rightarrow> string list \<Rightarrow> bool" where
  "containsAny s phrases \<longleftrightarrow> list_ex (\<lambda>p. containsStr (toLower s) p) phrases"

definition errContainsAny :: "err option \<Rightarrow> string list \<Rightarrow> bool" where
  "errContainsAny e phrases = (case e of None \<Rightarrow> False | Some e \<Rightarrow> containsAny (errMsg e) phrases)"

definition isCocoonNotFound :: "err option \<Rightarrow> bool" where
  "isCocoonNotFound e = errContainsAny e [''vm not found'', ''no such vm'']"

definition isCocoonSnapshotNotFound :: "err option \<Rightarrow> bool" where
  "isCocoonSnapshotNotFound e = errContainsAny e [''snapshot not found'', ''no such snapshot'']"

definition cocoonCmdError :: "string \<Rightarrow> string \<Rightarrow> err \<Rightarrow> string \<Rightarrow> err" where
  "cocoonCmdError op ref e output =
     wrapErr (''cocoon '' @ op @ '' '' @ ref @ '': '') e ('' (output: '' @ trimSpace output @ '')'')"

text \<open>The loop over the two markers of \<open>snapshotNameHolderID\<close>.\<close>

fun holderIDLoop :: "string \<Rightarrow> string list \<Rightarrow> string" where
  "holderIDLoop out [] = []"
| "holderIDLoop out (marker # ms) =
     (case cutStr out marker of
        None \<Rightarrow> holderIDLoop out ms
      | Some (_, after) \<Rightarrow>
          (case fieldsStr after of
             [] \<Rightarrow> holderIDLoop out ms
           | f # _ \<Rightarrow> (let i = trimSuffix f '')'' in if i \<noteq> [] then i else holderIDLoop out ms)))"

definition snapshotNameHolderID :: "string \<Rightarrow> string" where
  "snapshotNameHolderID out = holderIDLoop out [''already in use by '', ''held by '']"

section \<open>Run directory\<close>

definition hypervisorRunDir :: "string \<Rightarrow> string" where
  "hypervisorRunDir hypervisor =
     (if hypervisor = BackendFirecracker then ''firecracker'' else ''cloudhypervisor'')"

definition runPath :: "string \<Rightarrow> string \<Rightarrow> string \<Rightarrow> string \<Rightarrow> string" where
  "runPath rootDir runDir vmID file =
     rootDir @ ''/run/'' @ runDir @ ''/'' @ vmID @ ''/'' @ file"

definition ConsoleSocketPath :: "string \<Rightarrow> string \<Rightarrow> string" where
  "ConsoleSocketPath rootDir vmID = runPath rootDir ''cloudhypervisor'' vmID ''console.sock''"

definition HasCloudimgOverlay :: "(string \<Rightarrow> bool) \<Rightarrow> string \<Rightarrow> string \<Rightarrow> bool" where
  "HasCloudimgOverlay fileExists rootDir vmID =
     fileExists (runPath rootDir ''cloudhypervisor'' vmID ''overlay.qcow2'')"

text \<open>\<open>COWSize\<close>: \<open>stat\<close> answers the allocated 512-byte blocks of a file.\<close>

fun firstStat :: "(string \<Rightarrow> int option) \<Rightarrow> string list \<Rightarrow> int" where
  "firstStat stat [] = 0"
| "firstStat stat (p # ps) =
     (case stat p of None \<Rightarrow> firstStat stat ps | Some blocks \<Rightarrow> wrap64 (blocks * 512))"

definition COWSize :: "(string \<Rightarrow> int option) \<Rightarrow> string \<Rightarrow> string \<Rightarrow> string \<Rightarrow> int" where
  "COWSize stat rootDir hypervisor vmID =
     (let dir = hypervisorRunDir hypervisor;
          names = (if dir = ''firecracker'' then [''cow.raw''] else [''overlay.qcow2'', ''cow.raw''])
      in firstStat stat (map (runPath rootDir dir vmID) names))"

end
