(* ===== verification/Model.thy ===== *)
theory Model
  imports Probes VM_Runtime
begin

text \<open>
  The provider's data, state and environment (\<open>src/provider/cocoon\<close>).

  \<^item> \<^bold>\<open>Pods\<close> are shared and mutated in place, so a pod pointer is an address together with the
    fields no code writes (\<open>pod_meta\<close>); annotations and status live in the heap of the state.
  \<^item> \<^bold>\<open>VMs\<close> are never written after they are published (\<open>updateTrackedVM\<close> copies), so a VM pointer
    is an address and the record; pointer comparison compares addresses.
  \<^item> \<^bold>\<open>Code outside the repository\<close> is a parameter: the functions of \<open>cocoon-common/meta\<close> are
    the fields of \<open>meta_lib\<close>; every answer of the cocoon CLI, the registry, the apiserver, the lease
    file and the clock is a field of \<open>world\<close>, an arbitrary function of the calls made before.
  \<^item> \<^bold>\<open>Effects\<close>: an operation is a state-monad action on \<open>prov\<close>; \<open>trace\<close> records each external call
    with its outcome. \<open>locked\<close> is a critical section of \<open>p.mu\<close>: before it, other goroutines may have
    changed the state arbitrarily (\<open>interfere\<close>). Metrics and logging are left out.
\<close>

section \<open>Kubernetes objects\<close>

type_synonym annots = "string \<rightharpoonup> string"

text \<open>A merge patch of annotations: \<open>Some None\<close> is a JSON null, which deletes the key.\<close>

type_synonym patch = "string \<rightharpoonup> string option"

datatype pod_phase = PodPending | PodRunning | PodSucceeded | PodFailed | PodPhaseOther string

record condition =
  cnType :: string
  cnStatus :: string
  cnMessage :: string
  cnTransition :: int

text \<open>The three pointers of a Kubernetes \<open>ContainerState\<close>; a running container has its start time, a
  terminated one its exit code, reason and message.\<close>

record container_status =
  csName :: string
  csReady :: bool
  csRunning :: "int option"
  csWaiting :: bool
  csTerminated :: "(int \<times> string \<times> string) option"

record pod_status =
  stPhase :: pod_phase
  stPodIP :: string
  stStartTime :: "int option"
  stConditions :: "condition list"
  stContainers :: "container_status list"

text \<open>What the methods of a Kubernetes \<open>resource.Quantity\<close> return.\<close>

record quantity =
  qMilliValue :: int
  qValue :: int
  qIsZero :: bool
  qString :: string

record resources =
  rsLimits :: "string \<rightharpoonup> quantity"
  rsRequests :: "string \<rightharpoonup> quantity"

record pod_meta =
  pmNamespace :: string
  pmName :: string
  pmUID :: string
  pmDeleted :: bool
  pmNodeSelector :: "string \<rightharpoonup> string"
  pmContainers :: "resources list"

record pod =
  pMeta :: pod_meta
  pAnnotations :: annots
  pStatus :: pod_status

record podptr =
  ptAddr :: nat
  ptMeta :: pod_meta

record vmptr =
  vpAddr :: nat
  vpVM :: vm

abbreviation ptUID :: "podptr \<Rightarrow> string" where "ptUID p \<equiv> pmUID (ptMeta p)"
abbreviation ptNamespace :: "podptr \<Rightarrow> string" where "ptNamespace p \<equiv> pmNamespace (ptMeta p)"
abbreviation ptName :: "podptr \<Rightarrow> string" where "ptName p \<equiv> pmName (ptMeta p)"
abbreviation vpID :: "vmptr \<Rightarrow> string" where "vpID v \<equiv> vID (vpVM v)"
abbreviation vpName :: "vmptr \<Rightarrow> string" where "vpName v \<equiv> vName (vpVM v)"

section \<open>The library \<open>cocoon-common\<close>\<close>

datatype lifecycle_state =
    LifecycleStateEmpty
  | LifecycleStateCreating
  | LifecycleStateReady
  | LifecycleStateHibernating
  | LifecycleStateHibernated
  | LifecycleStateFailed
  | LifecycleStateOther string

record lifecycle_status =
  lsState :: lifecycle_state
  lsObservedGeneration :: int
  lsMessage :: string

record vm_spec =
  vsVMName :: string
  vsManaged :: bool
  vsImage :: string
  vsOS :: string
  vsBackend :: string
  vsMode :: string
  vsNetwork :: string
  vsStorage :: string
  vsForkFrom :: string
  vsForcePull :: bool
  vsNoDirectIO :: bool

record vm_runtime =
  vrVMID :: string
  vrIP :: string
  vrVNCPort :: int

record oci_manifest =
  mfAnnotations :: annots
  mfConfig :: string

record snapshot_config =
  scSnapshotID :: string

datatype manifest_kind = KindCloudImage | KindSnapshot | KindOther

record macos_record =
  mrName :: string
  mrPID :: int
  mrMAC :: string
  mrTap :: string
  mrDisk :: string
  mrVNC :: int

datatype snapshot_answer = SnapshotStatePushed | SnapshotStateFailed

record meta_consts =
  kVMID :: string
  kIP :: string
  kVNCPort :: string
  kProbePort :: string
  kSnapshotRequest :: string
  kCloneFromDir :: string
  kVMName :: string
  kImage :: string
  kFromNode :: string
  kSnapshotBaseImage :: string
  kCompatibilityClass :: string
  HibernateSnapshotTag :: string
  DefaultSnapshotTag :: string
  HibernateImportSuffix :: string
  OSWindows :: string
  OSMacos :: string
  BackendCloudHypervisor :: string
  AgentModeRun :: string

record meta_lib =
  mPodKey :: "string \<Rightarrow> string \<Rightarrow> string"
  mParseVMSpec :: "pod \<Rightarrow> vm_spec"
  mParseVMRuntime :: "pod \<Rightarrow> vm_runtime"
  mReadHibernateState :: "pod \<Rightarrow> bool"
  mReadCocoonSetGeneration :: "pod \<Rightarrow> int"
  mReadLifecycleState :: "pod \<Rightarrow> lifecycle_state"
  mReadLifecycleStatus :: "pod \<Rightarrow> lifecycle_status"
  mStatusApply :: "lifecycle_status \<Rightarrow> annots \<Rightarrow> annots"
  mStatusAnnotations :: "lifecycle_status \<Rightarrow> patch"
  mStatusSnapshot :: "lifecycle_status \<Rightarrow> string"
  mRuntimeApply :: "vm_runtime \<Rightarrow> annots \<Rightarrow> annots"
  mReadKeepSnapshotOnDelete :: "pod \<Rightarrow> bool"
  mMarkKeepSnapshotOnDelete :: "annots \<Rightarrow> annots"
  mReadRestoreFromHibernate :: "pod \<Rightarrow> bool"
  mMarkRestoreFromHibernate :: "annots \<Rightarrow> annots"
  mRoleForPod :: "pod \<Rightarrow> string \<Rightarrow> string"
  mShouldSnapshotVM :: "vm_spec \<Rightarrow> string \<Rightarrow> bool"
  mSnapshotStatusRef :: "pod \<Rightarrow> string"
  mSnapshotStatusAnnotations :: "string \<Rightarrow> snapshot_answer \<Rightarrow> string \<Rightarrow> patch"
  mReadSnapshotAnnotations :: "pod \<Rightarrow> annots"
  mParseRef :: "string \<Rightarrow> string \<times> string"
  mSHA256Hex :: "string \<Rightarrow> string"
  mParseManifest :: "string \<Rightarrow> err + oci_manifest"
  mClassify :: "string \<Rightarrow> err + manifest_kind"
  mUnmarshalMacos :: "string \<Rightarrow> macos_record option"
  mParseQuantity :: "string \<Rightarrow> int option"
  mConsts :: meta_consts

section \<open>External calls\<close>

text \<open>One constructor per external call, its arguments first and its outcome last (\<open>None\<close>: no
  error).\<close>

datatype call =
    RInspect string "err + vm"
  | RRemove string "err option"
  | RStart string "err option"
  | RClone clone_options "err + vm"
  | RExec string "string list" "err option"
  | RNetResize string int "err option"
  | RSnapshotSave string string "err option"
  | RSnapshotRemove string "err option"
  | RSnapshot string "err + snapshot"
  | RSnapshotList "err + snapshot list"
  | RImage string "err option"
  | RRun run_options "err + vm"
  | REnsureImage string bool "err option"
  | RList "err + vm list"
  | RReconcileStaleCreate string "err + stale_create_outcome"
  | PPush string string string string "err option"
  | PPull string string string string "err option"
  | PPeerRestore string string "err option"
  | PCloudImage string string bool "err option"
  | XFlight string bool
  | XAwait string
  | XMatch string string "string option"
  | MExec "string list" string "err option"
  | MAlive int bool
  | GGetManifest string string "err + string"
  | GDeleteManifest string string "err option"
  | GFetchConfig string string "err + snapshot_config"
  | KPatch string string string patch "err option"
  | KStatusPatch string string string pod_status "err option"
  | KDelete string string string "err option"
  | KListPods "err + pod list"
  | KNode string "err + string option"
  | KGetPod string string "err + pod"
  | SDial string "err option"
  | SRun "string list" "err option"
  | FStat string bool
  | LLookup string "err + string"
  | LRelease string "err option"
  | NPing string "err option"
  | NDial string string "err option"
  | NSSH string "bool \<times> string"
  | TNow int
  | TSleep int "err option"
  | TCtxErr "err option"
  | EEvent bool string string
  | ENotify string pod

section \<open>State\<close>

record lifecycle_entry =
  leUID :: string
  leStatus :: lifecycle_status
  leFlushed :: string

record op_retry =
  orDelay :: int
  orDue :: int

datatype ip_wait = ipWaitClone | ipWaitWake | ipWaitBoot

text \<open>The background goroutines the provider spawns, with the variables their closures capture.\<close>

datatype job =
    JobMarkReadyAfterIP podptr vm_spec vmptr ip_wait
  | JobPostClone podptr vm_spec vmptr string string ip_wait
  | JobRemoveSnapshot string
  | JobRecheck string
  | JobRetryOp string
  | JobReadyWait podptr vm_spec vmptr ip_wait string
  | JobResume string podptr vm_spec vmptr string ip_wait
  | JobDeletePod podptr
  | JobWatchBusyCreate string string nat
  | JobStatusReconciler
  | JobLifecycleReconciler
  | JobSnapshotReclaimer

record prov =
  heapAnnots :: "nat \<Rightarrow> annots"
  heapStatus :: "nat \<Rightarrow> pod_status"
  nextAddr :: nat
  pods :: "string \<rightharpoonup> podptr"
  vmsByPod :: "string \<rightharpoonup> vmptr"
  vmsByName :: "string \<rightharpoonup> vmptr"
  macosVNC :: "string \<rightharpoonup> int"
  macosLeftover :: "string \<rightharpoonup> string"
  lastRestart :: "string \<rightharpoonup> int"
  pendingRecheck :: "string set"
  resumedOps :: "string set"
  busyCreates :: "string \<rightharpoonup> nat"
  lifecycleIntent :: "string \<rightharpoonup> lifecycle_entry"
  deleting :: "string set"
  hibernating :: "string \<rightharpoonup> bool"
  opRetries :: "string \<rightharpoonup> op_retry"
  podLocks :: "string set"
  probes :: manager
  notifyHook :: bool
  closed :: bool
  jobs :: "job list"
  trace :: "call list"
  tick :: nat

text \<open>\<open>NewProvider\<close>: empty tables.\<close>

definition zeroStatus :: pod_status where
  "zeroStatus = \<lparr>stPhase = PodPhaseOther [], stPodIP = [], stStartTime = None, stConditions = [],
     stContainers = []\<rparr>"

definition NewProvider :: prov where
  "NewProvider = \<lparr>heapAnnots = (\<lambda>_. Map.empty), heapStatus = (\<lambda>_. zeroStatus), nextAddr = 0,
     pods = Map.empty, vmsByPod = Map.empty, vmsByName = Map.empty, macosVNC = Map.empty,
     macosLeftover = Map.empty, lastRestart = Map.empty, pendingRecheck = {}, resumedOps = {},
     busyCreates = Map.empty, lifecycleIntent = Map.empty, deleting = {}, hibernating = Map.empty, opRetries = Map.empty,
     podLocks = {}, probes = NewManager, notifyHook = False, closed = False, jobs = [], trace = [], tick = 0\<rparr>"

section \<open>Environment\<close>

record config =
  cfgNodeName :: string
  cfgCompatibilityClass :: string
  cfgRestoreMode :: string
  cfgOrphanPolicy :: string
  cfgMacosVNCPassword :: string
  cfgClientset :: bool
  cfgPusher :: bool
  cfgPuller :: bool
  cfgPullerRegistry :: bool
  cfgRegistry :: bool
  cfgPeerRestorer :: bool
  cfgPeerPort :: string
  cfgLeaseParser :: bool
  cfgLeaseReleaser :: bool
  cfgProbes :: bool
  cfgGuestSAC :: bool
  cfgRootDir :: string
  cfgInlineInspectBaseDelay :: int
  cfgRecheckInitialDelay :: int
  cfgRecheckMaxDelay :: int
  cfgRecheckBudget :: int
  cfgWakeFreshIPBudget :: int
  cfgWakeFreshIPInterval :: int
  cfgWakeRenewNudgeDelay :: int
  cfgBootIPBudget :: int

text \<open>What each external call answers after the calls \<open>h\<close> made so far. A sleep that is cut short by
  its context answers the context's error. A single-flight answers nothing when this caller leads the
  flight, and otherwise what the caller got instead: the result of the flight it joined, or the error
  of its own context. \<open>wMatch\<close> is the key at which a range over a Go map stops, whose order is not
  specified; the operation that uses it checks that the key matches.\<close>

record world =
  wInspect :: "call list \<Rightarrow> string \<Rightarrow> err + vm"
  wRemove :: "call list \<Rightarrow> string \<Rightarrow> err option"
  wStart :: "call list \<Rightarrow> string \<Rightarrow> err option"
  wClone :: "call list \<Rightarrow> clone_options \<Rightarrow> err + vm"
  wExec :: "call list \<Rightarrow> string \<Rightarrow> string list \<Rightarrow> err option \<times> string"
  wNetResize :: "call list \<Rightarrow> string \<Rightarrow> int \<Rightarrow> err option"
  wSnapshotSave :: "call list \<Rightarrow> string \<Rightarrow> string \<Rightarrow> err option"
  wSnapshotRemove :: "call list \<Rightarrow> string \<Rightarrow> err option"
  wSnapshot :: "call list \<Rightarrow> string \<Rightarrow> err + snapshot"
  wSnapshotList :: "call list \<Rightarrow> err + snapshot list"
  wImage :: "call list \<Rightarrow> string \<Rightarrow> err option"
  wRun :: "call list \<Rightarrow> run_options \<Rightarrow> err + vm"
  wEnsureImage :: "call list \<Rightarrow> string \<Rightarrow> bool \<Rightarrow> err option"
  wList :: "call list \<Rightarrow> err + vm list"
  wReconcileStaleCreate :: "call list \<Rightarrow> string \<Rightarrow> err + stale_create_outcome"
  wCloudImage :: "call list \<Rightarrow> string \<Rightarrow> string \<Rightarrow> string \<Rightarrow> bool \<Rightarrow> err option"
  wFlightString :: "call list \<Rightarrow> string \<Rightarrow> (err + string) option"
  wFlightSnapshot :: "call list \<Rightarrow> string \<Rightarrow> (err + snapshot option) option"
  wMatch :: "call list \<Rightarrow> string \<Rightarrow> string \<Rightarrow> string option"
  wMacosExec :: "call list \<Rightarrow> string list \<Rightarrow> string \<times> err option"
  wProcessAlive :: "call list \<Rightarrow> int \<Rightarrow> bool"
  wListPods :: "call list \<Rightarrow> err + pod list"
  wSSHReady :: "call list \<Rightarrow> string \<Rightarrow> bool \<times> string"
  wPush :: "call list \<Rightarrow> string \<Rightarrow> string \<Rightarrow> string \<Rightarrow> string \<Rightarrow> annots \<Rightarrow> err option"
  wPull :: "call list \<Rightarrow> string \<Rightarrow> string \<Rightarrow> string \<Rightarrow> string \<Rightarrow> err option"
  wPeerRestore :: "call list \<Rightarrow> string \<Rightarrow> string \<Rightarrow> snapshot_config \<Rightarrow> err + string \<times> snapshot option"
  wGetManifest :: "call list \<Rightarrow> string \<Rightarrow> string \<Rightarrow> err + string"
  wDeleteManifest :: "call list \<Rightarrow> string \<Rightarrow> string \<Rightarrow> err option"
  wFetchConfig :: "call list \<Rightarrow> string \<Rightarrow> string \<Rightarrow> err + snapshot_config"
  wPatch :: "call list \<Rightarrow> string \<Rightarrow> string \<Rightarrow> string \<Rightarrow> patch \<Rightarrow> err option"
  wStatusPatch :: "call list \<Rightarrow> string \<Rightarrow> string \<Rightarrow> string \<Rightarrow> pod_status \<Rightarrow> err option"
  wDeletePod :: "call list \<Rightarrow> string \<Rightarrow> string \<Rightarrow> string \<Rightarrow> err option"
  wNodeAddress :: "call list \<Rightarrow> string \<Rightarrow> err + string option"
  wGetPod :: "call list \<Rightarrow> string \<Rightarrow> string \<Rightarrow> err + pod"
  wSACDial :: "call list \<Rightarrow> string \<Rightarrow> err option"
  wSACRun :: "call list \<Rightarrow> string list \<Rightarrow> err option \<times> string"
  wStat :: "call list \<Rightarrow> string \<Rightarrow> bool"
  wLookupByMAC :: "call list \<Rightarrow> string \<Rightarrow> err + string"
  wReleaseByMAC :: "call list \<Rightarrow> string \<Rightarrow> err option"
  wPing :: "call list \<Rightarrow> string \<Rightarrow> err option"
  wDial :: "call list \<Rightarrow> string \<Rightarrow> string \<Rightarrow> err option"
  wNow :: "call list \<Rightarrow> int"
  wSleep :: "call list \<Rightarrow> int \<Rightarrow> err option"
  wCtxErr :: "call list \<Rightarrow> err option"

record env =
  lib :: meta_lib
  cfg :: config
  ask :: world
  interfere :: "nat \<Rightarrow> prov \<Rightarrow> prov"

text \<open>No other goroutine runs: the case the sequential specifications are about.\<close>

definition quiet :: "env \<Rightarrow> bool" where
  "quiet e \<longleftrightarrow> (\<forall>n s. interfere e n s = s)"

abbreviation konst :: "env \<Rightarrow> meta_consts" where "konst e \<equiv> mConsts (lib e)"

end
