(* ===== verification/Actions.thy ===== *)
theory Actions
  imports Model
begin

text \<open>
  The monad of the provider: critical sections, external calls, and the calculus of call traces.

  \<open>emits m C\<close> says that whatever the state, the environment and the other goroutines do, \<open>m\<close> only
  appends calls of \<open>C\<close> to the trace. It is compositional (\<open>emits_intros\<close>) and turns into a weakest
  precondition by \<open>wp_emits\<close>: the ordering properties use it for the parts of an operation that
  cannot make the call they are about.
\<close>

named_theorems emits_intros "rules for the calls an action can make"

type_synonym 'a act = "(prov, 'a) state"

section \<open>Critical sections\<close>

definition yield :: "env \<Rightarrow> unit act" where
  "yield e = State (\<lambda>s. ((), (interfere e (tick s) s)\<lparr>trace := trace s, tick := Suc (tick s)\<rparr>))"

text \<open>A critical section must leave trace and clock alone; \<open>locked\<close> enforces it.\<close>

definition locked :: "env \<Rightarrow> (prov \<Rightarrow> 'a \<times> prov) \<Rightarrow> 'a act" where
  "locked e f = do {
     _ \<leftarrow> yield e;
     State (\<lambda>s. let (r, t) = f s in (r, t\<lparr>trace := trace s, tick := tick s\<rparr>))
   }"

definition reading :: "env \<Rightarrow> (prov \<Rightarrow> 'a) \<Rightarrow> 'a act" where
  "reading e f = locked e (\<lambda>s. (f s, s))"

definition writing :: "env \<Rightarrow> (prov \<Rightarrow> prov) \<Rightarrow> unit act" where
  "writing e f = locked e (\<lambda>s. ((), f s))"

text \<open>\<open>defer\<close>: run \<open>fin\<close> after \<open>m\<close>, whatever \<open>m\<close> returned.\<close>

definition deferring :: "'a act \<Rightarrow> unit act \<Rightarrow> 'a act" where
  "deferring m fin = do { r \<leftarrow> m; _ \<leftarrow> fin; State_Monad.return r }"

section \<open>External calls\<close>

definition ext :: "(call list \<Rightarrow> 'a) \<Rightarrow> ('a \<Rightarrow> call) \<Rightarrow> 'a act" where
  "ext ans mk = State (\<lambda>s. let r = ans (trace s) in (r, s\<lparr>trace := trace s @ [mk r]\<rparr>))"

definition rtInspect :: "env \<Rightarrow> string \<Rightarrow> (err + vm) act" where
  "rtInspect e i = ext (\<lambda>h. wInspect (ask e) h i) (RInspect i)"

definition rtRemove :: "env \<Rightarrow> string \<Rightarrow> err option act" where
  "rtRemove e i = ext (\<lambda>h. wRemove (ask e) h i) (RRemove i)"

definition rtStart :: "env \<Rightarrow> string \<Rightarrow> err option act" where
  "rtStart e i = ext (\<lambda>h. wStart (ask e) h i) (RStart i)"

definition rtClone :: "env \<Rightarrow> clone_options \<Rightarrow> (err + vm) act" where
  "rtClone e opts = ext (\<lambda>h. wClone (ask e) h opts) (RClone opts)"

definition rtExec :: "env \<Rightarrow> string \<Rightarrow> string list \<Rightarrow> (err option \<times> string) act" where
  "rtExec e i argv = ext (\<lambda>h. wExec (ask e) h i argv) (\<lambda>r. RExec i argv (fst r))"

definition rtNetResize :: "env \<Rightarrow> string \<Rightarrow> int \<Rightarrow> err option act" where
  "rtNetResize e i n = ext (\<lambda>h. wNetResize (ask e) h i n) (RNetResize i n)"

definition rtSnapshotSave :: "env \<Rightarrow> string \<Rightarrow> string \<Rightarrow> err option act" where
  "rtSnapshotSave e name i = ext (\<lambda>h. wSnapshotSave (ask e) h name i) (RSnapshotSave name i)"

definition rtSnapshotRemove :: "env \<Rightarrow> string \<Rightarrow> err option act" where
  "rtSnapshotRemove e name = ext (\<lambda>h. wSnapshotRemove (ask e) h name) (RSnapshotRemove name)"

definition rtSnapshot :: "env \<Rightarrow> string \<Rightarrow> (err + snapshot) act" where
  "rtSnapshot e name = ext (\<lambda>h. wSnapshot (ask e) h name) (RSnapshot name)"

definition rtSnapshotList :: "env \<Rightarrow> (err + snapshot list) act" where
  "rtSnapshotList e = ext (\<lambda>h. wSnapshotList (ask e) h) RSnapshotList"

definition rtImage :: "env \<Rightarrow> string \<Rightarrow> err option act" where
  "rtImage e name = ext (\<lambda>h. wImage (ask e) h name) (RImage name)"

definition rtRun :: "env \<Rightarrow> run_options \<Rightarrow> (err + vm) act" where
  "rtRun e opts = ext (\<lambda>h. wRun (ask e) h opts) (RRun opts)"

definition rtEnsureImage :: "env \<Rightarrow> string \<Rightarrow> bool \<Rightarrow> err option act" where
  "rtEnsureImage e img force = ext (\<lambda>h. wEnsureImage (ask e) h img force) (REnsureImage img force)"

definition rtList :: "env \<Rightarrow> (err + vm list) act" where
  "rtList e = ext (\<lambda>h. wList (ask e) h) RList"

definition rtReconcileStaleCreate :: "env \<Rightarrow> string \<Rightarrow> (err + stale_create_outcome) act" where
  "rtReconcileStaleCreate e i =
     ext (\<lambda>h. wReconcileStaleCreate (ask e) h i) (RReconcileStaleCreate i)"

definition ensureCloudImage :: "env \<Rightarrow> string \<Rightarrow> string \<Rightarrow> string \<Rightarrow> bool \<Rightarrow> err option act" where
  "ensureCloudImage e repo loc raw force =
     ext (\<lambda>h. wCloudImage (ask e) h repo loc raw force) (PCloudImage repo loc force)"

text \<open>A single-flight group: this caller runs \<open>body\<close> unless it joined or was cancelled.\<close>

definition flightString :: "env \<Rightarrow> string \<Rightarrow> (err + string) act \<Rightarrow> (err + string) act" where
  "flightString e key body = do {
     r \<leftarrow> ext (\<lambda>h. wFlightString (ask e) h key) (\<lambda>r. XFlight key (r \<noteq> None));
     (case r of Some x \<Rightarrow> State_Monad.return x | None \<Rightarrow> body)
   }"

definition flightSnapshot ::
  "env \<Rightarrow> string \<Rightarrow> (err + snapshot option) act \<Rightarrow> (err + snapshot option) act" where
  "flightSnapshot e key body = do {
     r \<leftarrow> ext (\<lambda>h. wFlightSnapshot (ask e) h key) (\<lambda>r. XFlight key (r \<noteq> None));
     (case r of Some x \<Rightarrow> State_Monad.return x | None \<Rightarrow> body)
   }"

definition macosExec :: "env \<Rightarrow> string list \<Rightarrow> (string \<times> err option) act" where
  "macosExec e args = ext (\<lambda>h. wMacosExec (ask e) h args) (\<lambda>r. MExec args (fst r) (snd r))"

definition macosProcessAlive :: "env \<Rightarrow> int \<Rightarrow> bool act" where
  "macosProcessAlive e pid = ext (\<lambda>h. wProcessAlive (ask e) h pid) (MAlive pid)"

definition kubeListPods :: "env \<Rightarrow> (err + pod list) act" where
  "kubeListPods e = ext (\<lambda>h. wListPods (ask e) h) KListPods"

definition sshReady :: "env \<Rightarrow> string \<Rightarrow> (bool \<times> string) act" where
  "sshReady e addr = ext (\<lambda>h. wSSHReady (ask e) h addr) (NSSH addr)"

text \<open>Where a range over the VM table stops.\<close>

definition pickMatch :: "env \<Rightarrow> string \<Rightarrow> string \<Rightarrow> string option act" where
  "pickMatch e i name = ext (\<lambda>h. wMatch (ask e) h i name) (XMatch i name)"

definition pushSnapshot ::
  "env \<Rightarrow> string \<Rightarrow> string \<Rightarrow> string \<Rightarrow> string \<Rightarrow> annots \<Rightarrow> err option act" where
  "pushSnapshot e localName repo tag img an =
     ext (\<lambda>h. wPush (ask e) h localName repo tag img an) (PPush localName repo tag img)"

definition pullSnapshot ::
  "env \<Rightarrow> string \<Rightarrow> string \<Rightarrow> string \<Rightarrow> string \<Rightarrow> err option act" where
  "pullSnapshot e repo tag localName desc =
     ext (\<lambda>h. wPull (ask e) h repo tag localName desc) (PPull repo tag localName desc)"

definition peerRestore ::
  "env \<Rightarrow> string \<Rightarrow> string \<Rightarrow> snapshot_config \<Rightarrow> (err + string \<times> snapshot option) act" where
  "peerRestore e url name c = ext (\<lambda>h. wPeerRestore (ask e) h url name c)
     (\<lambda>r. PPeerRestore url name (case r of Inl x \<Rightarrow> Some x | Inr _ \<Rightarrow> None))"

definition regGetManifest :: "env \<Rightarrow> string \<Rightarrow> string \<Rightarrow> (err + string) act" where
  "regGetManifest e repo tag = ext (\<lambda>h. wGetManifest (ask e) h repo tag) (GGetManifest repo tag)"

definition regDeleteManifest :: "env \<Rightarrow> string \<Rightarrow> string \<Rightarrow> err option act" where
  "regDeleteManifest e repo tag =
     ext (\<lambda>h. wDeleteManifest (ask e) h repo tag) (GDeleteManifest repo tag)"

definition fetchSnapshotConfig :: "env \<Rightarrow> string \<Rightarrow> string \<Rightarrow> (err + snapshot_config) act" where
  "fetchSnapshotConfig e repo c = ext (\<lambda>h. wFetchConfig (ask e) h repo c) (GFetchConfig repo c)"

definition kubePatch :: "env \<Rightarrow> string \<Rightarrow> string \<Rightarrow> string \<Rightarrow> patch \<Rightarrow> err option act" where
  "kubePatch e ns name uid pt =
     ext (\<lambda>h. wPatch (ask e) h ns name uid pt) (KPatch ns name uid pt)"

definition kubeStatusPatch ::
  "env \<Rightarrow> string \<Rightarrow> string \<Rightarrow> string \<Rightarrow> pod_status \<Rightarrow> err option act" where
  "kubeStatusPatch e ns name uid st =
     ext (\<lambda>h. wStatusPatch (ask e) h ns name uid st) (KStatusPatch ns name uid st)"

definition kubeDelete :: "env \<Rightarrow> string \<Rightarrow> string \<Rightarrow> string \<Rightarrow> err option act" where
  "kubeDelete e ns name uid = ext (\<lambda>h. wDeletePod (ask e) h ns name uid) (KDelete ns name uid)"

definition kubeNodeAddress :: "env \<Rightarrow> string \<Rightarrow> (err + string option) act" where
  "kubeNodeAddress e n = ext (\<lambda>h. wNodeAddress (ask e) h n) (KNode n)"

definition kubeGetPod :: "env \<Rightarrow> string \<Rightarrow> string \<Rightarrow> (err + pod) act" where
  "kubeGetPod e ns name = ext (\<lambda>h. wGetPod (ask e) h ns name) (KGetPod ns name)"

definition sacDial :: "env \<Rightarrow> string \<Rightarrow> err option act" where
  "sacDial e path = ext (\<lambda>h. wSACDial (ask e) h path) (SDial path)"

definition sacRun :: "env \<Rightarrow> string list \<Rightarrow> (err option \<times> string) act" where
  "sacRun e cmd = ext (\<lambda>h. wSACRun (ask e) h cmd) (\<lambda>r. SRun cmd (fst r))"

definition statExists :: "env \<Rightarrow> string \<Rightarrow> bool act" where
  "statExists e path = ext (\<lambda>h. wStat (ask e) h path) (FStat path)"

definition lookupByMAC :: "env \<Rightarrow> string \<Rightarrow> (err + string) act" where
  "lookupByMAC e mac = ext (\<lambda>h. wLookupByMAC (ask e) h mac) (LLookup mac)"

definition releaseByMAC :: "env \<Rightarrow> string \<Rightarrow> err option act" where
  "releaseByMAC e mac = ext (\<lambda>h. wReleaseByMAC (ask e) h mac) (LRelease mac)"

definition ping :: "env \<Rightarrow> string \<Rightarrow> err option act" where
  "ping e ip = ext (\<lambda>h. wPing (ask e) h ip) (NPing ip)"

definition dialTCP :: "env \<Rightarrow> string \<Rightarrow> string \<Rightarrow> err option act" where
  "dialTCP e ip port = ext (\<lambda>h. wDial (ask e) h ip port) (NDial ip port)"

definition timeNow :: "env \<Rightarrow> int act" where
  "timeNow e = ext (\<lambda>h. wNow (ask e) h) TNow"

text \<open>\<open>SleepCtx\<close>: nothing when the delay passed, the context's error when it was cut short.\<close>

definition sleepCtx :: "env \<Rightarrow> int \<Rightarrow> err option act" where
  "sleepCtx e d = ext (\<lambda>h. wSleep (ask e) h d) (TSleep d)"

definition ctxErr :: "env \<Rightarrow> err option act" where
  "ctxErr e = ext (\<lambda>h. wCtxErr (ask e) h) TCtxErr"

text \<open>Events on the pod; the flag is \<open>EventTypeWarning\<close>.\<close>

definition emitEvent :: "bool \<Rightarrow> string \<Rightarrow> string \<Rightarrow> unit act" where
  "emitEvent warning reason msg = ext (\<lambda>_. ()) (\<lambda>_. EEvent warning reason msg)"

lemmas ext_defs =
  rtInspect_def rtRemove_def rtStart_def rtClone_def rtExec_def rtNetResize_def
  rtSnapshotSave_def rtSnapshotRemove_def rtSnapshot_def rtSnapshotList_def rtImage_def
  pushSnapshot_def pullSnapshot_def peerRestore_def regGetManifest_def regDeleteManifest_def
  fetchSnapshotConfig_def kubePatch_def kubeStatusPatch_def kubeDelete_def kubeNodeAddress_def
  rtRun_def rtEnsureImage_def rtList_def rtReconcileStaleCreate_def ensureCloudImage_def
  macosExec_def macosProcessAlive_def kubeListPods_def sshReady_def pickMatch_def
  kubeGetPod_def sacDial_def sacRun_def statExists_def lookupByMAC_def releaseByMAC_def ping_def dialTCP_def timeNow_def sleepCtx_def ctxErr_def
  emitEvent_def

section \<open>Weakest preconditions\<close>

lemma wp_ext [simp, wp_simps]:
  "wp (ext ans mk) Q s = Q (ans (trace s)) (s\<lparr>trace := trace s @ [mk (ans (trace s))]\<rparr>)"
  by (simp add: ext_def Let_def)

lemma wp_deferring [simp, wp_simps]: "wp (deferring m fin) Q = wp m (\<lambda>r. wp fin (\<lambda>_. Q r))"
  by (simp add: deferring_def)

lemma wp_locked_quiet:
  "quiet e \<Longrightarrow> wp (locked e f) Q s =
    (case f (s\<lparr>tick := Suc (tick s)\<rparr>) of
       (r, t) \<Rightarrow> Q r (t\<lparr>trace := trace s, tick := Suc (tick s)\<rparr>))"
  by (simp add: locked_def yield_def quiet_def Let_def split: prod.splits)

lemma wp_reading_quiet:
  "quiet e \<Longrightarrow> wp (reading e f) Q s = Q (f (s\<lparr>tick := Suc (tick s)\<rparr>)) (s\<lparr>tick := Suc (tick s)\<rparr>)"
  by (simp add: reading_def wp_locked_quiet)

lemma wp_writing_quiet:
  "quiet e \<Longrightarrow> wp (writing e f) Q s =
    Q () ((f (s\<lparr>tick := Suc (tick s)\<rparr>))\<lparr>trace := trace s, tick := Suc (tick s)\<rparr>)"
  by (simp add: writing_def wp_locked_quiet)

lemmas wp_quiet = wp_locked_quiet wp_reading_quiet wp_writing_quiet

section \<open>Call traces\<close>

definition emits :: "'a act \<Rightarrow> (call \<Rightarrow> bool) \<Rightarrow> bool" where
  "emits m P \<longleftrightarrow> (\<forall>s. \<exists>cs. trace (snd (run_state m s)) = trace s @ cs \<and> list_all P cs)"

lemma emitsE:
  assumes "emits m P"
  obtains cs where "trace (snd (run_state m s)) = trace s @ cs" "list_all P cs"
  using assms unfolding emits_def by blast

lemma emits_weaken: "emits m P \<Longrightarrow> (\<And>c. P c \<Longrightarrow> Q c) \<Longrightarrow> emits m Q"
  unfolding emits_def by (metis list.pred_mono_strong)

lemma emits_return [emits_intros]: "emits (State_Monad.return x) P"
  by (simp add: emits_def)

lemma emits_bind [emits_intros]:
  assumes "emits m P" and "\<And>r. emits (f r) P"
  shows "emits (State_Monad.bind m f) P"
  unfolding emits_def
proof
  fix s
  obtain r t where m: "run_state m s = (r, t)" by fastforce
  obtain cs where cs: "trace t = trace s @ cs" "list_all P cs"
    using emitsE [OF assms(1), of s] m by auto
  obtain ds where ds: "trace (snd (run_state (f r) t)) = trace t @ ds" "list_all P ds"
    using emitsE [OF assms(2), of r t] by auto
  have "trace (snd (run_state (State_Monad.bind m f) s)) = trace s @ (cs @ ds)"
    using m cs ds by simp
  moreover have "list_all P (cs @ ds)" using cs ds by simp
  ultimately show "\<exists>cs. trace (snd (run_state (State_Monad.bind m f) s)) = trace s @ cs \<and> list_all P cs"
    by blast
qed

lemma emits_ext [emits_intros]: "(\<And>r. P (mk r)) \<Longrightarrow> emits (ext ans mk) P"
  by (simp add: emits_def ext_def Let_def)

lemma emits_locked [emits_intros]: "emits (locked e f) P"
  by (simp add: emits_def locked_def yield_def Let_def case_prod_beta)

lemma emits_reading [emits_intros]: "emits (reading e f) P"
  unfolding reading_def by (rule emits_locked)

lemma emits_writing [emits_intros]: "emits (writing e f) P"
  unfolding writing_def by (rule emits_locked)

lemma emits_deferring [emits_intros]: "emits m P \<Longrightarrow> emits fin P \<Longrightarrow> emits (deferring m fin) P"
  unfolding deferring_def by (intro emits_intros)

lemma emits_if [emits_intros]:
  "(b \<Longrightarrow> emits m P) \<Longrightarrow> (\<not> b \<Longrightarrow> emits n P) \<Longrightarrow> emits (if b then m else n) P"
  by simp

lemma emits_case_option [emits_intros]:
  "(x = None \<Longrightarrow> emits m P) \<Longrightarrow> (\<And>y. x = Some y \<Longrightarrow> emits (f y) P) \<Longrightarrow>
   emits (case x of None \<Rightarrow> m | Some y \<Rightarrow> f y) P"
  by (cases x) simp_all

lemma emits_case_sum [emits_intros]:
  "(\<And>a. x = Inl a \<Longrightarrow> emits (f a) P) \<Longrightarrow> (\<And>b. x = Inr b \<Longrightarrow> emits (g b) P) \<Longrightarrow>
   emits (case x of Inl a \<Rightarrow> f a | Inr b \<Rightarrow> g b) P"
  by (cases x) simp_all

lemma emits_case_prod [emits_intros]:
  "(\<And>a b. x = (a, b) \<Longrightarrow> emits (f a b) P) \<Longrightarrow> emits (case x of (a, b) \<Rightarrow> f a b) P"
  by (cases x) simp_all

lemma emits_flights [emits_intros]:
  "(\<And>b. P (XFlight key b)) \<Longrightarrow> emits m P \<Longrightarrow> emits (flightString e key m) P"
  "(\<And>b. P (XFlight key b)) \<Longrightarrow> emits n P \<Longrightarrow> emits (flightSnapshot e key n) P"
  unfolding flightString_def flightSnapshot_def by (intro emits_bind emits_ext emits_case_option
    emits_return; simp)+

lemma emits_Let [emits_intros]: "emits (f x) P \<Longrightarrow> emits (Let x f) P"
  by simp

text \<open>An action whose calls are known may be skipped over in a weakest precondition.\<close>

lemma wp_emits:
  assumes "emits m P"
    and "\<And>r t cs. trace t = trace s @ cs \<Longrightarrow> list_all P cs \<Longrightarrow> Q r t"
  shows "wp m Q s"
  using emitsE [OF assms(1), of s] assms(2) by (metis wp_runI)

section \<open>Results and calls together\<close>

text \<open>\<open>produces m L\<close>: every run of \<open>m\<close>, under any interference, returns a result and appends calls
  related by \<open>L\<close>. The rules read backwards, like weakest preconditions, and forget the state: what
  a critical section returns is arbitrary.\<close>

definition produces :: "'a act \<Rightarrow> ('a \<Rightarrow> call list \<Rightarrow> bool) \<Rightarrow> bool" where
  "produces m L \<longleftrightarrow>
     (\<forall>s. \<exists>cs. trace (snd (run_state m s)) = trace s @ cs \<and> L (fst (run_state m s)) cs)"

lemma producesD:
  assumes "produces m L"
  obtains cs where "trace (snd (run_state m s)) = trace s @ cs" "L (fst (run_state m s)) cs"
  using assms unfolding produces_def by blast

lemma produces_bind:
  assumes "produces m K" and "\<And>r as. K r as \<Longrightarrow> produces (f r) (\<lambda>x bs. L x (as @ bs))"
  shows "produces (State_Monad.bind m f) L"
  unfolding produces_def
proof
  fix s
  obtain r t where m: "run_state m s = (r, t)" by fastforce
  obtain as where as: "trace t = trace s @ as" "K r as"
    using producesD [OF assms(1), of s] m by auto
  obtain bs where bs: "trace (snd (run_state (f r) t)) = trace t @ bs"
    "L (fst (run_state (f r) t)) (as @ bs)"
    using producesD [OF assms(2) [OF as(2)], of t] by auto
  show "\<exists>cs. trace (snd (run_state (State_Monad.bind m f) s)) = trace s @ cs \<and>
      L (fst (run_state (State_Monad.bind m f) s)) cs"
    using m as bs by (intro exI [of _ "as @ bs"]) simp
qed

lemma produces_return: "L x [] \<Longrightarrow> produces (State_Monad.return x) L"
  by (simp add: produces_def)

lemma produces_emits: "emits m P \<Longrightarrow> (\<And>r cs. list_all P cs \<Longrightarrow> L r cs) \<Longrightarrow> produces m L"
  unfolding produces_def emits_def by metis

lemma emits_produces: "emits m P \<longleftrightarrow> produces m (\<lambda>_ cs. list_all P cs)"
  by (simp add: emits_def produces_def)

lemma produces_weaken: "produces m K \<Longrightarrow> (\<And>r cs. K r cs \<Longrightarrow> L r cs) \<Longrightarrow> produces m L"
  unfolding produces_def by metis

lemma produces_emits_conj:
  assumes "produces m K" and "emits m P"
  shows "produces m (\<lambda>r cs. K r cs \<and> list_all P cs)"
  unfolding produces_def
proof
  fix s
  obtain cs where "trace (snd (run_state m s)) = trace s @ cs" "K (fst (run_state m s)) cs"
    using producesD [OF assms(1)] by blast
  moreover obtain ds where "trace (snd (run_state m s)) = trace s @ ds" "list_all P ds"
    using emitsE [OF assms(2)] by blast
  ultimately show "\<exists>cs. trace (snd (run_state m s)) = trace s @ cs \<and>
      K (fst (run_state m s)) cs \<and> list_all P cs"
    by auto
qed

lemma produces_ext: "(\<And>r. L r [mk r]) \<Longrightarrow> produces (ext ans mk) L"
  by (simp add: produces_def ext_def Let_def)

lemma produces_locked: "(\<And>r. L r []) \<Longrightarrow> produces (locked e f) L"
  by (simp add: produces_def locked_def yield_def Let_def case_prod_beta)

lemma produces_reading: "(\<And>r. L r []) \<Longrightarrow> produces (reading e f) L"
  unfolding reading_def by (rule produces_locked)

lemma produces_writing: "L () [] \<Longrightarrow> produces (writing e f) L"
  unfolding writing_def by (rule produces_locked) simp

lemma produces_bind_ext:
  "(\<And>r. produces (f r) (\<lambda>x bs. L x (mk r # bs))) \<Longrightarrow> produces (State_Monad.bind (ext ans mk) f) L"
  by (rule produces_bind [where K = "\<lambda>r as. as = [mk r]"]) (auto intro: produces_ext)

text \<open>The same, keeping that the result is an answer of the world.\<close>

lemma produces_bind_answer:
  assumes "\<And>h. produces (f (ans h)) (\<lambda>x bs. L x (mk (ans h) # bs))"
  shows "produces (State_Monad.bind (ext ans mk) f) L"
  by (rule produces_bind [where K = "\<lambda>r as. as = [mk r] \<and> (\<exists>h. r = ans h)"])
    (auto simp: produces_def ext_def Let_def intro!: assms [unfolded produces_def, rule_format])

lemma produces_bind_locked:
  "(\<And>r. produces (f r) L) \<Longrightarrow> produces (State_Monad.bind (locked e g) f) L"
  by (rule produces_bind [where K = "\<lambda>r as. as = []"]) (auto intro: produces_locked)

lemma produces_bind_reading:
  "(\<And>r. produces (f r) L) \<Longrightarrow> produces (State_Monad.bind (reading e g) f) L"
  unfolding reading_def by (rule produces_bind_locked)

lemma produces_bind_writing:
  "(\<And>r. produces (f r) L) \<Longrightarrow> produces (State_Monad.bind (writing e g) f) L"
  unfolding writing_def by (rule produces_bind_locked)

lemma produces_bind_emits:
  "emits m P \<Longrightarrow> (\<And>r as. list_all P as \<Longrightarrow> produces (f r) (\<lambda>x bs. L x (as @ bs))) \<Longrightarrow>
   produces (State_Monad.bind m f) L"
  by (rule produces_bind [where K = "\<lambda>r as. list_all P as"]) (auto simp: emits_produces)

lemma list_all_False: "list_all (\<lambda>_. False) cs \<longleftrightarrow> cs = []"
  by (cases cs) simp_all

text \<open>An action that makes no calls at all.\<close>

lemma produces_bind_silent:
  "emits m (\<lambda>_. False) \<Longrightarrow> (\<And>r. produces (f r) L) \<Longrightarrow> produces (State_Monad.bind m f) L"
  by (erule produces_bind_emits) (simp add: list_all_False)

lemma produces_if:
  "(b \<Longrightarrow> produces m L) \<Longrightarrow> (\<not> b \<Longrightarrow> produces n L) \<Longrightarrow> produces (if b then m else n) L"
  by simp

lemma produces_case_option:
  "(x = None \<Longrightarrow> produces m L) \<Longrightarrow> (\<And>y. x = Some y \<Longrightarrow> produces (f y) L) \<Longrightarrow>
   produces (case x of None \<Rightarrow> m | Some y \<Rightarrow> f y) L"
  by (cases x) simp_all

lemma produces_case_sum:
  "(\<And>a. x = Inl a \<Longrightarrow> produces (f a) L) \<Longrightarrow> (\<And>b. x = Inr b \<Longrightarrow> produces (g b) L) \<Longrightarrow>
   produces (case x of Inl a \<Rightarrow> f a | Inr b \<Rightarrow> g b) L"
  by (cases x) simp_all

lemma produces_case_prod:
  "(\<And>a b. x = (a, b) \<Longrightarrow> produces (f a b) L) \<Longrightarrow> produces (case x of (a, b) \<Rightarrow> f a b) L"
  by (cases x) simp_all

lemma produces_Let: "produces (f x) L \<Longrightarrow> produces (Let x f) L"
  by simp

lemma produces_deferring:
  assumes "produces m K" and "\<And>r as. K r as \<Longrightarrow> produces fin (\<lambda>_ bs. L r (as @ bs))"
  shows "produces (deferring m fin) L"
  unfolding deferring_def
  by (rule produces_bind [OF assms(1)], rule produces_bind [OF assms(2)])
    (auto intro: produces_return)

lemmas produces_intros =
  produces_bind_ext produces_bind_locked produces_bind_reading produces_bind_writing
  produces_return produces_ext produces_locked produces_reading produces_writing
  produces_if produces_case_option produces_case_sum produces_case_prod produces_Let

end
