(* ===== verification/Tables.thy ===== *)
theory Tables
  imports Actions
begin

text \<open>
  The provider's tables: every critical section of \<open>p.mu\<close> as a function on the state, named after
  the Go function it is the body of (\<open>provider.go\<close>, \<open>lifecycle.go\<close>, \<open>resume.go\<close>, \<open>retry.go\<close>,
  \<open>update.go\<close>). The operations of the other theories are sequences of these under \<open>locked\<close>, so an
  invariant kept by each of them holds under every interleaving.
\<close>

section \<open>Heap\<close>

definition podAt :: "prov \<Rightarrow> podptr \<Rightarrow> pod" where
  "podAt s p = \<lparr>pMeta = ptMeta p, pAnnotations = heapAnnots s (ptAddr p),
     pStatus = heapStatus s (ptAddr p)\<rparr>"

definition setAnnots :: "podptr \<Rightarrow> (annots \<Rightarrow> annots) \<Rightarrow> prov \<Rightarrow> prov" where
  "setAnnots p f s =
     s\<lparr>heapAnnots := (heapAnnots s)(ptAddr p := f (heapAnnots s (ptAddr p)))\<rparr>"

definition setStatus :: "podptr \<Rightarrow> (pod_status \<Rightarrow> pod_status) \<Rightarrow> prov \<Rightarrow> prov" where
  "setStatus p f s =
     s\<lparr>heapStatus := (heapStatus s)(ptAddr p := f (heapStatus s (ptAddr p)))\<rparr>"

text \<open>\<open>pod.DeepCopy()\<close>: a fresh cell with the same contents.\<close>

definition deepCopy :: "podptr \<Rightarrow> prov \<Rightarrow> podptr \<times> prov" where
  "deepCopy p s =
     (\<lparr>ptAddr = nextAddr s, ptMeta = ptMeta p\<rparr>,
      s\<lparr>heapAnnots := (heapAnnots s)(nextAddr s := heapAnnots s (ptAddr p)),
        heapStatus := (heapStatus s)(nextAddr s := heapStatus s (ptAddr p)),
        nextAddr := Suc (nextAddr s)\<rparr>)"

definition allocVM :: "vm \<Rightarrow> prov \<Rightarrow> vmptr \<times> prov" where
  "allocVM v s = (\<lparr>vpAddr = nextAddr s, vpVM = v\<rparr>, s\<lparr>nextAddr := Suc (nextAddr s)\<rparr>)"

definition podKey :: "env \<Rightarrow> podptr \<Rightarrow> string" where
  "podKey e p = mPodKey (lib e) (ptNamespace p) (ptName p)"

section \<open>VM tables\<close>

definition setVMLocked :: "string \<Rightarrow> vmptr \<Rightarrow> prov \<Rightarrow> prov" where
  "setVMLocked key v s =
     s\<lparr>vmsByPod := (vmsByPod s)(key \<mapsto> v),
       vmsByName := (if vpName v \<noteq> [] then (vmsByName s)(vpName v \<mapsto> v) else vmsByName s)\<rparr>"

definition samePtr :: "vmptr option \<Rightarrow> vmptr \<Rightarrow> bool" where
  "samePtr w v = (case w of None \<Rightarrow> False | Some u \<Rightarrow> vpAddr u = vpAddr v)"

definition dropVMLocked :: "string \<Rightarrow> prov \<Rightarrow> prov" where
  "dropVMLocked key s =
     (case vmsByPod s key of
        None \<Rightarrow> s
      | Some v \<Rightarrow>
          s\<lparr>lastRestart := (lastRestart s)(vpID v := None),
            vmsByName := (if samePtr (vmsByName s (vpName v)) v
                          then (vmsByName s)(vpName v := None) else vmsByName s),
            vmsByPod := (vmsByPod s)(key := None)\<rparr>)"

definition indexOrphanByNameLocked :: "vmptr option \<Rightarrow> prov \<Rightarrow> prov" where
  "indexOrphanByNameLocked v s =
     (case v of
        None \<Rightarrow> s
      | Some v \<Rightarrow> if vpName v = [] then s else s\<lparr>vmsByName := (vmsByName s)(vpName v \<mapsto> v)\<rparr>)"

definition updateTrackedVM ::
  "string \<Rightarrow> string \<Rightarrow> (vm \<Rightarrow> vm) \<Rightarrow> prov \<Rightarrow> vmptr option \<times> prov" where
  "updateTrackedVM key vmID f s =
     (case vmsByPod s key of
        None \<Rightarrow> (None, s)
      | Some v \<Rightarrow>
          if vpID v \<noteq> vmID then (None, s)
          else (let (u, t) = allocVM (f (vpVM v)) s in (Some u, setVMLocked key u t)))"

section \<open>Lifecycle intents\<close>

definition applyStatus :: "env \<Rightarrow> lifecycle_status \<Rightarrow> podptr \<Rightarrow> prov \<Rightarrow> prov" where
  "applyStatus e st p = setAnnots p (mStatusApply (lib e) st)"

definition reassertLifecycleLocked :: "env \<Rightarrow> string \<Rightarrow> podptr \<Rightarrow> prov \<Rightarrow> prov" where
  "reassertLifecycleLocked e key p s =
     (case lifecycleIntent s key of
        None \<Rightarrow> s
      | Some cur \<Rightarrow>
          if leUID cur \<noteq> ptUID p then s\<lparr>lifecycleIntent := (lifecycleIntent s)(key := None)\<rparr>
          else applyStatus e (leStatus cur) p s)"

definition stampLifecycleIntentLocked :: "env \<Rightarrow> podptr \<Rightarrow> prov \<Rightarrow> prov" where
  "stampLifecycleIntentLocked e p s =
     (case lifecycleIntent s (podKey e p) of
        None \<Rightarrow> s
      | Some cur \<Rightarrow> if leUID cur = ptUID p then applyStatus e (leStatus cur) p s else s)"

definition lifecycleOwnedLocked :: "env \<Rightarrow> string \<Rightarrow> string \<Rightarrow> string \<Rightarrow> prov \<Rightarrow> bool" where
  "lifecycleOwnedLocked e key uid snap s =
     (case lifecycleIntent s key of
        None \<Rightarrow> False
      | Some cur \<Rightarrow> leUID cur = uid \<and> mStatusSnapshot (lib e) (leStatus cur) = snap)"

definition applyLifecycleLocked ::
  "env \<Rightarrow> podptr \<Rightarrow> lifecycle_state \<Rightarrow> string \<Rightarrow> prov \<Rightarrow> (lifecycle_status \<times> bool) \<times> prov" where
  "applyLifecycleLocked e p state message s =
     (let key = podKey e p;
          gen = mReadCocoonSetGeneration (lib e) (podAt s p);
          tracked = pods s key;
          status0 = \<lparr>lsState = state, lsObservedGeneration = gen, lsMessage = message\<rparr>;
          status = (case tracked of
                      None \<Rightarrow> status0
                    | Some t \<Rightarrow> status0\<lparr>lsObservedGeneration :=
                        max gen (mReadCocoonSetGeneration (lib e) (podAt s t))\<rparr>);
          cur = lifecycleIntent s key;
          same = (case cur of None \<Rightarrow> False | Some c \<Rightarrow> leUID c = ptUID p);
          stale = (case cur of None \<Rightarrow> False
                   | Some c \<Rightarrow> lsObservedGeneration status < lsObservedGeneration (leStatus c));
          sticky = (case cur of None \<Rightarrow> False
                    | Some c \<Rightarrow> lsState (leStatus c) = LifecycleStateFailed \<and>
                        state \<noteq> LifecycleStateFailed \<and> state \<noteq> LifecycleStateCreating \<and>
                        state \<noteq> LifecycleStateHibernating \<and>
                        lsObservedGeneration status = lsObservedGeneration (leStatus c))
      in if (case tracked of None \<Rightarrow> False | Some t \<Rightarrow> ptUID t \<noteq> ptUID p) then ((status0, False), s)
         else if cur \<noteq> None \<and> \<not> same \<and> tracked = None then ((status, False), s)
         else if same \<and> stale then ((status, False), s)
         else if same \<and> sticky then ((status, False), s)
         else
           (let s1 = s\<lparr>lifecycleIntent := (lifecycleIntent s)
                  (key \<mapsto> \<lparr>leUID = ptUID p, leStatus = status, leFlushed = []\<rparr>)\<rparr>;
                s2 = applyStatus e status p s1;
                s3 = (case tracked of
                        None \<Rightarrow> s2
                      | Some t \<Rightarrow> if ptAddr t \<noteq> ptAddr p then applyStatus e status t s2 else s2)
            in ((status, True), s3)))"

definition recordLifecycleFlushed :: "env \<Rightarrow> string \<Rightarrow> string \<Rightarrow> string \<Rightarrow> prov \<Rightarrow> prov" where
  "recordLifecycleFlushed e key uid snap s =
     (if lifecycleOwnedLocked e key uid snap s
      then s\<lparr>lifecycleIntent := (lifecycleIntent s)
             (key := map_option (\<lambda>c. c\<lparr>leFlushed := snap\<rparr>) (lifecycleIntent s key))\<rparr>
      else s)"

definition dropSupersededLifecycle :: "env \<Rightarrow> string \<Rightarrow> string \<Rightarrow> string \<Rightarrow> prov \<Rightarrow> prov" where
  "dropSupersededLifecycle e key uid snap s =
     (if lifecycleOwnedLocked e key uid snap s
      then s\<lparr>lifecycleIntent := (lifecycleIntent s)(key := None)\<rparr> else s)"

definition hibernateFailurePrefix :: string where "hibernateFailurePrefix = ''hibernate: ''"

definition hibernateFailedVMLocked :: "string \<Rightarrow> string \<Rightarrow> prov \<Rightarrow> vmptr option" where
  "hibernateFailedVMLocked key uid s =
     (case lifecycleIntent s key of
        None \<Rightarrow> None
      | Some cur \<Rightarrow>
          if leUID cur \<noteq> uid \<or> lsState (leStatus cur) \<noteq> LifecycleStateFailed \<or>
             \<not> hasPrefix (lsMessage (leStatus cur)) hibernateFailurePrefix
          then None else vmsByPod s key)"

section \<open>Tracking\<close>

definition supersededLocked :: "string \<Rightarrow> string \<Rightarrow> prov \<Rightarrow> bool" where
  "supersededLocked key uid s = (case pods s key of None \<Rightarrow> False | Some t \<Rightarrow> ptUID t \<noteq> uid)"

definition trackedPodMatchesLocked :: "string \<Rightarrow> string \<Rightarrow> prov \<Rightarrow> bool" where
  "trackedPodMatchesLocked key uid s = (case pods s key of None \<Rightarrow> False | Some t \<Rightarrow> ptUID t = uid)"

definition trackPodLocked :: "env \<Rightarrow> podptr \<Rightarrow> vmptr option \<Rightarrow> prov \<Rightarrow> prov" where
  "trackPodLocked e p v s =
     (let key = podKey e p;
          s1 = reassertLifecycleLocked e key p s;
          s2 = s1\<lparr>pods := (pods s1)(key \<mapsto> p)\<rparr>
      in case v of None \<Rightarrow> s2 | Some v \<Rightarrow> setVMLocked key v s2)"

definition trackPodUnlessDeletingLocked :: "env \<Rightarrow> podptr \<Rightarrow> vmptr option \<Rightarrow> prov \<Rightarrow> bool \<times> prov" where
  "trackPodUnlessDeletingLocked e p v s =
     (if podKey e p \<in> deleting s then (False, s) else (True, trackPodLocked e p v s))"

definition trackPodIncarnationLocked :: "env \<Rightarrow> podptr \<Rightarrow> vmptr \<Rightarrow> prov \<Rightarrow> bool \<times> prov" where
  "trackPodIncarnationLocked e p v s =
     (let key = podKey e p in
      if key \<in> deleting s \<or> supersededLocked key (ptUID p) s
      then (False, indexOrphanByNameLocked (Some v) s)
      else (True, trackPodLocked e p (Some v) s))"

definition untrackLocked :: "string \<Rightarrow> prov \<Rightarrow> prov" where
  "untrackLocked key s =
     (let s1 = dropVMLocked key s in
      s1\<lparr>pods := (pods s1)(key := None), macosVNC := (macosVNC s1)(key := None),
        macosLeftover := (macosLeftover s1)(key := None),
        lifecycleIntent := (lifecycleIntent s1)(key := None),
        opRetries := (opRetries s1)(key := None), podLocks := podLocks s1 - {key}\<rparr>)"

definition untrackIncarnationLocked :: "string \<Rightarrow> string \<Rightarrow> prov \<Rightarrow> bool \<times> prov" where
  "untrackIncarnationLocked key uid s =
     (if trackedPodMatchesLocked key uid s then (True, untrackLocked key s) else (False, s))"

text \<open>The critical section of \<open>detachIncarnation\<close>: not detached because a delete is in flight, or
  detached, with whether the incarnation was the tracked one.\<close>

definition detachIncarnationLocked ::
  "string \<Rightarrow> string \<Rightarrow> vmptr option \<Rightarrow> prov \<Rightarrow> bool option \<times> prov" where
  "detachIncarnationLocked key uid v s =
     (if key \<in> deleting s then (None, s)
      else
        (let (dropped, t) = untrackIncarnationLocked key uid s;
             rebind = (case v of
                         None \<Rightarrow> False
                       | Some v \<Rightarrow> (case vmsByPod t key of
                                      None \<Rightarrow> True
                                    | Some b \<Rightarrow> vpName b \<noteq> vpName v))
         in (Some dropped, if rebind then indexOrphanByNameLocked v t else t)))"

section \<open>Claims\<close>

datatype delete_claim = deleteClaimed | deleteInFlight | deleteSuperseded

definition claimDeletingLocked :: "string \<Rightarrow> string \<Rightarrow> prov \<Rightarrow> delete_claim \<times> prov" where
  "claimDeletingLocked key uid s =
     (if supersededLocked key uid s then (deleteSuperseded, s)
      else if key \<in> deleting s then (deleteInFlight, s)
      else (deleteClaimed, s\<lparr>deleting := insert key (deleting s)\<rparr>))"

definition claimDeletingIncarnationLocked ::
  "string \<Rightarrow> string \<Rightarrow> string \<Rightarrow> prov \<Rightarrow> bool \<times> prov" where
  "claimDeletingIncarnationLocked key uid vmID s =
     (if key \<in> deleting s then (False, s)
      else if trackedPodMatchesLocked key uid s \<and>
              (case vmsByPod s key of None \<Rightarrow> False | Some v \<Rightarrow> vpID v = vmID)
      then (True, s\<lparr>deleting := insert key (deleting s)\<rparr>)
      else (False, s))"

definition finishDeletingLocked :: "string \<Rightarrow> prov \<Rightarrow> prov" where
  "finishDeletingLocked key s = s\<lparr>deleting := deleting s - {key}\<rparr>"

definition claimResumeLocked :: "string \<Rightarrow> prov \<Rightarrow> bool \<times> prov" where
  "claimResumeLocked key s =
     (if key \<in> resumedOps s then (False, s) else (True, s\<lparr>resumedOps := insert key (resumedOps s)\<rparr>))"

definition releaseResumeLocked :: "string \<Rightarrow> prov \<Rightarrow> prov" where
  "releaseResumeLocked key s = s\<lparr>resumedOps := resumedOps s - {key}\<rparr>"

text \<open>\<open>scheduleDeferredRecheck\<close> claims the VM and spawns the recheck; the goroutine's deferred function
  releases it. The result says whether a goroutine was spawned.\<close>

definition scheduleDeferredRecheckLocked :: "string \<Rightarrow> prov \<Rightarrow> bool \<times> prov" where
  "scheduleDeferredRecheckLocked vmID s =
     (if closed s \<or> vmID \<in> pendingRecheck s then (False, s)
      else (True, s\<lparr>pendingRecheck := insert vmID (pendingRecheck s),
                    jobs := jobs s @ [JobRecheck vmID]\<rparr>))"

definition finishRecheckLocked :: "string \<Rightarrow> prov \<Rightarrow> prov" where
  "finishRecheckLocked vmID s = s\<lparr>pendingRecheck := pendingRecheck s - {vmID}\<rparr>"

definition goBackgroundLocked :: "job \<Rightarrow> prov \<Rightarrow> prov" where
  "goBackgroundLocked j s = (if closed s then s else s\<lparr>jobs := jobs s @ [j]\<rparr>)"

text \<open>A delete claim is requested with a pod UID alone (\<open>DeletePod\<close>) or with the VM as well (the
  eviction paths).\<close>

definition acquireDelete :: "string \<times> string option \<Rightarrow> string \<Rightarrow> prov \<Rightarrow> bool \<times> prov" where
  "acquireDelete r key s =
     (case r of
        (uid, None) \<Rightarrow> (case claimDeletingLocked key uid s of (c, t) \<Rightarrow> (c = deleteClaimed, t))
      | (uid, Some vmID) \<Rightarrow> claimDeletingIncarnationLocked key uid vmID s)"

interpretation delclaim: claim "\<lambda>s k. k \<in> deleting s" acquireDelete finishDeletingLocked
  by unfold_locales
    (auto simp: acquireDelete_def claimDeletingLocked_def claimDeletingIncarnationLocked_def
      finishDeletingLocked_def split: prod.splits option.splits if_splits)

interpretation resclaim: claim "\<lambda>s k. k \<in> resumedOps s" "\<lambda>_ :: unit. claimResumeLocked" releaseResumeLocked
  by unfold_locales (auto simp: claimResumeLocked_def releaseResumeLocked_def split: if_splits)

interpretation rechkclaim:
  claim "\<lambda>s k. k \<in> pendingRecheck s" "\<lambda>_ :: unit. scheduleDeferredRecheckLocked" finishRecheckLocked
  by unfold_locales
    (auto simp: scheduleDeferredRecheckLocked_def finishRecheckLocked_def split: if_splits)

section \<open>Small critical sections\<close>

definition takeOpRetryLocked :: "string \<Rightarrow> prov \<Rightarrow> int \<times> prov" where
  "takeOpRetryLocked key s =
     (case opRetries s key of None \<Rightarrow> 0 | Some r \<Rightarrow> orDelay r,
      s\<lparr>opRetries := (opRetries s)(key := None)\<rparr>)"

definition retryOpLaterLocked :: "string \<Rightarrow> string \<Rightarrow> op_retry \<Rightarrow> prov \<Rightarrow> prov" where
  "retryOpLaterLocked key uid r s =
     (if trackedPodMatchesLocked key uid s then s\<lparr>opRetries := (opRetries s)(key \<mapsto> r)\<rparr> else s)"

definition startHibernateLocked :: "string \<Rightarrow> prov \<Rightarrow> prov" where
  "startHibernateLocked key s = s\<lparr>hibernating := (hibernating s)(key \<mapsto> False)\<rparr>"

definition finishHibernateLocked :: "string \<Rightarrow> prov \<Rightarrow> bool \<times> prov" where
  "finishHibernateLocked key s =
     (hibernating s key = Some True, s\<lparr>hibernating := (hibernating s)(key := None)\<rparr>)"

text \<open>The critical section of \<open>failCreate\<close>; \<open>absent\<close> and \<open>macos\<close> are what it found out before.\<close>

definition failCreateLocked :: "string \<Rightarrow> string \<Rightarrow> bool \<Rightarrow> bool \<Rightarrow> prov \<Rightarrow> prov" where
  "failCreateLocked key uid absent macos s =
     (if supersededLocked key uid s then s
      else
        (let t = s\<lparr>pods := (pods s)(key := None)\<rparr> in
         if absent then t\<lparr>macosVNC := (macosVNC t)(key := None),
                          macosLeftover := (macosLeftover t)(key := None)\<rparr>
         else if macos then t\<lparr>macosLeftover := (macosLeftover t)(key \<mapsto> uid)\<rparr>
         else t))"

text \<open>\<open>seedLifecycleIntentFromPod\<close>, run by the startup reconcile only.\<close>

definition seedLifecycleLocked :: "env \<Rightarrow> podptr \<Rightarrow> prov \<Rightarrow> prov" where
  "seedLifecycleLocked e p s =
     (if mReadLifecycleState (lib e) (podAt s p) = LifecycleStateEmpty then s
      else
        (let status = mReadLifecycleStatus (lib e) (podAt s p) in
         s\<lparr>lifecycleIntent := (lifecycleIntent s)(podKey e p \<mapsto>
             \<lparr>leUID = ptUID p, leStatus = status, leFlushed = mStatusSnapshot (lib e) status\<rparr>)\<rparr>))"

section \<open>Projections\<close>

lemma setAnnots_tabs [simp, tab_simps]:
  "pods (setAnnots p f s) = pods s" "lifecycleIntent (setAnnots p f s) = lifecycleIntent s"
  "vmsByPod (setAnnots p f s) = vmsByPod s" "vmsByName (setAnnots p f s) = vmsByName s"
  "deleting (setAnnots p f s) = deleting s" "opRetries (setAnnots p f s) = opRetries s"
  by (simp_all add: setAnnots_def)

lemma applyStatus_tabs [simp, tab_simps]:
  "pods (applyStatus e st p s) = pods s"
  "lifecycleIntent (applyStatus e st p s) = lifecycleIntent s"
  "vmsByPod (applyStatus e st p s) = vmsByPod s" "vmsByName (applyStatus e st p s) = vmsByName s"
  "deleting (applyStatus e st p s) = deleting s" "opRetries (applyStatus e st p s) = opRetries s"
  by (simp_all add: applyStatus_def)

lemma setVMLocked_tabs [simp, tab_simps]:
  "pods (setVMLocked key v s) = pods s" "lifecycleIntent (setVMLocked key v s) = lifecycleIntent s"
  "deleting (setVMLocked key v s) = deleting s"
  "vmsByPod (setVMLocked key v s) = (vmsByPod s)(key \<mapsto> v)"
  by (simp_all add: setVMLocked_def)

lemma dropVMLocked_tabs [simp, tab_simps]:
  "pods (dropVMLocked key s) = pods s" "lifecycleIntent (dropVMLocked key s) = lifecycleIntent s"
  "deleting (dropVMLocked key s) = deleting s"
  "vmsByPod (dropVMLocked key s) = (vmsByPod s)(key := None)"
  by (auto simp: dropVMLocked_def split: option.splits)

lemma indexOrphan_tabs [simp, tab_simps]:
  "pods (indexOrphanByNameLocked v s) = pods s"
  "lifecycleIntent (indexOrphanByNameLocked v s) = lifecycleIntent s"
  "deleting (indexOrphanByNameLocked v s) = deleting s"
  "vmsByPod (indexOrphanByNameLocked v s) = vmsByPod s"
  by (auto simp: indexOrphanByNameLocked_def split: option.splits)

lemma reassert_tabs [simp, tab_simps]:
  "pods (reassertLifecycleLocked e key p s) = pods s"
  "deleting (reassertLifecycleLocked e key p s) = deleting s"
  "vmsByPod (reassertLifecycleLocked e key p s) = vmsByPod s"
  "lifecycleIntent (reassertLifecycleLocked e key p s) =
     (case lifecycleIntent s key of
        None \<Rightarrow> lifecycleIntent s
      | Some c \<Rightarrow> if leUID c \<noteq> ptUID p then (lifecycleIntent s)(key := None) else lifecycleIntent s)"
  by (auto simp: reassertLifecycleLocked_def split: option.splits)

lemma trackPodLocked_tabs [simp, tab_simps]:
  "pods (trackPodLocked e p v s) = (pods s)(podKey e p \<mapsto> p)"
  "deleting (trackPodLocked e p v s) = deleting s"
  "lifecycleIntent (trackPodLocked e p v s) =
     lifecycleIntent (reassertLifecycleLocked e (podKey e p) p s)"
  by (auto simp: trackPodLocked_def Let_def split: option.splits)

lemma untrackLocked_tabs [simp, tab_simps]:
  "pods (untrackLocked key s) = (pods s)(key := None)"
  "lifecycleIntent (untrackLocked key s) = (lifecycleIntent s)(key := None)"
  "deleting (untrackLocked key s) = deleting s"
  "vmsByPod (untrackLocked key s) = (vmsByPod s)(key := None)"
  by (simp_all add: untrackLocked_def Let_def)

end
