(* ===== verification/Example_Env.thy ===== *)
theory Example_Env
  imports Tables
begin

text \<open>
  A concrete environment: a small executable instance of the parameters (the library
  \<open>cocoon-common\<close>, the configuration, the outside world), on which the properties with hypotheses
  are evaluated. Nothing else rests on it.
\<close>

definition exAn :: "annots \<Rightarrow> string \<Rightarrow> string" where
  "exAn m k = (case m k of None \<Rightarrow> [] | Some v \<Rightarrow> v)"

definition stateName :: "lifecycle_state \<Rightarrow> string" where
  "stateName st = (case st of
      LifecycleStateEmpty \<Rightarrow> [] | LifecycleStateCreating \<Rightarrow> ''creating''
    | LifecycleStateReady \<Rightarrow> ''ready'' | LifecycleStateHibernating \<Rightarrow> ''hibernating''
    | LifecycleStateHibernated \<Rightarrow> ''hibernated'' | LifecycleStateFailed \<Rightarrow> ''failed''
    | LifecycleStateOther x \<Rightarrow> x)"

definition stateOf :: "string \<Rightarrow> lifecycle_state" where
  "stateOf x = (if x = [] then LifecycleStateEmpty
     else if x = ''creating'' then LifecycleStateCreating
     else if x = ''ready'' then LifecycleStateReady
     else if x = ''hibernating'' then LifecycleStateHibernating
     else if x = ''hibernated'' then LifecycleStateHibernated
     else if x = ''failed'' then LifecycleStateFailed
     else LifecycleStateOther x)"

definition exConsts :: meta_consts where
  "exConsts = \<lparr>kVMID = ''vmid'', kIP = ''ip'', kVNCPort = ''vnc'', kProbePort = ''probe'',
     kSnapshotRequest = ''snapreq'', kCloneFromDir = ''fromdir'', kVMName = ''vmname'', kImage = ''image'',
     kFromNode = ''fromnode'', kSnapshotBaseImage = ''base'', kCompatibilityClass = ''class'',
     HibernateSnapshotTag = ''hibernate'', DefaultSnapshotTag = ''latest'',
     HibernateImportSuffix = ''-import'', OSWindows = ''windows'', OSMacos = ''macos'',
     BackendCloudHypervisor = ''cloud-hypervisor'', AgentModeRun = ''run''\<rparr>"

definition exSpec :: "pod \<Rightarrow> vm_spec" where
  "exSpec p = \<lparr>vsVMName = exAn (pAnnotations p) ''vmname'', vsManaged = True, vsImage = ''img'',
     vsOS = exAn (pAnnotations p) ''os'', vsBackend = ''cloud-hypervisor'', vsMode = ''run'',
     vsNetwork = [], vsStorage = [], vsForkFrom = [], vsForcePull = False, vsNoDirectIO = False\<rparr>"

definition exLib :: meta_lib where
  "exLib = \<lparr>mPodKey = (\<lambda>ns name. ns @ ''/'' @ name), mParseVMSpec = exSpec,
     mParseVMRuntime = (\<lambda>p. \<lparr>vrVMID = exAn (pAnnotations p) ''vmid'', vrIP = exAn (pAnnotations p) ''ip'',
       vrVNCPort = 0\<rparr>),
     mReadHibernateState = (\<lambda>p. exAn (pAnnotations p) ''hibernate'' = ''true''),
     mReadCocoonSetGeneration = (\<lambda>p. int (length (exAn (pAnnotations p) ''gen''))),
     mReadLifecycleState = (\<lambda>p. stateOf (exAn (pAnnotations p) ''state'')),
     mReadLifecycleStatus = (\<lambda>p. \<lparr>lsState = stateOf (exAn (pAnnotations p) ''state''),
       lsObservedGeneration = int (length (exAn (pAnnotations p) ''obs'')),
       lsMessage = exAn (pAnnotations p) ''msg''\<rparr>),
     mStatusApply = (\<lambda>st m. m(''state'' \<mapsto> stateName (lsState st),
       ''obs'' \<mapsto> replicate (nat (lsObservedGeneration st)) CHR ''i'', ''msg'' \<mapsto> lsMessage st)),
     mStatusAnnotations = (\<lambda>st. [''state'' \<mapsto> Some (stateName (lsState st)),
       ''obs'' \<mapsto> Some (replicate (nat (lsObservedGeneration st)) CHR ''i''),
       ''msg'' \<mapsto> Some (lsMessage st)]),
     mStatusSnapshot = (\<lambda>st. stateName (lsState st) @ ''|''
       @ replicate (nat (lsObservedGeneration st)) CHR ''i'' @ ''|'' @ lsMessage st),
     mRuntimeApply = (\<lambda>rt m. m(''vmid'' \<mapsto> vrVMID rt, ''ip'' \<mapsto> vrIP rt)),
     mReadKeepSnapshotOnDelete = (\<lambda>p. exAn (pAnnotations p) ''keep'' = ''true''),
     mMarkKeepSnapshotOnDelete = (\<lambda>m. m(''keep'' \<mapsto> ''true'')),
     mReadRestoreFromHibernate = (\<lambda>p. exAn (pAnnotations p) ''restore'' = ''true''),
     mMarkRestoreFromHibernate = (\<lambda>m. m(''restore'' \<mapsto> ''true'')),
     mRoleForPod = (\<lambda>p name. ''main''), mShouldSnapshotVM = (\<lambda>spec role. True),
     mSnapshotStatusRef = (\<lambda>p. exAn (pAnnotations p) ''snapref''),
     mSnapshotStatusAnnotations = (\<lambda>ref st msg. [''snapref'' \<mapsto> Some ref]),
     mReadSnapshotAnnotations = (\<lambda>p. Map.empty), mParseRef = (\<lambda>ref. (ref, ''latest'')),
     mSHA256Hex = (\<lambda>x. replicate 64 CHR ''0''),
     mParseManifest = (\<lambda>raw. Inr \<lparr>mfAnnotations = Map.empty, mfConfig = raw\<rparr>),
     mClassify = (\<lambda>raw. Inr KindOther), mUnmarshalMacos = (\<lambda>out. None),
     mParseQuantity = (\<lambda>x. None), mConsts = exConsts\<rparr>"

definition exConfig :: config where
  "exConfig = \<lparr>cfgNodeName = ''node'', cfgCompatibilityClass = [], cfgRestoreMode = RestoreMmap,
     cfgOrphanPolicy = ''destroy'', cfgMacosVNCPassword = [],
     cfgClientset = True, cfgPusher = True, cfgPuller = True, cfgPullerRegistry = True, cfgRegistry = True,
     cfgPeerRestorer = False, cfgPeerPort = [], cfgLeaseParser = True, cfgLeaseReleaser = True,
     cfgProbes = True, cfgGuestSAC = False, cfgRootDir = ''/var/lib/cocoon'', cfgInlineInspectBaseDelay = 0,
     cfgRecheckInitialDelay = 0, cfgRecheckMaxDelay = 0, cfgRecheckBudget = 0,
     cfgWakeFreshIPBudget = 0, cfgWakeFreshIPInterval = 0, cfgWakeRenewNudgeDelay = 0, cfgBootIPBudget = 0\<rparr>"

definition exVM :: vm where
  "exVM = \<lparr>vID = ''id1'', vName = ''vk-a'', vHypervisor = ''cloud-hypervisor'', vState = StateRunning,
     vIP = ''10.0.0.2'', vMAC = ''aa:bb'', vPID = 7, vDiskPath = [], vNetworkConfigs = []\<rparr>"

definition exSnapshot :: snapshot where
  "exSnapshot = \<lparr>snID = ''snap1'', snName = ''vk-a'', snImage = [], snImageDigest = [],
     snHypervisor = ''cloud-hypervisor'', snDescription = []\<rparr>"

text \<open>A world in which every call succeeds.\<close>

definition exWorld :: world where
  "exWorld = \<lparr>wInspect = (\<lambda>h i. Inr exVM), wRemove = (\<lambda>h i. None), wStart = (\<lambda>h i. None),
     wClone = (\<lambda>h opts. Inr exVM), wExec = (\<lambda>h i argv. (None, [])), wNetResize = (\<lambda>h i n. None),
     wSnapshotSave = (\<lambda>h name i. None), wSnapshotRemove = (\<lambda>h name. None),
     wSnapshot = (\<lambda>h name. Inr exSnapshot), wSnapshotList = (\<lambda>h. Inr [exSnapshot]),
     wImage = (\<lambda>h name. None), wRun = (\<lambda>h opts. Inr exVM),
     wEnsureImage = (\<lambda>h i f. None), wList = (\<lambda>h. Inr [exVM]),
     wReconcileStaleCreate = (\<lambda>h i. Inr StaleCreateCollected), wCloudImage = (\<lambda>h r l w f. None),
     wFlightString = (\<lambda>h k. None), wFlightSnapshot = (\<lambda>h k. None),
     wMatch = (\<lambda>h i n. Some ''ns/a''), wMacosExec = (\<lambda>h args. ([], None)), wProcessAlive = (\<lambda>h pid. True),
     wListPods = (\<lambda>h. Inr []), wSSHReady = (\<lambda>h a. (True, ''ssh ok'')), wPush = (\<lambda>h l r t i a. None), wPull = (\<lambda>h r t l d. None),
     wPeerRestore = (\<lambda>h u n c. Inl (newErr ''no peer'')), wGetManifest = (\<lambda>h r t. Inr ''m''),
     wDeleteManifest = (\<lambda>h r t. None), wFetchConfig = (\<lambda>h r c. Inr \<lparr>scSnapshotID = ''snap1''\<rparr>),
     wPatch = (\<lambda>h ns n u pt. None), wStatusPatch = (\<lambda>h ns n u st. None),
     wDeletePod = (\<lambda>h ns n u. None), wNodeAddress = (\<lambda>h n. Inr None),
     wGetPod = (\<lambda>h ns n. Inl (newErr ''no pod'')), wSACDial = (\<lambda>h p. None), wSACRun = (\<lambda>h c. (None, [])),
     wStat = (\<lambda>h p. False), wLookupByMAC = (\<lambda>h mac. Inr ''10.0.0.2''), wReleaseByMAC = (\<lambda>h mac. None),
     wPing = (\<lambda>h ip. None), wDial = (\<lambda>h ip port. None), wNow = (\<lambda>h. 1000000000000 + int (length h)),
     wSleep = (\<lambda>h d. None), wCtxErr = (\<lambda>h. None)\<rparr>"

definition exEnv :: env where
  "exEnv = \<lparr>lib = exLib, cfg = exConfig, ask = exWorld, interfere = (\<lambda>n s. s)\<rparr>"

definition exPod :: podptr where
  "exPod = \<lparr>ptAddr = 100, ptMeta = \<lparr>pmNamespace = ''ns'', pmName = ''a'', pmUID = ''u1'',
     pmDeleted = False, pmNodeSelector = Map.empty, pmContainers = []\<rparr>\<rparr>"

definition exVMPtr :: vmptr where
  "exVMPtr = \<lparr>vpAddr = 50, vpVM = exVM\<rparr>"

text \<open>One tracked pod with its VM.\<close>

definition exProv :: prov where
  "exProv = trackPodLocked exEnv exPod (Some exVMPtr)
     (setAnnots exPod (\<lambda>_. [''vmname'' \<mapsto> ''vk-a'', ''gen'' \<mapsto> ''ii'']) (NewProvider\<lparr>nextAddr := 200, notifyHook := True\<rparr>))"

lemmas ex_defs =
  exAn_def stateName_def stateOf_def exConsts_def exSpec_def exLib_def exConfig_def exVM_def
  exSnapshot_def exWorld_def exEnv_def exPod_def exVMPtr_def exProv_def NewProvider_def
  NewManager_def zeroStatus_def StateRunning_def RestoreMmap_def

lemma quiet_exEnv [simp]: "quiet exEnv"
  by (simp add: quiet_def exEnv_def)

text \<open>The tables of the example state, and a pod whose Ready intent is staged but not flushed.\<close>

lemma exProv_tabs [simp]:
  "pods exProv = [''ns/a'' \<mapsto> exPod]" "vmsByPod exProv = [''ns/a'' \<mapsto> exVMPtr]"
  "vmsByName exProv = [''vk-a'' \<mapsto> exVMPtr]" "lifecycleIntent exProv = Map.empty"
  "deleting exProv = {}" "resumedOps exProv = {}" "pendingRecheck exProv = {}"
  "hibernating exProv = Map.empty" "opRetries exProv = Map.empty" "lastRestart exProv = Map.empty"
  "nextAddr exProv = 200" "closed exProv = False" "jobs exProv = []" "trace exProv = []"
  "probes exProv = NewManager" "notifyHook exProv = True"
  "heapAnnots exProv = (\<lambda>_. Map.empty)(100 := [''vmname'' \<mapsto> ''vk-a'', ''gen'' \<mapsto> ''ii''])"
  "heapStatus exProv = (\<lambda>_. zeroStatus)"
  by (simp_all add: exProv_def trackPodLocked_def reassertLifecycleLocked_def setVMLocked_def
      setAnnots_def podKey_def Let_def exEnv_def exLib_def exPod_def exVMPtr_def exVM_def
      NewProvider_def)

definition exReady :: lifecycle_status where
  "exReady = \<lparr>lsState = LifecycleStateReady, lsObservedGeneration = 2, lsMessage = []\<rparr>"

definition exReadyProv :: prov where
  "exReadyProv = exProv\<lparr>lifecycleIntent :=
     [''ns/a'' \<mapsto> \<lparr>leUID = ''u1'', leStatus = exReady, leFlushed = []\<rparr>]\<rparr>"

lemma exKey [simp]: "mPodKey exLib ''ns'' ''a'' = ''ns/a''" "podKey exEnv exPod = ''ns/a''"
  by (simp_all add: podKey_def exEnv_def exLib_def exPod_def)

lemma exPod_sel [simp]:
  "ptAddr exPod = 100" "ptUID exPod = ''u1''" "ptNamespace exPod = ''ns''" "ptName exPod = ''a''"
  "pmDeleted (ptMeta exPod) = False"
  by (simp_all add: exPod_def)

lemma exVMPtr_sel [simp]:
  "vpAddr exVMPtr = 50" "vpVM exVMPtr = exVM" "vID exVM = ''id1''" "vName exVM = ''vk-a''"
  "vIP exVM = ''10.0.0.2''" "vMAC exVM = ''aa:bb''" "vNetworkConfigs exVM = []"
  "vHypervisor exVM = ''cloud-hypervisor''" "vState exVM = StateRunning"
  by (simp_all add: exVMPtr_def exVM_def)

lemma exEnv_sel [simp]: "lib exEnv = exLib" "cfg exEnv = exConfig" "ask exEnv = exWorld"
  by (simp_all add: exEnv_def)

end
