(* ===== verification/Table_Invariants.thy ===== *)
theory Table_Invariants
  imports Tables Example_Env
begin

text \<open>
  Invariants of the provider's tables under every interleaving of the critical sections.

  \<open>tab_step\<close> is one critical section of any goroutine. The seed of an intent from a pod's annotations
  belongs to the startup reconcile, before any callback is delivered; its guard says that the key
  holds no intent and no other incarnation yet.
\<close>

section \<open>Lifecycle writes\<close>

definition lifecycle_applied ::
  "env \<Rightarrow> podptr \<Rightarrow> lifecycle_state \<Rightarrow> string \<Rightarrow> lifecycle_status \<Rightarrow> prov \<Rightarrow> prov \<Rightarrow> bool" where
  "lifecycle_applied e p st msg status s t \<longleftrightarrow>
     pods t = pods s \<and> vmsByPod t = vmsByPod s \<and> vmsByName t = vmsByName s \<and>
     deleting t = deleting s \<and>
     lifecycleIntent t = (lifecycleIntent s)
       (podKey e p \<mapsto> \<lparr>leUID = ptUID p, leStatus = status, leFlushed = []\<rparr>) \<and>
     lsState status = st \<and> lsMessage status = msg \<and>
     \<not> supersededLocked (podKey e p) (ptUID p) s \<and>
     (\<forall>c. lifecycleIntent s (podKey e p) = Some c \<longrightarrow> leUID c = ptUID p \<longrightarrow>
        lsObservedGeneration (leStatus c) \<le> lsObservedGeneration status \<and>
        (lsState (leStatus c) = LifecycleStateFailed \<longrightarrow>
         lsObservedGeneration (leStatus c) = lsObservedGeneration status \<longrightarrow>
         st \<in> {LifecycleStateFailed, LifecycleStateCreating, LifecycleStateHibernating}))"

lemma applyLifecycle_spec:
  assumes "applyLifecycleLocked e p st msg s = ((status, ok), t)"
  shows "if ok then lifecycle_applied e p st msg status s t else t = s"
proof (cases "pods s (podKey e p)")
  case None
  with assms show ?thesis
    by (cases "lifecycleIntent s (podKey e p)")
      (auto simp: applyLifecycleLocked_def lifecycle_applied_def supersededLocked_def Let_def
        split: if_splits)
next
  case (Some q)
  with assms show ?thesis
    by (cases "lifecycleIntent s (podKey e p)")
      (auto simp: applyLifecycleLocked_def lifecycle_applied_def supersededLocked_def Let_def
        split: if_splits)
qed

section \<open>Steps\<close>

inductive tab_step :: "env \<Rightarrow> prov \<Rightarrow> prov \<Rightarrow> bool" for e where
  track: "tab_step e s (trackPodLocked e p v s)"
| trackUnless: "tab_step e s (snd (trackPodUnlessDeletingLocked e p v s))"
| trackInc: "tab_step e s (snd (trackPodIncarnationLocked e p w s))"
| untrack: "tab_step e s (untrackLocked key s)"
| untrackInc: "tab_step e s (snd (untrackIncarnationLocked key uid s))"
| detach: "tab_step e s (snd (detachIncarnationLocked key uid v s))"
| apply_lc: "tab_step e s (snd (applyLifecycleLocked e p st msg s))"
| recorded: "tab_step e s (recordLifecycleFlushed e key uid snap s)"
| superseded: "tab_step e s (dropSupersededLifecycle e key uid snap s)"
| seed: "lifecycleIntent s (podKey e p) = None \<Longrightarrow> \<not> supersededLocked (podKey e p) (ptUID p) s \<Longrightarrow>
    tab_step e s (seedLifecycleLocked e p s)"
| updateVM: "tab_step e s (snd (updateTrackedVM key vmID f s))"
| dropVM: "tab_step e s (dropVMLocked key s)"
| orphan: "tab_step e s (indexOrphanByNameLocked v s)"
| failCreate: "tab_step e s (failCreateLocked key uid absent macos s)"
| claim: "tab_step e s (snd (acquireDelete r key s))"
| finish: "tab_step e s (finishDeletingLocked key s)"
| claimRes: "tab_step e s (snd (claimResumeLocked key s))"
| releaseRes: "tab_step e s (releaseResumeLocked key s)"
| recheck: "tab_step e s (snd (scheduleDeferredRecheckLocked vmID s))"
| recheckEnd: "tab_step e s (finishRecheckLocked vmID s)"
| spawn: "tab_step e s (goBackgroundLocked j s)"
| takeRetry: "tab_step e s (snd (takeOpRetryLocked key s))"
| retryLater: "tab_step e s (retryOpLaterLocked key uid rt s)"
| hibStart: "tab_step e s (startHibernateLocked key s)"
| hibEnd: "tab_step e s (snd (finishHibernateLocked key s))"
| hook: "tab_step e s (s\<lparr>notifyHook := b\<rparr>)"
| ending: "tab_step e s (s\<lparr>closed := True\<rparr>)"
| annots: "tab_step e s (setAnnots p g s)"
| status: "tab_step e s (setStatus p h s)"

inductive tab_reachable :: "env \<Rightarrow> prov \<Rightarrow> bool" for e where
  init: "tab_reachable e NewProvider"
| step: "tab_reachable e s \<Longrightarrow> tab_step e s t \<Longrightarrow> tab_reachable e t"

text \<open>The intent of a key belongs to the incarnation that is tracked under it.\<close>

definition intents_owned :: "prov \<Rightarrow> bool" where
  "intents_owned s \<longleftrightarrow>
     (\<forall>key p c. pods s key = Some p \<longrightarrow> lifecycleIntent s key = Some c \<longrightarrow> leUID c = ptUID p)"

text \<open>The two tables of a step, before and after: an intent of one incarnation only moves forward.\<close>

definition forward :: "prov \<Rightarrow> prov \<Rightarrow> bool" where
  "forward s t \<longleftrightarrow>
     (\<forall>key c d. lifecycleIntent s key = Some c \<longrightarrow> lifecycleIntent t key = Some d \<longrightarrow>
        leUID c = leUID d \<longrightarrow>
        lsObservedGeneration (leStatus c) \<le> lsObservedGeneration (leStatus d) \<and>
        (lsState (leStatus c) = LifecycleStateFailed \<longrightarrow>
           lsObservedGeneration (leStatus c) = lsObservedGeneration (leStatus d) \<longrightarrow>
           lsState (leStatus d) \<in>
             {LifecycleStateFailed, LifecycleStateCreating, LifecycleStateHibernating}))"

lemmas plain_tab_defs =
  claimDeletingLocked_def claimDeletingIncarnationLocked_def finishDeletingLocked_def
  claimResumeLocked_def releaseResumeLocked_def scheduleDeferredRecheckLocked_def
  finishRecheckLocked_def goBackgroundLocked_def takeOpRetryLocked_def retryOpLaterLocked_def
  startHibernateLocked_def finishHibernateLocked_def setStatus_def updateTrackedVM_def allocVM_def
  acquireDelete_def

lemma forward_apply: "forward s (snd (applyLifecycleLocked e p st msg s))"
proof -
  obtain status ok t where r: "applyLifecycleLocked e p st msg s = ((status, ok), t)"
    by (metis surj_pair)
  then have "forward s t"
    using applyLifecycle_spec [OF r] by (auto simp: forward_def lifecycle_applied_def split: if_splits)
  with r show ?thesis by simp
qed

lemma owned_apply: "intents_owned s \<Longrightarrow> intents_owned (snd (applyLifecycleLocked e p st msg s))"
proof -
  assume s: "intents_owned s"
  obtain status ok t where r: "applyLifecycleLocked e p st msg s = ((status, ok), t)"
    by (metis surj_pair)
  then have "intents_owned t" using s applyLifecycle_spec [OF r]
    by (auto simp: intents_owned_def lifecycle_applied_def supersededLocked_def split: if_splits)
  with r show ?thesis by simp
qed

lemma owned_track: "intents_owned s \<Longrightarrow> intents_owned (trackPodLocked e p v s)"
  by (auto simp: intents_owned_def split: option.splits if_splits)

lemma owned_untrack: "intents_owned s \<Longrightarrow> intents_owned (untrackLocked key s)"
  by (auto simp: intents_owned_def split: if_splits)

lemma owned_same_tables:
  "intents_owned s \<Longrightarrow> pods t = pods s \<Longrightarrow> lifecycleIntent t = lifecycleIntent s \<Longrightarrow> intents_owned t"
  by (simp add: intents_owned_def)

lemma owned_fewer_intents:
  "intents_owned s \<Longrightarrow> pods t = pods s \<Longrightarrow> lifecycleIntent t \<subseteq>\<^sub>m lifecycleIntent s \<Longrightarrow> intents_owned t"
  unfolding intents_owned_def map_le_def by (metis domI)

lemma forward_same_intents: "lifecycleIntent t \<subseteq>\<^sub>m lifecycleIntent s \<Longrightarrow> forward s t"
  unfolding forward_def map_le_def
  by (metis domI insertI1 option.sel order_refl)

text \<open>The steps that only drop intents, or leave them alone.\<close>

lemma intents_shrink:
  "lifecycleIntent (trackPodLocked e p v s) \<subseteq>\<^sub>m lifecycleIntent s"
  "lifecycleIntent (untrackLocked key s) \<subseteq>\<^sub>m lifecycleIntent s"
  "lifecycleIntent (dropSupersededLifecycle e key uid snap s) \<subseteq>\<^sub>m lifecycleIntent s"
  by (auto simp: map_le_def dropSupersededLifecycle_def split: option.splits if_splits)

lemma forward_shrink:
  "forward s (trackPodLocked e p v s)" "forward s (untrackLocked key s)"
  "forward s (dropSupersededLifecycle e key uid snap s)"
  by (rule forward_same_intents, rule intents_shrink)+

lemma detach_tabs:
  "pods (snd (detachIncarnationLocked key uid v s)) =
     (if key \<in> deleting s then pods s else pods (snd (untrackIncarnationLocked key uid s)))"
  "lifecycleIntent (snd (detachIncarnationLocked key uid v s)) =
     (if key \<in> deleting s then lifecycleIntent s
      else lifecycleIntent (snd (untrackIncarnationLocked key uid s)))"
  by (auto simp: detachIncarnationLocked_def Let_def split: prod.splits)

lemma failCreate_tabs:
  "lifecycleIntent (failCreateLocked key uid absent macos s) = lifecycleIntent s"
  "pods (failCreateLocked key uid absent macos s) =
     (if supersededLocked key uid s then pods s else (pods s)(key := None))"
  by (simp_all add: failCreateLocked_def Let_def)

lemma plain_tabs:
  "pods (snd (updateTrackedVM key vmID f s)) = pods s"
  "lifecycleIntent (snd (updateTrackedVM key vmID f s)) = lifecycleIntent s"
  "pods (snd (acquireDelete r key s)) = pods s"
  "lifecycleIntent (snd (acquireDelete r key s)) = lifecycleIntent s"
  by (auto simp: plain_tab_defs split: option.splits prod.splits)

lemma tab_step_owned: "tab_step e s t \<Longrightarrow> intents_owned s \<Longrightarrow> intents_owned t"
proof (induction rule: tab_step.induct)
  case (trackUnless s p v)
  then show ?case by (simp add: trackPodUnlessDeletingLocked_def owned_track)
next
  case (trackInc s p w)
  then show ?case
    by (auto simp: trackPodIncarnationLocked_def Let_def owned_track intro: owned_same_tables)
next
  case (untrackInc s key uid)
  then show ?case by (simp add: untrackIncarnationLocked_def owned_untrack)
next
  case (detach s key uid v)
  then have "intents_owned (snd (untrackIncarnationLocked key uid s))"
    by (simp add: untrackIncarnationLocked_def owned_untrack)
  with detach show ?case
    by (cases "key \<in> deleting s") (auto intro: owned_same_tables simp: detach_tabs)
next
  case (recorded s key uid snap)
  then show ?case by (auto simp: intents_owned_def recordLifecycleFlushed_def split: if_splits)
next
  case (superseded s key uid snap)
  then show ?case
    by (rule owned_fewer_intents) (simp_all add: dropSupersededLifecycle_def intents_shrink)
next
  case (seed s p)
  then show ?case
    by (auto simp: intents_owned_def seedLifecycleLocked_def supersededLocked_def Let_def split: if_splits)
next
  case (failCreate s key uid absent macos)
  then show ?case by (auto simp: intents_owned_def failCreate_tabs split: if_splits)
qed (auto intro: owned_track owned_untrack owned_apply elim: owned_same_tables
    simp: plain_tabs finishDeletingLocked_def claimResumeLocked_def releaseResumeLocked_def
      scheduleDeferredRecheckLocked_def finishRecheckLocked_def goBackgroundLocked_def
      takeOpRetryLocked_def retryOpLaterLocked_def startHibernateLocked_def finishHibernateLocked_def
      setStatus_def)

lemma forward_refl [simp]: "lifecycleIntent t = lifecycleIntent s \<Longrightarrow> forward s t"
  by (rule forward_same_intents) simp

lemma tab_step_forward: "tab_step e s t \<Longrightarrow> forward s t"
proof (induction rule: tab_step.induct)
  case (trackUnless s p v)
  then show ?case
    by (simp add: trackPodUnlessDeletingLocked_def forward_shrink)
next
  case (trackInc s p w)
  then show ?case
    by (simp add: trackPodIncarnationLocked_def Let_def forward_shrink)
next
  case (untrackInc s key uid)
  then show ?case by (simp add: untrackIncarnationLocked_def forward_shrink)
next
  case (detach s key uid v)
  then show ?case
    by (intro forward_same_intents) (auto simp: detach_tabs untrackIncarnationLocked_def map_le_def)
next
  case (recorded s key uid snap)
  then show ?case by (auto simp: forward_def recordLifecycleFlushed_def split: if_splits)
next
  case (seed s p)
  then show ?case by (auto simp: forward_def seedLifecycleLocked_def Let_def split: if_splits)
qed (simp_all add: forward_apply forward_shrink plain_tabs failCreate_tabs
    finishDeletingLocked_def claimResumeLocked_def releaseResumeLocked_def
    scheduleDeferredRecheckLocked_def finishRecheckLocked_def goBackgroundLocked_def
    takeOpRetryLocked_def retryOpLaterLocked_def startHibernateLocked_def finishHibernateLocked_def
    setStatus_def)

lemma tab_reachable_owned: "tab_reachable e s \<Longrightarrow> intents_owned s"
proof (induction rule: tab_reachable.induct)
  case init
  show ?case by (simp add: intents_owned_def NewProvider_def)
qed (auto intro: tab_step_owned)

text \<open>Every pod is tracked under its own key.\<close>

definition pods_keyed :: "env \<Rightarrow> prov \<Rightarrow> bool" where
  "pods_keyed e s \<longleftrightarrow> (\<forall>key p. pods s key = Some p \<longrightarrow> key = podKey e p)"

lemma keyed_fewer: "pods_keyed e s \<Longrightarrow> pods t \<subseteq>\<^sub>m pods s \<Longrightarrow> pods_keyed e t"
  unfolding pods_keyed_def map_le_def by (metis domI)

lemma keyed_track: "pods_keyed e s \<Longrightarrow> pods_keyed e (trackPodLocked e p v s)"
  by (auto simp: pods_keyed_def split: if_splits)

lemma keyed_apply: "pods_keyed e s \<Longrightarrow> pods_keyed e (snd (applyLifecycleLocked e p st msg s))"
proof -
  obtain status ok t where r: "applyLifecycleLocked e p st msg s = ((status, ok), t)"
    by (metis surj_pair)
  then show "pods_keyed e s \<Longrightarrow> ?thesis"
    using applyLifecycle_spec [OF r] by (auto simp: pods_keyed_def lifecycle_applied_def split: if_splits)
qed

lemma tab_step_keyed: "tab_step e s t \<Longrightarrow> pods_keyed e s \<Longrightarrow> pods_keyed e t"
proof (induction rule: tab_step.induct)
  case (trackUnless s p v)
  then show ?case by (simp add: trackPodUnlessDeletingLocked_def keyed_track)
next
  case (trackInc s p w)
  then show ?case
    by (auto simp: trackPodIncarnationLocked_def Let_def keyed_track elim: keyed_fewer)
next
  case (detach s key uid v)
  then show ?case
    by (auto intro!: keyed_fewer [OF detach] simp: detach_tabs untrackIncarnationLocked_def map_le_def split: if_splits)
next
  case (seed s p)
  then show ?case by (auto simp: pods_keyed_def seedLifecycleLocked_def Let_def split: if_splits)
qed (auto intro: keyed_track keyed_apply elim: keyed_fewer simp: map_le_def plain_tabs failCreate_tabs
    untrackIncarnationLocked_def recordLifecycleFlushed_def dropSupersededLifecycle_def
    finishDeletingLocked_def claimResumeLocked_def releaseResumeLocked_def
    scheduleDeferredRecheckLocked_def finishRecheckLocked_def goBackgroundLocked_def
    takeOpRetryLocked_def retryOpLaterLocked_def startHibernateLocked_def finishHibernateLocked_def
    setStatus_def split: if_splits)

lemma tab_reachable_keyed: "tab_reachable e s \<Longrightarrow> pods_keyed e s"
proof (induction rule: tab_reachable.induct)
  case init
  show ?case by (simp add: pods_keyed_def NewProvider_def)
qed (auto intro: tab_step_keyed)

text \<open>Every intent is stored under the key of a pod.\<close>

definition intents_keyed :: "env \<Rightarrow> prov \<Rightarrow> bool" where
  "intents_keyed e s \<longleftrightarrow> (\<forall>key \<in> dom (lifecycleIntent s). \<exists>p. key = podKey e p)"

lemma intents_keyed_fewer: "intents_keyed e s \<Longrightarrow> lifecycleIntent t \<subseteq>\<^sub>m lifecycleIntent s \<Longrightarrow> intents_keyed e t"
  unfolding intents_keyed_def map_le_def by (metis domIff)

lemma intents_keyed_apply: "intents_keyed e s \<Longrightarrow> intents_keyed e (snd (applyLifecycleLocked e p st msg s))"
proof -
  obtain status ok t where r: "applyLifecycleLocked e p st msg s = ((status, ok), t)"
    by (metis surj_pair)
  then show "intents_keyed e s \<Longrightarrow> ?thesis"
    using applyLifecycle_spec [OF r] by (auto simp: intents_keyed_def lifecycle_applied_def split: if_splits)
qed

lemma tab_step_intents_keyed: "tab_step e s t \<Longrightarrow> intents_keyed e s \<Longrightarrow> intents_keyed e t"
proof (induction rule: tab_step.induct)
  case (trackUnless s p v)
  then show ?case by (auto simp: trackPodUnlessDeletingLocked_def intro: intents_keyed_fewer intents_shrink)
next
  case (trackInc s p w)
  then show ?case
    by (auto simp: trackPodIncarnationLocked_def Let_def intro: intents_keyed_fewer intents_shrink)
next
  case (untrackInc s key uid)
  then show ?case by (auto simp: untrackIncarnationLocked_def intro: intents_keyed_fewer intents_shrink)
next
  case (detach s key uid v)
  then show ?case
    by (auto intro!: intents_keyed_fewer [OF detach] simp: detach_tabs untrackIncarnationLocked_def map_le_def split: if_splits)
next
  case (recorded s key uid snap)
  then show ?case by (auto simp: intents_keyed_def recordLifecycleFlushed_def split: if_splits)
next
  case (seed s p)
  then show ?case by (auto simp: intents_keyed_def seedLifecycleLocked_def Let_def split: if_splits)
next
  case (failCreate s key uid absent macos)
  then show ?case by (auto simp: intents_keyed_def failCreate_tabs split: if_splits)
qed (auto intro: intents_keyed_fewer intents_shrink intents_keyed_apply elim: intents_keyed_fewer simp: plain_tabs
    finishDeletingLocked_def claimResumeLocked_def releaseResumeLocked_def
    scheduleDeferredRecheckLocked_def finishRecheckLocked_def goBackgroundLocked_def
    takeOpRetryLocked_def retryOpLaterLocked_def startHibernateLocked_def finishHibernateLocked_def
    setStatus_def)

lemma tab_reachable_intents_keyed: "tab_reachable e s \<Longrightarrow> intents_keyed e s"
proof (induction rule: tab_reachable.induct)
  case init
  show ?case by (simp add: intents_keyed_def NewProvider_def)
qed (auto intro: tab_step_intents_keyed)

section \<open>Properties\<close>

text \<open>C22: in every state reachable by any interleaving of the provider's critical sections, the
  lifecycle intent stored for a key belongs to the pod incarnation tracked under that key: a
  recreated pod never inherits, and never publishes, its predecessor's lifecycle state.\<close>

theorem lifecycle_intent_owned:
  assumes "tab_reachable e s" and "pods s key = Some p" and "lifecycleIntent s key = Some c"
  shows "leUID c = ptUID p"
  using tab_reachable_owned [OF assms(1)] assms(2,3) by (simp add: intents_owned_def)

theorem lifecycle_intent_owned_witness:
  "\<exists>c. lifecycleIntent
      (snd (applyLifecycleLocked exEnv exPod LifecycleStateReady [] (trackPodLocked exEnv exPod None NewProvider)))
      ''ns/a'' = Some c \<and> leUID c = ''u1''"
proof -
  let ?s = "snd (applyLifecycleLocked exEnv exPod LifecycleStateReady []
      (trackPodLocked exEnv exPod None NewProvider))"
  have r: "tab_reachable exEnv ?s"
    by (rule tab_reachable.step [OF tab_reachable.step [OF tab_reachable.init tab_step.track]
          tab_step.apply_lc])
  have p: "pods ?s ''ns/a'' = Some exPod"
    and c: "lifecycleIntent ?s ''ns/a'' \<noteq> None"
    by (simp_all add: applyLifecycleLocked_def podKey_def Let_def ex_defs)
  from c obtain c where c: "lifecycleIntent ?s ''ns/a'' = Some c" by blast
  with lifecycle_intent_owned [OF r p c] show ?thesis by (simp add: exPod_def)
qed

text \<open>C23: no critical section moves the intent of an incarnation backwards: its observed generation
  never decreases, and at an unchanged generation \<open>Failed\<close> is replaced only by \<open>Failed\<close> or by the
  states that start a new attempt, \<open>Creating\<close> and \<open>Hibernating\<close>.\<close>

theorem lifecycle_intent_forward:
  assumes "tab_step e s t" and "lifecycleIntent s key = Some c" and "lifecycleIntent t key = Some d"
    and "leUID c = leUID d"
  shows "lsObservedGeneration (leStatus c) \<le> lsObservedGeneration (leStatus d) \<and>
    (lsState (leStatus c) = LifecycleStateFailed \<longrightarrow>
     lsObservedGeneration (leStatus c) = lsObservedGeneration (leStatus d) \<longrightarrow>
     lsState (leStatus d) \<in> {LifecycleStateFailed, LifecycleStateCreating, LifecycleStateHibernating})"
  using tab_step_forward [OF assms(1)] assms(2-) unfolding forward_def by blast

theorem lifecycle_intent_forward_witness:
  "lifecycleIntent (snd (applyLifecycleLocked exEnv exPod LifecycleStateReady []
      (exProv\<lparr>lifecycleIntent := [''ns/a'' \<mapsto> \<lparr>leUID = ''u1'', leStatus =
        \<lparr>lsState = LifecycleStateFailed, lsObservedGeneration = 1, lsMessage = []\<rparr>, leFlushed = []\<rparr>]\<rparr>)))
      ''ns/a'' = Some \<lparr>leUID = ''u1'', leStatus =
        \<lparr>lsState = LifecycleStateReady, lsObservedGeneration = 2, lsMessage = []\<rparr>, leFlushed = []\<rparr> \<and>
   (1 :: int) \<le> 2"
proof -
  let ?c = "\<lparr>leUID = ''u1'', leStatus =
        \<lparr>lsState = LifecycleStateFailed, lsObservedGeneration = 1, lsMessage = []\<rparr>, leFlushed = []\<rparr>"
  let ?d = "\<lparr>leUID = ''u1'', leStatus =
        \<lparr>lsState = LifecycleStateReady, lsObservedGeneration = 2, lsMessage = []\<rparr>, leFlushed = []\<rparr>"
  let ?s = "exProv\<lparr>lifecycleIntent := [''ns/a'' \<mapsto> ?c]\<rparr>"
  have t: "lifecycleIntent (snd (applyLifecycleLocked exEnv exPod LifecycleStateReady [] ?s)) ''ns/a'' = Some ?d"
    by (simp add: applyLifecycleLocked_def podKey_def Let_def podAt_def setAnnots_def
        trackPodLocked_def reassertLifecycleLocked_def setVMLocked_def ex_defs)
  have "lsObservedGeneration (leStatus ?c) \<le> lsObservedGeneration (leStatus ?d)"
    using lifecycle_intent_forward [OF tab_step.apply_lc, of ?s "''ns/a''" ?c exEnv exPod
        LifecycleStateReady "[]" ?d] t by simp
  with t show ?thesis by simp
qed

text \<open>C12: deletes and evictions of one pod exclude each other. In any history of delete claims
  (\<open>DeletePod\<close>'s by UID, the eviction paths' by UID and VM), releases and other steps that leave the
  claims alone, two successful claims of one key have a release of that key between them.\<close>

theorem delete_claim_exclusive:
  assumes "\<And>g s k. Other g \<in> set os \<Longrightarrow> (k \<in> deleting (g s)) = (k \<in> deleting s)"
    and "i < j" and "j < length os"
    and "os ! i = Attempt key r" and "delclaim.run_claims os s ! i"
    and "os ! j = Attempt key r'" and "delclaim.run_claims os s ! j"
  shows "\<exists>m. i < m \<and> m < j \<and> os ! m = Release key"
  using assms(2-) by (intro delclaim.exclusive_run [where s = s and os = os])
    (auto simp: delclaim.well_formed_def delclaim.neutral_def assms(1))

theorem delete_claim_exclusive_witness:
  "\<exists>m. 0 < m \<and> m < 2 \<and>
    [Attempt ''ns/a'' (''u1'', None), Release ''ns/a'', Attempt ''ns/a'' (''u1'', Some ''id1'')] ! m =
      (Release ''ns/a'' :: (string, string \<times> string option, prov) claim_op)"
  by (rule delete_claim_exclusive [where s = exProv and r = "(''u1'', None)" and r' = "(''u1'', Some ''id1'')"])
    (auto simp: acquireDelete_def claimDeletingLocked_def claimDeletingIncarnationLocked_def
      finishDeletingLocked_def supersededLocked_def trackedPodMatchesLocked_def podKey_def
      setAnnots_def trackPodLocked_def reassertLifecycleLocked_def setVMLocked_def Let_def ex_defs)

end
