(* ===== verification/Lifecycle.thy ===== *)
theory Lifecycle
  imports Tables
begin

text \<open>
  Publishing pod state: annotation patches with their retry loop, the flush of a lifecycle intent
  (\<open>lifecycle.go\<close>), pod status (\<open>status.go\<close>), lease-backed IP resolution and notification
  (\<open>provider.go\<close>), and the failure helpers of \<open>observability.go\<close>.

  The retry loops are bounded by a constant number of attempts and recurse on it.
\<close>

section \<open>Constants and reads\<close>

definition lifecyclePatchAttempts :: nat where "lifecyclePatchAttempts = 3"
definition lifecyclePatchInterval :: int where "lifecyclePatchInterval = 500 * 10 ^ 6"
definition eventMessageMaxBytes :: nat where "eventMessageMaxBytes = 512"
definition lifecycleMessageMaxBytes :: nat where "lifecycleMessageMaxBytes = 4096"
definition containerName :: string where "containerName = ''agent''"
definition macosHypervisor :: string where "macosHypervisor = ''qemu''"

text \<open>A read of an object no other goroutine holds, outside any lock.\<close>

definition peek :: "(prov \<Rightarrow> 'a) \<Rightarrow> 'a act" where
  "peek f = State (\<lambda>s. (f s, s))"

lemma wp_peek [simp, wp_simps]: "wp (peek f) Q s = Q (f s) s"
  by (simp add: peek_def)

lemma emits_peek [emits_intros]: "emits (peek f) P"
  by (simp add: emits_def peek_def)

definition truncate :: "string \<Rightarrow> nat \<Rightarrow> string" where
  "truncate s n = (if length s \<le> n then s else take n s)"

definition isMacosVM :: "vmptr option \<Rightarrow> bool" where
  "isMacosVM v = (case v of None \<Rightarrow> False | Some v \<Rightarrow> vHypervisor (vpVM v) = macosHypervisor)"

definition isMacosSpec :: "env \<Rightarrow> vm_spec \<Rightarrow> bool" where
  "isMacosSpec e spec \<longleftrightarrow> vsManaged spec \<and> equalFold (trimSpace (vsOS spec)) (OSMacos (konst e))"

definition isStaticNIC :: "network_config \<Rightarrow> bool" where
  "isStaticNIC nc = (case ncNetwork nc of None \<Rightarrow> False | Some n \<Rightarrow> niIP n \<noteq> [])"

definition GetPod :: "env \<Rightarrow> string \<Rightarrow> string \<Rightarrow> (err + podptr) act" where
  "GetPod e ns name = locked e (\<lambda>s.
     case pods s (mPodKey (lib e) ns name) of
       None \<Rightarrow> (Inl (newErr (''pod '' @ ns @ ''/'' @ name @ '' not found'')), s)
     | Some p \<Rightarrow> (let (q, t) = deepCopy p s in (Inr q, t)))"

definition vmForPod :: "env \<Rightarrow> string \<Rightarrow> string \<Rightarrow> vmptr option act" where
  "vmForPod e ns name = reading e (\<lambda>s. vmsByPod s (mPodKey (lib e) ns name))"

definition trackedPodMatches :: "env \<Rightarrow> string \<Rightarrow> string \<Rightarrow> bool act" where
  "trackedPodMatches e key uid = reading e (trackedPodMatchesLocked key uid)"

definition lifecycleAlreadyFailed :: "env \<Rightarrow> podptr \<Rightarrow> bool act" where
  "lifecycleAlreadyFailed e p = reading e (\<lambda>s.
     case lifecycleIntent s (podKey e p) of
       None \<Rightarrow> False
     | Some cur \<Rightarrow> leUID cur = ptUID p \<and> lsState (leStatus cur) = LifecycleStateFailed)"

section \<open>Patches\<close>

definition nameTaken :: "err option \<Rightarrow> bool" where
  "nameTaken r = (case r of None \<Rightarrow> False | Some x \<Rightarrow> errIs x ApiInvalid \<or> errIs x ApiConflict)"

definition patchSuperseded :: "err option \<Rightarrow> bool" where
  "patchSuperseded r \<longleftrightarrow> nameTaken r \<or> (case r of None \<Rightarrow> False | Some x \<Rightarrow> errIs x ApiNotFound)"

text \<open>\<open>patchIncarnationAnnotations\<close> with \<open>patchPod\<close> inlined; marshalling a map of strings cannot fail.\<close>

definition patchIncarnationAnnotations ::
  "env \<Rightarrow> string \<Rightarrow> string \<Rightarrow> string \<Rightarrow> patch \<Rightarrow> err option act" where
  "patchIncarnationAnnotations e ns name uid annos =
     (if \<not> cfgClientset (cfg e) then State_Monad.return None
      else do {
        r \<leftarrow> kubePatch e ns name uid annos;
        State_Monad.return (map_option
          (\<lambda>x. wrapErr (''patch annotations '' @ ns @ ''/'' @ name @ '': '') x []) r)
      })"

fun patchLoop :: "env \<Rightarrow> nat \<Rightarrow> err option act \<Rightarrow> err option act" where
  "patchLoop e 0 fn = State_Monad.return None"
| "patchLoop e (Suc n) fn = do {
     r \<leftarrow> fn;
     (if r = None \<or> patchSuperseded r \<or> n = 0 then State_Monad.return r
      else do {
        z \<leftarrow> sleepCtx e lifecyclePatchInterval;
        (if z \<noteq> None then State_Monad.return None else patchLoop e n fn)
      })
   }"

definition patchWithRetry :: "env \<Rightarrow> err option act \<Rightarrow> err option act" where
  "patchWithRetry e fn = patchLoop e lifecyclePatchAttempts fn"

section \<open>Flushing an intent\<close>

fun flushLoop ::
  "env \<Rightarrow> nat \<Rightarrow> string \<Rightarrow> string \<Rightarrow> string \<Rightarrow> patch \<Rightarrow> string \<Rightarrow> unit act" where
  "flushLoop e 0 ns name uid annos snap = State_Monad.return ()"
| "flushLoop e (Suc n) ns name uid annos snap = do {
     owned \<leftarrow> reading e (lifecycleOwnedLocked e (mPodKey (lib e) ns name) uid snap);
     (if \<not> owned then State_Monad.return ()
      else do {
        r \<leftarrow> patchIncarnationAnnotations e ns name uid annos;
        (if r = None
         then writing e (recordLifecycleFlushed e (mPodKey (lib e) ns name) uid snap)
         else if patchSuperseded r
         then writing e (dropSupersededLifecycle e (mPodKey (lib e) ns name) uid snap)
         else if n = 0 then State_Monad.return ()
         else do {
           z \<leftarrow> sleepCtx e lifecyclePatchInterval;
           (if z \<noteq> None then State_Monad.return () else flushLoop e n ns name uid annos snap)
         })
      })
   }"

definition flushLifecycle ::
  "env \<Rightarrow> string \<Rightarrow> string \<Rightarrow> string \<Rightarrow> lifecycle_status \<Rightarrow> unit act" where
  "flushLifecycle e ns name uid status =
     flushLoop e lifecyclePatchAttempts ns name uid
       (mStatusAnnotations (lib e) status) (mStatusSnapshot (lib e) status)"

definition setLifecycleState ::
  "env \<Rightarrow> podptr \<Rightarrow> lifecycle_state \<Rightarrow> string \<Rightarrow> (lifecycle_status \<times> bool) act" where
  "setLifecycleState e p state message = locked e (applyLifecycleLocked e p state message)"

definition markLifecycleState :: "env \<Rightarrow> podptr \<Rightarrow> lifecycle_state \<Rightarrow> string \<Rightarrow> unit act" where
  "markLifecycleState e p state message = do {
     r \<leftarrow> setLifecycleState e p state message;
     (if snd r then flushLifecycle e (ptNamespace p) (ptName p) (ptUID p) (fst r)
      else State_Monad.return ())
   }"

definition republishLifecycleOnGenerationBump :: "env \<Rightarrow> podptr \<Rightarrow> unit act" where
  "republishLifecycleOnGenerationBump e p = do {
     r \<leftarrow> locked e (\<lambda>s.
       case lifecycleIntent s (podKey e p) of
         None \<Rightarrow> (None, s)
       | Some cur \<Rightarrow>
           if leUID cur \<noteq> ptUID p \<or>
              mReadCocoonSetGeneration (lib e) (podAt s p) \<le> lsObservedGeneration (leStatus cur)
           then (None, s)
           else (let (r, t) = applyLifecycleLocked e p (lsState (leStatus cur))
                                (lsMessage (leStatus cur)) s
                 in (Some r, t)));
     (case r of
        None \<Rightarrow> State_Monad.return ()
      | Some r \<Rightarrow>
          if snd r then flushLifecycle e (ptNamespace p) (ptName p) (ptUID p) (fst r)
          else State_Monad.return ())
   }"

definition failOp :: "env \<Rightarrow> podptr \<Rightarrow> string \<Rightarrow> string \<Rightarrow> err \<Rightarrow> unit act" where
  "failOp e p reason oper x = do {
     _ \<leftarrow> emitEvent True reason (truncate (oper @ '': '' @ errMsg x) eventMessageMaxBytes);
     markLifecycleState e p LifecycleStateFailed (truncate (errMsg x) lifecycleMessageMaxBytes)
   }"

section \<open>Addresses\<close>

definition setVMIP :: "env \<Rightarrow> string \<Rightarrow> string \<Rightarrow> string \<Rightarrow> string \<Rightarrow> bool act" where
  "setVMIP e ns name vmID ip = do {
     r \<leftarrow> locked e (updateTrackedVM (mPodKey (lib e) ns name) vmID (\<lambda>v. v\<lparr>vIP := ip\<rparr>));
     State_Monad.return (r \<noteq> None)
   }"

definition primaryStatic :: "vm \<Rightarrow> bool" where
  "primaryStatic v = (case vNetworkConfigs v of [] \<Rightarrow> False | nc # _ \<Rightarrow> isStaticNIC nc)"

definition resolveVMIP :: "env \<Rightarrow> string \<Rightarrow> string \<Rightarrow> vmptr \<Rightarrow> string act" where
  "resolveVMIP e ns name v =
     (if primaryStatic (vpVM v) then State_Monad.return (vIP (vpVM v))
      else if vMAC (vpVM v) = [] \<or> \<not> cfgLeaseParser (cfg e) then State_Monad.return (vIP (vpVM v))
      else do {
        r \<leftarrow> lookupByMAC e (vMAC (vpVM v));
        (let known = (case r of Inr _ \<Rightarrow> True | Inl x \<Rightarrow> errIs x ErrNoLease);
             ip = (case r of Inr a \<Rightarrow> a | Inl _ \<Rightarrow> [])
         in if \<not> known then State_Monad.return (vIP (vpVM v))
            else if ip = vIP (vpVM v) then State_Monad.return (vIP (vpVM v))
            else do {
              ok \<leftarrow> setVMIP e ns name (vpID v) ip;
              State_Monad.return (if ok then ip else [])
            })
      })"

text \<open>\<open>seedLeaseIP\<close> runs on a VM that is not published yet.\<close>

definition seedLeaseIP :: "env \<Rightarrow> vm \<Rightarrow> vm act" where
  "seedLeaseIP e v =
     (if vIP v \<noteq> [] \<or> vMAC v = [] \<or> \<not> cfgLeaseParser (cfg e) then State_Monad.return v
      else do {
        r \<leftarrow> lookupByMAC e (vMAC v);
        State_Monad.return (case r of Inr ip \<Rightarrow> v\<lparr>vIP := ip\<rparr> | Inl _ \<Rightarrow> v)
      })"

section \<open>Pod status\<close>

definition runningStatus :: "bool \<Rightarrow> string \<Rightarrow> string \<Rightarrow> int option \<Rightarrow> int \<Rightarrow> pod_status" where
  "runningStatus ready message ip start now =
     \<lparr>stPhase = PodRunning, stPodIP = ip, stStartTime = start,
      stConditions =
        [\<lparr>cnType = ''Ready'', cnStatus = (if ready then ''True'' else ''False''),
          cnMessage = message, cnTransition = now\<rparr>,
         \<lparr>cnType = ''Initialized'', cnStatus = ''True'', cnMessage = [], cnTransition = now\<rparr>],
      stContainers =
        [\<lparr>csName = containerName, csReady = ready, csRunning = Some now, csWaiting = False,
          csTerminated = None\<rparr>]\<rparr>"

definition GetPodStatus :: "env \<Rightarrow> string \<Rightarrow> string \<Rightarrow> (err + pod_status) act" where
  "GetPodStatus e ns name = do {
     r \<leftarrow> GetPod e ns name;
     (case r of
        Inl x \<Rightarrow> State_Monad.return (Inl x)
      | Inr p \<Rightarrow> do {
          v \<leftarrow> vmForPod e ns name;
          (case v of
             None \<Rightarrow> do {
               start \<leftarrow> peek (\<lambda>s. stStartTime (pStatus (podAt s p)));
               State_Monad.return (Inr (zeroStatus\<lparr>stPhase := PodPending, stStartTime := start\<rparr>))
             }
           | Some v \<Rightarrow> do {
               ip \<leftarrow> resolveVMIP e ns name v;
               lcReady \<leftarrow> peek (\<lambda>s. mReadLifecycleState (lib e) (podAt s p) = LifecycleStateReady);
               probe \<leftarrow> reading e (\<lambda>s. if cfgProbes (cfg e)
                 then mgrGet (mPodKey (lib e) ns name) (probes s)
                 else mgrGet [] NewManager);
               now \<leftarrow> timeNow e;
               start \<leftarrow> peek (\<lambda>s. stStartTime (pStatus (podAt s p)));
               State_Monad.return (Inr (runningStatus (prReady probe \<and> lcReady) (prMessage probe)
                 ip start now))
             })
        })
   }"

definition publishPodStatus :: "env \<Rightarrow> podptr \<Rightarrow> err option act" where
  "publishPodStatus e p =
     (if \<not> cfgClientset (cfg e) then State_Monad.return None
      else do {
        st \<leftarrow> reading e (\<lambda>s. pStatus (podAt s p));
        patchWithRetry e (kubeStatusPatch e (ptNamespace p) (ptName p) (ptUID p) st)
      })"

definition refreshStatus :: "env \<Rightarrow> podptr \<Rightarrow> unit act" where
  "refreshStatus e p = do {
     r \<leftarrow> GetPodStatus e (ptNamespace p) (ptName p);
     (case r of
        Inl _ \<Rightarrow> State_Monad.return ()
      | Inr st \<Rightarrow> writing e (setStatus p (\<lambda>_. st)))
   }"

text \<open>\<open>notify\<close> hands the framework a stamped copy.\<close>

definition notify :: "env \<Rightarrow> podptr \<Rightarrow> unit act" where
  "notify e p = do {
     handoff \<leftarrow> locked e (\<lambda>s. let (q, t) = deepCopy p s; u = stampLifecycleIntentLocked e q t
                            in ((notifyHook s, podAt u q), u));
     (if fst handoff
      then do { _ \<leftarrow> ext (\<lambda>_. ()) (\<lambda>_. ENotify (podKey e p) (snd handoff)); State_Monad.return () }
      else State_Monad.return ())
   }"

definition refreshAndNotify :: "env \<Rightarrow> podptr \<Rightarrow> unit act" where
  "refreshAndNotify e p = do { _ \<leftarrow> refreshStatus e p; notify e p }"

section \<open>Ready\<close>

definition publishReadyLifecycle :: "env \<Rightarrow> podptr \<Rightarrow> lifecycle_status \<Rightarrow> unit act" where
  "publishReadyLifecycle e p status = do {
     _ \<leftarrow> refreshStatus e p;
     r \<leftarrow> publishPodStatus e p;
     (if r \<noteq> None then State_Monad.return ()
      else do {
        _ \<leftarrow> flushLifecycle e (ptNamespace p) (ptName p) (ptUID p) status;
        notify e p
      })
   }"

definition markReadyPublished :: "env \<Rightarrow> podptr \<Rightarrow> unit act" where
  "markReadyPublished e p = do {
     r \<leftarrow> setLifecycleState e p LifecycleStateReady [];
     (if \<not> snd r then refreshAndNotify e p else publishReadyLifecycle e p (fst r))
   }"

text \<open>The work of \<open>reconcileAllLifecycle\<close> on one drifted intent; the drift is an intent whose last
  flushed snapshot is not its current one.\<close>

definition lifecycleDrifted :: "env \<Rightarrow> lifecycle_entry \<Rightarrow> bool" where
  "lifecycleDrifted e c \<longleftrightarrow> leFlushed c \<noteq> mStatusSnapshot (lib e) (leStatus c)"

definition reconcileLifecycleDrift ::
  "env \<Rightarrow> string \<Rightarrow> string \<Rightarrow> string \<Rightarrow> lifecycle_status \<Rightarrow> unit act" where
  "reconcileLifecycleDrift e ns name uid status =
     (if lsState status \<noteq> LifecycleStateReady then flushLifecycle e ns name uid status
      else do {
        r \<leftarrow> GetPod e ns name;
        (case r of
           Inr p \<Rightarrow> publishReadyLifecycle e p status
         | Inl _ \<Rightarrow> flushLifecycle e ns name uid status)
      })"

end
