(* ===== verification/Delete.thy ===== *)
theory Delete
  imports Lifecycle
begin

text \<open>
  Snapshots of a running VM (\<open>snapshot.go\<close>) and pod deletion (\<open>delete.go\<close>, and \<open>deleteMacosPod\<close> of
  \<open>macos.go\<close>). The two snapshot removals of \<open>removeLocalSnapshots\<close> run concurrently in the source and
  are sequenced here; neither reads what the other writes. JSON decoding of a cocoon-macos record is
  the parameter \<open>mUnmarshalMacos\<close>.
\<close>

section \<open>Snapshots\<close>

definition forkSnapshotName :: "string \<Rightarrow> string" where
  "forkSnapshotName source = ''fork-'' @ source"

definition removeSnapshotDetached :: "env \<Rightarrow> string \<Rightarrow> unit act" where
  "removeSnapshotDetached e name = do { _ \<leftarrow> rtSnapshotRemove e name; State_Monad.return () }"

definition removeLocalSnapshots :: "env \<Rightarrow> string \<Rightarrow> unit act" where
  "removeLocalSnapshots e vmName =
     (if vmName = [] then State_Monad.return ()
      else do {
        _ \<leftarrow> removeSnapshotDetached e vmName;
        removeSnapshotDetached e (forkSnapshotName vmName)
      })"

definition snapshotAnnotations :: "env \<Rightarrow> podptr \<Rightarrow> annots act" where
  "snapshotAnnotations e p = peek (\<lambda>s. mReadSnapshotAnnotations (lib e) (podAt s p))"

definition saveAndPush ::
  "env \<Rightarrow> podptr \<Rightarrow> string \<Rightarrow> string \<Rightarrow> string \<Rightarrow> string \<Rightarrow> string \<Rightarrow> err option act" where
  "saveAndPush e p vmID localName repo tag img = do {
     r \<leftarrow> rtSnapshotSave e localName vmID;
     (case r of
        Some x \<Rightarrow> State_Monad.return (Some (wrapErr (''save snapshot '' @ localName @ '': '') x []))
      | None \<Rightarrow> do {
          an \<leftarrow> snapshotAnnotations e p;
          r \<leftarrow> pushSnapshot e localName repo tag img an;
          State_Monad.return (map_option (\<lambda>x. wrapErr (''push snapshot '' @ localName @ '': '') x []) r)
        })
   }"

definition saveAndPushSnapshot ::
  "env \<Rightarrow> podptr \<Rightarrow> vmptr \<Rightarrow> string \<Rightarrow> string \<Rightarrow> err option act" where
  "saveAndPushSnapshot e p v tag img = do {
     r \<leftarrow> rtInspect e (vpID v);
     (case r of
        Inl x \<Rightarrow>
          State_Monad.return (if errIs x ErrVMNotFound then None
            else Some (wrapErr (''inspect vm '' @ vpID v @ '': '') x []))
      | Inr current \<Rightarrow>
          if vState current \<noteq> StateRunning then State_Monad.return None
          else saveAndPush e p (vpID v) (vpName v) [] tag img)
   }"

definition lifecycleCreating :: "env \<Rightarrow> pod \<Rightarrow> bool" where
  "lifecycleCreating e pd \<longleftrightarrow>
     mReadLifecycleState (lib e) pd = LifecycleStateCreating \<or>
     mReadLifecycleState (lib e) pd = LifecycleStateEmpty"

definition answerSnapshot :: "env \<Rightarrow> podptr \<Rightarrow> string \<Rightarrow> err option \<Rightarrow> err option act" where
  "answerSnapshot e p ref snapErr = do {
     _ \<leftarrow> (case snapErr of
            None \<Rightarrow> State_Monad.return ()
          | Some x \<Rightarrow> emitEvent True ''SnapshotFailed''
              (truncate (''snapshot to '' @ ref @ '': '' @ errMsg x) eventMessageMaxBytes));
     (let annos = (case snapErr of
            None \<Rightarrow> mSnapshotStatusAnnotations (lib e) ref SnapshotStatePushed []
          | Some x \<Rightarrow> mSnapshotStatusAnnotations (lib e) ref SnapshotStateFailed
              (truncate (errMsg x) lifecycleMessageMaxBytes))
      in do {
        r \<leftarrow> patchWithRetry e
          (patchIncarnationAnnotations e (ptNamespace p) (ptName p) (ptUID p) annos);
        State_Monad.return (if patchSuperseded r then None else r)
      })
   }"

definition errSnapshotBeforeReady :: err where
  "errSnapshotBeforeReady =
     Err [ErrSnapshotBeforeReady] ''snapshot request waits for the vm to be ready''"

definition snapshotOp :: "env \<Rightarrow> podptr \<Rightarrow> vm_spec \<Rightarrow> vmptr \<Rightarrow> string \<Rightarrow> err option act" where
  "snapshotOp e p spec v ref = do {
     creating \<leftarrow> peek (\<lambda>s. lifecycleCreating e (podAt s p));
     (if creating then State_Monad.return (Some errSnapshotBeforeReady)
      else (let localName = ''snap-'' @ vpName v; (repo, tag) = mParseRef (lib e) ref in do {
        r \<leftarrow> saveAndPush e p (vpID v) localName repo tag (vsImage spec);
        _ \<leftarrow> removeSnapshotDetached e localName;
        answerSnapshot e p ref r
      }))
   }"

section \<open>Removing a VM\<close>

definition dhcpMACs :: "vm \<Rightarrow> string list" where
  "dhcpMACs v =
     (if vNetworkConfigs v = []
      then (if trimSpace (vMAC v) \<noteq> [] then [trimSpace (vMAC v)] else [])
      else map (\<lambda>nic. trimSpace (ncMAC nic))
             (filter (\<lambda>nic. \<not> (trimSpace (ncMAC nic) = [] \<or> isStaticNIC nic)) (vNetworkConfigs v)))"

fun releaseMACs :: "env \<Rightarrow> string list \<Rightarrow> unit act" where
  "releaseMACs e [] = State_Monad.return ()"
| "releaseMACs e (mac # macs) = do { _ \<leftarrow> releaseByMAC e mac; releaseMACs e macs }"

definition releaseDHCPLeases :: "env \<Rightarrow> vm \<Rightarrow> unit act" where
  "releaseDHCPLeases e v =
     (if \<not> cfgLeaseReleaser (cfg e) then State_Monad.return () else releaseMACs e (dhcpMACs v))"

definition removeVM :: "env \<Rightarrow> vm \<Rightarrow> err option act" where
  "removeVM e v = do {
     r \<leftarrow> rtRemove e (vID v);
     (case r of
        Some x \<Rightarrow> if errIs x ErrVMNotFound
          then do { _ \<leftarrow> releaseDHCPLeases e v; State_Monad.return None }
          else State_Monad.return (Some x)
      | None \<Rightarrow> do { _ \<leftarrow> releaseDHCPLeases e v; State_Monad.return None })
   }"

definition forgetProbe :: "env \<Rightarrow> string \<Rightarrow> unit act" where
  "forgetProbe e key =
     (if cfgProbes (cfg e) then writing e (\<lambda>s. s\<lparr>probes := mgrForget key (probes s)\<rparr>)
      else State_Monad.return ())"

definition forgetPod :: "env \<Rightarrow> string \<Rightarrow> string \<Rightarrow> unit act" where
  "forgetPod e ns name = do {
     _ \<leftarrow> writing e (untrackLocked (mPodKey (lib e) ns name));
     forgetProbe e (mPodKey (lib e) ns name)
   }"

definition backoffIfResuming :: "env \<Rightarrow> string \<Rightarrow> string \<Rightarrow> err option act" where
  "backoffIfResuming e ns name = do {
     held \<leftarrow> reading e (\<lambda>s. mPodKey (lib e) ns name \<in> resumedOps s);
     State_Monad.return (if held
       then Some (newErr (''resumed operation still in flight for '' @ mPodKey (lib e) ns name))
       else None)
   }"

definition errDeleteInFlight :: "podptr \<Rightarrow> err" where
  "errDeleteInFlight p = newErr (''delete operation still in flight for pod ''
     @ ptNamespace p @ ''/'' @ ptName p)"

text \<open>\<open>fmt.Errorf("%w: ... %w", ErrDeleteKeptVM, err)\<close>: both errors stay in the chain.\<close>

definition keptVMErr :: "string \<Rightarrow> err \<Rightarrow> string \<Rightarrow> err" where
  "keptVMErr pre x post =
     Err (ErrDeleteKeptVM # errKinds x) (''vm kept for the delete retry: '' @ pre @ errMsg x @ post)"

section \<open>cocoon-macos guests\<close>

definition macosVMID :: "string \<Rightarrow> string" where
  "macosVMID vmName = macosHypervisor @ ''-'' @ vmName"

definition macosVMMissing :: "string \<Rightarrow> bool" where
  "macosVMMissing out \<longleftrightarrow>
     containsStr (toLower out) ''not found'' \<or> containsStr (toLower out) ''no such''"

definition macosInspect :: "env \<Rightarrow> string \<Rightarrow> macos_record option act" where
  "macosInspect e vmName = do {
     r \<leftarrow> macosExec e [''vm'', ''inspect'', vmName];
     State_Monad.return
       (if snd r \<noteq> None then None
        else (case mUnmarshalMacos (lib e) (fst r) of
                None \<Rightarrow> None
              | Some rc \<Rightarrow> if trimSpace (mrName rc) = [] then None else Some rc))
   }"

definition applyMacosRecord :: "macos_record option \<Rightarrow> vm \<Rightarrow> vm" where
  "applyMacosRecord rc v =
     (case rc of
        None \<Rightarrow> v
      | Some r \<Rightarrow>
          (let u = v\<lparr>vPID := mrPID r, vMAC := mrMAC r, vDiskPath := mrDisk r\<rparr> in
           if mrTap r \<noteq> []
           then u\<lparr>vNetworkConfigs := [\<lparr>ncTap = mrTap r, ncMAC = mrMAC r, ncNetwork = None\<rparr>]\<rparr>
           else u))"

definition zeroVM :: vm where
  "zeroVM = \<lparr>vID = [], vName = [], vHypervisor = [], vState = [], vIP = [], vMAC = [], vPID = 0,
     vDiskPath = [], vNetworkConfigs = []\<rparr>"

definition succeedAndNotify :: "env \<Rightarrow> podptr \<Rightarrow> unit act" where
  "succeedAndNotify e p = do {
     _ \<leftarrow> State (\<lambda>s. ((), setStatus p (\<lambda>st. st\<lparr>stPhase := PodSucceeded\<rparr>) s));
     notify e p
   }"

text \<open>The part of \<open>deleteMacosPod\<close> once the name of the guest is known.\<close>

definition removeMacosGuest :: "env \<Rightarrow> podptr \<Rightarrow> string \<Rightarrow> vm \<Rightarrow> err option act" where
  "removeMacosGuest e p vmName v = do {
     _ \<leftarrow> forgetProbe e (podKey e p);
     r \<leftarrow> macosExec e [''vm'', ''rm'', vmName];
     (case snd r of
        Some x \<Rightarrow>
          if \<not> macosVMMissing (fst r)
          then State_Monad.return (Some (keptVMErr (''cocoon-macos vm rm '' @ vmName @ '': '') x
                 ('': '' @ trimSpace (fst r))))
          else do {
            _ \<leftarrow> releaseDHCPLeases e v;
            _ \<leftarrow> forgetPod e (ptNamespace p) (ptName p);
            _ \<leftarrow> succeedAndNotify e p;
            State_Monad.return None
          }
      | None \<Rightarrow> do {
          _ \<leftarrow> releaseDHCPLeases e v;
          _ \<leftarrow> forgetPod e (ptNamespace p) (ptName p);
          _ \<leftarrow> succeedAndNotify e p;
          State_Monad.return None
        })
   }"

definition deleteMacosPod :: "env \<Rightarrow> podptr \<Rightarrow> vm_spec \<Rightarrow> err option act" where
  "deleteMacosPod e p spec = do {
     v \<leftarrow> vmForPod e (ptNamespace p) (ptName p);
     (let vmName = (case v of
            None \<Rightarrow> vsVMName spec
          | Some v \<Rightarrow> if vpName v \<noteq> [] then vpName v else vsVMName spec)
      in if vmName = []
         then do { _ \<leftarrow> forgetPod e (ptNamespace p) (ptName p); State_Monad.return None }
         else (case v of
                 Some v \<Rightarrow> removeMacosGuest e p vmName (vpVM v)
               | None \<Rightarrow> do {
                   rc \<leftarrow> macosInspect e vmName;
                   removeMacosGuest e p vmName (applyMacosRecord rc (zeroVM\<lparr>vID := macosVMID vmName\<rparr>))
                 }))
   }"

section \<open>Deleting a pod\<close>

text \<open>The end of \<open>deletePod\<close>: remove the VM, then its local snapshots, then the record.\<close>

definition removeAndForget :: "env \<Rightarrow> podptr \<Rightarrow> vmptr \<Rightarrow> bool \<Rightarrow> err option act" where
  "removeAndForget e p v keep = do {
     r \<leftarrow> removeVM e (vpVM v);
     (case r of
        Some x \<Rightarrow> State_Monad.return (Some (keptVMErr (''remove vm '' @ vpID v @ '': '') x []))
      | None \<Rightarrow> do {
          _ \<leftarrow> (if keep then State_Monad.return () else removeLocalSnapshots e (vpName v));
          _ \<leftarrow> forgetPod e (ptNamespace p) (ptName p);
          _ \<leftarrow> succeedAndNotify e p;
          State_Monad.return None
        })
   }"

definition deleteManagedPod :: "env \<Rightarrow> podptr \<Rightarrow> vm_spec \<Rightarrow> bool \<Rightarrow> err option act" where
  "deleteManagedPod e p spec keep = do {
     v \<leftarrow> vmForPod e (ptNamespace p) (ptName p);
     (case v of
        None \<Rightarrow> do {
          _ \<leftarrow> (if keep then State_Monad.return () else removeLocalSnapshots e (vsVMName spec));
          _ \<leftarrow> forgetPod e (ptNamespace p) (ptName p);
          State_Monad.return None
        }
      | Some v \<Rightarrow> do {
          wanted \<leftarrow> peek (\<lambda>s. mShouldSnapshotVM (lib e) spec
            (mRoleForPod (lib e) (podAt s p) (vsVMName spec)));
          (if wanted \<and> cfgPusher (cfg e) \<and> vpName v \<noteq> []
           then do {
             r \<leftarrow> saveAndPushSnapshot e p v (DefaultSnapshotTag (konst e)) (vsImage spec);
             (case r of
                Some x \<Rightarrow> State_Monad.return
                  (Some (keptVMErr (''snapshot vm '' @ vpID v @ '' before delete: '') x []))
              | None \<Rightarrow> removeAndForget e p v keep)
           }
           else removeAndForget e p v keep)
        })
   }"

definition deletePodClaimed :: "env \<Rightarrow> podptr \<Rightarrow> err option act" where
  "deletePodClaimed e p = do {
     busy \<leftarrow> backoffIfResuming e (ptNamespace p) (ptName p);
     (case busy of
        Some x \<Rightarrow> State_Monad.return (Some x)
      | None \<Rightarrow> do {
          spec \<leftarrow> peek (\<lambda>s. mParseVMSpec (lib e) (podAt s p));
          (if isMacosSpec e spec then deleteMacosPod e p spec
           else do {
             keep \<leftarrow> peek (\<lambda>s. mReadKeepSnapshotOnDelete (lib e) (podAt s p));
             (if \<not> vsManaged spec
              then do { _ \<leftarrow> forgetPod e (ptNamespace p) (ptName p); State_Monad.return None }
              else deleteManagedPod e p spec keep)
           })
        })
   }"

definition deletePod :: "env \<Rightarrow> podptr \<Rightarrow> err option act" where
  "deletePod e p = do {
     c \<leftarrow> locked e (claimDeletingLocked (podKey e p) (ptUID p));
     (case c of
        deleteSuperseded \<Rightarrow> State_Monad.return None
      | deleteInFlight \<Rightarrow> State_Monad.return (Some (errDeleteInFlight p))
      | deleteClaimed \<Rightarrow>
          deferring (deletePodClaimed e p) (writing e (finishDeletingLocked (podKey e p))))
   }"

text \<open>\<open>DeletePod\<close> takes the pod's mutex first; waiting for it is a point where others run.\<close>

definition podLock :: "env \<Rightarrow> string \<Rightarrow> unit act" where
  "podLock e key = do {
     _ \<leftarrow> writing e (\<lambda>s. s\<lparr>podLocks := insert key (podLocks s)\<rparr>);
     yield e
   }"

definition DeletePod :: "env \<Rightarrow> podptr \<Rightarrow> err option act" where
  "DeletePod e p = do { _ \<leftarrow> podLock e (podKey e p); deletePod e p }"

end
