(* ===== verification/Events.thy ===== *)
theory Events
  imports Delete
begin

text \<open>
  VM events and eviction (\<open>provider.go\<close>) and the queue of failed operations (\<open>retry.go\<close>): a VM that
  stops or disappears is re-inspected before anything is done to its pod.

  The deferred recheck repeats until the VM's state is known, which may never happen; it is
  \<open>recheckLoop\<close> with the number of rounds as a bound, each round being \<open>recheckRound\<close>.
\<close>

section \<open>Retry queue\<close>

definition second :: int where "second = 10 ^ 9"
definition opRetryBaseDelay :: int where "opRetryBaseDelay = 15 * second"
definition opRetryMaxDelay :: int where "opRetryMaxDelay = 5 * 60 * second"

definition opRetryDelay :: "int \<Rightarrow> int" where
  "opRetryDelay prev = orInt (min (prev * 2) opRetryMaxDelay) opRetryBaseDelay"

definition retryOpLater :: "env \<Rightarrow> podptr \<Rightarrow> int \<Rightarrow> unit act" where
  "retryOpLater e p prev = do {
     now \<leftarrow> timeNow e;
     writing e (retryOpLaterLocked (podKey e p) (ptUID p)
       \<lparr>orDelay = opRetryDelay prev, orDue = now + opRetryDelay prev\<rparr>)
   }"

definition opDue :: "int \<Rightarrow> op_retry \<Rightarrow> bool" where
  "opDue now r \<longleftrightarrow> \<not> now < orDue r"

fun spawnRetries :: "env \<Rightarrow> string list \<Rightarrow> unit act" where
  "spawnRetries e [] = State_Monad.return ()"
| "spawnRetries e (key # keys) = do {
     _ \<leftarrow> writing e (goBackgroundLocked (JobRetryOp key));
     spawnRetries e keys
   }"

text \<open>\<open>retryDueOps\<close>: \<open>keys\<close> are the keys of the retry table in the order the range over it took.\<close>

definition retryDueOps :: "env \<Rightarrow> string list \<Rightarrow> unit act" where
  "retryDueOps e keys = do {
     now \<leftarrow> timeNow e;
     due \<leftarrow> reading e (\<lambda>s. filter
       (\<lambda>key. case opRetries s key of None \<Rightarrow> False | Some r \<Rightarrow> opDue now r) keys);
     spawnRetries e due
   }"

section \<open>Eviction\<close>

definition restartCooldown :: int where "restartCooldown = 30 * second"
definition evictDeleteAttempts :: nat where "evictDeleteAttempts = 2"
definition evictDeleteBaseDelay :: int where "evictDeleteBaseDelay = 200 * 10 ^ 6"
definition inlineInspectAttempts :: nat where "inlineInspectAttempts = 2"
definition defaultInlineInspectBaseDelay :: int where "defaultInlineInspectBaseDelay = 200 * 10 ^ 6"

fun inspectLoop :: "env \<Rightarrow> nat \<Rightarrow> int \<Rightarrow> int \<Rightarrow> string \<Rightarrow> (err + vm) act" where
  "inspectLoop e 0 i base vmID = State_Monad.return (Inl (newErr []))"
| "inspectLoop e (Suc n) i base vmID = do {
     r \<leftarrow> rtInspect e vmID;
     (case r of
        Inr v \<Rightarrow> State_Monad.return (Inr v)
      | Inl x \<Rightarrow>
          if errIs x ErrVMNotFound \<or> n = 0 then State_Monad.return (Inl x)
          else do {
            z \<leftarrow> sleepCtx e ((i + 1) * base);
            (case z of
               Some c \<Rightarrow> State_Monad.return (Inl c)
             | None \<Rightarrow> inspectLoop e n (i + 1) base vmID)
          })
   }"

definition inspectWithRetry :: "env \<Rightarrow> string \<Rightarrow> (err + vm) act" where
  "inspectWithRetry e vmID = inspectLoop e inlineInspectAttempts 0
     (orInt (cfgInlineInspectBaseDelay (cfg e)) defaultInlineInspectBaseDelay) vmID"

fun deleteLoop :: "env \<Rightarrow> nat \<Rightarrow> int \<Rightarrow> podptr \<Rightarrow> err option act" where
  "deleteLoop e 0 i p = State_Monad.return None"
| "deleteLoop e (Suc n) i p = do {
     r \<leftarrow> kubeDelete e (ptNamespace p) (ptName p) (ptUID p);
     (case r of
        None \<Rightarrow> State_Monad.return None
      | Some x \<Rightarrow>
          if errIs x ApiNotFound then State_Monad.return None
          else if errIs x ApiConflict \<or> n = 0 then State_Monad.return (Some x)
          else do {
            z \<leftarrow> sleepCtx e ((i + 1) * evictDeleteBaseDelay);
            (case z of
               Some c \<Rightarrow> State_Monad.return (Some c)
             | None \<Rightarrow> deleteLoop e n (i + 1) p)
          })
   }"

definition deletePodWithRetry :: "env \<Rightarrow> podptr \<Rightarrow> err option act" where
  "deletePodWithRetry e p = deleteLoop e evictDeleteAttempts 0 p"

definition untrackIncarnation :: "env \<Rightarrow> string \<Rightarrow> string \<Rightarrow> unit act" where
  "untrackIncarnation e key uid = do {
     dropped \<leftarrow> locked e (untrackIncarnationLocked key uid);
     (if dropped then forgetProbe e key else State_Monad.return ())
   }"

definition evictedStatus :: "string \<Rightarrow> string \<Rightarrow> pod_status \<Rightarrow> pod_status" where
  "evictedStatus reason message st =
     st\<lparr>stPhase := PodFailed, stContainers :=
       [\<lparr>csName = containerName, csReady = False, csRunning = None, csWaiting = False,
         csTerminated = Some (1, reason, message)\<rparr>]\<rparr>"

text \<open>The pod of an eviction is a private copy, written without the lock.\<close>

definition evictPod :: "env \<Rightarrow> string \<Rightarrow> podptr \<Rightarrow> string \<Rightarrow> string \<Rightarrow> unit act" where
  "evictPod e key p reason message = do {
     r \<leftarrow> deletePodWithRetry e p;
     (case r of
        Some x \<Rightarrow>
          if errIs x ApiConflict then untrackIncarnation e key (ptUID p)
          else State_Monad.return ()
      | None \<Rightarrow> do {
          _ \<leftarrow> untrackIncarnation e key (ptUID p);
          _ \<leftarrow> State (\<lambda>s. ((), setStatus p (evictedStatus reason message) s));
          notify e p
        })
   }"

definition scheduleDeferredRecheck :: "env \<Rightarrow> string \<Rightarrow> unit act" where
  "scheduleDeferredRecheck e vmID = do {
     _ \<leftarrow> locked e (scheduleDeferredRecheckLocked vmID);
     State_Monad.return ()
   }"

definition removeThenEvict ::
  "env \<Rightarrow> vm \<Rightarrow> string \<Rightarrow> podptr \<Rightarrow> string \<Rightarrow> string \<Rightarrow> bool act" where
  "removeThenEvict e v key p reason message = do {
     ok \<leftarrow> locked e (claimDeletingIncarnationLocked key (ptUID p) (vID v));
     (if \<not> ok then State_Monad.return False
      else deferring (do {
        r \<leftarrow> removeVM e v;
        (case r of
           Some _ \<Rightarrow> State_Monad.return False
         | None \<Rightarrow> do {
             _ \<leftarrow> evictPod e key p reason message;
             still \<leftarrow> trackedPodMatches e key (ptUID p);
             (if still then do { _ \<leftarrow> scheduleDeferredRecheck e (vID v); State_Monad.return True }
              else State_Monad.return False)
           })
      }) (writing e (finishDeletingLocked key)))
   }"

definition evictGoneIncarnation ::
  "env \<Rightarrow> string \<Rightarrow> podptr \<Rightarrow> vm \<Rightarrow> string \<Rightarrow> string \<Rightarrow> unit act" where
  "evictGoneIncarnation e key p v reason message = do {
     ok \<leftarrow> locked e (claimDeletingIncarnationLocked key (ptUID p) (vID v));
     (if \<not> ok then State_Monad.return ()
      else deferring (do {
        _ \<leftarrow> releaseDHCPLeases e v;
        evictPod e key p reason message
      }) (writing e (finishDeletingLocked key)))
   }"

section \<open>Lifting a hibernate failure\<close>

definition liftHibernateFailure :: "env \<Rightarrow> podptr \<Rightarrow> (err + bool) act" where
  "liftHibernateFailure e p = do {
     v \<leftarrow> reading e (hibernateFailedVMLocked (podKey e p) (ptUID p));
     (case v of
        None \<Rightarrow> State_Monad.return (Inr False)
      | Some v \<Rightarrow>
          (let lift = do {
             r \<leftarrow> locked e (\<lambda>s.
               if hibernateFailedVMLocked (podKey e p) (ptUID p) s = None then (None, s)
               else (let (r, t) = applyLifecycleLocked e p LifecycleStateCreating [] s in (Some r, t)));
             (case r of
                None \<Rightarrow> State_Monad.return (Inr False)
              | Some r \<Rightarrow> do {
                  _ \<leftarrow> (if snd r then flushLifecycle e (ptNamespace p) (ptName p) (ptUID p) (fst r)
                        else State_Monad.return ());
                  State_Monad.return (Inr True)
                })
           }
           in if isMacosVM (Some v) then lift
              else do {
                live \<leftarrow> rtInspect e (vpID v);
                (case live of
                   Inl x \<Rightarrow>
                     if errIs x ErrVMNotFound then State_Monad.return (Inr False)
                     else State_Monad.return (Inl (wrapErr
                       (''inspect vm '' @ vpID v @ '' before lifting its hibernate failure: '') x []))
                 | Inr live \<Rightarrow>
                     if vState live \<noteq> StateRunning then State_Monad.return (Inr False) else lift)
              }))
   }"

definition liftClearedHibernateFailure :: "env \<Rightarrow> podptr \<Rightarrow> unit act" where
  "liftClearedHibernateFailure e p = do {
     hib \<leftarrow> peek (\<lambda>s. mReadHibernateState (lib e) (podAt s p));
     (if hib then State_Monad.return ()
      else do {
        r \<leftarrow> liftHibernateFailure e p;
        (case r of
           Inl _ \<Rightarrow> retryOpLater e p 0
         | Inr lifted \<Rightarrow> if lifted then markReadyPublished e p else State_Monad.return ())
      })
   }"

section \<open>VM events\<close>

text \<open>\<open>podForVMMatch\<close>: a tracked pod whose VM has the id, or the name when one is given.\<close>

definition vmMatches :: "string \<Rightarrow> string \<Rightarrow> string \<Rightarrow> prov \<Rightarrow> bool" where
  "vmMatches i name key s =
     (case (vmsByPod s key, pods s key) of
        (Some v, Some _) \<Rightarrow>
          \<not> isMacosVM (Some v) \<and> (vpID v = i \<or> (name \<noteq> [] \<and> vpName v = name))
      | _ \<Rightarrow> False)"

definition podForVMMatch :: "env \<Rightarrow> string \<Rightarrow> string \<Rightarrow> (string \<times> podptr \<times> vmptr) option act" where
  "podForVMMatch e i name = do {
     k \<leftarrow> pickMatch e i name;
     (case k of
        None \<Rightarrow> State_Monad.return None
      | Some key \<Rightarrow> locked e (\<lambda>s.
          if \<not> vmMatches i name key s then (None, s)
          else (let (q, t) = deepCopy (the (pods s key)) s
                in (Some (key, q, the (vmsByPod s key)), t))))
   }"

definition takeRestart :: "int \<Rightarrow> int \<Rightarrow> string \<Rightarrow> prov \<Rightarrow> bool \<times> prov" where
  "takeRestart since now vmID s =
     (let elapsed = (case lastRestart s vmID of None \<Rightarrow> True | Some l \<Rightarrow> restartCooldown \<le> since - l)
      in (elapsed, if elapsed then s\<lparr>lastRestart := (lastRestart s)(vmID \<mapsto> now)\<rparr> else s))"

text \<open>The last branch of \<open>handleVMGone\<close>: the VM exists and is not running.\<close>

definition restartOrEvict :: "env \<Rightarrow> string \<Rightarrow> podptr \<Rightarrow> string \<Rightarrow> vm \<Rightarrow> bool act" where
  "restartOrEvict e key p vmID inspected = do {
     since \<leftarrow> timeNow e;
     now \<leftarrow> timeNow e;
     elapsed \<leftarrow> locked e (takeRestart since now vmID);
     (if \<not> elapsed
      then removeThenEvict e inspected key p ''RestartCooldown'' ''restart cooldown not elapsed''
      else do {
        r \<leftarrow> rtStart e vmID;
        (case r of
           Some x \<Rightarrow> removeThenEvict e inspected key p ''RestartFailed'' (errMsg x)
         | None \<Rightarrow> do {
             fresh \<leftarrow> rtInspect e vmID;
             _ \<leftarrow> (case fresh of
                    Inl _ \<Rightarrow> State_Monad.return ()
                  | Inr f \<Rightarrow> do {
                      _ \<leftarrow> locked e (updateTrackedVM (podKey e p) vmID
                        (\<lambda>v. v\<lparr>vPID := vPID f, vNetworkConfigs := vNetworkConfigs f\<rparr>));
                      State_Monad.return ()
                    });
             _ \<leftarrow> liftClearedHibernateFailure e p;
             State_Monad.return False
           })
      })
   }"

definition handleVMGone :: "env \<Rightarrow> vm \<Rightarrow> bool act" where
  "handleVMGone e ev = do {
     m \<leftarrow> podForVMMatch e (vID ev) (vName ev);
     (case m of
        None \<Rightarrow> State_Monad.return False
      | Some (key, p, v) \<Rightarrow> do {
          managed \<leftarrow> peek (\<lambda>s. vsManaged (mParseVMSpec (lib e) (podAt s p)));
          (if \<not> managed then State_Monad.return False
           else do {
             busy \<leftarrow> locked e (\<lambda>s.
               (hibernating s key \<noteq> None \<or> key \<in> deleting s,
                if hibernating s key \<noteq> None
                then s\<lparr>hibernating := (hibernating s)(key \<mapsto> True)\<rparr> else s));
             (if busy then State_Monad.return False
              else do {
                r \<leftarrow> inspectWithRetry e (vpID v);
                (case r of
                   Inl x \<Rightarrow>
                     if errIs x ErrVMNotFound
                     then do {
                       _ \<leftarrow> evictGoneIncarnation e key p (vpVM v) ''VMGone'' ''vm no longer exists'';
                       still \<leftarrow> trackedPodMatches e key (ptUID p);
                       (if still
                        then do { _ \<leftarrow> scheduleDeferredRecheck e (vpID v); State_Monad.return True }
                        else State_Monad.return False)
                     }
                     else do { _ \<leftarrow> scheduleDeferredRecheck e (vpID v); State_Monad.return True }
                 | Inr inspected \<Rightarrow>
                     if vState inspected = StateRunning then State_Monad.return False
                     else restartOrEvict e key p (vpID v) inspected)
              })
           })
        })
   }"

text \<open>The event switch of \<open>vmWatchLoop\<close> and its reconnect delay.\<close>

definition handleEvent :: "env \<Rightarrow> string \<Rightarrow> vm \<Rightarrow> unit act" where
  "handleEvent e kind ev =
     (if kind = ''DELETED'' \<or>
         ((kind = ''ADDED'' \<or> kind = ''MODIFIED'') \<and> vState ev \<noteq> StateRunning)
      then do { _ \<leftarrow> handleVMGone e ev; State_Monad.return () }
      else State_Monad.return ())"

definition watchBackoff :: "int \<Rightarrow> int" where
  "watchBackoff d = min (d * 2) (60 * second)"

definition gcStaleRestarts :: "int \<Rightarrow> prov \<Rightarrow> prov" where
  "gcStaleRestarts now s =
     s\<lparr>lastRestart := (\<lambda>i. case lastRestart s i of
         None \<Rightarrow> None
       | Some l \<Rightarrow> if l < now - restartCooldown * 2 then None else Some l)\<rparr>"

section \<open>Deferred recheck\<close>

definition defaultDeferredRecheckInitialDelay :: int where
  "defaultDeferredRecheckInitialDelay = second"
definition defaultDeferredRecheckMaxDelay :: int where "defaultDeferredRecheckMaxDelay = 30 * second"
definition defaultDeferredRecheckBudget :: int where "defaultDeferredRecheckBudget = 30 * 60 * second"

definition recheckBackoff :: "env \<Rightarrow> int \<times> int \<times> int" where
  "recheckBackoff e =
     (orInt (cfgRecheckInitialDelay (cfg e)) defaultDeferredRecheckInitialDelay,
      orInt (cfgRecheckMaxDelay (cfg e)) defaultDeferredRecheckMaxDelay,
      orInt (cfgRecheckBudget (cfg e)) defaultDeferredRecheckBudget)"

text \<open>One round after its sleep; the result says whether to go on.\<close>

definition recheckRound :: "env \<Rightarrow> string \<Rightarrow> int \<Rightarrow> bool act" where
  "recheckRound e vmID deadline = do {
     m \<leftarrow> podForVMMatch e vmID [];
     (case m of
        None \<Rightarrow> State_Monad.return False
      | Some (key, p, v) \<Rightarrow> do {
          r \<leftarrow> rtInspect e vmID;
          (case r of
             Inl x \<Rightarrow>
               if errIs x ErrVMNotFound
               then do {
                 _ \<leftarrow> evictGoneIncarnation e key p (vpVM v) ''VMGone'' ''vm no longer exists'';
                 trackedPodMatches e key (ptUID p)
               }
               else do {
                 now \<leftarrow> timeNow e;
                 (if deadline < now
                  then removeThenEvict e (vpVM v) key p ''VMInspectTimeout''
                         ''vm inspect did not resolve within budget''
                  else State_Monad.return True)
               }
           | Inr u \<Rightarrow>
               if vState u \<noteq> StateRunning then handleVMGone e u else State_Monad.return False)
        })
   }"

text \<open>The result is false when the bound on the rounds was reached.\<close>

fun recheckLoop :: "env \<Rightarrow> nat \<Rightarrow> string \<Rightarrow> int \<Rightarrow> int \<Rightarrow> int \<Rightarrow> bool act" where
  "recheckLoop e 0 vmID delay maxDelay deadline = State_Monad.return False"
| "recheckLoop e (Suc n) vmID delay maxDelay deadline = do {
     z \<leftarrow> sleepCtx e delay;
     (if z \<noteq> None then State_Monad.return True
      else do {
        again \<leftarrow> recheckRound e vmID deadline;
        (if again then recheckLoop e n vmID (min (delay * 2) maxDelay) maxDelay deadline
         else State_Monad.return True)
      })
   }"

definition runDeferredRecheck :: "env \<Rightarrow> nat \<Rightarrow> string \<Rightarrow> bool act" where
  "runDeferredRecheck e rounds vmID =
     (case recheckBackoff e of
        (delay, maxDelay, budget) \<Rightarrow>
          deferring (do {
            now \<leftarrow> timeNow e;
            recheckLoop e rounds vmID delay maxDelay (now + budget)
          }) (writing e (finishRecheckLocked vmID)))"

end
