(* ===== verification/Sources.thy ===== *)
theory Sources
  imports Events
begin

text \<open>
  Where a VM's first state comes from (\<open>create.go\<close>, \<open>update.go\<close>): the CPU policy and clone options of a
  pod, boot images, clone-source and fork snapshots, and the choice of a wake source: a local snapshot
  verified against the registry, the raw files of a peer node, or a registry pull.

  The registry client, the puller and the peer restorer are external calls. A single-flight group
  runs its body in one of its callers; a caller that joined gets the leader's answer.
\<close>

section \<open>Pod resources\<close>

definition cpuPeriod :: int where "cpuPeriod = 100000"
definition minQuotaUs :: int where "minQuotaUs = 1000"
definition minCPUShares :: int where "minCPUShares = 2"
definition maxCPUShares :: int where "maxCPUShares = 262144"

definition zeroQuantity :: quantity where
  "zeroQuantity = \<lparr>qMilliValue = 0, qValue = 0, qIsZero = True, qString = ''0''\<rparr>"

definition selectQuantity ::
  "(string \<rightharpoonup> quantity) \<Rightarrow> (string \<rightharpoonup> quantity) \<Rightarrow> string \<Rightarrow> quantity" where
  "selectQuantity primary fallback name =
     (let usable = (\<lambda>m. case m name of Some q \<Rightarrow> \<not> qIsZero q | None \<Rightarrow> False) in
      if usable primary then the (primary name)
      else if usable fallback then the (fallback name)
      else zeroQuantity)"

text \<open>\<open>int64\<close> arithmetic; the division truncates.\<close>

definition cpuWeightFromMilli :: "int \<Rightarrow> int" where
  "cpuWeightFromMilli milli =
     (let shares = min (max (quot (wrap64 (milli * 1024)) 1000) minCPUShares) maxCPUShares
      in 1 + quot ((shares - minCPUShares) * 9999) (maxCPUShares - minCPUShares))"

definition zeroPolicy :: cpu_policy where
  "zeroPolicy = \<lparr>cpuWeight = 0, cpuQuotaUs = 0, cpuPeriodUs = 0\<rparr>"

definition podCPUPolicy :: "pod_meta \<Rightarrow> cpu_policy" where
  "podCPUPolicy pm =
     (case pmContainers pm of
        [] \<Rightarrow> zeroPolicy
      | res # _ \<Rightarrow>
          (let limit = (case rsLimits res ''cpu'' of None \<Rightarrow> zeroQuantity | Some q \<Rightarrow> q);
               policy = (if qIsZero limit then zeroPolicy
                         else zeroPolicy\<lparr>cpuQuotaUs :=
                                max (quot (wrap64 (qMilliValue limit * cpuPeriod)) 1000) minQuotaUs,
                              cpuPeriodUs := cpuPeriod\<rparr>)
           in policy\<lparr>cpuWeight := cpuWeightFromMilli
                (qMilliValue (selectQuantity (rsRequests res) (rsLimits res) ''cpu''))\<rparr>))"

definition quantityCPURoundUp :: "quantity \<Rightarrow> int" where
  "quantityCPURoundUp q =
     (if qMilliValue q \<le> 0 then 0 else quot (wrap64 (qMilliValue q + 999)) 1000)"

definition quantityArg :: "quantity \<Rightarrow> string" where
  "quantityArg q = (if qIsZero q then [] else qString q)"

definition vmResourceOverrides :: "pod_meta \<Rightarrow> int \<times> string" where
  "vmResourceOverrides pm =
     (case pmContainers pm of
        [] \<Rightarrow> (0, [])
      | res # _ \<Rightarrow>
          (quantityCPURoundUp (selectQuantity (rsLimits res) (rsRequests res) ''cpu''),
           quantityArg (selectQuantity (rsRequests res) (rsLimits res) ''memory'')))"

section \<open>Clone options\<close>

definition restoreModeFor :: "env \<Rightarrow> string \<Rightarrow> string \<Rightarrow> string" where
  "restoreModeFor e mode os = (if os = OSWindows (konst e) then RestoreCopy else mode)"

definition cloneOptionsFor :: "env \<Rightarrow> vm_spec \<Rightarrow> cpu_policy \<Rightarrow> clone_options" where
  "cloneOptionsFor e spec policy =
     \<lparr>coFrom = [], coTo = vsVMName spec, coNetwork = vsNetwork spec, coBackend = vsBackend spec,
      coNoDirectIO = vsNoDirectIO spec, coPull = False,
      coRestoreMode = restoreModeFor e (cfgRestoreMode (cfg e)) (vsOS spec), coCPUPolicy = policy,
      coFromDir = [], coNICs = None\<rparr>"

definition shouldDropNICBeforeHibernate :: "env \<Rightarrow> vm_spec \<Rightarrow> bool" where
  "shouldDropNICBeforeHibernate e spec \<longleftrightarrow>
     vsBackend spec = BackendCloudHypervisor (konst e) \<and> vsOS spec = OSWindows (konst e)"

definition assertSnapshotBackend :: "snapshot option \<Rightarrow> string \<Rightarrow> err option" where
  "assertSnapshotBackend sn target =
     (case sn of
        None \<Rightarrow> None
      | Some s \<Rightarrow>
          if snHypervisor s = [] \<or> target = [] \<or> snHypervisor s = target then None
          else Some (newErr (''snapshot '' @ snName s @ '' was taken with '' @ snHypervisor s
                 @ '' but CocoonSet requests '' @ target)))"

definition isHTTPURL :: "string \<Rightarrow> bool" where
  "isHTTPURL ref \<longleftrightarrow> hasPrefix ref ''http://'' \<or> hasPrefix ref ''https://''"

definition maxSnapshotNameLength :: nat where "maxSnapshotNameLength = 63"

definition localSnapshotName :: "env \<Rightarrow> string \<Rightarrow> string \<Rightarrow> string" where
  "localSnapshotName e repo tag =
     (let name = (if tag \<noteq> [] \<and> tag \<noteq> DefaultSnapshotTag (konst e) then repo @ '':'' @ tag else repo) in
      if length name \<le> maxSnapshotNameLength then name
      else (let suffix = ''-'' @ take 12 (mSHA256Hex (lib e) name)
            in take (maxSnapshotNameLength - length suffix) name @ suffix))"

section \<open>Images and clone sources\<close>

definition cloneSourceDescription :: string where
  "cloneSourceDescription = ''vk-cocoon clone source''"

definition resolveRunImage :: "env \<Rightarrow> string \<Rightarrow> bool \<Rightarrow> (err + string) act" where
  "resolveRunImage e img force =
     (let ensure = do {
            r \<leftarrow> rtEnsureImage e img force;
            State_Monad.return (case r of Some x \<Rightarrow> Inl x | None \<Rightarrow> Inr img)
          }
      in if \<not> cfgPuller (cfg e) \<or> \<not> cfgPullerRegistry (cfg e) \<or> isHTTPURL img then ensure
         else (case mParseRef (lib e) img of
           (repo, tag) \<Rightarrow> do {
             raw \<leftarrow> regGetManifest e repo tag;
             (case raw of
                Inl _ \<Rightarrow> ensure
              | Inr raw \<Rightarrow>
                  (case mClassify (lib e) raw of
                     Inl _ \<Rightarrow> ensure
                   | Inr KindCloudImage \<Rightarrow> do {
                       r \<leftarrow> ensureCloudImage e repo (repo @ '':'' @ tag) raw force;
                       State_Monad.return
                         (case r of Some x \<Rightarrow> Inl x | None \<Rightarrow> Inr (repo @ '':'' @ tag))
                     }
                   | Inr KindSnapshot \<Rightarrow> State_Monad.return (Inl (newErr (''image '' @ img
                       @ '' is a snapshot artifact; use mode=clone instead of mode=run'')))
                   | Inr KindOther \<Rightarrow> ensure))
           }))"

definition ensureRunImage :: "env \<Rightarrow> string \<Rightarrow> bool \<Rightarrow> (err + string) act" where
  "ensureRunImage e img force =
     (if img = [] then State_Monad.return (Inr img)
      else flightString e (if force then ''force '' @ img else img) (resolveRunImage e img force))"

definition ensureSnapshotBaseImage :: "env \<Rightarrow> snapshot option \<Rightarrow> err option act" where
  "ensureSnapshotBaseImage e sn =
     (case sn of
        None \<Rightarrow> State_Monad.return None
      | Some s \<Rightarrow>
          if snImage s = [] \<or> isHTTPURL (snImage s) then State_Monad.return None
          else do {
            present \<leftarrow> (if snImageDigest s \<noteq> []
              then do { r \<leftarrow> rtImage e (snImageDigest s); State_Monad.return (r = None) }
              else State_Monad.return False);
            (if present then State_Monad.return None
             else do {
               r \<leftarrow> ensureRunImage e (snImage s) False;
               State_Monad.return (case r of
                   Inl x \<Rightarrow> Some (wrapErr (''ensure snapshot base image '' @ snImage s @ '': '') x [])
                 | Inr _ \<Rightarrow> None)
             })
          })"

definition ensureSnapshot ::
  "env \<Rightarrow> string \<Rightarrow> string \<Rightarrow> string \<Rightarrow> (err + snapshot option) act" where
  "ensureSnapshot e repo tag loc =
     (if repo = [] then State_Monad.return (Inr None)
      else do {
        sn \<leftarrow> rtSnapshot e loc;
        (case sn of
           Inr s \<Rightarrow> State_Monad.return (Inr (Some s))
         | Inl _ \<Rightarrow>
             if \<not> cfgPuller (cfg e) then State_Monad.return (Inr None)
             else flightSnapshot e loc (do {
               sn \<leftarrow> rtSnapshot e loc;
               (case sn of
                  Inr s \<Rightarrow> State_Monad.return (Inr (Some s))
                | Inl _ \<Rightarrow> do {
                    r \<leftarrow> pullSnapshot e repo tag loc cloneSourceDescription;
                    (case r of
                       Some x \<Rightarrow> State_Monad.return (Inl x)
                     | None \<Rightarrow> do {
                         sn \<leftarrow> rtSnapshot e loc;
                         State_Monad.return (case sn of
                             Inl x \<Rightarrow> Inl (wrapErr (''inspect imported snapshot '' @ loc @ '': '') x [])
                           | Inr s \<Rightarrow> Inr (Some s))
                       })
                  })
             }))
      })"

definition vmByName :: "env \<Rightarrow> string \<Rightarrow> vmptr option act" where
  "vmByName e name = reading e (\<lambda>s. vmsByName s name)"

definition ensureForkSnapshot :: "env \<Rightarrow> string \<Rightarrow> (err + string) act" where
  "ensureForkSnapshot e source =
     (let name = forkSnapshotName source in
      flightString e name (do {
        sn \<leftarrow> rtSnapshot e name;
        (case sn of
           Inr _ \<Rightarrow> State_Monad.return (Inr name)
         | Inl _ \<Rightarrow> do {
             known \<leftarrow> vmByName e source;
             src \<leftarrow> (case known of
               Some v \<Rightarrow> State_Monad.return (Inr (vpVM v))
             | None \<Rightarrow> do {
                 r \<leftarrow> rtInspect e source;
                 State_Monad.return (case r of
                     Inl x \<Rightarrow> Inl (wrapErr (''inspect fork source vm '' @ source @ '': '') x [])
                   | Inr v \<Rightarrow> Inr v)
               });
             (case src of
                Inl x \<Rightarrow> State_Monad.return (Inl x)
              | Inr v \<Rightarrow> do {
                  r \<leftarrow> rtSnapshotSave e name (vID v);
                  State_Monad.return (case r of
                      Some x \<Rightarrow> Inl (wrapErr (''snapshot fork source vm '' @ source @ '' as '' @ name @ '': '') x [])
                    | None \<Rightarrow> Inr name)
                })
           })
      }))"

section \<open>Hibernate evidence\<close>

text \<open>No manifest is an answer (a typed 404), everything else that goes wrong is an error.\<close>

definition fetchHibernateManifest :: "env \<Rightarrow> string \<Rightarrow> (err + oci_manifest option) act" where
  "fetchHibernateManifest e vmName = do {
     raw \<leftarrow> regGetManifest e vmName (HibernateSnapshotTag (konst e));
     State_Monad.return (case raw of
         Inl x \<Rightarrow> if errIs x ErrManifestNotFound then Inr None
                   else Inl (wrapErr ''get hibernate manifest: '' x [])
       | Inr raw \<Rightarrow> (case mParseManifest (lib e) raw of
             Inl x \<Rightarrow> Inl (wrapErr ''parse hibernate manifest: '' x [])
           | Inr m \<Rightarrow> Inr (Some m)))
   }"

definition annotOf :: "annots \<Rightarrow> string \<Rightarrow> string" where
  "annotOf m k = (case m k of None \<Rightarrow> [] | Some v \<Rightarrow> v)"

definition hibernateEvidence :: "env \<Rightarrow> string \<Rightarrow> (err + bool \<times> string) act" where
  "hibernateEvidence e vmName =
     (if \<not> cfgRegistry (cfg e)
      then do {
        sn \<leftarrow> rtSnapshot e vmName;
        State_Monad.return (case sn of
            Inl x \<Rightarrow> if errIs x ErrSnapshotNotFound then Inr (False, [])
                      else Inl (wrapErr (''inspect local snapshot '' @ vmName @ '': '') x [])
          | Inr _ \<Rightarrow> Inr (True, []))
      }
      else do {
        m \<leftarrow> fetchHibernateManifest e vmName;
        State_Monad.return (case m of
            Inl x \<Rightarrow> Inl (wrapErr (''hibernate evidence for '' @ vmName @ '': '') x
                       '' (refusing fresh boot)'')
          | Inr None \<Rightarrow> Inr (False, [])
          | Inr (Some m) \<Rightarrow> Inr (True, annotOf (mfAnnotations m) (kSnapshotBaseImage (konst e))))
      })"

definition hasWakeSource :: "env \<Rightarrow> vm_spec \<Rightarrow> (err + bool) act" where
  "hasWakeSource e spec =
     (if isMacosSpec e spec then State_Monad.return (Inr False)
      else do {
        sn \<leftarrow> rtSnapshot e (vsVMName spec);
        (case sn of
           Inr _ \<Rightarrow> State_Monad.return (Inr True)
         | Inl x \<Rightarrow>
             if \<not> errIs x ErrSnapshotNotFound
             then State_Monad.return (Inl (wrapErr (''inspect local snapshot '' @ vsVMName spec @ '': '') x []))
             else if \<not> cfgPuller (cfg e) then State_Monad.return (Inr False)
             else if \<not> cfgRegistry (cfg e) then State_Monad.return (Inr True)
             else do {
               m \<leftarrow> fetchHibernateManifest e (vsVMName spec);
               State_Monad.return (case m of Inl x \<Rightarrow> Inl x | Inr m \<Rightarrow> Inr (m \<noteq> None))
             })
      })"

section \<open>Wake source\<close>

text \<open>What the \<open>release\<close> closure of a source does: nothing, remove the import in the background, or
  delete the staged peer files.\<close>

datatype wake_release = ReleaseNothing | ReleaseImport string | ReleaseStaging string

record wake_source =
  wsLocalName :: string
  wsDir :: string
  wsOrigin :: string
  wsSnapshot :: "snapshot option"
  wsRelease :: wake_release

definition wsLabel :: "wake_source \<Rightarrow> string" where
  "wsLabel src = orStr (wsLocalName src) (wsOrigin src)"

definition releaseSource :: "env \<Rightarrow> wake_release \<Rightarrow> unit act" where
  "releaseSource e r = (case r of
      ReleaseImport name \<Rightarrow> writing e (goBackgroundLocked (JobRemoveSnapshot name))
    | _ \<Rightarrow> State_Monad.return ())"

definition staleSnapshotErr :: "string \<Rightarrow> err" where
  "staleSnapshotErr post =
     Err [ErrStaleLocalSnapshot] (''local snapshot does not match registry tag'' @ post)"

definition verifyLocalSnapshot :: "env \<Rightarrow> string \<Rightarrow> snapshot \<Rightarrow>
  (oci_manifest option \<times> snapshot_config option \<times> err option) act" where
  "verifyLocalSnapshot e vmName loc =
     (if \<not> cfgRegistry (cfg e) then State_Monad.return (None, None, None)
      else do {
        m \<leftarrow> fetchHibernateManifest e vmName;
        (case m of
           Inl x \<Rightarrow> State_Monad.return (None, None, Some x)
         | Inr None \<Rightarrow> State_Monad.return
             (None, None, Some (staleSnapshotErr '': no hibernate tag in registry''))
         | Inr (Some m) \<Rightarrow> do {
             c \<leftarrow> fetchSnapshotConfig e vmName (mfConfig m);
             State_Monad.return (case c of
                 Inl x \<Rightarrow> (Some m, None, Some (wrapErr ''fetch snapshot config: '' x []))
               | Inr c \<Rightarrow>
                   if scSnapshotID c \<noteq> snID loc
                   then (Some m, Some c, Some (staleSnapshotErr ('': registry has '' @ scSnapshotID c
                          @ '', local is '' @ snID loc)))
                   else (Some m, Some c, None))
           })
      })"

text \<open>\<open>net.JoinHostPort\<close> brackets a host with a colon or a percent sign.\<close>

definition joinHostPort :: "string \<Rightarrow> string \<Rightarrow> string" where
  "joinHostPort host port =
     (if CHR '':'' \<in> set host \<or> CHR ''%'' \<in> set host then ''['' @ host @ '']:'' @ port
      else host @ '':'' @ port)"

definition peerBaseURL :: "env \<Rightarrow> string \<Rightarrow> (err + string) act" where
  "peerBaseURL e peerNode =
     (if cfgPeerPort (cfg e) = [] then State_Monad.return (Inl (newErr ''peer port not configured''))
      else do {
        r \<leftarrow> kubeNodeAddress e peerNode;
        State_Monad.return (case r of
            Inl x \<Rightarrow> Inl x
          | Inr None \<Rightarrow> Inl (newErr (''node '' @ peerNode @ '' has no InternalIP address''))
          | Inr (Some addr) \<Rightarrow> Inr (''http://'' @ joinHostPort addr (cfgPeerPort (cfg e))))
      })"

text \<open>The transfer itself, once the manifest names another node and the snapshot config is known.\<close>

definition restoreFromPeer ::
  "env \<Rightarrow> string \<Rightarrow> string \<Rightarrow> snapshot_config \<Rightarrow> wake_source option act" where
  "restoreFromPeer e vmName peerNode c = do {
     url \<leftarrow> peerBaseURL e peerNode;
     (case url of
        Inl _ \<Rightarrow> State_Monad.return None
      | Inr url \<Rightarrow> do {
          r \<leftarrow> peerRestore e url vmName c;
          State_Monad.return (case r of
              Inl _ \<Rightarrow> None
            | Inr (dir, sn) \<Rightarrow> Some \<lparr>wsLocalName = [], wsDir = dir, wsOrigin = ''peer '' @ peerNode,
                wsSnapshot = sn, wsRelease = ReleaseStaging dir\<rparr>)
        })
   }"

definition tryPeerRestore :: "env \<Rightarrow> string \<Rightarrow> oci_manifest option \<Rightarrow> snapshot_config option \<Rightarrow>
  wake_source option act" where
  "tryPeerRestore e vmName m c =
     (if \<not> cfgPeerRestorer (cfg e) then State_Monad.return None
      else do {
        m \<leftarrow> (case m of
          Some m \<Rightarrow> State_Monad.return (Some m)
        | None \<Rightarrow> do {
            r \<leftarrow> fetchHibernateManifest e vmName;
            State_Monad.return (case r of Inl _ \<Rightarrow> None | Inr m \<Rightarrow> m)
          });
        (case m of
           None \<Rightarrow> State_Monad.return None
         | Some m \<Rightarrow>
             (let peerNode = annotOf (mfAnnotations m) (kFromNode (konst e)) in
              if peerNode = [] \<or> peerNode = cfgNodeName (cfg e) then State_Monad.return None
              else (case c of
                Some c \<Rightarrow> restoreFromPeer e vmName peerNode c
              | None \<Rightarrow> do {
                  r \<leftarrow> fetchSnapshotConfig e vmName (mfConfig m);
                  (case r of
                     Inl _ \<Rightarrow> State_Monad.return None
                   | Inr c \<Rightarrow> restoreFromPeer e vmName peerNode c)
                })))
      })"

text \<open>The registry pull that ends \<open>resolveWakeSource\<close>.\<close>

definition pullWakeSource :: "env \<Rightarrow> string \<Rightarrow> (err + wake_source) act" where
  "pullWakeSource e vmName =
     (if \<not> cfgPuller (cfg e)
      then State_Monad.return (Inl (newErr
        (''wake '' @ vmName @ '': no local snapshot and no puller configured'')))
      else (let importName = vmName @ HibernateImportSuffix (konst e) in do {
        r \<leftarrow> pullSnapshot e vmName (HibernateSnapshotTag (konst e)) importName [];
        (case r of
           Some x \<Rightarrow> State_Monad.return (Inl
             (wrapErr (''pull hibernation snapshot '' @ vmName @ '': '') x []))
         | None \<Rightarrow> do {
             sn \<leftarrow> rtSnapshot e importName;
             State_Monad.return (case sn of
                 Inl x \<Rightarrow> Inl (wrapErr (''inspect imported snapshot '' @ importName @ '': '') x [])
               | Inr sn \<Rightarrow> Inr \<lparr>wsLocalName = importName, wsDir = [], wsOrigin = [],
                   wsSnapshot = Some sn, wsRelease = ReleaseImport importName\<rparr>)
           })
      }))"

definition peerOrPull :: "env \<Rightarrow> string \<Rightarrow> oci_manifest option \<Rightarrow> snapshot_config option \<Rightarrow>
  (err + wake_source) act" where
  "peerOrPull e vmName m c = do {
     src \<leftarrow> tryPeerRestore e vmName m c;
     (case src of Some src \<Rightarrow> State_Monad.return (Inr src) | None \<Rightarrow> pullWakeSource e vmName)
   }"

text \<open>What \<open>resolveWakeSource\<close> does with the verdict on the local snapshot \<open>sn\<close>.\<close>

definition settleLocalSnapshot :: "env \<Rightarrow> string \<Rightarrow> snapshot \<Rightarrow>
  oci_manifest option \<times> snapshot_config option \<times> err option \<Rightarrow> (err + wake_source) act" where
  "settleLocalSnapshot e vmName sn v =
     (case v of (m, c, verdict) \<Rightarrow>
        (case verdict of
           None \<Rightarrow> State_Monad.return (Inr \<lparr>wsLocalName = vmName, wsDir = [], wsOrigin = [],
             wsSnapshot = Some sn, wsRelease = ReleaseNothing\<rparr>)
         | Some x \<Rightarrow>
             if errIs x ErrStaleLocalSnapshot
             then do {
               _ \<leftarrow> removeLocalSnapshots e vmName;
               (if m = None then pullWakeSource e vmName else peerOrPull e vmName m c)
             }
             else State_Monad.return (Inl
               (wrapErr (''verify local snapshot '' @ vmName @ '': '') x []))))"

definition resolveWakeSource :: "env \<Rightarrow> string \<Rightarrow> (err + wake_source) act" where
  "resolveWakeSource e vmName = do {
     sn \<leftarrow> rtSnapshot e vmName;
     (case sn of
        Inr sn \<Rightarrow> do { v \<leftarrow> verifyLocalSnapshot e vmName sn; settleLocalSnapshot e vmName sn v }
      | Inl x \<Rightarrow>
          if errIs x ErrSnapshotNotFound then peerOrPull e vmName None None
          else State_Monad.return (Inl (wrapErr (''inspect local snapshot '' @ vmName @ '': '') x [])))
   }"

definition cloneFromHibernate ::
  "env \<Rightarrow> vm_spec \<Rightarrow> wake_source \<Rightarrow> cpu_policy \<Rightarrow> (err + vm) act" where
  "cloneFromHibernate e spec src policy = deferring (do {
     r \<leftarrow> ensureSnapshotBaseImage e (wsSnapshot src);
     (case r of
        Some x \<Rightarrow> State_Monad.return (Inl x)
      | None \<Rightarrow> do {
          v \<leftarrow> rtClone e ((cloneOptionsFor e spec policy)
            \<lparr>coFrom := wsLocalName src, coFromDir := wsDir src,
             coPull := (case wsSnapshot src of None \<Rightarrow> False | Some sn \<Rightarrow> snImage sn \<noteq> []),
             coNICs := (if shouldDropNICBeforeHibernate e spec then Some 1 else None)\<rparr>);
          State_Monad.return (case v of
              Inl x \<Rightarrow> Inl (wrapErr (''clone vm '' @ vsVMName spec @ '' from '' @ wsLabel src @ '': '') x [])
            | Inr v \<Rightarrow> Inr v)
        })
   }) (releaseSource e (wsRelease src))"

end
