(* ===== verification/Hibernate.thy ===== *)
theory Hibernate
  imports Sources
begin

text \<open>
  Binding a VM to a pod incarnation and its runtime annotations (\<open>create.go\<close>, \<open>provider.go\<close>), the
  readiness probe, and hibernate and wake (\<open>update.go\<close>).

  The wait for a DHCP lease polls until a deadline of the clock; \<open>waitIPLoop\<close> has the number of polls
  as a bound and answers nothing when it is reached.
\<close>

section \<open>Runtime annotations\<close>

definition annotationPostCloneState :: string where
  "annotationPostCloneState = ''vm.cocoonstack.io/post-clone-state''"

definition clearRuntimeAnnotations :: "env \<Rightarrow> podptr \<Rightarrow> err option act" where
  "clearRuntimeAnnotations e p = do {
     superseded \<leftarrow> locked e (\<lambda>s.
       if supersededLocked (podKey e p) (ptUID p) s then (True, s)
       else (False, setAnnots p (\<lambda>m. m(kVMID (konst e) := None, kIP (konst e) := None,
              annotationPostCloneState := None)) s));
     (if superseded then State_Monad.return None
      else patchIncarnationAnnotations e (ptNamespace p) (ptName p) (ptUID p)
        [kVMID (konst e) \<mapsto> None, kIP (konst e) \<mapsto> None, annotationPostCloneState \<mapsto> None])
   }"

definition runtimePatch :: "env \<Rightarrow> vm_runtime \<Rightarrow> patch" where
  "runtimePatch e rt =
     (let base = [kVMID (konst e) \<mapsto> Some (vrVMID rt), kIP (konst e) \<mapsto> Some (vrIP rt)]
      in if vrVNCPort rt \<noteq> 0 then base(kVNCPort (konst e) \<mapsto> Some (itoa (vrVNCPort rt))) else base)"

definition applyVMRuntime :: "env \<Rightarrow> podptr \<Rightarrow> vm_runtime \<Rightarrow> bool act" where
  "applyVMRuntime e p rt = do {
     superseded \<leftarrow> locked e (\<lambda>s.
       if supersededLocked (podKey e p) (ptUID p) s then (True, s)
       else (False, setAnnots p (mRuntimeApply (lib e) rt) s));
     (if superseded then State_Monad.return False
      else do {
        r \<leftarrow> patchWithRetry e
          (patchIncarnationAnnotations e (ptNamespace p) (ptName p) (ptUID p) (runtimePatch e rt));
        State_Monad.return (\<not> nameTaken r)
      })
   }"

definition detachIncarnation :: "env \<Rightarrow> string \<Rightarrow> string \<Rightarrow> vmptr option \<Rightarrow> bool act" where
  "detachIncarnation e key uid v = do {
     r \<leftarrow> locked e (detachIncarnationLocked key uid v);
     (case r of
        None \<Rightarrow> State_Monad.return False
      | Some dropped \<Rightarrow> do {
          _ \<leftarrow> (if dropped then forgetProbe e key else State_Monad.return ());
          State_Monad.return True
        })
   }"

definition bindRuntime :: "env \<Rightarrow> podptr \<Rightarrow> vmptr \<Rightarrow> vm_runtime \<Rightarrow> bool act" where
  "bindRuntime e p v rt = do {
     ok \<leftarrow> locked e (trackPodIncarnationLocked e p v);
     (if \<not> ok then State_Monad.return False
      else do {
        ok \<leftarrow> applyVMRuntime e p rt;
        (if ok then State_Monad.return True
         else do {
           _ \<leftarrow> detachIncarnation e (podKey e p) (ptUID p) (Some v);
           State_Monad.return False
         })
      })
   }"

definition applyRuntime :: "env \<Rightarrow> podptr \<Rightarrow> vmptr \<Rightarrow> bool act" where
  "applyRuntime e p v =
     bindRuntime e p v \<lparr>vrVMID = vpID v, vrIP = vIP (vpVM v), vrVNCPort = 0\<rparr>"

text \<open>A VM record returned by the runtime, at a fresh address.\<close>

definition newVM :: "vm \<Rightarrow> vmptr act" where
  "newVM v = State (allocVM v)"

definition goBackground :: "env \<Rightarrow> job \<Rightarrow> unit act" where
  "goBackground e j = writing e (goBackgroundLocked j)"

section \<open>Readiness probe\<close>

definition probePort :: "env \<Rightarrow> string \<Rightarrow> string \<Rightarrow> string act" where
  "probePort e ns name = reading e (\<lambda>s.
     case pods s (mPodKey (lib e) ns name) of
       None \<Rightarrow> []
     | Some p \<Rightarrow> annotOf (pAnnotations (podAt s p)) (kProbePort (konst e)))"

definition probeTCP :: "env \<Rightarrow> string \<Rightarrow> string \<Rightarrow> (bool \<times> string) act" where
  "probeTCP e ip port = do {
     r \<leftarrow> dialTCP e ip port;
     State_Monad.return (case r of
         Some x \<Rightarrow> (False, ''tcp probe '' @ port @ '': '' @ errMsg x)
       | None \<Rightarrow> (True, ''tcp ok''))
   }"

definition buildProbe :: "env \<Rightarrow> string \<Rightarrow> string \<Rightarrow> (bool \<times> string) act" where
  "buildProbe e ns name = do {
     v \<leftarrow> vmForPod e ns name;
     (case v of
        None \<Rightarrow> State_Monad.return (False, ''vm gone'')
      | Some v \<Rightarrow> do {
          ip \<leftarrow> resolveVMIP e ns name v;
          (if ip = [] then State_Monad.return (False, ''waiting for dhcp lease'')
           else do {
             port \<leftarrow> probePort e ns name;
             (if port \<noteq> [] then probeTCP e ip port
              else do {
                r \<leftarrow> ping e ip;
                State_Monad.return (case r of
                    Some x \<Rightarrow> (False, ''ping failed: '' @ errMsg x)
                  | None \<Rightarrow> (True, ''ping ok''))
              })
           })
        })
   }"

text \<open>\<open>Manager.Start\<close> around its synchronous first probe; the agent's loop is that of \<open>Probes\<close>.\<close>

definition startProbe :: "env \<Rightarrow> podptr \<Rightarrow> (bool \<times> string) act \<Rightarrow> unit act" where
  "startProbe e p probe =
     (if \<not> cfgProbes (cfg e) \<or> pmDeleted (ptMeta p) then State_Monad.return ()
      else do {
        ag \<leftarrow> locked e (\<lambda>s. let (a, m) = startRegister (podKey e p) (probes s) in (a, s\<lparr>probes := m\<rparr>));
        r \<leftarrow> probe;
        now \<leftarrow> timeNow e;
        _ \<leftarrow> locked e (\<lambda>s. let (a, m) = startPublish (podKey e p) ag (fst r) (snd r) now (probes s)
                          in (a, s\<lparr>probes := m\<rparr>));
        State_Monad.return ()
      })"

definition startProbeIfEnabled :: "env \<Rightarrow> podptr \<Rightarrow> unit act" where
  "startProbeIfEnabled e p = startProbe e p (buildProbe e (ptNamespace p) (ptName p))"

section \<open>Guest network\<close>

text \<open>\<open>strings.SplitSeq\<close> with a line feed as separator.\<close>

fun splitLines :: "string \<Rightarrow> string list" where
  "splitLines [] = [[]]"
| "splitLines (c # cs) =
     (if c = CHR 0x0A then [] # splitLines cs
      else (case splitLines cs of [] \<Rightarrow> [[c]] | l # ls \<Rightarrow> (c # l) # ls))"

definition lastNonEmptyLine :: "string \<Rightarrow> string" where
  "lastNonEmptyLine s =
     fold (\<lambda>line acc. if trimSpace line \<noteq> [] then trimSpace line else acc) (splitLines s) []"

definition execGuestIpconfig :: "env \<Rightarrow> string \<Rightarrow> string \<Rightarrow> err option act" where
  "execGuestIpconfig e vmID verb = do {
     r \<leftarrow> rtExec e vmID [''cmd'', ''/c'', ''ipconfig /'' @ verb];
     State_Monad.return (case fst r of
         None \<Rightarrow> None
       | Some x \<Rightarrow> if lastNonEmptyLine (snd r) \<noteq> [] then Some (wrapErr [] x ('': '' @ lastNonEmptyLine (snd r)))
                   else Some x)
   }"

definition dropNICForHibernate :: "env \<Rightarrow> vmptr \<Rightarrow> err option act" where
  "dropNICForHibernate e v = do {
     _ \<leftarrow> execGuestIpconfig e (vpID v) ''release'';
     r \<leftarrow> rtNetResize e (vpID v) 0;
     (case r of
        None \<Rightarrow> State_Monad.return None
      | Some x \<Rightarrow> do {
          _ \<leftarrow> execGuestIpconfig e (vpID v) ''renew'';
          State_Monad.return (Some (wrapErr (''drop NIC pre-hibernate '' @ vpName v @ '': '') x []))
        })
   }"

definition rolledBackNIC :: "err + vm \<Rightarrow> vm \<Rightarrow> vm" where
  "rolledBackNIC fresh t =
     (case fresh of
        Inl _ \<Rightarrow> t\<lparr>vIP := []\<rparr>
      | Inr f \<Rightarrow> t\<lparr>vIP := (if primaryStatic f then vIP f else []), vMAC := vMAC f,
          vNetworkConfigs := vNetworkConfigs f\<rparr>)"

definition refreshRolledBackNIC :: "env \<Rightarrow> podptr \<Rightarrow> vmptr \<Rightarrow> vmptr act" where
  "refreshRolledBackNIC e p v = do {
     fresh \<leftarrow> rtInspect e (vpID v);
     updated \<leftarrow> locked e (updateTrackedVM (podKey e p) (vpID v) (rolledBackNIC fresh));
     State_Monad.return (case updated of Some u \<Rightarrow> u | None \<Rightarrow> v)
   }"

definition rollbackHibernate :: "env \<Rightarrow> podptr \<Rightarrow> vmptr \<Rightarrow> bool \<Rightarrow> unit act" where
  "rollbackHibernate e p v dropped = do {
     v \<leftarrow> (if dropped
       then do { _ \<leftarrow> rtNetResize e (vpID v) 1; refreshRolledBackNIC e p v }
       else State_Monad.return v);
     _ \<leftarrow> applyRuntime e p v;
     (if dropped then do { _ \<leftarrow> execGuestIpconfig e (vpID v) ''renew''; State_Monad.return () }
      else State_Monad.return ())
   }"

section \<open>Hibernate\<close>

definition failHibernate :: "env \<Rightarrow> podptr \<Rightarrow> string \<Rightarrow> err \<Rightarrow> err option act" where
  "failHibernate e p reason x = do {
     _ \<leftarrow> failOp e p reason ''update'' (wrapErr hibernateFailurePrefix x []);
     State_Monad.return (Some (wrapErr hibernateFailurePrefix x []))
   }"

definition forgetVMOnly :: "env \<Rightarrow> string \<Rightarrow> string \<Rightarrow> unit act" where
  "forgetVMOnly e ns name = writing e (dropVMLocked (mPodKey (lib e) ns name))"

text \<open>The last part of \<open>hibernate\<close>: the snapshot is saved, and pushed when there is a pusher.\<close>

definition hibernateRemove :: "env \<Rightarrow> podptr \<Rightarrow> vmptr \<Rightarrow> bool \<Rightarrow> err option act" where
  "hibernateRemove e p v dropped = do {
     cleared \<leftarrow> clearRuntimeAnnotations e p;
     r \<leftarrow> removeVM e (vpVM v);
     (case r of
        Some x \<Rightarrow> do {
          _ \<leftarrow> (if cfgRegistry (cfg e)
                then do { _ \<leftarrow> regDeleteManifest e (vpName v) (HibernateSnapshotTag (konst e));
                          State_Monad.return () }
                else State_Monad.return ());
          _ \<leftarrow> rollbackHibernate e p v dropped;
          failHibernate e p ''HibernateRemoveFailed'' (wrapErr (''remove vm '' @ vpID v @ '': '') x [])
        }
      | None \<Rightarrow> do {
          _ \<leftarrow> (if cleared \<noteq> None
                then do { _ \<leftarrow> clearRuntimeAnnotations e p; State_Monad.return () }
                else State_Monad.return ());
          _ \<leftarrow> forgetVMOnly e (ptNamespace p) (ptName p);
          _ \<leftarrow> forgetProbe e (podKey e p);
          _ \<leftarrow> markLifecycleState e p LifecycleStateHibernated [];
          _ \<leftarrow> emitEvent False ''Hibernated'' (if cfgPusher (cfg e) then ''snapshot pushed to registry''
                 else ''snapshot saved locally (no registry pusher configured)'');
          State_Monad.return None
        })
   }"

definition hibernateSave :: "env \<Rightarrow> podptr \<Rightarrow> vm_spec \<Rightarrow> vmptr \<Rightarrow> bool \<Rightarrow> err option act" where
  "hibernateSave e p spec v dropped = do {
     r \<leftarrow> rtSnapshotSave e (vpName v) (vpID v);
     (case r of
        Some x \<Rightarrow> do {
          _ \<leftarrow> rollbackHibernate e p v dropped;
          failHibernate e p ''HibernateSnapshotFailed''
            (wrapErr (''save snapshot '' @ vpName v @ '': '') x [])
        }
      | None \<Rightarrow>
          if \<not> cfgPusher (cfg e) then hibernateRemove e p v dropped
          else do {
            an \<leftarrow> snapshotAnnotations e p;
            r \<leftarrow> pushSnapshot e (vpName v) (vpName v) (HibernateSnapshotTag (konst e)) (vsImage spec) an;
            (case r of
               Some x \<Rightarrow> do {
                 _ \<leftarrow> rollbackHibernate e p v dropped;
                 failHibernate e p ''HibernatePushFailed''
                   (wrapErr (''push hibernation snapshot '' @ vpName v @ '': '') x [])
               }
             | None \<Rightarrow> hibernateRemove e p v dropped)
          })
   }"

definition hibernate :: "env \<Rightarrow> podptr \<Rightarrow> vm_spec \<Rightarrow> vmptr \<Rightarrow> err option act" where
  "hibernate e p spec v = do {
     _ \<leftarrow> writing e (startHibernateLocked (podKey e p));
     deferring (do {
       _ \<leftarrow> markLifecycleState e p LifecycleStateHibernating [];
       r \<leftarrow> (if shouldDropNICBeforeHibernate e spec then dropNICForHibernate e v
             else State_Monad.return None);
       (case r of
          Some x \<Rightarrow> failHibernate e p ''HibernateNetResizeFailed'' x
        | None \<Rightarrow> hibernateSave e p spec v (shouldDropNICBeforeHibernate e spec))
     }) (do {
       gone \<leftarrow> locked e (finishHibernateLocked (podKey e p));
       (if gone then scheduleDeferredRecheck e (vpID v) else State_Monad.return ())
     })
   }"

section \<open>Ready after a lease\<close>

definition defaultWakeFreshIPBudget :: int where "defaultWakeFreshIPBudget = 45 * second"
definition defaultWakeFreshIPInterval :: int where "defaultWakeFreshIPInterval = 200 * 10 ^ 6"
definition defaultBootIPBudget :: int where "defaultBootIPBudget = 10 * 60 * second"
definition defaultWakeRenewNudgeDelay :: int where "defaultWakeRenewNudgeDelay = 30 * second"

definition ipWaitBudget :: "env \<Rightarrow> ip_wait \<Rightarrow> int" where
  "ipWaitBudget e kind =
     (if kind = ipWaitBoot then orInt (cfgBootIPBudget (cfg e)) defaultBootIPBudget
      else orInt (cfgWakeFreshIPBudget (cfg e)) defaultWakeFreshIPBudget)"

definition setLifecycleStateForWake ::
  "env \<Rightarrow> podptr \<Rightarrow> string \<Rightarrow> lifecycle_state \<Rightarrow> string \<Rightarrow> (lifecycle_status \<times> bool) act" where
  "setLifecycleStateForWake e p wakeVMID state message = locked e (\<lambda>s.
     let refused = ((\<lparr>lsState = LifecycleStateEmpty, lsObservedGeneration = 0, lsMessage = []\<rparr>, False), s) in
     case pods s (podKey e p) of
       None \<Rightarrow> refused
     | Some tracked \<Rightarrow>
         if mReadHibernateState (lib e) (podAt s tracked) then refused
         else (case vmsByPod s (podKey e p) of
                 None \<Rightarrow> refused
               | Some cur \<Rightarrow> if vpID cur \<noteq> wakeVMID then refused
                             else applyLifecycleLocked e p state message s))"

text \<open>What one poll finds: another VM under the pod, a lease, a guest to be told to renew, or nothing.\<close>

datatype ip_poll = IPGone | IPFound | IPRenew string | IPNone

definition pollIP :: "env \<Rightarrow> string \<Rightarrow> string \<Rightarrow> string \<Rightarrow> int \<Rightarrow> bool \<Rightarrow> ip_poll act" where
  "pollIP e ns name vmID renewAt nudged = do {
     v \<leftarrow> vmForPod e ns name;
     (case v of
        None \<Rightarrow> State_Monad.return IPGone
      | Some v \<Rightarrow>
          if vpID v \<noteq> vmID then State_Monad.return IPGone
          else do {
            ip \<leftarrow> resolveVMIP e ns name v;
            (if ip \<noteq> [] then State_Monad.return IPFound
             else if nudged then State_Monad.return IPNone
             else do {
               now \<leftarrow> timeNow e;
               State_Monad.return (if \<not> now < renewAt then IPRenew (vpID v) else IPNone)
             })
          })
   }"

text \<open>A guest is told to renew once, and polled again at once.\<close>

fun waitIPLoop :: "env \<Rightarrow> nat \<Rightarrow> string \<Rightarrow> string \<Rightarrow> string \<Rightarrow> int \<Rightarrow> int \<Rightarrow> int \<Rightarrow> bool \<Rightarrow> bool option act" where
  "waitIPLoop e 0 ns name vmID pause deadline renewAt nudged = State_Monad.return None"
| "waitIPLoop e (Suc n) ns name vmID pause deadline renewAt nudged = do {
     found \<leftarrow> pollIP e ns name vmID renewAt nudged;
     (case found of
        IPGone \<Rightarrow> State_Monad.return (Some False)
      | IPFound \<Rightarrow> State_Monad.return (Some True)
      | IPRenew i \<Rightarrow> do {
          _ \<leftarrow> execGuestIpconfig e i ''renew'';
          waitIPLoop e n ns name vmID pause deadline renewAt True
        }
      | IPNone \<Rightarrow> do {
          now \<leftarrow> timeNow e;
          (if \<not> now < deadline then State_Monad.return (Some False)
           else do {
             z \<leftarrow> sleepCtx e pause;
             (if z \<noteq> None then State_Monad.return (Some False)
              else waitIPLoop e n ns name vmID pause deadline renewAt nudged)
           })
        })
   }"

definition waitForFreshIP ::
  "env \<Rightarrow> nat \<Rightarrow> podptr \<Rightarrow> vm_spec \<Rightarrow> string \<Rightarrow> ip_wait \<Rightarrow> bool option act" where
  "waitForFreshIP e polls p spec vmID kind = do {
     now1 \<leftarrow> timeNow e;
     now2 \<leftarrow> timeNow e;
     waitIPLoop e polls (ptNamespace p) (ptName p) vmID
       (orInt (cfgWakeFreshIPInterval (cfg e)) defaultWakeFreshIPInterval)
       (now1 + ipWaitBudget e kind)
       (now2 + orInt (cfgWakeRenewNudgeDelay (cfg e)) defaultWakeRenewNudgeDelay)
       (kind = ipWaitBoot \<or> vsOS spec \<noteq> OSWindows (konst e))
   }"

definition ipWaitPath :: "ip_wait \<Rightarrow> string \<times> string" where
  "ipWaitPath kind = (case kind of
      ipWaitClone \<Rightarrow> (''clone'', ''PostCloneIPWaitTimeout'')
    | ipWaitWake \<Rightarrow> (''wake'', ''WakeIPWaitTimeout'')
    | ipWaitBoot \<Rightarrow> (''boot'', ''BootIPWaitTimeout''))"

text \<open>\<open>dur\<close> renders a duration (Go's \<open>Duration.String\<close>); it only shapes the message.\<close>

definition markReadyAfterIP ::
  "env \<Rightarrow> (int \<Rightarrow> string) \<Rightarrow> nat \<Rightarrow> podptr \<Rightarrow> vm_spec \<Rightarrow> vmptr \<Rightarrow> ip_wait \<Rightarrow> unit act" where
  "markReadyAfterIP e dur polls p spec v kind = do {
     got \<leftarrow> waitForFreshIP e polls p spec (vpID v) kind;
     (case got of
        None \<Rightarrow> State_Monad.return ()
      | Some got \<Rightarrow> do {
          z \<leftarrow> ctxErr e;
          (if z \<noteq> None then State_Monad.return ()
           else if got
           then do {
             r \<leftarrow> setLifecycleStateForWake e p (vpID v) LifecycleStateReady [];
             (if snd r then publishReadyLifecycle e p (fst r) else State_Monad.return ())
           }
           else
             (let msg = fst (ipWaitPath kind) @ '' '' @ vpName v @ '': dhcp lease not observed within ''
                    @ dur (ipWaitBudget e kind)
              in do {
                r \<leftarrow> setLifecycleStateForWake e p (vpID v) LifecycleStateFailed
                  (Lifecycle.truncate msg lifecycleMessageMaxBytes);
                (if \<not> snd r then State_Monad.return ()
                 else do {
                   _ \<leftarrow> flushLifecycle e (ptNamespace p) (ptName p) (ptUID p) (fst r);
                   emitEvent True (snd (ipWaitPath kind)) (Lifecycle.truncate msg eventMessageMaxBytes)
                 })
              }))
        })
   }"

section \<open>Wake\<close>

definition dispatchHibernateRestore :: "env \<Rightarrow> podptr \<Rightarrow> vm_spec \<Rightarrow> vmptr \<Rightarrow> string \<Rightarrow> unit act" where
  "dispatchHibernateRestore e p spec v oper =
     goBackground e (if shouldDropNICBeforeHibernate e spec
       then JobMarkReadyAfterIP p spec v ipWaitWake
       else JobPostClone p spec v [] oper ipWaitWake)"

definition wake :: "env \<Rightarrow> podptr \<Rightarrow> vm_spec \<Rightarrow> (err + bool) act" where
  "wake e p spec =
     (if vsVMName spec = [] then State_Monad.return (Inr True)
      else do {
        _ \<leftarrow> markLifecycleState e p LifecycleStateCreating [];
        _ \<leftarrow> clearRuntimeAnnotations e p;
        src \<leftarrow> resolveWakeSource e (vsVMName spec);
        (case src of
           Inl x \<Rightarrow> do { _ \<leftarrow> failOp e p ''WakePullFailed'' ''update'' x; State_Monad.return (Inl x) }
         | Inr src \<Rightarrow> do {
             v \<leftarrow> cloneFromHibernate e spec src (podCPUPolicy (ptMeta p));
             (case v of
                Inl x \<Rightarrow> do { _ \<leftarrow> failOp e p ''WakeCloneFailed'' ''update'' x; State_Monad.return (Inl x) }
              | Inr v \<Rightarrow> do {
                  v \<leftarrow> newVM v;
                  ok \<leftarrow> applyRuntime e p v;
                  (if \<not> ok then State_Monad.return (Inr False)
                   else do {
                     _ \<leftarrow> startProbeIfEnabled e p;
                     _ \<leftarrow> dispatchHibernateRestore e p spec v ''update'';
                     _ \<leftarrow> emitEvent False ''Woken'' (''cloned from '' @ wsLabel src);
                     State_Monad.return (Inr True)
                   })
                })
           })
      })"

end
