(* ===== verification/Macos.thy ===== *)
theory Macos
  imports Hibernate
begin

text \<open>
  macOS guests (\<open>macos.go\<close>), run by the \<open>cocoon-macos\<close> CLI on QEMU: VNC ports, readiness probe with
  crash recovery, registration and creation. The CLI is an external call; the probe's two timestamps,
  which its closure keeps between runs, are passed in and out.
\<close>

section \<open>VNC ports\<close>

definition macosVNCPortBase :: int where "macosVNCPortBase = 5900"
definition macosVNCPortSpan :: int where "macosVNCPortSpan = 100"

definition claimMacosVNCPort :: "env \<Rightarrow> string \<Rightarrow> int \<Rightarrow> prov \<Rightarrow> int \<times> prov" where
  "claimMacosVNCPort e key preferred s =
     (if cfgMacosVNCPassword (cfg e) = [] then (0, s)
      else (case macosVNC s key of
        Some port \<Rightarrow> (port, s)
      | None \<Rightarrow>
          (let take = (\<lambda>port. (port, s\<lparr>macosVNC := (macosVNC s)(key \<mapsto> port)\<rparr>)) in
           if macosVNCPortBase \<le> preferred \<and> preferred < macosVNCPortBase + macosVNCPortSpan \<and>
              preferred \<notin> ran (macosVNC s)
           then take preferred
           else (case find (\<lambda>port. port \<notin> ran (macosVNC s))
                        (map (\<lambda>d. macosVNCPortBase + int d) [0..<nat macosVNCPortSpan]) of
                   Some port \<Rightarrow> take port
                 | None \<Rightarrow> (0, s)))))"

definition adoptMacosVNCPort :: "string \<Rightarrow> macos_record \<Rightarrow> prov \<Rightarrow> int \<times> prov" where
  "adoptMacosVNCPort key rc s =
     (if mrVNC rc < 0 then (0, s\<lparr>macosVNC := (macosVNC s)(key := None)\<rparr>)
      else (macosVNCPortBase + mrVNC rc,
            s\<lparr>macosVNC := (macosVNC s)(key \<mapsto> macosVNCPortBase + mrVNC rc)\<rparr>))"

definition macosVNCPortFor :: "string \<Rightarrow> prov \<Rightarrow> int" where
  "macosVNCPortFor key s = (case macosVNC s key of None \<Rightarrow> 0 | Some port \<Rightarrow> port)"

definition maxVNCPasswordBytes :: nat where "maxVNCPasswordBytes = 8"

text \<open>Whitespace and control characters of the first 128 code points; beyond them a string is a
  sequence of runes the model does not decode.\<close>

definition isControlByte :: "char \<Rightarrow> bool" where
  "isControlByte c \<longleftrightarrow> of_char c < (0x20 :: nat) \<or> of_char c = (0x7F :: nat)"

definition ValidateMacosVNCPassword :: "string \<Rightarrow> err option" where
  "ValidateMacosVNCPassword pw =
     (if pw = [] then None
      else if maxVNCPasswordBytes < length pw \<or>
              list_ex (\<lambda>c. isControlByte c \<or> isSpace c \<or> c = CHR 0x22) pw
      then Some (newErr (''must be at most '' @ itoa (int maxVNCPasswordBytes)
             @ '' bytes with no whitespace, control characters or double quotes''))
      else None)"

definition appendMacosVNCArgs :: "env \<Rightarrow> string list \<Rightarrow> int \<Rightarrow> err + string list" where
  "appendMacosVNCArgs e args port =
     (let pw = cfgMacosVNCPassword (cfg e) in
      if port = 0 \<or> pw = [] then Inr args
      else (case ValidateMacosVNCPassword pw of
              Some x \<Rightarrow> Inl (wrapErr ''COCOON_MACOS_VNC_PASSWORD '' x [])
            | None \<Rightarrow> Inr (args @ [''--vnc'', itoa (port - macosVNCPortBase), ''--vnc-password'', pw])))"

definition macosDefaultCPUs :: int where "macosDefaultCPUs = 4"
definition macosDefaultMemMB :: int where "macosDefaultMemMB = 8192"

definition macosCPUs :: "pod_meta \<Rightarrow> int" where
  "macosCPUs pm =
     (let o1 = fst (vmResourceOverrides pm); cpus = (if o1 > 0 then o1 else macosDefaultCPUs)
      in cpus + cpus mod 2)"

definition macosMemMB :: "pod_meta \<Rightarrow> int" where
  "macosMemMB pm =
     (case pmContainers pm of
        [] \<Rightarrow> macosDefaultMemMB
      | res # _ \<Rightarrow>
          (let mb = quot (qValue (selectQuantity (rsRequests res) (rsLimits res) ''memory'')) (2 ^ 20)
           in if mb > 0 then mb else macosDefaultMemMB))"

section \<open>Images and launch\<close>

definition macosImagePresent :: "env \<Rightarrow> string \<Rightarrow> bool act" where
  "macosImagePresent e img = do {
     r \<leftarrow> macosExec e [''image'', ''inspect'', img];
     State_Monad.return (snd r = None)
   }"

definition ensureMacosImage :: "env \<Rightarrow> string \<Rightarrow> err option act" where
  "ensureMacosImage e img = do {
     r \<leftarrow> flightString e img (do {
       present \<leftarrow> macosImagePresent e img;
       (if present then State_Monad.return (Inr img)
        else do {
          r \<leftarrow> macosExec e [''image'', ''pull'', img];
          (case snd r of
             Some x \<Rightarrow> State_Monad.return (Inl (wrapErr (''macos image '' @ quoteStr img
               @ '' not materialized and pull failed: '') x ('': '' @ trimSpace (fst r))))
           | None \<Rightarrow> do {
               present \<leftarrow> macosImagePresent e img;
               State_Monad.return (if present then Inr img
                 else Inl (newErr (''macos image '' @ quoteStr img @ '' is absent after pull'')))
             })
        })
     });
     State_Monad.return (case r of Inl x \<Rightarrow> Some x | Inr _ \<Rightarrow> None)
   }"

definition startMacosVM :: "env \<Rightarrow> string \<Rightarrow> int \<Rightarrow> (string \<times> err option) act" where
  "startMacosVM e vmName port =
     (case appendMacosVNCArgs e [''vm'', ''start''] port of
        Inl x \<Rightarrow> State_Monad.return ([], Some x)
      | Inr args \<Rightarrow> macosExec e (args @ [vmName]))"

definition macosVMAbsent :: "env \<Rightarrow> vm_spec \<Rightarrow> bool act" where
  "macosVMAbsent e spec =
     (if \<not> isMacosSpec e spec then State_Monad.return False
      else do {
        r \<leftarrow> macosExec e [''vm'', ''inspect'', vsVMName spec];
        State_Monad.return (snd r \<noteq> None \<and> macosVMMissing (fst r))
      })"

definition macosAlreadyTracked :: "string \<Rightarrow> string \<Rightarrow> prov \<Rightarrow> bool" where
  "macosAlreadyTracked key vmName s =
     (case vmsByPod s key of
        None \<Rightarrow> False
      | Some v \<Rightarrow> isMacosVM (Some v) \<and> vpName v = vmName)"

section \<open>Endpoints and readiness\<close>

definition addAnnotationPatch :: "patch \<Rightarrow> string \<Rightarrow> string \<Rightarrow> string \<Rightarrow> patch" where
  "addAnnotationPatch pt key current desired =
     (if current = desired then pt
      else pt(key \<mapsto> (if desired = [] then None else Some desired)))"

text \<open>The pod is a private copy; \<open>current\<close> are its annotations. The patch is empty exactly when neither
  endpoint differs.\<close>

definition reconcileRuntimeEndpoints :: "env \<Rightarrow> podptr \<Rightarrow> string \<Rightarrow> bool act" where
  "reconcileRuntimeEndpoints e p ip = do {
     current \<leftarrow> peek (\<lambda>s. pAnnotations (podAt s p));
     r \<leftarrow> reading e (\<lambda>s. (vmsByPod s (podKey e p), macosVNCPortFor (podKey e p) s));
     (let macos = isMacosVM (fst r);
          vnc = (if snd r \<noteq> 0 then itoa (snd r) else []);
          annos = addAnnotationPatch Map.empty (kIP (konst e)) (annotOf current (kIP (konst e))) ip;
          annos = (if macos then addAnnotationPatch annos (kVNCPort (konst e))
                     (annotOf current (kVNCPort (konst e))) vnc else annos)
      in if annotOf current (kIP (konst e)) = ip \<and>
            (macos \<longrightarrow> annotOf current (kVNCPort (konst e)) = vnc)
         then State_Monad.return True
         else do {
           z \<leftarrow> patchWithRetry e
             (patchIncarnationAnnotations e (ptNamespace p) (ptName p) (ptUID p) annos);
           State_Monad.return (\<not> patchSuperseded z)
         })
   }"

definition buildOnUpdate :: "env \<Rightarrow> string \<Rightarrow> string \<Rightarrow> unit act" where
  "buildOnUpdate e ns name = do {
     r \<leftarrow> GetPod e ns name;
     (case r of
        Inl _ \<Rightarrow> State_Monad.return ()
      | Inr p \<Rightarrow> do {
          v \<leftarrow> vmForPod e ns name;
          ok \<leftarrow> (case v of
                 None \<Rightarrow> State_Monad.return True
               | Some v \<Rightarrow> reconcileRuntimeEndpoints e p (vIP (vpVM v)));
          (if ok then refreshAndNotify e p else State_Monad.return ())
        })
   }"

definition probeResult :: "env \<Rightarrow> string \<Rightarrow> prov \<Rightarrow> probe_result" where
  "probeResult e key s = (if cfgProbes (cfg e) then mgrGet key (probes s) else mgrGet [] NewManager)"

definition publishMacosReadiness :: "env \<Rightarrow> string \<Rightarrow> string \<Rightarrow> unit act" where
  "publishMacosReadiness e ns name = do {
     r \<leftarrow> GetPod e ns name;
     (case r of
        Inl _ \<Rightarrow> State_Monad.return ()
      | Inr p \<Rightarrow> do {
          ready \<leftarrow> reading e (\<lambda>s. prReady (probeResult e (mPodKey (lib e) ns name) s));
          failed \<leftarrow> (if ready then lifecycleAlreadyFailed e p else State_Monad.return True);
          (if failed then refreshAndNotify e p
           else do {
             v \<leftarrow> vmForPod e ns name;
             ok \<leftarrow> (case v of
                    None \<Rightarrow> State_Monad.return True
                  | Some v \<Rightarrow> reconcileRuntimeEndpoints e p (vIP (vpVM v)));
             (if ok then markReadyPublished e p else State_Monad.return ())
           })
        })
   }"

section \<open>Probe and recovery\<close>

definition macosInspectRetryEvery :: int where "macosInspectRetryEvery = 10 * second"
definition macosGuestSSHPort :: string where "macosGuestSSHPort = ''22''"

definition updateRecoveredMacosVM ::
  "env \<Rightarrow> string \<Rightarrow> string \<Rightarrow> string \<Rightarrow> string \<Rightarrow> macos_record \<Rightarrow> unit act" where
  "updateRecoveredMacosVM e ns name uid vmID rc =
     (let key = mPodKey (lib e) ns name in do {
        mine \<leftarrow> trackedPodMatches e key uid;
        (if \<not> mine then State_Monad.return ()
         else do {
           v \<leftarrow> locked e (updateTrackedVM key vmID (applyMacosRecord (Some rc)));
           (case v of
              None \<Rightarrow> State_Monad.return ()
            | Some v \<Rightarrow> do {
                _ \<leftarrow> locked e (adoptMacosVNCPort key rc);
                r \<leftarrow> GetPod e ns name;
                (case r of
                   Inl _ \<Rightarrow> State_Monad.return ()
                 | Inr p \<Rightarrow> do {
                     _ \<leftarrow> reconcileRuntimeEndpoints e p (vIP (vpVM v));
                     State_Monad.return ()
                   })
              })
         })
      })"

definition restartMacosVM :: "env \<Rightarrow> string \<Rightarrow> string \<Rightarrow> string \<Rightarrow> vmptr \<Rightarrow> string act" where
  "restartMacosVM e ns name uid v = do {
     port \<leftarrow> reading e (macosVNCPortFor (mPodKey (lib e) ns name));
     r \<leftarrow> startMacosVM e (vpName v) port;
     (case snd r of
        Some x \<Rightarrow> State_Monad.return (''qemu restart: '' @ trimSpace (fst r) @ '': '' @ errMsg x)
      | None \<Rightarrow> do {
          rc \<leftarrow> macosInspect e (vpName v);
          _ \<leftarrow> (case rc of
                 None \<Rightarrow> State_Monad.return ()
               | Some rc \<Rightarrow> updateRecoveredMacosVM e ns name uid (vpID v) rc);
          State_Monad.return ''qemu restarted''
        })
   }"

definition recoverMacosVM :: "env \<Rightarrow> string \<Rightarrow> string \<Rightarrow> string \<Rightarrow> vmptr \<Rightarrow> string act" where
  "recoverMacosVM e ns name uid v = do {
     rc \<leftarrow> macosInspect e (vpName v);
     (case rc of
        None \<Rightarrow> restartMacosVM e ns name uid v
      | Some rc \<Rightarrow> do {
          alive \<leftarrow> macosProcessAlive e (mrPID rc);
          (if alive
           then do {
             _ \<leftarrow> updateRecoveredMacosVM e ns name uid (vpID v) rc;
             State_Monad.return ''adopted running qemu''
           }
           else restartMacosVM e ns name uid v)
        })
   }"

definition elapsedSince :: "env \<Rightarrow> int option \<Rightarrow> bool act" where
  "elapsedSince e prev = do {
     now \<leftarrow> timeNow e;
     State_Monad.return (case prev of None \<Rightarrow> True | Some l \<Rightarrow> macosInspectRetryEvery \<le> now - l)
   }"

type_synonym probe_clock = "int option \<times> int option"

text \<open>The backfill of a record that was registered while \<open>vm inspect\<close> was failing.\<close>

definition healMacosRecord ::
  "env \<Rightarrow> string \<Rightarrow> string \<Rightarrow> vmptr \<Rightarrow> int option \<Rightarrow> (vmptr option \<times> int option) act" where
  "healMacosRecord e ns name v lastInspect =
     (if vMAC (vpVM v) \<noteq> [] then State_Monad.return (Some v, lastInspect)
      else do {
        due \<leftarrow> elapsedSince e lastInspect;
        (if \<not> due then State_Monad.return (Some v, lastInspect)
         else do {
           now \<leftarrow> timeNow e;
           rc \<leftarrow> macosInspect e (vpName v);
           (case rc of
              None \<Rightarrow> State_Monad.return (Some v, Some now)
            | Some rc \<Rightarrow>
                if mrMAC rc = [] then State_Monad.return (Some v, Some now)
                else do {
                  u \<leftarrow> locked e (updateTrackedVM (mPodKey (lib e) ns name) (vpID v)
                    (applyMacosRecord (Some rc)));
                  State_Monad.return (u, Some now)
                })
         })
      })"

definition dialMacosGuest :: "env \<Rightarrow> string \<Rightarrow> string \<Rightarrow> vmptr \<Rightarrow> (bool \<times> string) act" where
  "dialMacosGuest e ns name v = do {
     ip \<leftarrow> resolveVMIP e ns name v;
     (if ip = [] then State_Monad.return (False, ''waiting for guest dhcp lease'')
      else do {
        port \<leftarrow> probePort e ns name;
        (if port \<noteq> [] then probeTCP e ip port else sshReady e (joinHostPort ip macosGuestSSHPort))
      })
   }"

definition macosProbe :: "env \<Rightarrow> string \<Rightarrow> string \<Rightarrow> string \<Rightarrow> probe_clock \<Rightarrow>
  ((bool \<times> string) \<times> probe_clock) act" where
  "macosProbe e ns name uid clock =
     (case clock of (lastInspect, lastRestarted) \<Rightarrow> do {
        mine \<leftarrow> trackedPodMatches e (mPodKey (lib e) ns name) uid;
        (if \<not> mine then State_Monad.return ((False, ''pod incarnation replaced''), clock)
         else do {
           v \<leftarrow> vmForPod e ns name;
           (case v of
              None \<Rightarrow> State_Monad.return ((False, ''vm gone''), clock)
            | Some v \<Rightarrow> do {
                r \<leftarrow> healMacosRecord e ns name v lastInspect;
                (case r of
                   (None, li) \<Rightarrow> State_Monad.return ((False, ''waiting for vm record''), (li, lastRestarted))
                 | (Some v, li) \<Rightarrow>
                     if vMAC (vpVM v) = []
                     then State_Monad.return ((False, ''waiting for vm record''), (li, lastRestarted))
                     else do {
                       dead \<leftarrow> (if 0 < vPID (vpVM v)
                         then do { a \<leftarrow> macosProcessAlive e (vPID (vpVM v)); State_Monad.return (\<not> a) }
                         else State_Monad.return False);
                       (if \<not> dead
                        then do {
                          out \<leftarrow> dialMacosGuest e ns name v;
                          State_Monad.return (out, (li, lastRestarted))
                        }
                        else do {
                          due \<leftarrow> elapsedSince e lastRestarted;
                          (if \<not> due
                           then State_Monad.return ((False, ''qemu process dead''), (li, lastRestarted))
                           else do {
                             now \<leftarrow> timeNow e;
                             msg \<leftarrow> recoverMacosVM e ns name uid v;
                             State_Monad.return ((False, msg), (li, Some now))
                           })
                        })
                     })
              })
         })
      })"

definition startMacosProbe :: "env \<Rightarrow> podptr \<Rightarrow> unit act" where
  "startMacosProbe e p = startProbe e p (do {
     r \<leftarrow> macosProbe e (ptNamespace p) (ptName p) (ptUID p) (None, None);
     State_Monad.return (fst r)
   })"

section \<open>Creation\<close>

text \<open>The conversion \<open>int32(vncPort)\<close>.\<close>

definition wrap32 :: "int \<Rightarrow> int" where
  "wrap32 i = (i + 2 ^ 31) mod 2 ^ 32 - 2 ^ 31"

definition registerMacosVM ::
  "env \<Rightarrow> podptr \<Rightarrow> vm_spec \<Rightarrow> macos_record option \<Rightarrow> int \<Rightarrow> bool act" where
  "registerMacosVM e p spec rc vncPort = do {
     v \<leftarrow> seedLeaseIP e (applyMacosRecord rc (zeroVM\<lparr>vID := macosVMID (vsVMName spec),
       vName := vsVMName spec, vHypervisor := macosHypervisor, vState := StateRunning\<rparr>));
     v \<leftarrow> newVM v;
     ok \<leftarrow> bindRuntime e p v \<lparr>vrVMID = vpID v, vrIP = vIP (vpVM v), vrVNCPort = wrap32 vncPort\<rparr>;
     (if \<not> ok then State_Monad.return False
      else do {
        r \<leftarrow> GetPod e (ptNamespace p) (ptName p);
        _ \<leftarrow> (case r of
               Inl _ \<Rightarrow> State_Monad.return True
             | Inr current \<Rightarrow> reconcileRuntimeEndpoints e current (vIP (vpVM v)));
        _ \<leftarrow> startMacosProbe e p;
        State_Monad.return True
      })
   }"

definition markPodRunning :: "env \<Rightarrow> podptr \<Rightarrow> unit act" where
  "markPodRunning e p = do {
     now \<leftarrow> timeNow e;
     writing e (setStatus p (\<lambda>st. st\<lparr>stPhase := PodRunning, stStartTime := Some now\<rparr>))
   }"

definition failCreate :: "env \<Rightarrow> podptr \<Rightarrow> string \<Rightarrow> err \<Rightarrow> err option act" where
  "failCreate e p reason x = do {
     _ \<leftarrow> failOp e p reason ''create'' x;
     spec \<leftarrow> peek (\<lambda>s. mParseVMSpec (lib e) (podAt s p));
     absent \<leftarrow> macosVMAbsent e spec;
     _ \<leftarrow> writing e (failCreateLocked (podKey e p) (ptUID p) absent (isMacosSpec e spec));
     State_Monad.return (Some x)
   }"

text \<open>The guest does not exist yet: materialise the image and \<open>vm run\<close> it.\<close>

definition macosRunArgs :: "env \<Rightarrow> podptr \<Rightarrow> vm_spec \<Rightarrow> int \<Rightarrow> err + string list" where
  "macosRunArgs e p spec port =
     (case appendMacosVNCArgs e [''vm'', ''run'', ''--name'', vsVMName spec,
             ''--cpus'', itoa (macosCPUs (ptMeta p)), ''--memory'', itoa (macosMemMB (ptMeta p))] port of
        Inl x \<Rightarrow> Inl x
      | Inr args \<Rightarrow>
          (let storage = NormalizeSizeArg (mParseQuantity (lib e)) (vsStorage spec)
           in Inr (args @ (if storage \<noteq> [] then [''--storage'', storage] else [])
                @ [''--exit-on-reboot'', ''--random-smbios'', ''--net'', ''cni'', vsImage spec])))"

definition runMacosVM :: "env \<Rightarrow> podptr \<Rightarrow> vm_spec \<Rightarrow> int \<Rightarrow> (err + macos_record option) act" where
  "runMacosVM e p spec port = do {
     r \<leftarrow> ensureMacosImage e (vsImage spec);
     (case r of
        Some x \<Rightarrow> State_Monad.return (Inl x)
      | None \<Rightarrow>
          (case macosRunArgs e p spec port of
             Inl x \<Rightarrow> State_Monad.return (Inl x)
           | Inr args \<Rightarrow> do {
               r \<leftarrow> macosExec e args;
               (case snd r of
                  Some x \<Rightarrow> State_Monad.return (Inl (wrapErr (''cocoon-macos vm run '' @ vsVMName spec @ '': '')
                    x ('': '' @ trimSpace (fst r))))
                | None \<Rightarrow> do { rc \<leftarrow> macosInspect e (vsVMName spec); State_Monad.return (Inr rc) })
             }))
   }"

definition revealMacosVM ::
  "env \<Rightarrow> podptr \<Rightarrow> vm_spec \<Rightarrow> (err + macos_record option \<times> int) act" where
  "revealMacosVM e p spec = do {
     preferred \<leftarrow> peek (\<lambda>s. vrVNCPort (mParseVMRuntime (lib e) (podAt s p)));
     rc \<leftarrow> macosInspect e (vsVMName spec);
     alive \<leftarrow> (case rc of
       None \<Rightarrow> State_Monad.return False
     | Some r \<Rightarrow> macosProcessAlive e (mrPID r));
     (case rc of
        Some r \<Rightarrow>
          if alive
          then do {
            port \<leftarrow> locked e (adoptMacosVNCPort (podKey e p) r);
            State_Monad.return (Inr (rc, port))
          }
          else do {
            port \<leftarrow> locked e (claimMacosVNCPort e (podKey e p) preferred);
            z \<leftarrow> startMacosVM e (vsVMName spec) port;
            (case snd z of
               Some x \<Rightarrow> State_Monad.return (Inl (wrapErr (''cocoon-macos vm start '' @ vsVMName spec @ '': '')
                 x ('': '' @ trimSpace (fst z))))
             | None \<Rightarrow> do {
                 rc \<leftarrow> macosInspect e (vsVMName spec);
                 State_Monad.return (Inr (rc, port))
               })
          }
      | None \<Rightarrow> do {
          port \<leftarrow> locked e (claimMacosVNCPort e (podKey e p) preferred);
          r \<leftarrow> runMacosVM e p spec port;
          State_Monad.return (case r of Inl x \<Rightarrow> Inl x | Inr rc \<Rightarrow> Inr (rc, port))
        })
   }"

definition createMacosPod :: "env \<Rightarrow> podptr \<Rightarrow> vm_spec \<Rightarrow> err option act" where
  "createMacosPod e p spec =
     (if vsImage spec = []
      then failCreate e p ''CreateBringUpFailed'' (newErr (''macos pod '' @ podKey e p @ '' missing ''
        @ kImage (konst e) @ '' annotation''))
      else do {
        dup \<leftarrow> reading e (macosAlreadyTracked (podKey e p) (vsVMName spec));
        (if dup
         then do {
           idle \<leftarrow> reading e (\<lambda>s. prLastSeen (probeResult e (podKey e p) s) = None);
           _ \<leftarrow> (if idle then startMacosProbe e p else State_Monad.return ());
           _ \<leftarrow> publishMacosReadiness e (ptNamespace p) (ptName p);
           State_Monad.return None
         }
         else do {
           r \<leftarrow> revealMacosVM e p spec;
           (case r of
              Inl x \<Rightarrow> failCreate e p ''CreateBringUpFailed'' x
            | Inr (rc, port) \<Rightarrow> do {
                ok \<leftarrow> registerMacosVM e p spec rc port;
                (if \<not> ok then State_Monad.return None
                 else do {
                   _ \<leftarrow> markPodRunning e p;
                   _ \<leftarrow> publishMacosReadiness e (ptNamespace p) (ptName p);
                   State_Monad.return None
                 })
              })
         })
      })"

definition DeleteFailedMacosCreate :: "env \<Rightarrow> podptr \<Rightarrow> unit act" where
  "DeleteFailedMacosCreate e p = do {
     owed \<leftarrow> reading e (\<lambda>s. pods s (podKey e p) = None \<and> macosLeftover s (podKey e p) = Some (ptUID p));
     (if owed then goBackground e (JobDeletePod p) else State_Monad.return ())
   }"

section \<open>Restart\<close>

text \<open>\<open>reconcileMacosPod\<close>: after a restart a live guest is registered again; a dead record is left to
  \<open>CreatePod\<close>, remembered as a leftover of this incarnation.\<close>

definition reconcileMacosPod :: "env \<Rightarrow> podptr \<Rightarrow> vm_spec \<Rightarrow> unit act" where
  "reconcileMacosPod e p spec =
     (if vsVMName spec = [] then State_Monad.return ()
      else do {
        rc \<leftarrow> macosInspect e (vsVMName spec);
        (case rc of
           None \<Rightarrow> State_Monad.return ()
         | Some r \<Rightarrow> do {
             alive \<leftarrow> macosProcessAlive e (mrPID r);
             (if \<not> alive
              then writing e (\<lambda>s. s\<lparr>macosLeftover := (macosLeftover s)(podKey e p \<mapsto> ptUID p)\<rparr>)
              else do {
                _ \<leftarrow> writing e (seedLifecycleLocked e p);
                port \<leftarrow> locked e (adoptMacosVNCPort (podKey e p) r);
                ok \<leftarrow> registerMacosVM e p spec rc port;
                (if \<not> ok then State_Monad.return ()
                 else do {
                   hib \<leftarrow> peek (\<lambda>s. mReadHibernateState (lib e) (podAt s p));
                   _ \<leftarrow> (if \<not> hib
                         then do { _ \<leftarrow> liftHibernateFailure e p; State_Monad.return () }
                         else State_Monad.return ());
                   publishMacosReadiness e (ptNamespace p) (ptName p)
                 })
              })
           })
      })"

text \<open>What \<open>macosExec\<close> writes to the log of a command line. The loop ranges over all but the last
  index and reads the slice it is writing.\<close>

definition redactStep :: "string list \<Rightarrow> nat \<Rightarrow> string list" where
  "redactStep redacted i =
     (if redacted ! i = ''--vnc-password'' then redacted[i + 1 := ''<redacted>''] else redacted)"

definition formatMacosArgsForLog :: "string list \<Rightarrow> string" where
  "formatMacosArgsForLog args = joinStr (foldl redactStep args [0..<length args - 1]) '' ''"

end
