(* ===== verification/Decimal.thy ===== *)
theory Decimal
  imports Prelude
begin

text \<open>
  Decimal numerals: \<open>strconv.Atoi\<close> on digit strings and its round trip with \<open>strconv.Itoa\<close>.
\<close>

definition isDigit :: "char \<Rightarrow> bool" where
  "isDigit c \<longleftrightarrow> 48 \<le> (of_char c :: nat) \<and> (of_char c :: nat) \<le> 57"

definition digitVal :: "char \<Rightarrow> nat" where
  "digitVal c = of_char c - 48"

text \<open>The value of a string of digits, most significant first.\<close>

definition digitsVal :: "string \<Rightarrow> nat" where
  "digitsVal s = foldl (\<lambda>n c. 10 * n + digitVal c) 0 s"

text \<open>\<open>strconv.Atoi\<close>: an optional sign and at least one digit, out of range is an error.\<close>

definition atoi :: "string \<Rightarrow> int option" where
  "atoi s =
     (let neg = hasPrefix s ''-''; body = (if neg \<or> hasPrefix s ''+'' then tl s else s);
          v = (if neg then - int (digitsVal body) else int (digitsVal body))
      in if body = [] \<or> \<not> list_all isDigit body \<or> v < - (2 ^ 63) \<or> 2 ^ 63 \<le> v then None else Some v)"

lemma digit_char: "n < 10 \<Longrightarrow> isDigit (char_of (48 + n)) \<and> digitVal (char_of (48 + n)) = n"
  by (simp add: isDigit_def digitVal_def)

lemma natDigits_digits: "natDigits n \<noteq> [] \<and> list_all isDigit (natDigits n)"
proof (induction n rule: natDigits.induct)
  case (1 n)
  then show ?case
    using digit_char [of n] digit_char [of "n mod 10"] by (subst (1 2) natDigits.simps) auto
qed

lemma digitsVal_snoc: "digitsVal (s @ [c]) = 10 * digitsVal s + digitVal c"
  by (simp add: digitsVal_def)

lemma digitsVal_natDigits: "digitsVal (natDigits n) = n"
proof (induction n rule: natDigits.induct)
  case (1 n)
  then show ?case
    using digit_char [of n] digit_char [of "n mod 10"]
    by (subst natDigits.simps) (auto simp: digitsVal_snoc digitsVal_def)
qed

lemma natDigits_head: "\<not> hasPrefix (natDigits n) ''-'' \<and> \<not> hasPrefix (natDigits n) ''+''"
  using natDigits_digits [of n] by (cases "natDigits n") (auto simp: hasPrefix_def isDigit_def)

lemma atoi_itoa:
  assumes "- (2 ^ 63) \<le> i" "i < 2 ^ 63"
  shows "atoi (itoa i) = Some i"
proof (cases "i < 0")
  case True
  with assms natDigits_digits [of "nat (- i)"] show ?thesis
    by (simp add: atoi_def itoa_def hasPrefix_def digitsVal_natDigits)
next
  case False
  with assms natDigits_digits [of "nat i"] natDigits_head [of "nat i"] show ?thesis
    by (simp add: atoi_def itoa_def digitsVal_natDigits)
qed

lemma itoa_chars: "c \<in> set (itoa i) \<Longrightarrow> isDigit c \<or> c = CHR ''-''"
  using natDigits_digits [of "nat i"] natDigits_digits [of "nat (- i)"]
  by (auto simp: itoa_def list_all_iff split: if_splits)

end
