(* ===== verification/Macos_Props.thy ===== *)
theory Macos_Props
  imports Macos Example_Env Decimal
begin

text \<open>
  macOS guests: the VNC port table and the log of the command line that carries the VNC password.
\<close>

section \<open>VNC ports\<close>

text \<open>No two pods hold one port.\<close>

definition vncUnique :: "prov \<Rightarrow> bool" where
  "vncUnique s \<longleftrightarrow> (\<forall>k j port. macosVNC s k = Some port \<longrightarrow> macosVNC s j = Some port \<longrightarrow> k = j)"

definition vncRange :: "int set" where
  "vncRange = {macosVNCPortBase ..< macosVNCPortBase + macosVNCPortSpan}"

lemma vncRange_list:
  "set (map (\<lambda>d. macosVNCPortBase + int d) [0..<nat macosVNCPortSpan]) = vncRange"
proof -
  have "port \<in> (\<lambda>d. 5900 + int d) ` {0..<100}" if "5900 \<le> port" "port < 6000" for port :: int
    using that by (intro image_eqI [of _ _ "nat (port - 5900)"]) auto
  then show ?thesis by (auto simp: vncRange_def macosVNCPortBase_def macosVNCPortSpan_def)
qed

lemma find_cases: "case find P xs of None \<Rightarrow> \<forall>x \<in> set xs. \<not> P x | Some x \<Rightarrow> x \<in> set xs \<and> P x"
  by (induction xs) (auto split: option.splits)

definition vncClaimed :: "env \<Rightarrow> string \<Rightarrow> int \<Rightarrow> prov \<Rightarrow> int \<Rightarrow> prov \<Rightarrow> bool" where
  "vncClaimed e key preferred s port t \<longleftrightarrow>
     (if port = 0 then t = s \<and> (cfgMacosVNCPassword (cfg e) = [] \<or> vncRange \<subseteq> ran (macosVNC s))
      else port \<in> vncRange \<and> port \<notin> ran (macosVNC s) \<and>
        t = s\<lparr>macosVNC := (macosVNC s)(key \<mapsto> port)\<rparr> \<and>
        (preferred \<in> vncRange \<longrightarrow> preferred \<notin> ran (macosVNC s) \<longrightarrow> port = preferred))"

lemma claim_new:
  assumes "macosVNC s key = None" "claimMacosVNCPort e key preferred s = (port, t)"
  shows "vncClaimed e key preferred s port t"
proof (cases "cfgMacosVNCPassword (cfg e) = [] \<or> preferred \<in> vncRange \<and> preferred \<notin> ran (macosVNC s)")
  case True
  then have "claimMacosVNCPort e key preferred s = (if cfgMacosVNCPassword (cfg e) = [] then (0, s)
      else (preferred, s\<lparr>macosVNC := (macosVNC s)(key \<mapsto> preferred)\<rparr>))"
    using assms(1) by (auto simp: claimMacosVNCPort_def vncRange_def Let_def)
  moreover have "preferred \<in> vncRange \<Longrightarrow> preferred \<noteq> 0"
    by (auto simp: vncRange_def macosVNCPortBase_def)
  ultimately show ?thesis
    using assms(2) True by (auto simp: vncClaimed_def split: if_splits)
next
  case False
  let ?free = "\<lambda>port. port \<notin> ran (macosVNC s)"
  let ?ports = "map (\<lambda>d. macosVNCPortBase + int d) [0..<nat macosVNCPortSpan]"
  have claim: "claimMacosVNCPort e key preferred s =
      (case find ?free ?ports of
         Some port \<Rightarrow> (port, s\<lparr>macosVNC := (macosVNC s)(key \<mapsto> port)\<rparr>) | None \<Rightarrow> (0, s))"
    using False assms(1) by (auto simp: claimMacosVNCPort_def vncRange_def Let_def)
  show ?thesis
  proof (cases "find ?free ?ports")
    case None
    with find_cases [of ?ports ?free] have "\<forall>port \<in> vncRange. \<not> ?free port"
      unfolding vncRange_list by simp
    then have "vncRange \<subseteq> ran (macosVNC s)" by blast
    with None claim assms(2) show ?thesis by (simp add: vncClaimed_def)
  next
    case (Some q)
    with find_cases [of ?ports ?free] have "q \<in> vncRange" "?free q"
      unfolding vncRange_list by simp_all
    moreover have "q \<noteq> 0" using \<open>q \<in> vncRange\<close> by (auto simp: vncRange_def macosVNCPortBase_def)
    ultimately show ?thesis using Some claim assms(2) False by (auto simp: vncClaimed_def)
  qed
qed

section \<open>The log line\<close>

text \<open>The indexed loop as a structural recursion.\<close>

fun redact :: "string list \<Rightarrow> string list" where
  "redact (x # y # ys) = x # redact ((if x = ''--vnc-password'' then ''<redacted>'' else y) # ys)"
| "redact xs = xs"

lemma redactStep_Suc: "redactStep (x # xs) (Suc i) = x # redactStep xs i"
  by (simp add: redactStep_def)

lemma foldl_redact_Suc: "foldl redactStep (x # xs) (map Suc is) = x # foldl redactStep xs is"
  by (induction "is" arbitrary: xs) (simp_all add: redactStep_Suc)

lemma foldl_redact: "foldl redactStep xs [0..<length xs - 1] = redact xs"
proof (induction xs rule: redact.induct)
  case (1 x y ys)
  have "[0..<length (x # y # ys) - 1] = 0 # map Suc [0..<length (y # ys) - 1]"
    by (simp add: map_Suc_upt upt_conv_Cons del: upt_Suc)
  then have "foldl redactStep (x # y # ys) [0..<length (x # y # ys) - 1] =
      x # foldl redactStep ((if x = ''--vnc-password'' then ''<redacted>'' else y) # ys) [0..<length (y # ys) - 1]"
    by (simp add: foldl_redact_Suc redactStep_def del: upt_Suc)
  with 1 show ?case by simp
qed simp_all

lemma redact_hides:
  "d \<noteq> ''--vnc-password'' \<Longrightarrow>
   redact (pre @ d # ''--vnc-password'' # pw # post) = redact (pre @ d # ''--vnc-password'' # pw' # post)"
  by (induction pre arbitrary: d rule: redact.induct) simp_all

text \<open>Claiming a VNC port. A pod keeps the port it has; a new claim takes the preferred port if it is
  free, else some free port between 5900 and 5999, and fails (port 0, nothing changed) only when VNC is
  off or all hundred ports are taken. Ports stay unique.\<close>

theorem vnc_port_claim:
  assumes "claimMacosVNCPort e key preferred s = (port, t)"
  shows "(\<forall>q. macosVNC s key = Some q \<longrightarrow> t = s \<and> (port = q \<or> cfgMacosVNCPassword (cfg e) = [])) \<and>
    (macosVNC s key = None \<longrightarrow> vncClaimed e key preferred s port t) \<and>
    (vncUnique s \<longrightarrow> vncUnique t)"
proof (cases "macosVNC s key")
  case None
  with assms have "vncClaimed e key preferred s port t" by (intro claim_new)
  moreover from this have "vncUnique s \<Longrightarrow> vncUnique t"
    unfolding vncClaimed_def vncUnique_def by (auto simp: ran_def split: if_splits)
  ultimately show ?thesis using None by simp
next
  case (Some q)
  with assms show ?thesis by (auto simp: claimMacosVNCPort_def split: if_splits)
qed

definition exVNC :: env where
  "exVNC = exEnv\<lparr>cfg := exConfig\<lparr>cfgMacosVNCPassword := ''pw''\<rparr>\<rparr>"

theorem vnc_port_claim_witness:
  "claimMacosVNCPort exVNC ''ns/a'' 5907 (exProv\<lparr>macosVNC := [''ns/b'' \<mapsto> 5900]\<rparr>) =
     (5907, exProv\<lparr>macosVNC := [''ns/b'' \<mapsto> 5900, ''ns/a'' \<mapsto> 5907]\<rparr>) \<and>
   vncUnique (exProv\<lparr>macosVNC := [''ns/b'' \<mapsto> 5900, ''ns/a'' \<mapsto> 5907]\<rparr>)"
proof -
  let ?s = "exProv\<lparr>macosVNC := [''ns/b'' \<mapsto> 5900]\<rparr>"
  have c: "claimMacosVNCPort exVNC ''ns/a'' 5907 ?s = (5907, ?s\<lparr>macosVNC := (macosVNC ?s)(''ns/a'' \<mapsto> 5907)\<rparr>)"
    unfolding claimMacosVNCPort_def Let_def
    by (subst if_not_P, simp add: exVNC_def, subst if_P, simp add: macosVNCPortBase_def macosVNCPortSpan_def, simp)
  moreover have "vncUnique ?s" by (simp add: vncUnique_def split: if_splits)
  ultimately show ?thesis using vnc_port_claim [OF c] by simp
qed

text \<open>The VNC password never reaches the log. The line logged for a command that carries the VNC
  arguments is the same for every password, whatever else is on the command line.\<close>

theorem vnc_password_redacted:
  assumes "appendMacosVNCArgs e args port = Inr argv" and "appendMacosVNCArgs e' args port = Inr argv'"
    and "cfgMacosVNCPassword (cfg e) \<noteq> []" and "cfgMacosVNCPassword (cfg e') \<noteq> []"
  shows "formatMacosArgsForLog (argv @ post) = formatMacosArgsForLog (argv' @ post)"
proof (cases "port = 0")
  case True
  with assms show ?thesis by (simp add: appendMacosVNCArgs_def Let_def)
next
  case False
  define d where "d = itoa (port - macosVNCPortBase)"
  have "CHR ''v'' \<notin> set d" unfolding d_def using itoa_chars by (fastforce simp: isDigit_def)
  then have "d \<noteq> ''--vnc-password''" by auto
  then have hide: "redact ((args @ [''--vnc'']) @ d # ''--vnc-password'' # pw # post) =
      redact ((args @ [''--vnc'']) @ d # ''--vnc-password'' # pw' # post)" for pw pw'
    by (rule redact_hides)
  have "argv = args @ [''--vnc'', d, ''--vnc-password'', cfgMacosVNCPassword (cfg e)]"
    "argv' = args @ [''--vnc'', d, ''--vnc-password'', cfgMacosVNCPassword (cfg e')]"
    using assms False by (simp_all add: appendMacosVNCArgs_def Let_def d_def split: option.splits)
  then show ?thesis
    using hide [of "cfgMacosVNCPassword (cfg e)" "cfgMacosVNCPassword (cfg e')"]
    unfolding formatMacosArgsForLog_def foldl_redact by simp
qed

theorem vnc_password_redacted_witness:
  "formatMacosArgsForLog [''vm'', ''start'', ''--vnc'', ''7'', ''--vnc-password'', ''pw'', ''vk-a''] =
   formatMacosArgsForLog [''vm'', ''start'', ''--vnc'', ''7'', ''--vnc-password'', ''secret'', ''vk-a'']"
proof -
  have digit: "itoa 7 = ''7''" by (simp add: itoa_def natDigits.simps) code_simp
  have "appendMacosVNCArgs (exEnv\<lparr>cfg := exConfig\<lparr>cfgMacosVNCPassword := pw\<rparr>\<rparr>) [''vm'', ''start''] 5907 =
      Inr ([''vm'', ''start''] @ [''--vnc'', ''7'', ''--vnc-password'', pw])" if "pw = ''pw'' \<or> pw = ''secret''" for pw
    using that by (auto simp: appendMacosVNCArgs_def ValidateMacosVNCPassword_def maxVNCPasswordBytes_def
        isControlByte_def isSpace_def macosVNCPortBase_def digit)
  from vnc_password_redacted [OF this this, of "''pw''" "''secret''" "[''vk-a'']"] show ?thesis by simp
qed

text \<open>The display a live guest reports is recorded as it is: neither bounded by the span of the claimed
  ports, as the conversion to \<open>int32\<close> in \<open>registerMacosVM\<close> takes it to be, nor checked against the ports
  other pods hold.\<close>

lemma vnc_adopt_unchecked:
  "\<exists>rc. 0 \<le> mrVNC rc \<and> fst (adoptMacosVNCPort key rc s) \<notin> vncRange \<and>
     wrap32 (fst (adoptMacosVNCPort key rc s)) < 0"
  "macosVNC s j = Some port \<Longrightarrow> port \<in> vncRange \<Longrightarrow> j \<noteq> key \<Longrightarrow>
     \<exists>rc. \<not> vncUnique (snd (adoptMacosVNCPort key rc s))"
proof -
  let ?rc = "\<lambda>d. \<lparr>mrName = ''n'', mrPID = 1, mrMAC = [], mrTap = [], mrDisk = [], mrVNC = d\<rparr>"
  show "\<exists>rc. 0 \<le> mrVNC rc \<and> fst (adoptMacosVNCPort key rc s) \<notin> vncRange \<and>
      wrap32 (fst (adoptMacosVNCPort key rc s)) < 0"
    by (intro exI [of _ "?rc (2 ^ 31)"])
      (simp add: adoptMacosVNCPort_def vncRange_def macosVNCPortBase_def macosVNCPortSpan_def wrap32_def)
  show "\<exists>rc. \<not> vncUnique (snd (adoptMacosVNCPort key rc s))"
    if "macosVNC s j = Some port" "port \<in> vncRange" "j \<noteq> key"
    using that by (intro exI [of _ "?rc (port - macosVNCPortBase)"])
      (auto simp: adoptMacosVNCPort_def vncRange_def vncUnique_def)
qed

end
