(* ===== verification/Paths.thy ===== *)
theory Paths
  imports Prelude
begin

text \<open>
  Go's \<open>path/filepath\<close> on absolute Unix paths: \<open>Clean\<close>, \<open>Join\<close> of an absolute directory with one name,
  and \<open>Base\<close>.
\<close>

text \<open>\<open>filepath.Clean\<close> of an absolute path.\<close>

fun splitSlash :: "string \<Rightarrow> string list" where
  "splitSlash [] = [[]]"
| "splitSlash (c # cs) =
     (if c = CHR ''/'' then [] # splitSlash cs
      else (case splitSlash cs of [] \<Rightarrow> [[c]] | l # ls \<Rightarrow> (c # l) # ls))"

definition cleanStep :: "string list \<Rightarrow> string \<Rightarrow> string list" where
  "cleanStep acc part =
     (if part = [] \<or> part = ''.'' then acc
      else if part = ''..'' then (case acc of [] \<Rightarrow> [] | _ # rest \<Rightarrow> rest)
      else part # acc)"

definition cleanAbs :: "string \<Rightarrow> string" where
  "cleanAbs path = ''/'' @ joinStr (rev (foldl cleanStep [] (splitSlash path))) ''/''"

text \<open>\<open>filepath.Join\<close> of an absolute directory and a name.\<close>

definition joinAbs :: "string \<Rightarrow> string \<Rightarrow> string" where
  "joinAbs dir name = cleanAbs (dir @ ''/'' @ name)"

text \<open>\<open>filepath.Base\<close>: the last component once trailing slashes are gone.\<close>

definition pathBase :: "string \<Rightarrow> string" where
  "pathBase path =
     (if path = [] then ''.''
      else (let stripped = rev (dropWhile (\<lambda>c. c = CHR ''/'') (rev path)) in
            if stripped = [] then ''/'' else last (splitSlash stripped)))"

section \<open>Components\<close>

text \<open>A name that is one proper component of a path.\<close>

definition plainComponent :: "string \<Rightarrow> bool" where
  "plainComponent s \<longleftrightarrow> s \<noteq> [] \<and> s \<noteq> ''.'' \<and> s \<noteq> ''..'' \<and> CHR ''/'' \<notin> set s"

lemma splitSlash_plain: "CHR ''/'' \<notin> set s \<Longrightarrow> splitSlash s = [s]"
  by (induction s) auto

lemma splitSlash_nonempty [simp]: "splitSlash s \<noteq> []"
  by (induction s) (auto split: list.splits)

lemma splitSlash_join: "splitSlash (a @ CHR ''/'' # b) = splitSlash a @ splitSlash b"
proof (induction a)
  case (Cons c a)
  then show ?case by (cases "splitSlash a") auto
qed simp

text \<open>A proper component is appended as it is: nothing above the directory is reached.\<close>

lemma joinAbs_plain:
  "plainComponent name \<Longrightarrow>
   joinAbs dir name = ''/'' @ joinStr (rev (foldl cleanStep [] (splitSlash dir)) @ [name]) ''/''"
  by (simp add: joinAbs_def cleanAbs_def splitSlash_join splitSlash_plain plainComponent_def cleanStep_def)

lemma joinAbs_self: "joinAbs dir ''/'' = cleanAbs dir"
  by (simp add: joinAbs_def cleanAbs_def splitSlash_join cleanStep_def)

lemma joinStr_snoc: "joinStr (xs @ [y]) sep = (if xs = [] then y else joinStr xs sep @ sep @ y)"
  by (induction xs sep rule: joinStr.induct) auto

lemma last_splitSlash: "CHR ''/'' \<notin> set (last (splitSlash s))"
  by (induction s) (auto split: list.splits)

text \<open>A name that is its own base is a proper component, or the root itself.\<close>

lemma pathBase_fixed:
  assumes "pathBase s = s" "s \<noteq> ''/''"
  shows "s \<noteq> [] \<and> CHR ''/'' \<notin> set s"
proof -
  have "s \<noteq> []" using assms(1) by (auto simp: pathBase_def)
  moreover have "CHR ''/'' \<notin> set s"
    using assms last_splitSlash by (auto simp: pathBase_def Let_def split: if_splits) metis+
  ultimately show ?thesis ..
qed

section \<open>The components of a path\<close>

definition pathComps :: "string \<Rightarrow> string list" where
  "pathComps path = rev (foldl cleanStep [] (splitSlash path))"

definition absPath :: "string list \<Rightarrow> string" where
  "absPath comps = ''/'' @ joinStr comps ''/''"

lemma cleanAbs_comps: "cleanAbs path = absPath (pathComps path)"
  by (simp add: cleanAbs_def absPath_def pathComps_def)

lemma joinAbs_comps: "plainComponent name \<Longrightarrow> joinAbs dir name = absPath (pathComps dir @ [name])"
  by (simp add: joinAbs_plain absPath_def pathComps_def)

lemma splitSlash_parts: "p \<in> set (splitSlash s) \<Longrightarrow> CHR ''/'' \<notin> set p"
  by (induction s arbitrary: p) (auto split: if_splits list.splits)

lemma foldl_cleanStep_plain:
  "list_all plainComponent acc \<Longrightarrow> (\<And>p. p \<in> set ps \<Longrightarrow> CHR ''/'' \<notin> set p) \<Longrightarrow>
   list_all plainComponent (foldl cleanStep acc ps)"
  by (induction ps arbitrary: acc) (auto simp: cleanStep_def plainComponent_def split: list.splits)

lemma pathComps_plain: "list_all plainComponent (pathComps path)"
  using foldl_cleanStep_plain [of "[]" "splitSlash path"] splitSlash_parts by (auto simp: pathComps_def)

lemma splitSlash_joinStr:
  "comps \<noteq> [] \<Longrightarrow> list_all plainComponent comps \<Longrightarrow> splitSlash (joinStr comps ''/'') = comps"
  by (induction comps "''/''" rule: joinStr.induct) (auto simp: splitSlash_plain splitSlash_join plainComponent_def)

lemma foldl_cleanStep_id:
  "list_all plainComponent ps \<Longrightarrow> foldl cleanStep acc ps = rev ps @ acc"
  by (induction ps arbitrary: acc) (auto simp: cleanStep_def plainComponent_def)

lemma pathComps_absPath [simp]:
  "list_all plainComponent comps \<Longrightarrow> pathComps (absPath comps) = comps"
  by (cases "comps = []")
    (auto simp: pathComps_def absPath_def splitSlash_joinStr foldl_cleanStep_id cleanStep_def)

lemma pathComps_joinAbs: "plainComponent name \<Longrightarrow> pathComps (joinAbs dir name) = pathComps dir @ [name]"
  using pathComps_plain by (simp add: joinAbs_comps)

lemma joinAbs_inj: "plainComponent m \<Longrightarrow> plainComponent n \<Longrightarrow> joinAbs dir m = joinAbs dir n \<longleftrightarrow> m = n"
  using pathComps_joinAbs by (metis last_snoc)

text \<open>Below a directory that was itself joined, the path of a name is the directory's with the name appended.\<close>

lemma joinAbs_below:
  "plainComponent x \<Longrightarrow> plainComponent name \<Longrightarrow> joinAbs (joinAbs root x) name = joinAbs root x @ ''/'' @ name"
  using joinStr_snoc [of "pathComps root @ [x]" name "''/''"]
  by (simp add: joinAbs_comps [of name] pathComps_joinAbs) (simp add: joinAbs_comps absPath_def)

lemma pathBase_joinAbs: "plainComponent name \<Longrightarrow> pathBase (joinAbs dir name) = name"
proof -
  assume p: "plainComponent name"
  have "\<exists>pre. joinAbs dir name = pre @ CHR ''/'' # name"
    by (cases "pathComps dir = []") (auto simp: joinAbs_comps [OF p] absPath_def joinStr_snoc intro: exI [of _ "[]"]
      exI [of _ "CHR ''/'' # joinStr (pathComps dir) ''/''"])
  then obtain pre where e: "joinAbs dir name = pre @ CHR ''/'' # name" by blast
  have "dropWhile (\<lambda>c. c = CHR ''/'') (rev (joinAbs dir name)) = rev (joinAbs dir name)"
    using p unfolding e by (cases name rule: rev_cases) (auto simp: plainComponent_def)
  with p show ?thesis unfolding e
    by (auto simp: pathBase_def splitSlash_join splitSlash_plain plainComponent_def)
qed

end
