(* ===== verification/Create.thy ===== *)
theory Create
  imports Macos Paths
begin

text \<open>
  Pod creation (\<open>create.go\<close>): the compatibility check, adoption of an existing VM, the hibernate
  evidence that turns a fresh boot into a restore, the four ways to bring a VM up, and \<open>CreatePod\<close>.
  What a resume owes (\<open>owedOpFor\<close> of \<open>resume.go\<close>) is here because adoption dispatches it.
\<close>

section \<open>Checks\<close>

definition assertPodSnapshotCompatibility :: "env \<Rightarrow> pod \<Rightarrow> err option" where
  "assertPodSnapshotCompatibility e pd =
     (let requested = annotOf (pmNodeSelector (pMeta pd)) (kCompatibilityClass (konst e));
          ns = pmNamespace (pMeta pd); name = pmName (pMeta pd);
          class = cfgCompatibilityClass (cfg e)
      in if stPhase (pStatus pd) = PodSucceeded \<or> stPhase (pStatus pd) = PodFailed then None
         else if requested = [] then None
         else if class = []
         then Some (newErr (''pod '' @ ns @ ''/'' @ name @ '' requires snapshot compatibility class ''
                @ quoteStr requested @ '' but node '' @ cfgNodeName (cfg e) @ '' is unclassified''))
         else if requested \<noteq> class
         then Some (newErr (''pod '' @ ns @ ''/'' @ name @ '' requires snapshot compatibility class ''
                @ quoteStr requested @ '' but node '' @ cfgNodeName (cfg e) @ '' provides '' @ quoteStr class))
         else None)"

definition parseCloneFromDir :: "env \<Rightarrow> annots \<Rightarrow> err + string" where
  "parseCloneFromDir e an =
     (let raw = trimSpace (annotOf an (kCloneFromDir (konst e))) in
      if raw = [] then Inr []
      else if \<not> hasPrefix raw ''/''
      then Inl (newErr (''annotation '' @ kCloneFromDir (konst e) @ '' must be an absolute path, got ''
             @ quoteStr raw))
      else if cleanAbs raw \<noteq> raw
      then Inl (newErr (''annotation '' @ kCloneFromDir (konst e) @ '' must be a canonical path, got ''
             @ quoteStr raw @ '' (cleaned: '' @ quoteStr (cleanAbs raw) @ '')''))
      else Inr raw)"

definition hasExplicitCloneSource :: "env \<Rightarrow> pod \<Rightarrow> vm_spec \<Rightarrow> bool" where
  "hasExplicitCloneSource e pd spec \<longleftrightarrow>
     trimSpace (annotOf (pAnnotations pd) (kCloneFromDir (konst e))) \<noteq> [] \<or> vsForkFrom spec \<noteq> []"

definition isClonedBoot :: "env \<Rightarrow> pod \<Rightarrow> vm_spec \<Rightarrow> bool" where
  "isClonedBoot e pd spec \<longleftrightarrow>
     vsManaged spec \<and> (hasExplicitCloneSource e pd spec \<or> toLower (vsMode spec) \<noteq> AgentModeRun (konst e))"

section \<open>Adoption\<close>

definition awaitBusyCreate :: "env \<Rightarrow> string \<Rightarrow> unit act" where
  "awaitBusyCreate e name = do {
     settled \<leftarrow> reading e (\<lambda>s. busyCreates s name);
     (case settled of
        None \<Rightarrow> State_Monad.return ()
      | Some _ \<Rightarrow> do { _ \<leftarrow> ext (\<lambda>_. ()) (\<lambda>_. XAwait name); State_Monad.return () })
   }"

definition adoptableVM :: "env \<Rightarrow> string \<Rightarrow> (err + vmptr option) act" where
  "adoptableVM e name = do {
     existing \<leftarrow> vmByName e name;
     (case existing of
        None \<Rightarrow> State_Monad.return (Inr None)
      | Some v \<Rightarrow>
          if isMacosVM (Some v) then State_Monad.return (Inr None)
          else do {
            r \<leftarrow> inspectWithRetry e (vpID v);
            (case r of
               Inr _ \<Rightarrow> State_Monad.return (Inr (Some v))
             | Inl x \<Rightarrow>
                 if errIs x ErrVMNotFound
                 then do {
                   _ \<leftarrow> writing e (\<lambda>s. if samePtr (vmsByName s name) v
                     then s\<lparr>vmsByName := (vmsByName s)(name := None)\<rparr> else s);
                   State_Monad.return (Inr None)
                 }
                 else State_Monad.return (Inl (wrapErr
                   (''inspect vm '' @ vpID v @ '' indexed as '' @ name @ '': '') x [])))
          })
   }"

section \<open>Owed work\<close>

datatype resume_op =
    resumeOpNone | resumeOpHibernate | resumeOpPostClone | resumeOpReadyWait | resumeOpClassifyNIC
  | resumeOpSnapshot

definition resumeName :: "resume_op \<Rightarrow> string" where
  "resumeName oper = (case oper of
      resumeOpNone \<Rightarrow> [] | resumeOpHibernate \<Rightarrow> ''hibernate'' | resumeOpPostClone \<Rightarrow> ''post_clone''
    | resumeOpReadyWait \<Rightarrow> ''ready_wait'' | resumeOpClassifyNIC \<Rightarrow> ''classify_drop_nic''
    | resumeOpSnapshot \<Rightarrow> ''snapshot'')"

definition postCloneNeeded :: "env \<Rightarrow> vm_spec \<Rightarrow> vm \<Rightarrow> bool" where
  "postCloneNeeded e spec v \<longleftrightarrow>
     vsOS spec = OSWindows (konst e) \<or> vsBackend spec = BackendFirecracker \<or>
     list_ex isStaticNIC (vNetworkConfigs v)"

definition pendingSnapshotRef :: "env \<Rightarrow> pod \<Rightarrow> string" where
  "pendingSnapshotRef e pd =
     (let ref = annotOf (pAnnotations pd) (kSnapshotRequest (konst e)) in
      if ref = [] \<or> mSnapshotStatusRef (lib e) pd = ref then [] else ref)"

definition owedOpFor :: "env \<Rightarrow> pod \<Rightarrow> vmptr option \<Rightarrow> resume_op" where
  "owedOpFor e pd v =
     (let resuming = lifecycleCreating e pd; spec = mParseVMSpec (lib e) pd;
          marker = annotOf (pAnnotations pd) annotationPostCloneState
      in case v of
           None \<Rightarrow> resumeOpNone
         | Some u \<Rightarrow>
             if pmDeleted (pMeta pd) \<or> isMacosVM v then resumeOpNone
             else if \<not> vsManaged spec then (if resuming then resumeOpReadyWait else resumeOpNone)
             else if mReadHibernateState (lib e) pd then resumeOpHibernate
             else if \<not> resuming
             then (if pendingSnapshotRef e pd \<noteq> [] then resumeOpSnapshot else resumeOpNone)
             else if marker = ''failed'' then resumeOpNone
             else if marker = ''running'' then resumeOpPostClone
             else if marker = ''done'' then resumeOpReadyWait
             else if shouldDropNICBeforeHibernate e spec then resumeOpClassifyNIC
             else if postCloneNeeded e spec (vpVM u) then resumeOpPostClone
             else resumeOpReadyWait)"

text \<open>\<open>dispatchResume\<close>: the claim, then a background job whose body is \<open>resumeJob\<close> of \<open>Update\<close>; the kind
  of IP wait is decided here, when the pod's annotations are read.\<close>

definition dispatchResume :: "env \<Rightarrow> string \<Rightarrow> podptr \<Rightarrow> vmptr \<Rightarrow> resume_op \<Rightarrow> unit act" where
  "dispatchResume e key p v oper = do {
     ok \<leftarrow> locked e (claimResumeLocked key);
     (if \<not> ok then State_Monad.return ()
      else do {
        spec \<leftarrow> peek (\<lambda>s. mParseVMSpec (lib e) (podAt s p));
        cloned \<leftarrow> peek (\<lambda>s. isClonedBoot e (podAt s p) spec);
        goBackground e (JobResume key p spec v (resumeName oper)
          (if cloned then ipWaitClone else ipWaitBoot))
      })
   }"

definition resumeOwedWork :: "env \<Rightarrow> string \<Rightarrow> podptr \<Rightarrow> vmptr \<Rightarrow> resume_op \<Rightarrow> unit act" where
  "resumeOwedWork e key p v oper = do {
     _ \<leftarrow> emitEvent False ''ResumedAfterRestart'' (''op='' @ resumeName oper);
     dispatchResume e key p v oper
   }"

section \<open>Hibernate evidence\<close>

definition deriveRestoreFromEvidence :: "env \<Rightarrow> podptr \<Rightarrow> vm_spec \<Rightarrow> bool \<Rightarrow> (err + bool) act" where
  "deriveRestoreFromEvidence e p spec marked = do {
     r \<leftarrow> hibernateEvidence e (vsVMName spec);
     (case r of
        Inl x \<Rightarrow> do {
          _ \<leftarrow> emitEvent True ''HibernateEvidenceUnavailable'' (errMsg x);
          State_Monad.return (Inl x)
        }
      | Inr (evidence, recorded) \<Rightarrow>
          if \<not> evidence then State_Monad.return (Inr False)
          else do {
            explicit \<leftarrow> peek (\<lambda>s. hasExplicitCloneSource e (podAt s p) spec);
            (if \<not> marked \<and> explicit
             then State_Monad.return (Inl (newErr (''vm '' @ vsVMName spec
               @ '' has a hibernate snapshot but the pod requests an explicit clone source; delete the ''
               @ HibernateSnapshotTag (konst e) @ '' tag to discard the hibernated state'')))
             else if recorded \<noteq> [] \<and> recorded \<noteq> vsImage spec
             then State_Monad.return (Inl (newErr (''hibernate snapshot of vm '' @ vsVMName spec
               @ '' came from image '' @ quoteStr recorded @ '' but the pod requests ''
               @ quoteStr (vsImage spec) @ ''; delete the '' @ HibernateSnapshotTag (konst e)
               @ '' tag to discard the hibernated state'')))
             else if marked then State_Monad.return (Inr True)
             else do {
               _ \<leftarrow> writing e (setAnnots p (mMarkRestoreFromHibernate (lib e)));
               _ \<leftarrow> emitEvent True ''HibernateSnapshotExists'' (''restoring vm '' @ vsVMName spec
                 @ '' from its hibernate snapshot instead of fresh-booting'');
               State_Monad.return (Inr True)
             })
          })
   }"

section \<open>Bringing a VM up\<close>

definition cloneInto :: "env \<Rightarrow> vm_spec \<Rightarrow> string \<Rightarrow> clone_options \<Rightarrow> (err + vm) act" where
  "cloneInto e spec source opts = do {
     v \<leftarrow> rtClone e opts;
     State_Monad.return (case v of
         Inl x \<Rightarrow> Inl (wrapErr (''clone vm '' @ vsVMName spec @ '' from '' @ source @ '': '') x [])
       | Inr v \<Rightarrow> Inr v)
   }"

definition cloneFromDirectory :: "env \<Rightarrow> vm_spec \<Rightarrow> cpu_policy \<Rightarrow> string \<Rightarrow> string \<Rightarrow> (err + vm) act" where
  "cloneFromDirectory e spec policy mode dir =
     (if mode = AgentModeRun (konst e)
      then State_Monad.return (Inl (newErr (''annotation '' @ kCloneFromDir (konst e)
        @ '' is incompatible with mode=run'')))
      else if vsForkFrom spec \<noteq> []
      then State_Monad.return (Inl (newErr (''annotation '' @ kCloneFromDir (konst e)
        @ '' is incompatible with fork-from '' @ quoteStr (vsForkFrom spec))))
      else cloneInto e spec (''dir '' @ dir) ((cloneOptionsFor e spec policy)\<lparr>coFromDir := dir\<rparr>))"

definition cloneFork :: "env \<Rightarrow> vm_spec \<Rightarrow> cpu_policy \<Rightarrow> (err + vm) act" where
  "cloneFork e spec policy = do {
     src \<leftarrow> ensureForkSnapshot e (vsForkFrom spec);
     (case src of
        Inl x \<Rightarrow> State_Monad.return (Inl x)
      | Inr src \<Rightarrow> cloneInto e spec src ((cloneOptionsFor e spec policy)\<lparr>coFrom := src\<rparr>))
   }"

definition runImage :: "env \<Rightarrow> pod_meta \<Rightarrow> vm_spec \<Rightarrow> cpu_policy \<Rightarrow> (err + vm) act" where
  "runImage e pm spec policy = do {
     img \<leftarrow> ensureRunImage e (vsImage spec) (vsForcePull spec);
     (case img of
        Inl x \<Rightarrow> State_Monad.return (Inl (wrapErr (''ensure image '' @ vsImage spec @ '': '') x []))
      | Inr img \<Rightarrow> do {
          v \<leftarrow> rtRun e \<lparr>roImage = img, roName = vsVMName spec, roCPU = fst (vmResourceOverrides pm),
            roMemory = snd (vmResourceOverrides pm), roNetwork = vsNetwork spec,
            roStorage = vsStorage spec, roOS = vsOS spec, roBackend = vsBackend spec,
            roNoDirectIO = vsNoDirectIO spec, roCPUPolicy = policy\<rparr>;
          State_Monad.return (case v of
              Inl x \<Rightarrow> Inl (wrapErr (''run vm '' @ vsVMName spec @ '': '') x [])
            | Inr v \<Rightarrow> Inr v)
        })
   }"

text \<open>The default mode; the second component is the source image for post-clone.\<close>

definition cloneSnapshot :: "env \<Rightarrow> vm_spec \<Rightarrow> cpu_policy \<Rightarrow> (err + vm \<times> string) act" where
  "cloneSnapshot e spec policy =
     (case mParseRef (lib e) (vsImage spec) of (repo, tag) \<Rightarrow>
        (let loc = localSnapshotName e repo tag in do {
           sn \<leftarrow> ensureSnapshot e repo tag loc;
           (case sn of
              Inl x \<Rightarrow> State_Monad.return (Inl (wrapErr (''ensure snapshot '' @ loc @ '': '') x []))
            | Inr sn \<Rightarrow>
                (case assertSnapshotBackend sn (vsBackend spec) of
                   Some x \<Rightarrow> State_Monad.return (Inl (wrapErr
                     (''clone vm '' @ vsVMName spec @ '' from '' @ loc @ '': '') x []))
                 | None \<Rightarrow>
                     (let srcImage = (case sn of None \<Rightarrow> [] | Some s \<Rightarrow> snImage s) in do {
                        r \<leftarrow> ensureSnapshotBaseImage e sn;
                        (case r of
                           Some x \<Rightarrow> State_Monad.return (Inl x)
                         | None \<Rightarrow> do {
                             v \<leftarrow> cloneInto e spec loc ((cloneOptionsFor e spec policy)
                               \<lparr>coFrom := loc, coPull := (srcImage \<noteq> [])\<rparr>);
                             State_Monad.return (case v of Inl x \<Rightarrow> Inl x | Inr v \<Rightarrow> Inr (v, srcImage))
                           })
                      })))
         }))"

definition noSource :: "err + vm \<Rightarrow> err + vm \<times> string" where
  "noSource r = (case r of Inl x \<Rightarrow> Inl x | Inr v \<Rightarrow> Inr (v, []))"

definition restoreVM :: "env \<Rightarrow> vm_spec \<Rightarrow> cpu_policy \<Rightarrow> (err + vm) act" where
  "restoreVM e spec policy = do {
     src \<leftarrow> resolveWakeSource e (vsVMName spec);
     (case src of
        Inl x \<Rightarrow> State_Monad.return (Inl x)
      | Inr src \<Rightarrow> cloneFromHibernate e spec src policy)
   }"

definition freshVM :: "env \<Rightarrow> pod_meta \<Rightarrow> vm_spec \<Rightarrow> cpu_policy \<Rightarrow> string \<Rightarrow> (err + vm \<times> string) act" where
  "freshVM e pm spec policy fromDir =
     (let mode = toLower (vsMode spec) in do {
        _ \<leftarrow> rtSnapshotRemove e (forkSnapshotName (vsVMName spec));
        (if fromDir \<noteq> []
         then do { v \<leftarrow> cloneFromDirectory e spec policy mode fromDir; State_Monad.return (noSource v) }
         else if vsForkFrom spec \<noteq> []
         then do { v \<leftarrow> cloneFork e spec policy; State_Monad.return (noSource v) }
         else if mode = AgentModeRun (konst e)
         then do { v \<leftarrow> runImage e pm spec policy; State_Monad.return (noSource v) }
         else cloneSnapshot e spec policy)
      })"

definition bringUpVM :: "env \<Rightarrow> podptr \<Rightarrow> vm_spec \<Rightarrow> (err + vm \<times> string) act" where
  "bringUpVM e p spec = do {
     pd \<leftarrow> peek (\<lambda>s. podAt s p);
     (if \<not> vsManaged spec
      then (let rt = mParseVMRuntime (lib e) pd in
        State_Monad.return
          (if vrVMID rt = [] \<or> vrIP rt = []
           then Inl (newErr (''unmanaged vm '' @ vsVMName spec @ '' missing pre-assigned IP/VMID''))
           else Inr (zeroVM\<lparr>vID := vrVMID rt, vName := vsVMName spec, vIP := vrIP rt,
                  vState := StateRunning\<rparr>, [])))
      else (case parseCloneFromDir e (pAnnotations pd) of
        Inl x \<Rightarrow> State_Monad.return (Inl x)
      | Inr fromDir \<Rightarrow>
          (let policy = podCPUPolicy (ptMeta p) in
           if mReadRestoreFromHibernate (lib e) pd
           then do { v \<leftarrow> restoreVM e spec policy; State_Monad.return (noSource v) }
           else freshVM e (ptMeta p) spec policy fromDir)))
   }"

section \<open>CreatePod\<close>

text \<open>\<open>setPodAnnotation\<close> of \<open>postclone.go\<close>.\<close>

definition setPodAnnotation :: "env \<Rightarrow> podptr \<Rightarrow> string \<Rightarrow> string \<Rightarrow> unit act" where
  "setPodAnnotation e p key val = do {
     superseded \<leftarrow> locked e (\<lambda>s.
       if supersededLocked (podKey e p) (ptUID p) s then (True, s)
       else (False, setAnnots p (\<lambda>m. m(key \<mapsto> val)) s));
     (if superseded then State_Monad.return ()
      else do {
        _ \<leftarrow> patchIncarnationAnnotations e (ptNamespace p) (ptName p) (ptUID p) [key \<mapsto> Some val];
        State_Monad.return ()
      })
   }"

definition adoptVM :: "env \<Rightarrow> podptr \<Rightarrow> vmptr \<Rightarrow> unit act" where
  "adoptVM e p v = do {
     ok \<leftarrow> applyRuntime e p v;
     (if \<not> ok then State_Monad.return ()
      else do {
        _ \<leftarrow> startProbeIfEnabled e p;
        oper \<leftarrow> peek (\<lambda>s. owedOpFor e (podAt s p) (Some v));
        (if oper \<noteq> resumeOpNone then resumeOwedWork e (podKey e p) p v oper
         else markReadyPublished e p)
      })
   }"

text \<open>The end of \<open>CreatePod\<close>, once the VM runs.\<close>

definition finishCreate :: "env \<Rightarrow> podptr \<Rightarrow> vm_spec \<Rightarrow> vm \<Rightarrow> string \<Rightarrow> bool \<Rightarrow> unit act" where
  "finishCreate e p spec v sourceImage restoring = do {
     v \<leftarrow> seedLeaseIP e v;
     v \<leftarrow> newVM v;
     ok \<leftarrow> applyRuntime e p v;
     (if \<not> ok then State_Monad.return ()
      else do {
        cloned \<leftarrow> peek (\<lambda>s. isClonedBoot e (podAt s p) spec);
        _ \<leftarrow> (if restoring then dispatchHibernateRestore e p spec v ''create''
              else State_Monad.return ());
        _ \<leftarrow> (if cloned \<and> \<not> restoring
              then goBackground e (JobPostClone p spec v sourceImage ''create'' ipWaitClone)
              else State_Monad.return ());
        _ \<leftarrow> startProbeIfEnabled e p;
        _ \<leftarrow> markPodRunning e p;
        failed \<leftarrow> (if \<not> vsManaged spec \<and> \<not> restoring then lifecycleAlreadyFailed e p
                   else State_Monad.return True);
        _ \<leftarrow> (if \<not> failed then markReadyPublished e p else refreshAndNotify e p);
        (if vsManaged spec \<and> \<not> cloned \<and> \<not> restoring
         then do {
           _ \<leftarrow> setPodAnnotation e p annotationPostCloneState ''done'';
           goBackground e (JobReadyWait p spec v ipWaitBoot ''create'')
         }
         else State_Monad.return ())
      })
   }"

text \<open>The middle: no VM to adopt.\<close>

definition bootPod :: "env \<Rightarrow> podptr \<Rightarrow> vm_spec \<Rightarrow> err option act" where
  "bootPod e p spec = do {
     marked \<leftarrow> peek (\<lambda>s. mReadRestoreFromHibernate (lib e) (podAt s p));
     derived \<leftarrow> (if vsManaged spec then deriveRestoreFromEvidence e p spec marked
                 else State_Monad.return (Inr False));
     (case derived of
        Inl x \<Rightarrow> failCreate e p ''HibernateEvidenceFailed'' x
      | Inr derived \<Rightarrow> do {
          r \<leftarrow> bringUpVM e p spec;
          (case r of
             Inl x \<Rightarrow> failCreate e p ''CreateBringUpFailed'' x
           | Inr (v, sourceImage) \<Rightarrow> do {
               _ \<leftarrow> finishCreate e p spec v sourceImage (marked \<or> derived);
               State_Monad.return None
             })
        })
   }"

definition CreatePod :: "env \<Rightarrow> podptr \<Rightarrow> err option act" where
  "CreatePod e p = do {
     spec \<leftarrow> peek (\<lambda>s. mParseVMSpec (lib e) (podAt s p));
     (if vsVMName spec = []
      then State_Monad.return (Some (newErr (''pod '' @ ptNamespace p @ ''/'' @ ptName p @ '' missing ''
        @ kVMName (konst e) @ '' annotation'')))
      else do {
        bad \<leftarrow> peek (\<lambda>s. assertPodSnapshotCompatibility e (podAt s p));
        (case bad of
           Some x \<Rightarrow> State_Monad.return (Some x)
         | None \<Rightarrow> do {
             ok \<leftarrow> locked e (trackPodUnlessDeletingLocked e p None);
             (if \<not> ok then State_Monad.return (Some (errDeleteInFlight p))
              else do {
                _ \<leftarrow> markLifecycleState e p LifecycleStateCreating [];
                (if isMacosSpec e spec then createMacosPod e p spec
                 else do {
                   _ \<leftarrow> awaitBusyCreate e (vsVMName spec);
                   existing \<leftarrow> adoptableVM e (vsVMName spec);
                   (case existing of
                      Inl x \<Rightarrow> failCreate e p ''CreateAdoptInspectFailed'' x
                    | Inr (Some v) \<Rightarrow> do { _ \<leftarrow> adoptVM e p v; State_Monad.return None }
                    | Inr None \<Rightarrow> bootPod e p spec)
                 })
              })
           })
      })
   }"

end
