(* ===== verification/Gc.thy ===== *)
theory Gc
  imports Create
begin

text \<open>
  The reclamation of local snapshots (\<open>gc.go\<close>). \<open>keys\<close> is the order in which the range over the pod table
  takes its keys.
\<close>

definition snapshotReclaimInterval :: int where "snapshotReclaimInterval = 600 * second"

definition snapshotNamesInUse :: "env \<Rightarrow> string list \<Rightarrow> prov \<Rightarrow> string list" where
  "snapshotNamesInUse e keys s = concat (map (\<lambda>p.
     let spec = mParseVMSpec (lib e) (podAt s p);
         (repo, tag) = mParseRef (lib e) (vsImage spec)
     in [vsVMName spec, localSnapshotName e repo tag]) (List.map_filter (pods s) keys))"

text \<open>One snapshot of the listing.\<close>

definition reclaimSnapshot :: "env \<Rightarrow> string list \<Rightarrow> snapshot \<Rightarrow> unit act" where
  "reclaimSnapshot e inUse sn =
     (let vmName = trimSuffix (snName sn) (HibernateImportSuffix (konst e));
          isImport = hasSuffix (snName sn) (HibernateImportSuffix (konst e));
          pulledCloneSource = (snDescription sn = cloneSourceDescription)
      in if vmName \<in> set inUse \<or> \<not> pulledCloneSource \<and> \<not> hasPrefix vmName ''vk-'' then State_Monad.return ()
         else if isImport then removeSnapshotDetached e (snName sn)
         else if pulledCloneSource \<or> containsStr vmName '':'' then removeSnapshotDetached e (snName sn)
         else do {
           r \<leftarrow> verifyLocalSnapshot e vmName sn;
           (case r of (_, _, verifyErr) \<Rightarrow>
             (case verifyErr of
                Some x \<Rightarrow> if errIs x ErrStaleLocalSnapshot then removeLocalSnapshots e vmName
                           else State_Monad.return ()
              | None \<Rightarrow> State_Monad.return ()))
         })"

fun reclaimEach :: "env \<Rightarrow> string list \<Rightarrow> snapshot list \<Rightarrow> unit act" where
  "reclaimEach e inUse [] = State_Monad.return ()"
| "reclaimEach e inUse (sn # sns) = do { _ \<leftarrow> reclaimSnapshot e inUse sn; reclaimEach e inUse sns }"

definition reclaimLocalSnapshots :: "env \<Rightarrow> string list \<Rightarrow> unit act" where
  "reclaimLocalSnapshots e keys = do {
     snapshots \<leftarrow> rtSnapshotList e;
     (case snapshots of
        Inl _ \<Rightarrow> State_Monad.return ()
      | Inr snapshots \<Rightarrow> do {
          inUse \<leftarrow> reading e (snapshotNamesInUse e keys);
          reclaimEach e inUse snapshots
        })
   }"

end
