(* ===== verification/Lifecycle_Props.thy ===== *)
theory Lifecycle_Props
  imports Lifecycle Example_Env
begin

text \<open>
  What publishing guarantees: the calls of a flush and of a Ready publication in order, whatever the
  other goroutines do, and the effect of a flush on the intent table when they are quiet.
\<close>

section \<open>Call classes\<close>

definition isPatch :: "call \<Rightarrow> bool" where
  "isPatch c = (case c of KPatch _ _ _ _ _ \<Rightarrow> True | _ \<Rightarrow> False)"

definition isSleep :: "call \<Rightarrow> bool" where
  "isSleep c = (case c of TSleep _ _ \<Rightarrow> True | _ \<Rightarrow> False)"

definition statusRead :: "call \<Rightarrow> bool" where
  "statusRead c = (case c of LLookup _ _ \<Rightarrow> True | TNow _ \<Rightarrow> True | _ \<Rightarrow> False)"

definition bookkeeping :: "call \<Rightarrow> bool" where
  "bookkeeping c = (case c of
      KPatch _ _ _ _ _ \<Rightarrow> True | KStatusPatch _ _ _ _ _ \<Rightarrow> True | LLookup _ _ \<Rightarrow> True
    | TNow _ \<Rightarrow> True | TSleep _ _ \<Rightarrow> True | EEvent _ _ _ \<Rightarrow> True | ENotify _ _ \<Rightarrow> True | _ \<Rightarrow> False)"

lemma call_class_simps [simp]:
  "isPatch (KPatch a b c d r)" "\<not> isPatch (TSleep i r)" "\<not> isPatch (KStatusPatch a b c st r)"
  "\<not> isPatch (LLookup m q)" "\<not> isPatch (TNow i)" "\<not> isPatch (ENotify k pd)"
  "isSleep (TSleep i r)"
  by (simp_all add: isPatch_def isSleep_def)

lemma statusRead_bookkeeping: "statusRead c \<Longrightarrow> bookkeeping c"
  by (cases c) (auto simp: statusRead_def bookkeeping_def)

section \<open>Operations\<close>

lemma emits_GetPod [emits_intros]: "emits (GetPod e ns name) P"
  unfolding GetPod_def by (intro emits_intros)

lemma emits_vmForPod [emits_intros]: "emits (vmForPod e ns name) P"
  unfolding vmForPod_def by (intro emits_intros)

lemma emits_setLifecycleState [emits_intros]: "emits (setLifecycleState e p st msg) P"
  unfolding setLifecycleState_def by (intro emits_intros)

lemma emits_GetPodStatus: "emits (GetPodStatus e ns name) statusRead"
  unfolding GetPodStatus_def resolveVMIP_def setVMIP_def timeNow_def lookupByMAC_def
  by (intro emits_intros) (simp_all add: statusRead_def)

lemma emits_refreshStatus: "emits (refreshStatus e p) statusRead"
  unfolding refreshStatus_def by (intro emits_intros emits_GetPodStatus)

lemma emits_notify: "(\<And>k q. P (ENotify k q)) \<Longrightarrow> emits (notify e p) P"
  unfolding notify_def by (intro emits_intros) simp_all

lemma emits_patchIncarnation:
  "(\<And>r. P (KPatch ns name uid annos r)) \<Longrightarrow> emits (patchIncarnationAnnotations e ns name uid annos) P"
  unfolding patchIncarnationAnnotations_def kubePatch_def by (intro emits_intros) simp_all

lemma emits_patchLoop:
  "emits fn P \<Longrightarrow> (\<And>d r. P (TSleep d r)) \<Longrightarrow> emits (patchLoop e n fn) P"
  by (induction n) (auto intro!: emits_intros simp: sleepCtx_def)

lemma emits_patchWithRetry:
  "emits fn P \<Longrightarrow> (\<And>d r. P (TSleep d r)) \<Longrightarrow> emits (patchWithRetry e fn) P"
  unfolding patchWithRetry_def by (rule emits_patchLoop)

lemma emits_flushLoop:
  "(\<And>r. P (KPatch ns name uid annos r)) \<Longrightarrow> (\<And>d r. P (TSleep d r)) \<Longrightarrow>
   emits (flushLoop e n ns name uid annos snap) P"
  by (induction n) (auto intro!: emits_intros emits_patchIncarnation simp: sleepCtx_def)

lemma emits_flushLifecycle:
  "(\<And>r. P (KPatch ns name uid (mStatusAnnotations (lib e) status) r)) \<Longrightarrow>
   (\<And>d r. P (TSleep d r)) \<Longrightarrow> emits (flushLifecycle e ns name uid status) P"
  unfolding flushLifecycle_def by (rule emits_flushLoop)

lemma emits_publishPodStatus:
  "(\<And>st r. P (KStatusPatch (ptNamespace p) (ptName p) (ptUID p) st r)) \<Longrightarrow>
   (\<And>d r. P (TSleep d r)) \<Longrightarrow> emits (publishPodStatus e p) P"
  unfolding publishPodStatus_def kubeStatusPatch_def
  by (intro emits_intros emits_patchWithRetry) simp_all

text \<open>Lifecycle and status publication makes bookkeeping calls only.\<close>

lemma bookkeeping_simps [simp]:
  "bookkeeping (KPatch a b c d r)" "bookkeeping (KStatusPatch a b c st r)" "bookkeeping (TSleep n r)"
  "bookkeeping (ENotify k q)" "bookkeeping (EEvent w x y)" "bookkeeping (TNow i)"
  by (simp_all add: bookkeeping_def)

lemma emits_book_refreshStatus [emits_intros]: "emits (refreshStatus e p) bookkeeping"
  by (rule emits_weaken [OF emits_refreshStatus statusRead_bookkeeping])

lemma emits_book_flush [emits_intros]: "emits (flushLifecycle e ns name uid st) bookkeeping"
  by (rule emits_flushLifecycle) simp_all

lemma emits_book_publish [emits_intros]: "emits (publishPodStatus e p) bookkeeping"
  by (rule emits_publishPodStatus) simp_all

lemma emits_book_notify [emits_intros]: "emits (notify e p) bookkeeping"
  by (rule emits_notify) simp

lemma emits_book_mark [emits_intros]: "emits (markLifecycleState e p st msg) bookkeeping"
  unfolding markLifecycleState_def by (intro emits_intros)

lemma emits_book_refreshAndNotify [emits_intros]: "emits (refreshAndNotify e p) bookkeeping"
  unfolding refreshAndNotify_def by (intro emits_intros)

lemma emits_book_publishReady [emits_intros]: "emits (publishReadyLifecycle e p st) bookkeeping"
  unfolding publishReadyLifecycle_def by (intro emits_intros)

lemma emits_book_markReady [emits_intros]: "emits (markReadyPublished e p) bookkeeping"
  unfolding markReadyPublished_def by (intro emits_intros)

lemma emits_book_republish [emits_intros]:
  "emits (republishLifecycleOnGenerationBump e p) bookkeeping"
  unfolding republishLifecycleOnGenerationBump_def by (intro emits_intros)

lemma emits_book_failOp [emits_intros]: "emits (failOp e p reason oper x) bookkeeping"
  unfolding failOp_def emitEvent_def by (intro emits_intros) simp_all

section \<open>The flush\<close>

lemma flushLoop_bounded:
  "produces (flushLoop e n ns name uid annos snap) (\<lambda>_ cs. length (filter isPatch cs) \<le> n)"
proof (induction n)
  case 0
  show ?case by (simp add: produces_return)
next
  case (Suc n)
  have IH: "produces (flushLoop e n ns name uid annos snap)
      (\<lambda>_ cs. length (filter isPatch (as @ TSleep d z # cs)) \<le> Suc n)"
    if "length (filter isPatch as) \<le> 1" for as d z
    by (rule produces_weaken [OF Suc]) (use that in simp)
  have patch: "produces (patchIncarnationAnnotations e ns name uid annos)
      (\<lambda>_ cs. length (filter isPatch cs) \<le> 1)"
    unfolding patchIncarnationAnnotations_def kubePatch_def
    by (intro produces_intros) simp_all
  show ?case
    unfolding flushLoop.simps sleepCtx_def
    by (intro produces_intros produces_bind [OF patch] IH) simp_all
qed

text \<open>A quiet flush of an owned intent: its last patch decides what becomes of the intent.\<close>

definition flushOutcome ::
  "env \<Rightarrow> string \<Rightarrow> string \<Rightarrow> string \<Rightarrow> err option \<Rightarrow> prov \<Rightarrow> string \<rightharpoonup> lifecycle_entry" where
  "flushOutcome e key uid snap r s =
     (if r = None then lifecycleIntent (recordLifecycleFlushed e key uid snap s)
      else if patchSuperseded r then (lifecycleIntent s)(key := None)
      else lifecycleIntent s)"

lemma patchSuperseded_wrap [simp]:
  "patchSuperseded (Some (wrapErr a x b)) = patchSuperseded (Some x)"
  "nameTaken (Some (wrapErr a x b)) = nameTaken (Some x)"
  by (simp_all add: patchSuperseded_def nameTaken_def)

lemma owned_tick [simp]:
  "lifecycleOwnedLocked e key uid snap (s\<lparr>tick := n\<rparr>) = lifecycleOwnedLocked e key uid snap s"
  "lifecycleOwnedLocked e key uid snap (s\<lparr>trace := h\<rparr>) = lifecycleOwnedLocked e key uid snap s"
  by (simp_all add: lifecycleOwnedLocked_def)

lemma flushOutcome_cong:
  "lifecycleIntent t = lifecycleIntent s \<Longrightarrow> flushOutcome e key uid snap r t = flushOutcome e key uid snap r s"
  by (simp add: flushOutcome_def recordLifecycleFlushed_def lifecycleOwnedLocked_def)

definition flushedTo ::
  "env \<Rightarrow> string \<Rightarrow> string \<Rightarrow> string \<Rightarrow> patch \<Rightarrow> string \<Rightarrow> prov \<Rightarrow> prov \<Rightarrow> bool" where
  "flushedTo e ns name uid annos snap s t \<longleftrightarrow>
     (\<exists>cs r zs. trace t = trace s @ cs @ KPatch ns name uid annos r # zs \<and> list_all isSleep zs \<and>
        lifecycleIntent t = flushOutcome e (mPodKey (lib e) ns name) uid snap r s \<and> pods t = pods s)"

lemma flushedToI:
  "trace t = trace s @ KPatch ns name uid annos r # zs \<Longrightarrow> list_all isSleep zs \<Longrightarrow>
   lifecycleIntent t = flushOutcome e (mPodKey (lib e) ns name) uid snap r s \<Longrightarrow> pods t = pods s \<Longrightarrow>
   flushedTo e ns name uid annos snap s t"
  unfolding flushedTo_def by (intro exI [of _ "[]"] exI [of _ r] exI [of _ zs]) simp

lemma flushedTo_later:
  assumes "flushedTo e ns name uid annos snap u t" and "trace u = trace s @ ds"
    and "lifecycleIntent u = lifecycleIntent s" and "pods u = pods s"
  shows "flushedTo e ns name uid annos snap s t"
  using assms flushOutcome_cong [OF assms(3)] unfolding flushedTo_def by (metis append.assoc)

lemma flushLoop_quiet:
  assumes "quiet e" and "cfgClientset (cfg e)"
  shows "0 < n \<Longrightarrow> lifecycleOwnedLocked e (mPodKey (lib e) ns name) uid snap s \<Longrightarrow>
    wp (flushLoop e n ns name uid annos snap) (\<lambda>_. flushedTo e ns name uid annos snap s) s"
proof (induction n arbitrary: s)
  case (Suc n)
  define r where "r = wPatch (ask e) (trace s) ns name uid annos"
  define z where "z = wSleep (ask e) (trace s @ [KPatch ns name uid annos r]) lifecyclePatchInterval"
  note unfolds = wp_quiet patchIncarnationAnnotations_def kubePatch_def sleepCtx_def assms
    r_def [symmetric] z_def [symmetric] Suc.prems(2)
  consider "r = None" | x where "r = Some x" "patchSuperseded (Some x)"
    | x where "r = Some x" "\<not> patchSuperseded (Some x)" "n = 0"
    | x y where "r = Some x" "\<not> patchSuperseded (Some x)" "0 < n" "z = Some y"
    | x where "r = Some x" "\<not> patchSuperseded (Some x)" "0 < n" "z = None"
    by (cases r; cases z) auto
  then show ?case
  proof cases
    case 1
    then show ?thesis
      by (simp add: unfolds) (rule flushedToI [where r = r and zs = "[]"],
        simp_all add: flushOutcome_def recordLifecycleFlushed_def)
  next
    case (2 x)
    then show ?thesis
      by (simp add: unfolds) (rule flushedToI [where r = "Some x" and zs = "[]"],
        simp_all add: flushOutcome_def dropSupersededLifecycle_def Suc.prems(2))
  next
    case (3 x)
    then show ?thesis
      by (simp add: unfolds) (rule flushedToI [where r = "Some x" and zs = "[]"],
        simp_all add: flushOutcome_def)
  next
    case (4 x y)
    then have "wSleep (ask e) (trace s @ [KPatch ns name uid annos (Some x)]) lifecyclePatchInterval = Some y"
      using z_def by simp
    with 4 show ?thesis
      by (simp add: unfolds)
        (rule flushedToI [where r = "Some x" and zs = "[TSleep lifecyclePatchInterval (Some y)]"],
          simp_all add: flushOutcome_def)
  next
    case (5 x)
    let ?u = "s\<lparr>tick := Suc (tick s),
        trace := trace s @ [KPatch ns name uid annos r, TSleep lifecyclePatchInterval None]\<rparr>"
    have "wp (flushLoop e n ns name uid annos snap) (\<lambda>_. flushedTo e ns name uid annos snap ?u) ?u"
      using Suc.IH [of ?u] 5 Suc.prems(2) by simp
    then have "wp (flushLoop e n ns name uid annos snap) (\<lambda>_. flushedTo e ns name uid annos snap s) ?u"
      by (rule wp_mono) (erule flushedTo_later, simp_all)
    moreover have
      "wSleep (ask e) (trace s @ [KPatch ns name uid annos (Some x)]) lifecyclePatchInterval = None"
      using 5 z_def by simp
    ultimately show ?thesis using 5 by (simp add: unfolds)
  qed
qed simp

section \<open>Ready after status\<close>

text \<open>The status of this incarnation was accepted, or the wait between two attempts was cut short
  by the end of the operation's context.\<close>

definition statusPublished :: "podptr \<Rightarrow> call list \<Rightarrow> bool" where
  "statusPublished p cs \<longleftrightarrow>
     (\<exists>st. KStatusPatch (ptNamespace p) (ptName p) (ptUID p) st None \<in> set cs) \<or>
     (\<exists>d x. TSleep d (Some x) \<in> set cs)"

definition patchesAfterStatus :: "podptr \<Rightarrow> call list \<Rightarrow> bool" where
  "patchesAfterStatus p cs \<longleftrightarrow>
     (\<forall>as c bs. cs = as @ c # bs \<longrightarrow> isPatch c \<longrightarrow> statusPublished p as)"

lemma patchesAfterStatus_none: "list_all (\<lambda>c. \<not> isPatch c) cs \<Longrightarrow> patchesAfterStatus p cs"
  by (auto simp: patchesAfterStatus_def)

lemma patchesAfterStatus_append:
  assumes "list_all (\<lambda>c. \<not> isPatch c) cs" and "statusPublished p cs"
  shows "patchesAfterStatus p (cs @ ds)"
  unfolding patchesAfterStatus_def
proof (intro allI impI)
  fix as c bs
  assume eq: "cs @ ds = as @ c # bs" and c: "isPatch c"
  from eq consider us where "cs = as @ c # us" | us where "as = cs @ us"
    by (auto simp: append_eq_append_conv2 Cons_eq_append_conv append_eq_Cons_conv)
  then show "statusPublished p as"
  proof cases
    case 1
    with assms(1) c show ?thesis by simp
  next
    case 2
    with assms(2) show ?thesis by (auto simp: statusPublished_def)
  qed
qed

lemma patchLoop_publishes:
  "0 < n \<Longrightarrow>
   produces (patchLoop e n (kubeStatusPatch e (ptNamespace p) (ptName p) (ptUID p) st))
     (\<lambda>r cs. list_all (\<lambda>c. \<not> isPatch c) cs \<and> (r = None \<longrightarrow> statusPublished p cs))"
proof (induction n)
  case (Suc n)
  show ?case
    unfolding patchLoop.simps kubeStatusPatch_def sleepCtx_def
    by (intro produces_intros)
      (use Suc.IH in \<open>auto simp: statusPublished_def kubeStatusPatch_def\<close>)
qed simp

lemma publishReady_order:
  assumes "cfgClientset (cfg e)"
  shows "produces (publishReadyLifecycle e p status) (\<lambda>_. patchesAfterStatus p)"
proof -
  have read: "list_all statusRead cs \<Longrightarrow> list_all (\<lambda>c. \<not> isPatch c) cs" for cs
    by (erule list.pred_mono_strong) (auto simp: statusRead_def isPatch_def split: call.splits)
  have pub: "produces (publishPodStatus e p)
      (\<lambda>r cs. list_all (\<lambda>c. \<not> isPatch c) cs \<and> (r = None \<longrightarrow> statusPublished p cs))"
    unfolding publishPodStatus_def patchWithRetry_def using assms
    by (simp add: lifecyclePatchAttempts_def patchLoop_publishes produces_bind_reading)
  show ?thesis
    unfolding publishReadyLifecycle_def
  proof (rule produces_bind_emits [OF emits_refreshStatus], rule produces_bind [OF pub],
      intro produces_if)
    fix u as r bs
    assume as: "list_all statusRead as"
      and bs: "list_all (\<lambda>c. \<not> isPatch c) bs \<and> (r = None \<longrightarrow> statusPublished p bs)"
    show "produces (State_Monad.return ()) (\<lambda>x cs. patchesAfterStatus p (as @ bs @ cs))"
      using as bs by (intro produces_return patchesAfterStatus_none) (simp add: read)
    assume "\<not> r \<noteq> None"
    with as bs have "patchesAfterStatus p (as @ bs @ cs)" for cs
      using patchesAfterStatus_append [of "as @ bs" p cs] read by (auto simp: statusPublished_def)
    then show "produces (do { _ \<leftarrow> flushLifecycle e (ptNamespace p) (ptName p) (ptUID p) status;
          notify e p }) (\<lambda>x cs. patchesAfterStatus p (as @ bs @ cs))"
      by (intro produces_emits [where P = "\<lambda>_. True"] emits_intros emits_flushLifecycle emits_notify)
        simp_all
  qed
qed

section \<open>Properties\<close>

text \<open>C9: a Ready publication exposes the lifecycle annotation only after the pod status of the same
  incarnation was accepted by the apiserver, whatever the other goroutines do meanwhile; the one
  exception is a context that ends during the wait between two status attempts, which the code
  treats as success.\<close>

theorem ready_after_status:
  assumes "cfgClientset (cfg e)"
    and "trace (snd (run_state (publishReadyLifecycle e p status) s)) = trace s @ as @ c # bs"
    and "isPatch c"
  shows "(\<exists>st. KStatusPatch (ptNamespace p) (ptName p) (ptUID p) st None \<in> set as) \<or>
    (\<exists>d x. TSleep d (Some x) \<in> set as)"
proof -
  obtain cs where "trace (snd (run_state (publishReadyLifecycle e p status) s)) = trace s @ cs"
    "patchesAfterStatus p cs"
    using producesD [OF publishReady_order [OF assms(1)]] by blast
  with assms(2,3) have "statusPublished p as" by (simp add: patchesAfterStatus_def)
  then show ?thesis by (simp add: statusPublished_def)
qed

lemma exReady_patches:
  "\<exists>c \<in> set (trace (snd (run_state (publishReadyLifecycle exEnv exPod exReady) exReadyProv))). isPatch c"
proof (rule wp_run)
  show "wp (publishReadyLifecycle exEnv exPod exReady) (\<lambda>_ t. \<exists>c \<in> set (trace t). isPatch c) exReadyProv"
    by (simp add: publishReadyLifecycle_def refreshStatus_def GetPodStatus_def GetPod_def vmForPod_def
        resolveVMIP_def primaryStatic_def publishPodStatus_def patchWithRetry_def
        lifecyclePatchAttempts_def numeral_3_eq_3 flushLifecycle_def notify_def
        patchIncarnationAnnotations_def recordLifecycleFlushed_def stampLifecycleIntentLocked_def
        applyStatus_def setAnnots_def setStatus_def deepCopy_def podAt_def
        lifecycleOwnedLocked_def wp_quiet wp_simps ext_defs exReadyProv_def exWorld_def exConfig_def
        Let_def)
qed

theorem ready_after_status_witness:
  "\<exists>as c bs. trace (snd (run_state (publishReadyLifecycle exEnv exPod exReady) exReadyProv)) = as @ c # bs \<and>
    isPatch c \<and> ((\<exists>st. KStatusPatch ''ns'' ''a'' ''u1'' st None \<in> set as) \<or>
      (\<exists>d x. TSleep d (Some x) \<in> set as))"
proof -
  from exReady_patches obtain c as bs where
    c: "isPatch c" "trace (snd (run_state (publishReadyLifecycle exEnv exPod exReady) exReadyProv)) = as @ c # bs"
    by (metis split_list)
  with ready_after_status [of exEnv exPod exReady exReadyProv as c bs] show ?thesis
    by (fastforce simp: exConfig_def exReadyProv_def)
qed

text \<open>Flushing a lifecycle intent patches the apiserver at most three times, and every patch
  carries the UID of the incarnation and exactly the annotations of the flushed status.\<close>

theorem flush_bounded:
  "\<exists>cs. trace (snd (run_state (flushLifecycle e ns name uid status) s)) = trace s @ cs \<and>
    length (filter isPatch cs) \<le> 3 \<and>
    list_all (\<lambda>c. isSleep c \<or> (\<exists>r. c = KPatch ns name uid (mStatusAnnotations (lib e) status) r)) cs"
proof -
  let ?P = "\<lambda>c. isSleep c \<or> (\<exists>r. c = KPatch ns name uid (mStatusAnnotations (lib e) status) r)"
  let ?m = "flushLifecycle e ns name uid status"
  have "emits ?m ?P" by (rule emits_flushLifecycle) simp_all
  then obtain cs where cs: "trace (snd (run_state ?m s)) = trace s @ cs" "list_all ?P cs"
    by (rule emitsE)
  have "produces ?m (\<lambda>_ cs. length (filter isPatch cs) \<le> 3)"
    unfolding flushLifecycle_def lifecyclePatchAttempts_def by (rule flushLoop_bounded)
  then obtain ds where "trace (snd (run_state ?m s)) = trace s @ ds" "length (filter isPatch ds) \<le> 3"
    by (rule producesD)
  with cs show ?thesis by auto
qed

text \<open>When no other goroutine interferes, the flush of an intent the incarnation owns ends with
  the intent marked flushed if its last patch was accepted, dropped if the apiserver answered that
  another incarnation owns the name or the pod is gone, and unchanged (for the reconciler to
  retry) otherwise.\<close>

theorem flush_outcome:
  assumes "quiet e" and "cfgClientset (cfg e)"
    and "lifecycleOwnedLocked e (mPodKey (lib e) ns name) uid (mStatusSnapshot (lib e) status) s"
    and "t = snd (run_state (flushLifecycle e ns name uid status) s)"
  shows "\<exists>cs r zs. trace t = trace s @ cs @ KPatch ns name uid (mStatusAnnotations (lib e) status) r # zs \<and>
    list_all isSleep zs \<and> pods t = pods s \<and>
    lifecycleIntent t =
      flushOutcome e (mPodKey (lib e) ns name) uid (mStatusSnapshot (lib e) status) r s"
proof -
  have "flushedTo e ns name uid (mStatusAnnotations (lib e) status) (mStatusSnapshot (lib e) status) s t"
    unfolding assms(4) flushLifecycle_def
    by (rule wp_run [OF flushLoop_quiet [OF assms(1,2) _ assms(3)]])
      (simp add: lifecyclePatchAttempts_def)
  then show ?thesis unfolding flushedTo_def by blast
qed

theorem flush_outcome_witness:
  "\<exists>cs r zs. trace (snd (run_state (flushLifecycle exEnv ''ns'' ''a'' ''u1'' exReady) exReadyProv)) =
     cs @ KPatch ''ns'' ''a'' ''u1'' (mStatusAnnotations exLib exReady) r # zs"
  using flush_outcome [of exEnv "''ns''" "''a''" "''u1''" exReady exReadyProv, OF quiet_exEnv _ _ refl]
  by (force simp: exConfig_def exReadyProv_def lifecycleOwnedLocked_def)

end
