(* ===== verification/Frames.thy ===== *)
theory Frames
  imports Lifecycle_Props
begin

text \<open>
  Frames: actions that leave every table alone when no other goroutine interferes. They may call
  outside, write pod cells and allocate; \<open>wp_keeps\<close> skips over them in a weakest precondition.
\<close>

named_theorems keeps_intros "actions that leave the tables alone"

definition same_tables :: "prov \<Rightarrow> prov \<Rightarrow> bool" where
  "same_tables s t \<longleftrightarrow>
     pods t = pods s \<and> vmsByPod t = vmsByPod s \<and> vmsByName t = vmsByName s \<and>
     macosVNC t = macosVNC s \<and> macosLeftover t = macosLeftover s \<and> lastRestart t = lastRestart s \<and>
     pendingRecheck t = pendingRecheck s \<and> resumedOps t = resumedOps s \<and>
     busyCreates t = busyCreates s \<and> lifecycleIntent t = lifecycleIntent s \<and>
     deleting t = deleting s \<and> hibernating t = hibernating s \<and> opRetries t = opRetries s \<and>
     podLocks t = podLocks s \<and> probes t = probes s \<and> closed t = closed s \<and> jobs t = jobs s"

lemma same_tables_refl [simp]: "same_tables s s"
  by (simp add: same_tables_def)

lemma same_tables_trans: "same_tables s t \<Longrightarrow> same_tables t u \<Longrightarrow> same_tables s u"
  by (simp add: same_tables_def)

lemma same_tables_ghost [simp]:
  "same_tables s (t\<lparr>trace := h\<rparr>) = same_tables s t" "same_tables s (t\<lparr>tick := n\<rparr>) = same_tables s t"
  "same_tables (s\<lparr>trace := h\<rparr>) t = same_tables s t" "same_tables (s\<lparr>tick := n\<rparr>) t = same_tables s t"
  by (simp_all add: same_tables_def)

lemma same_tables_setStatus [simp]: "same_tables s (setStatus p f t) = same_tables s t"
  by (simp add: same_tables_def setStatus_def)

lemma same_tables_setAnnots [simp]: "same_tables s (setAnnots p f t) = same_tables s t"
  by (simp add: same_tables_def setAnnots_def)

lemma same_tables_deepCopy [simp]: "same_tables s (snd (deepCopy p t)) = same_tables s t"
  by (simp add: same_tables_def deepCopy_def)

lemma same_tables_stamp [simp]: "same_tables s (stampLifecycleIntentLocked e p t) = same_tables s t"
  by (auto simp: stampLifecycleIntentLocked_def applyStatus_def split: option.splits)

definition keeps :: "'a act \<Rightarrow> bool" where
  "keeps m \<longleftrightarrow> (\<forall>s. same_tables s (snd (run_state m s)))"

lemma wp_keeps:
  assumes "keeps m" and "\<And>r t. same_tables s t \<Longrightarrow> Q r t"
  shows "wp m Q s"
  using assms by (intro wp_runI) (simp add: keeps_def)

lemma wp_keeps_produces:
  assumes "keeps m" and "produces m L"
    and "\<And>r t cs. same_tables s t \<Longrightarrow> trace t = trace s @ cs \<Longrightarrow> L r cs \<Longrightarrow> Q r t"
  shows "wp m Q s"
  using assms(1) producesD [OF assms(2), of s] assms(3) by (intro wp_runI) (metis keeps_def)

lemma keeps_return [keeps_intros]: "keeps (State_Monad.return x)"
  by (simp add: keeps_def)

lemma keeps_bind [keeps_intros]: "keeps m \<Longrightarrow> (\<And>r. keeps (f r)) \<Longrightarrow> keeps (State_Monad.bind m f)"
  unfolding keeps_def by (auto simp: case_prod_beta intro: same_tables_trans)

lemma keeps_ext [keeps_intros]: "keeps (ext ans mk)"
  by (simp add: keeps_def ext_def Let_def)

lemma keeps_peek [keeps_intros]: "keeps (peek f)"
  by (simp add: keeps_def peek_def)

lemma keeps_locked:
  "quiet e \<Longrightarrow> (\<And>s. same_tables s (snd (f s))) \<Longrightarrow> keeps (locked e f)"
  unfolding keeps_def locked_def yield_def quiet_def
  by (simp add: Let_def case_prod_beta) (metis same_tables_ghost(4))

lemma keeps_reading: "quiet e \<Longrightarrow> keeps (reading e f)"
  unfolding reading_def by (rule keeps_locked) simp_all

lemma keeps_writing: "quiet e \<Longrightarrow> (\<And>s. same_tables s (f s)) \<Longrightarrow> keeps (writing e f)"
  unfolding writing_def by (rule keeps_locked) simp_all

lemma keeps_if [keeps_intros]: "keeps m \<Longrightarrow> keeps n \<Longrightarrow> keeps (if b then m else n)"
  by simp

lemma keeps_case_option [keeps_intros]:
  "keeps m \<Longrightarrow> (\<And>y. keeps (f y)) \<Longrightarrow> keeps (case x of None \<Rightarrow> m | Some y \<Rightarrow> f y)"
  by (cases x) simp_all

lemma keeps_case_sum [keeps_intros]:
  "(\<And>a. keeps (f a)) \<Longrightarrow> (\<And>b. keeps (g b)) \<Longrightarrow> keeps (case x of Inl a \<Rightarrow> f a | Inr b \<Rightarrow> g b)"
  by (cases x) simp_all

lemma keeps_case_prod [keeps_intros]:
  "(\<And>a b. keeps (f a b)) \<Longrightarrow> keeps (case x of (a, b) \<Rightarrow> f a b)"
  by (cases x) simp_all

lemma keeps_Let [keeps_intros]: "keeps (f x) \<Longrightarrow> keeps (Let x f)"
  by simp

lemma keeps_notify: "quiet e \<Longrightarrow> keeps (notify e p)"
  unfolding notify_def
  by (intro keeps_intros keeps_locked) (simp_all add: Let_def case_prod_beta)

lemma keeps_patchLoop [keeps_intros]: "keeps fn \<Longrightarrow> keeps (patchLoop e n fn)"
  by (induction n) (auto intro!: keeps_intros simp: sleepCtx_def)

lemma keeps_patchIncarnation [keeps_intros]: "keeps (patchIncarnationAnnotations e ns name uid an)"
  unfolding patchIncarnationAnnotations_def kubePatch_def by (intro keeps_intros)

lemma keeps_publishPodStatus: "quiet e \<Longrightarrow> keeps (publishPodStatus e p)"
  unfolding publishPodStatus_def patchWithRetry_def kubeStatusPatch_def
  by (intro keeps_intros keeps_reading)

end
