(* ===== verification/Delete_Props.thy ===== *)
theory Delete_Props
  imports Delete Frames
begin

text \<open>
  Deletion never loses a VM: a failed snapshot blocks the removal, a failed removal keeps the pod's
  record and its leases, and only a removed VM's record is dropped.
\<close>

section \<open>Calls of a deletion\<close>

definition isRemove :: "call \<Rightarrow> bool" where
  "isRemove c = (case c of RRemove _ _ \<Rightarrow> True | _ \<Rightarrow> False)"

definition isRelease :: "call \<Rightarrow> bool" where
  "isRelease c = (case c of LRelease _ _ \<Rightarrow> True | _ \<Rightarrow> False)"

text \<open>A snapshot step that did not succeed, and a removal that did not.\<close>

definition snapshotFailed :: "call \<Rightarrow> bool" where
  "snapshotFailed c = (case c of
      RInspect _ (Inl x) \<Rightarrow> \<not> errIs x ErrVMNotFound
    | RSnapshotSave _ _ (Some _) \<Rightarrow> True
    | PPush _ _ _ _ (Some _) \<Rightarrow> True
    | _ \<Rightarrow> False)"

definition removeFailed :: "call \<Rightarrow> bool" where
  "removeFailed c = (case c of
      RRemove _ (Some x) \<Rightarrow> \<not> errIs x ErrVMNotFound
    | MExec args out (Some _) \<Rightarrow> args \<noteq> [] \<and> tl args \<noteq> [] \<and> args ! 1 = ''rm'' \<and> \<not> macosVMMissing out
    | _ \<Rightarrow> False)"

definition keptVM :: "err option \<Rightarrow> bool" where
  "keptVM r = (case r of None \<Rightarrow> False | Some x \<Rightarrow> errIs x ErrDeleteKeptVM)"

definition deletionSafe :: "err option \<Rightarrow> call list \<Rightarrow> bool" where
  "deletionSafe r cs \<longleftrightarrow>
     (list_ex snapshotFailed cs \<longrightarrow> keptVM r \<and> \<not> list_ex isRemove cs \<and> \<not> list_ex isRelease cs) \<and>
     (list_ex removeFailed cs \<longrightarrow> keptVM r \<and> \<not> list_ex isRelease cs)"

definition tailCall :: "call \<Rightarrow> bool" where
  "tailCall c \<longleftrightarrow> \<not> snapshotFailed c \<and> \<not> removeFailed c"

definition idleCall :: "call \<Rightarrow> bool" where
  "idleCall c \<longleftrightarrow> tailCall c \<and> \<not> isRemove c \<and> \<not> isRelease c"

lemmas delete_class_defs =
  isRemove_def isRelease_def snapshotFailed_def removeFailed_def tailCall_def idleCall_def

lemma keptVM_keptVMErr [simp]: "keptVM (Some (keptVMErr pre x post))" "\<not> keptVM None"
  by (simp_all add: keptVM_def keptVMErr_def errIs_def)

lemma emits_releaseLeases [emits_intros]: "emits (releaseDHCPLeases e v) tailCall"
proof -
  have "emits (releaseMACs e macs) tailCall" for macs
    by (induction macs) (auto intro!: emits_intros simp: releaseByMAC_def delete_class_defs)
  then show ?thesis unfolding releaseDHCPLeases_def by (intro emits_intros)
qed

lemma emits_idle_tail: "emits m idleCall \<Longrightarrow> emits m tailCall"
  by (erule emits_weaken) (simp add: idleCall_def)

lemma emits_forgetPod [emits_intros]: "emits (forgetPod e ns name) P"
  unfolding forgetPod_def forgetProbe_def by (intro emits_intros)

lemma emits_forgetProbe [emits_intros]: "emits (forgetProbe e key) P"
  unfolding forgetProbe_def by (intro emits_intros)

lemma emits_removeSnapshots [emits_intros]: "emits (removeLocalSnapshots e name) idleCall"
  unfolding removeLocalSnapshots_def removeSnapshotDetached_def rtSnapshotRemove_def
  by (intro emits_intros) (simp_all add: delete_class_defs)

lemma emits_State_unit: "(\<And>s. trace (f s) = trace s) \<Longrightarrow> emits (State (\<lambda>s. ((), f s))) P"
  by (simp add: emits_def)

lemma emits_succeed [emits_intros]: "emits (succeedAndNotify e p) idleCall"
  unfolding succeedAndNotify_def
  by (intro emits_bind emits_State_unit emits_notify) (simp_all add: setStatus_def delete_class_defs)

section \<open>Safety\<close>

lemma tail_none:
  "list_all tailCall cs \<Longrightarrow> \<not> list_ex snapshotFailed cs \<and> \<not> list_ex removeFailed cs"
  by (auto simp: list_ex_iff list_all_iff tailCall_def)

lemma idle_none:
  "list_all idleCall cs \<Longrightarrow> \<not> list_ex snapshotFailed cs \<and> \<not> list_ex removeFailed cs \<and>
    \<not> list_ex isRemove cs \<and> \<not> list_ex isRelease cs"
  by (auto simp: list_ex_iff list_all_iff tailCall_def idleCall_def)

lemma tail_safe: "list_all tailCall cs \<Longrightarrow> deletionSafe r cs"
  by (simp add: deletionSafe_def tail_none)

lemma removeAndForget_safe:
  "produces (removeAndForget e p v keep)
     (\<lambda>r cs. deletionSafe r cs \<and> \<not> list_ex snapshotFailed cs)"
proof -
  have rm: "produces (removeVM e (vpVM v))
      (\<lambda>r cs. \<not> list_ex snapshotFailed cs \<and> (r = None \<longrightarrow> list_all tailCall cs) \<and>
         (r \<noteq> None \<longrightarrow> \<not> list_ex isRelease cs))"
    unfolding removeVM_def rtRemove_def
    by (intro produces_intros produces_bind_emits [OF emits_releaseLeases])
      (auto simp: delete_class_defs list_ex_iff list_all_iff)
  have fin: "emits (do {
          _ \<leftarrow> (if keep then State_Monad.return () else removeLocalSnapshots e (vpName v));
          _ \<leftarrow> forgetPod e (ptNamespace p) (ptName p);
          _ \<leftarrow> succeedAndNotify e p;
          State_Monad.return (None :: err option) }) tailCall"
    by (rule emits_idle_tail) (intro emits_intros)
  show ?thesis
    unfolding removeAndForget_def
    by (rule produces_bind [OF rm], intro produces_case_option produces_return
        produces_emits [OF fin])
      (auto simp: deletionSafe_def tail_none)
qed

lemma saveAndPushSnapshot_calls:
  "produces (saveAndPushSnapshot e p v tag img)
     (\<lambda>r cs. \<not> list_ex isRemove cs \<and> \<not> list_ex isRelease cs \<and> \<not> list_ex removeFailed cs \<and>
        (list_ex snapshotFailed cs \<longrightarrow> r \<noteq> None))"
  unfolding saveAndPushSnapshot_def saveAndPush_def snapshotAnnotations_def rtInspect_def
    rtSnapshotSave_def pushSnapshot_def
  by (intro produces_intros produces_bind_silent [OF emits_peek])
    (auto simp: delete_class_defs split: if_splits option.splits)

lemma deleteManaged_safe: "produces (deleteManagedPod e p spec keep) deletionSafe"
proof -
  have rf: "produces (removeAndForget e p v keep) (\<lambda>r cs. deletionSafe r (as @ cs))"
    if "\<not> list_ex snapshotFailed as" "\<not> list_ex removeFailed as" "\<not> list_ex isRelease as" for v as
    by (rule produces_weaken [OF removeAndForget_safe]) (use that in \<open>auto simp: deletionSafe_def\<close>)
  have none: "emits (do {
        _ \<leftarrow> (if keep then State_Monad.return () else removeLocalSnapshots e (vsVMName spec));
        _ \<leftarrow> forgetPod e (ptNamespace p) (ptName p);
        State_Monad.return (None :: err option) }) idleCall"
    by (intro emits_intros)
  show ?thesis
    unfolding deleteManagedPod_def vmForPod_def
    by (intro produces_intros produces_bind_silent [OF emits_peek]
        produces_bind [OF saveAndPushSnapshot_calls] produces_emits [OF none] rf
        rf [of "[]", simplified])
      (auto simp: deletionSafe_def idle_none)
qed

lemma removeMacosGuest_safe: "produces (removeMacosGuest e p vmName v) deletionSafe"
proof -
  have fin: "emits (do {
            _ \<leftarrow> releaseDHCPLeases e v;
            _ \<leftarrow> forgetPod e (ptNamespace p) (ptName p);
            _ \<leftarrow> succeedAndNotify e p;
            State_Monad.return (None :: err option) }) tailCall"
    by (intro emits_intros emits_idle_tail [OF emits_succeed])
  show ?thesis
    unfolding removeMacosGuest_def macosExec_def
    by (intro produces_bind_silent [OF emits_forgetProbe]
        produces_bind_ext produces_case_option produces_if produces_return produces_emits [OF fin])
      (auto simp: deletionSafe_def tail_none delete_class_defs)
qed

lemma deletePod_safe: "produces (deletePod e p) deletionSafe"
proof -
  have idle: "emits m idleCall \<Longrightarrow> produces m deletionSafe" for m :: "err option act"
    by (rule produces_emits) (auto intro: tail_safe simp: list_all_iff idleCall_def)
  have macos: "produces (deleteMacosPod e p spec) deletionSafe" for spec
  proof -
    have insp: "emits (macosInspect e vmName) idleCall" for vmName
      unfolding macosInspect_def macosExec_def
      by (intro emits_intros) (simp add: delete_class_defs split: option.splits)
    have guest: "produces (removeMacosGuest e p vmName v) (\<lambda>x bs. deletionSafe x (as @ bs))"
      if "list_all idleCall as" for as vmName v
      by (rule produces_weaken [OF removeMacosGuest_safe])
        (use idle_none [OF that] in \<open>auto simp: deletionSafe_def\<close>)
    show ?thesis
      unfolding deleteMacosPod_def vmForPod_def
      by (intro produces_bind_reading produces_Let produces_if produces_case_option
          removeMacosGuest_safe produces_bind_emits [OF insp] guest idle emits_intros) assumption
  qed
  have claimed: "produces (deletePodClaimed e p) deletionSafe"
    unfolding deletePodClaimed_def backoffIfResuming_def
    by (intro produces_bind_silent [OF emits_peek] produces_bind_silent emits_intros produces_case_option
        produces_if macos deleteManaged_safe idle)
  show ?thesis
    unfolding deletePod_def
    by (rule produces_bind_locked, rename_tac c, case_tac c)
      (simp_all add: produces_deferring [OF claimed] produces_writing idle emits_return)
qed

section \<open>Effect on the tables\<close>

text \<open>The tables after \<open>forgetPod\<close>.\<close>

definition forgotten :: "env \<Rightarrow> string \<Rightarrow> prov \<Rightarrow> prov" where
  "forgotten e key s =
     (let t = untrackLocked key s in
      if cfgProbes (cfg e) then t\<lparr>probes := mgrForget key (probes t)\<rparr> else t)"

lemma same_tables_forgotten: "same_tables s t \<Longrightarrow> same_tables (forgotten e key s) (forgotten e key t)"
  by (simp add: same_tables_def forgotten_def untrackLocked_def dropVMLocked_def Let_def
      split: option.splits)

lemma keeps_releaseLeases [keeps_intros]: "keeps (releaseDHCPLeases e v)"
proof -
  have "keeps (releaseMACs e macs)" for macs
    by (induction macs) (auto intro!: keeps_intros simp: releaseByMAC_def)
  then show ?thesis unfolding releaseDHCPLeases_def by (intro keeps_intros)
qed

lemma keeps_removeVM [keeps_intros]: "keeps (removeVM e v)"
  unfolding removeVM_def rtRemove_def by (intro keeps_intros)

lemma keeps_removeLocalSnapshots [keeps_intros]: "keeps (removeLocalSnapshots e name)"
  unfolding removeLocalSnapshots_def removeSnapshotDetached_def rtSnapshotRemove_def
  by (intro keeps_intros)

lemma keeps_saveAndPush [keeps_intros]: "keeps (saveAndPush e p i l r t g)"
  unfolding saveAndPush_def snapshotAnnotations_def rtSnapshotSave_def pushSnapshot_def
  by (intro keeps_intros)

lemma keeps_saveAndPushSnapshot [keeps_intros]: "keeps (saveAndPushSnapshot e p v tag img)"
  unfolding saveAndPushSnapshot_def rtInspect_def by (intro keeps_intros)

lemma keeps_succeed: "quiet e \<Longrightarrow> keeps (succeedAndNotify e p)"
  unfolding succeedAndNotify_def
  by (intro keeps_bind keeps_notify) (simp_all add: keeps_def)

lemma wp_forgetPod_quiet:
  assumes "quiet e" and "\<And>t. same_tables (forgotten e (mPodKey (lib e) ns name) s) t \<Longrightarrow> Q () t"
  shows "wp (forgetPod e ns name) Q s"
  unfolding forgetPod_def forgetProbe_def using assms(1)
  by (auto simp: wp_quiet forgotten_def Let_def intro!: assms(2))
    (simp_all add: same_tables_def untrackLocked_def dropVMLocked_def Let_def split: option.splits)

lemma removeAndForget_quiet:
  assumes "quiet e"
  shows "wp (removeAndForget e p v keep)
    (\<lambda>r t. case r of
        Some x \<Rightarrow> same_tables s t \<and> errIs x ErrDeleteKeptVM
      | None \<Rightarrow> same_tables (forgotten e (podKey e p) s) t) s"
  unfolding removeAndForget_def
proof (simp only: wp_bind, rule wp_keeps [OF keeps_removeVM])
  fix r t
  assume st: "same_tables s t"
  let ?Q = "\<lambda>r t. case r of
        Some x \<Rightarrow> same_tables s t \<and> errIs x ErrDeleteKeptVM
      | None \<Rightarrow> same_tables (forgotten e (podKey e p) s) t"
  have fin: "wp (do {
          _ \<leftarrow> (if keep then State_Monad.return () else removeLocalSnapshots e (vpName v));
          _ \<leftarrow> forgetPod e (ptNamespace p) (ptName p);
          _ \<leftarrow> succeedAndNotify e p;
          State_Monad.return None }) ?Q t"
  proof (simp only: wp_bind, rule wp_keeps, intro keeps_intros, rule wp_forgetPod_quiet [OF assms],
      rule wp_keeps [OF keeps_succeed [OF assms]], simp only: wp_return option.case)
    fix t1 t2 t3
    assume "same_tables t t1" and f: "same_tables (forgotten e (mPodKey (lib e) (ptNamespace p) (ptName p)) t1) t2"
      and "same_tables t2 t3"
    with st show "same_tables (forgotten e (podKey e p) s) t3"
      unfolding podKey_def by (meson same_tables_forgotten same_tables_trans)
  qed
  show "wp (case r of
          Some x \<Rightarrow> State_Monad.return (Some (keptVMErr (''remove vm '' @ vpID v @ '': '') x []))
        | None \<Rightarrow> do {
          _ \<leftarrow> (if keep then State_Monad.return () else removeLocalSnapshots e (vpName v));
          _ \<leftarrow> forgetPod e (ptNamespace p) (ptName p);
          _ \<leftarrow> succeedAndNotify e p;
          State_Monad.return None }) ?Q t"
    using fin st by (cases r) (simp_all add: keptVMErr_def errIs_def del: wp_bind)
qed

lemma deleteManaged_quiet:
  assumes "quiet e" and "vmsByPod s (podKey e p) = Some v"
  shows "wp (deleteManagedPod e p spec keep)
    (\<lambda>r t. case r of
        Some x \<Rightarrow> same_tables s t \<and> errIs x ErrDeleteKeptVM
      | None \<Rightarrow> same_tables (forgotten e (podKey e p) s) t) s"
proof -
  let ?Q = "\<lambda>r t. case r of
        Some x \<Rightarrow> same_tables s t \<and> errIs x ErrDeleteKeptVM
      | None \<Rightarrow> same_tables (forgotten e (podKey e p) s) t"
  have rf: "wp (removeAndForget e p v keep) ?Q t" if "same_tables s t" for t
  proof (rule wp_mono [OF removeAndForget_quiet [OF assms(1)]])
    fix r u
    assume "case r of Some x \<Rightarrow> same_tables t u \<and> errIs x ErrDeleteKeptVM
      | None \<Rightarrow> same_tables (forgotten e (podKey e p) t) u"
    with that show "?Q r u"
      by (cases r) (auto intro: same_tables_trans same_tables_forgotten)
  qed
  have snap: "wp (saveAndPushSnapshot e p v tag img) (\<lambda>r. wp (case r of
        Some x \<Rightarrow> State_Monad.return (Some (keptVMErr pre x []))
      | None \<Rightarrow> removeAndForget e p v keep) ?Q) t" if "same_tables s t" for t tag img pre
    by (rule wp_keeps [OF keeps_saveAndPushSnapshot], rename_tac r u, case_tac r)
      (auto intro: rf same_tables_trans [OF that] simp: keptVMErr_def errIs_def)
  show ?thesis
    unfolding deleteManagedPod_def vmForPod_def using assms
    by (auto simp: wp_quiet podKey_def intro!: rf snap)
qed

text \<open>Releasing the claim undoes taking it.\<close>

lemma finish_claim:
  "k \<notin> deleting s \<Longrightarrow> same_tables (s\<lparr>deleting := insert k (deleting s)\<rparr>) u \<Longrightarrow>
   same_tables s (finishDeletingLocked k u)"
  by (auto simp: same_tables_def finishDeletingLocked_def)

lemma finishDeleting_ghost [simp]:
  "finishDeletingLocked k (u\<lparr>tick := n\<rparr>) = (finishDeletingLocked k u)\<lparr>tick := n\<rparr>"
  by (simp add: finishDeletingLocked_def)

lemma forgotten_claim:
  "forgotten e k (s\<lparr>deleting := D\<rparr>) = (forgotten e k s)\<lparr>deleting := D\<rparr>"
  "forgotten e k (s\<lparr>tick := n\<rparr>) = (forgotten e k s)\<lparr>tick := n\<rparr>"
  "deleting (forgotten e k s) = deleting s"
  by (simp_all add: forgotten_def untrackLocked_def dropVMLocked_def Let_def split: option.splits)

section \<open>Properties\<close>

text \<open>C4: deleting a pod never destroys state it failed to save. In every run of \<open>deletePod\<close>, under
  any interference and any answers: if the snapshot before the delete fails (inspect, save or
  push), no VM is removed and no lease released; if a removal fails, no lease is released; and in
  both cases the result is the \<open>ErrDeleteKeptVM\<close> error that makes the framework retry.\<close>

theorem delete_never_loses_vm:
  "\<exists>cs. trace (snd (run_state (deletePod e p) s)) = trace s @ cs \<and>
    (list_ex snapshotFailed cs \<longrightarrow> keptVM (fst (run_state (deletePod e p) s)) \<and>
       \<not> list_ex isRemove cs \<and> \<not> list_ex isRelease cs) \<and>
    (list_ex removeFailed cs \<longrightarrow> keptVM (fst (run_state (deletePod e p) s)) \<and>
       \<not> list_ex isRelease cs)"
  using producesD [OF deletePod_safe, of e p s] unfolding deletionSafe_def by metis

definition exPushFails :: env where
  "exPushFails = exEnv\<lparr>ask := exWorld\<lparr>wPush := (\<lambda>h l r t i a. Some (newErr ''registry down''))\<rparr>\<rparr>"

lemma exPushFails_snapshotFailed:
  "list_ex snapshotFailed (trace (snd (run_state (deletePod exPushFails exPod) exProv)))"
proof (rule wp_run)
  have q: "quiet exPushFails" by (simp add: exPushFails_def exEnv_def quiet_def)
  have sel: "lib exPushFails = exLib" "cfg exPushFails = exConfig"
    "ask exPushFails = exWorld\<lparr>wPush := (\<lambda>h l r t i a. Some (newErr ''registry down''))\<rparr>"
    by (simp_all add: exPushFails_def)
  show "wp (deletePod exPushFails exPod) (\<lambda>_ t. list_ex snapshotFailed (trace t)) exProv"
    by (simp add: deletePod_def deletePodClaimed_def backoffIfResuming_def deleteManagedPod_def
        saveAndPushSnapshot_def saveAndPush_def snapshotAnnotations_def vmForPod_def
        claimDeletingLocked_def supersededLocked_def finishDeletingLocked_def podAt_def isMacosSpec_def
        wp_quiet q sel podKey_def ext_defs snapshotFailed_def wp_simps exLib_def exSpec_def exWorld_def
        exConfig_def exConsts_def exAn_def equalFold_def toLower_def trimSpace_def)
qed

theorem delete_never_loses_vm_witness:
  "keptVM (fst (run_state (deletePod exPushFails exPod) exProv)) \<and>
   \<not> list_ex isRemove (trace (snd (run_state (deletePod exPushFails exPod) exProv)))"
  using delete_never_loses_vm [of exPushFails exPod exProv] exPushFails_snapshotFailed by auto



end
