(* ===== verification/Events_Props.thy ===== *)
theory Events_Props
  imports Events Delete_Props
begin

text \<open>
  What the event handlers guarantee: a pod is deleted from the apiserver only once its VM is
  confirmed gone or removed, a VM is removed only after it was seen not running, restarts of one VM
  are spaced by the cooldown, and retry delays grow to their cap.
\<close>

section \<open>Evidence before an eviction\<close>

definition isKDelete :: "call \<Rightarrow> bool" where
  "isKDelete c = (case c of KDelete _ _ _ _ \<Rightarrow> True | _ \<Rightarrow> False)"

text \<open>Calls that prove that a VM does not exist, and that it is not running.\<close>

definition provesGone :: "call \<Rightarrow> bool" where
  "provesGone c = (case c of
      RInspect _ (Inl x) \<Rightarrow> errIs x ErrVMNotFound
    | RRemove _ None \<Rightarrow> True
    | RRemove _ (Some x) \<Rightarrow> errIs x ErrVMNotFound
    | _ \<Rightarrow> False)"

definition provesStopped :: "string \<Rightarrow> call \<Rightarrow> bool" where
  "provesStopped j c =
     (case c of RInspect _ (Inr v) \<Rightarrow> vID v = j \<and> vState v \<noteq> StateRunning | _ \<Rightarrow> False)"

definition isRemoveOf :: "string \<Rightarrow> call \<Rightarrow> bool" where
  "isRemoveOf j c = (case c of RRemove i _ \<Rightarrow> i = j | _ \<Rightarrow> False)"

text \<open>Every call that satisfies \<open>K\<close> has one that satisfies \<open>E\<close> before it.\<close>

definition preceded :: "(call \<Rightarrow> bool) \<Rightarrow> (call \<Rightarrow> bool) \<Rightarrow> call list \<Rightarrow> bool" where
  "preceded K E cs \<longleftrightarrow> (\<forall>as c bs. cs = as @ c # bs \<longrightarrow> K c \<longrightarrow> list_ex E as)"

lemma preceded_none: "\<not> list_ex K cs \<Longrightarrow> preceded K E cs"
  by (auto simp: preceded_def)

lemma preceded_append:
  assumes "preceded K E cs" and "list_ex E cs \<or> preceded K E ds"
  shows "preceded K E (cs @ ds)"
  unfolding preceded_def
proof (intro allI impI)
  fix as c bs
  assume eq: "cs @ ds = as @ c # bs" and c: "K c"
  from eq consider us where "cs = as @ c # us" | us where "as = cs @ us" "ds = us @ c # bs"
    by (auto simp: append_eq_append_conv2 Cons_eq_append_conv append_eq_Cons_conv)
  then show "list_ex E as"
    using assms c by cases (auto simp: preceded_def)
qed

lemma preceded_Cons:
  "\<not> K x \<Longrightarrow> E x \<or> preceded K E cs \<Longrightarrow> preceded K E (x # cs)"
  using preceded_append [of K E "[x]" cs] preceded_none [of K "[x]" E] by auto

definition quietCall :: "call \<Rightarrow> bool" where
  "quietCall c \<longleftrightarrow> \<not> isKDelete c \<and> \<not> isRemove c"

lemmas event_class_defs =
  isKDelete_def isRemove_def isRemoveOf_def provesGone_def provesStopped_def quietCall_def

lemma isKDelete_simps [simp]:
  "isKDelete (KDelete a b c r)" "\<not> isKDelete (TSleep i z)" "\<not> isKDelete (TNow i)"
  "\<not> isKDelete (RInspect j q)" "\<not> isKDelete (RStart j z)"
  by (simp_all add: isKDelete_def)

definition evictionSafe :: "call list \<Rightarrow> bool" where
  "evictionSafe cs \<longleftrightarrow> preceded isKDelete provesGone cs \<and>
     (\<forall>j. preceded (isRemoveOf j) (provesStopped j) cs)"

lemma isRemoveOf_isRemove: "isRemoveOf j c \<Longrightarrow> isRemove c"
  by (cases c) (simp_all add: isRemoveOf_def isRemove_def)

lemma preceded_noRemove: "list_all (\<lambda>c. \<not> isRemove c) cs \<Longrightarrow> preceded (isRemoveOf j) E cs"
  by (rule preceded_none) (auto simp: list_ex_iff list_all_iff dest: isRemoveOf_isRemove)

lemma quiet_safe:
  assumes "list_all quietCall cs"
  shows "evictionSafe cs"
proof -
  have "list_all (\<lambda>c. \<not> isRemove c) cs" "\<not> list_ex isKDelete cs"
    using assms by (auto simp: list_ex_iff list_all_iff quietCall_def)
  then show ?thesis by (simp add: evictionSafe_def preceded_noRemove preceded_none)
qed

lemma bookkeeping_quiet: "bookkeeping c \<Longrightarrow> quietCall c"
  by (cases c) (auto simp: bookkeeping_def event_class_defs)

lemma emits_quiet_book: "emits m bookkeeping \<Longrightarrow> emits m quietCall"
  by (erule emits_weaken) (rule bookkeeping_quiet)

lemma emits_quiet_leases: "emits (releaseDHCPLeases e v) quietCall"
proof -
  have "emits (releaseMACs e macs) quietCall" for macs
    by (induction macs) (auto intro!: emits_intros simp: releaseByMAC_def event_class_defs)
  then show ?thesis unfolding releaseDHCPLeases_def by (intro emits_intros)
qed

definition noRemove :: "call \<Rightarrow> bool" where
  "noRemove c \<longleftrightarrow> \<not> isRemove c"

lemma emits_noRemove_evict: "emits (evictPod e key p reason message) noRemove"
proof -
  have del: "emits (deleteLoop e n i p) noRemove" for n i
    by (induction n arbitrary: i)
      (auto intro!: emits_intros simp: kubeDelete_def sleepCtx_def noRemove_def isRemove_def)
  show ?thesis
    unfolding evictPod_def deletePodWithRetry_def untrackIncarnation_def
    by (intro emits_intros emits_State_unit emits_notify del)
      (simp_all add: setStatus_def noRemove_def isRemove_def)
qed

lemma emits_recheck [emits_intros]: "emits (scheduleDeferredRecheck e i) P"
  unfolding scheduleDeferredRecheck_def by (intro emits_intros)

lemma emits_tracked [emits_intros]: "emits (trackedPodMatches e key uid) P"
  unfolding trackedPodMatches_def by (intro emits_intros)

section \<open>Handlers\<close>

lemma evict_after_gone:
  assumes "list_ex provesGone as" and "preceded isKDelete provesGone as"
  shows "produces (evictPod e key p reason message) (\<lambda>_ cs. preceded isKDelete provesGone (as @ cs))"
  by (rule produces_emits [OF emits_noRemove_evict]) (use assms in \<open>simp add: preceded_append\<close>)

lemma removeVM_calls:
  "produces (removeVM e v)
     (\<lambda>r cs. \<not> list_ex isKDelete cs \<and> (r = None \<longrightarrow> list_ex provesGone cs))"
  unfolding removeVM_def rtRemove_def
  by (intro produces_intros produces_bind_emits [OF emits_quiet_leases])
    (auto simp: event_class_defs list_ex_iff list_all_iff)

lemma removeThenEvict_calls:
  "produces (removeThenEvict e v key p reason message) (\<lambda>_ cs. preceded isKDelete provesGone cs)"
proof -
  have evict: "produces (do {
             _ \<leftarrow> evictPod e key p reason message;
             still \<leftarrow> trackedPodMatches e key (ptUID p);
             (if still then do { _ \<leftarrow> scheduleDeferredRecheck e (vID v); State_Monad.return True }
              else State_Monad.return False)
           }) (\<lambda>_ cs. preceded isKDelete provesGone (as @ cs))"
    if "list_ex provesGone as" "preceded isKDelete provesGone as" for as
    by (rule produces_bind [OF evict_after_gone [OF that]])
      (auto intro!: produces_bind_silent produces_return produces_if emits_intros)
  show ?thesis
    unfolding removeThenEvict_def
    by (intro produces_bind_locked produces_if produces_deferring
        [where K = "\<lambda>_ cs. preceded isKDelete provesGone cs"] produces_bind [OF removeVM_calls]
        produces_case_option evict produces_return produces_writing)
      (auto intro: preceded_none)
qed

lemma removeThenEvict_removes:
  "emits (removeThenEvict e v key p reason message) (\<lambda>c. \<forall>j. isRemoveOf j c \<longrightarrow> j = vID v)"
proof -
  have none: "noRemove c \<Longrightarrow> \<forall>j. isRemoveOf j c \<longrightarrow> j = vID v" for c
    by (auto simp: noRemove_def dest: isRemoveOf_isRemove)
  have leases: "emits (releaseDHCPLeases e v) noRemove"
    by (rule emits_weaken [OF emits_quiet_leases]) (simp add: quietCall_def noRemove_def)
  show ?thesis
    unfolding removeThenEvict_def removeVM_def rtRemove_def
    by (intro emits_intros emits_weaken [OF emits_noRemove_evict none] emits_weaken [OF leases none])
      (auto simp: isRemoveOf_def)
qed

lemma emits_quiet_lift: "emits (liftHibernateFailure e p) quietCall"
  unfolding liftHibernateFailure_def rtInspect_def
  by (intro emits_intros emits_quiet_book [OF emits_book_flush])
    (simp_all add: event_class_defs)

lemma emits_quiet_liftCleared: "emits (liftClearedHibernateFailure e p) quietCall"
  unfolding liftClearedHibernateFailure_def retryOpLater_def timeNow_def
  by (intro emits_intros emits_quiet_lift emits_quiet_book [OF emits_book_markReady])
    (simp_all add: event_class_defs)

text \<open>A context ends with \<open>context.Canceled\<close> or \<open>context.DeadlineExceeded\<close>, never with an answer of
  the VM runtime or the apiserver.\<close>

definition ctxError :: "err \<Rightarrow> bool" where
  "ctxError c \<longleftrightarrow> set (errKinds c) \<subseteq> {CtxCanceled, CtxDeadlineExceeded}"

definition ctx_ok :: "env \<Rightarrow> bool" where
  "ctx_ok e \<longleftrightarrow> (\<forall>h d c. wSleep (ask e) h d = Some c \<longrightarrow> ctxError c)"

lemma ctxError_not [simp]:
  "ctxError c \<Longrightarrow> \<not> errIs c ErrVMNotFound" "ctxError c \<Longrightarrow> \<not> errIs c ApiConflict"
  "ctxError c \<Longrightarrow> \<not> errIs c ApiNotFound"
  by (auto simp: ctxError_def errIs_def)

lemma produces_bind_sleep:
  assumes "ctx_ok e"
    and "\<And>r. (\<And>c. r = Some c \<Longrightarrow> ctxError c) \<Longrightarrow> produces (f r) (\<lambda>x bs. L x (TSleep d r # bs))"
  shows "produces (State_Monad.bind (sleepCtx e d) f) L"
proof (rule produces_bind [where K = "\<lambda>r as. as = [TSleep d r] \<and> (\<forall>c. r = Some c \<longrightarrow> ctxError c)"])
  show "produces (sleepCtx e d) (\<lambda>r as. as = [TSleep d r] \<and> (\<forall>c. r = Some c \<longrightarrow> ctxError c))"
    using assms(1) by (simp add: produces_def sleepCtx_def ext_def Let_def ctx_ok_def)
qed (use assms(2) in auto)

definition inspectSaw :: "(err + vm) \<Rightarrow> call list \<Rightarrow> bool" where
  "inspectSaw r cs \<longleftrightarrow> list_all quietCall cs \<and>
     (case r of
        Inr v \<Rightarrow> vState v \<noteq> StateRunning \<longrightarrow> list_ex (provesStopped (vID v)) cs
      | Inl x \<Rightarrow> errIs x ErrVMNotFound \<longrightarrow> list_ex provesGone cs)"

lemma inspectLoop_saw: "ctx_ok e \<Longrightarrow> produces (inspectLoop e n i b vmID) inspectSaw"
proof (induction n arbitrary: i)
  case 0
  show ?case by (auto intro: produces_return simp: inspectSaw_def)
next
  case (Suc n)
  have again: "produces (inspectLoop e n j b vmID) (\<lambda>r cs. inspectSaw r (c # d # cs))"
    if "quietCall c" "quietCall d" for j c d
    by (rule produces_weaken [OF Suc.IH [OF Suc.prems]])
      (use that in \<open>auto simp: inspectSaw_def split: sum.splits\<close>)
  show ?case
    unfolding inspectLoop.simps rtInspect_def
    by (intro produces_bind_ext produces_case_sum produces_if produces_return
        produces_bind_sleep [OF Suc.prems] produces_case_option again)
      (auto simp: inspectSaw_def event_class_defs)
qed

lemma restartOrEvict_safe:
  assumes "list_ex (provesStopped (vID u)) as" and "list_all quietCall as"
  shows "produces (restartOrEvict e key p vmID u) (\<lambda>_ cs. evictionSafe (as @ cs))"
proof -
  have stopped: "evictionSafe (as @ cs)"
    if k: "preceded isKDelete provesGone cs"
      and rm: "list_all (\<lambda>c. \<forall>j. isRemoveOf j c \<longrightarrow> j = vID u) cs" for cs
  proof -
    have "preceded (isRemoveOf j) (provesStopped j) (as @ cs)" for j
    proof (cases "j = vID u")
      case True
      with assms(1) quiet_safe [OF assms(2)] show ?thesis
        by (auto simp: evictionSafe_def intro: preceded_append)
    next
      case False
      with rm have "preceded (isRemoveOf j) (provesStopped j) cs"
        by (intro preceded_none) (auto simp: list_ex_iff list_all_iff)
      with quiet_safe [OF assms(2)] show ?thesis
        by (auto simp: evictionSafe_def intro: preceded_append)
    qed
    with k quiet_safe [OF assms(2)] show ?thesis
      by (auto simp: evictionSafe_def intro: preceded_append)
  qed
  have remove: "produces (removeThenEvict e u key p r m) (\<lambda>_ cs. evictionSafe (as @ bs @ cs))"
    if "list_all quietCall bs" for r m bs
  proof (rule produces_weaken [OF produces_emits_conj [OF removeThenEvict_calls removeThenEvict_removes]],
      rule stopped)
    fix cs
    assume cs: "preceded isKDelete provesGone cs \<and> list_all (\<lambda>c. \<forall>j. isRemoveOf j c \<longrightarrow> j = vID u) cs"
    have "\<not> list_ex isKDelete bs"
      using that by (auto simp: list_ex_iff list_all_iff quietCall_def)
    with cs show "preceded isKDelete provesGone (bs @ cs)"
      by (simp add: preceded_append [OF preceded_none])
    show "list_all (\<lambda>c. \<forall>j. isRemoveOf j c \<longrightarrow> j = vID u) (bs @ cs)"
      using that cs by (auto simp: list_all_iff quietCall_def dest: isRemoveOf_isRemove)
  qed
  have start: "produces (do {
             fresh \<leftarrow> rtInspect e vmID;
             _ \<leftarrow> (case fresh of
                    Inl _ \<Rightarrow> State_Monad.return ()
                  | Inr f \<Rightarrow> do {
                      _ \<leftarrow> locked e (updateTrackedVM (podKey e p) vmID
                        (\<lambda>v. v\<lparr>vPID := vPID f, vNetworkConfigs := vNetworkConfigs f\<rparr>));
                      State_Monad.return ()
                    });
             _ \<leftarrow> liftClearedHibernateFailure e p;
             State_Monad.return False
           }) (\<lambda>_ cs. evictionSafe (as @ bs @ cs))" if "list_all quietCall bs" for bs
    unfolding rtInspect_def
    by (rule produces_emits [where P = quietCall], intro emits_intros emits_quiet_liftCleared)
      (use that assms(2) in \<open>auto intro: quiet_safe simp: event_class_defs\<close>)
  have clock: "quietCall (TNow i)" "quietCall (RStart j r)" for i j r
    by (simp_all add: event_class_defs)
  show ?thesis
    unfolding restartOrEvict_def timeNow_def rtStart_def
    using remove [of "[TNow _, TNow _]"] remove [of "[TNow _, TNow _, RStart _ _]"]
      start [of "[TNow _, TNow _, RStart _ _]"] clock
    by (intro produces_bind_ext produces_bind_locked produces_if produces_case_option) simp_all
qed

lemma evictGone_safe:
  assumes "list_ex provesGone as" and "list_all quietCall as"
  shows "produces (evictGoneIncarnation e key p v reason message) (\<lambda>_ cs. evictionSafe (as @ cs))"
proof -
  have safe: "evictionSafe (as @ cs)" if "list_all noRemove cs" for cs
  proof -
    have "preceded (isRemoveOf j) (provesStopped j) cs" for j
      by (rule preceded_noRemove) (use that in \<open>simp add: list_all_iff noRemove_def\<close>)
    with assms(1) quiet_safe [OF assms(2)] show ?thesis
      by (simp add: evictionSafe_def preceded_append)
  qed
  have "emits (evictGoneIncarnation e key p v reason message) noRemove"
    unfolding evictGoneIncarnation_def
    by (intro emits_intros emits_noRemove_evict emits_weaken [OF emits_quiet_leases])
      (simp_all add: quietCall_def noRemove_def)
  then show ?thesis by (rule produces_emits) (rule safe)
qed

lemma emits_podForVMMatch: "emits (podForVMMatch e i name) quietCall"
  unfolding podForVMMatch_def pickMatch_def
  by (intro emits_intros) (simp_all add: event_class_defs)

lemma gone_tail:
  assumes "list_ex provesGone as" and "list_all quietCall as"
  shows "produces (do {
      _ \<leftarrow> evictGoneIncarnation e key p v reason message;
      still \<leftarrow> trackedPodMatches e key uid;
      (if still then do { _ \<leftarrow> scheduleDeferredRecheck e i; State_Monad.return True }
       else State_Monad.return False) }) (\<lambda>_ cs. evictionSafe (as @ cs))"
  by (rule produces_bind [OF evictGone_safe [OF assms]])
    (auto intro!: produces_bind_silent produces_return produces_if emits_intros)

lemma handleVMGone_safe:
  assumes "ctx_ok e"
  shows "produces (handleVMGone e ev) (\<lambda>_ cs. evictionSafe cs)"
proof -
  have quiet: "produces m (\<lambda>_ cs. evictionSafe (as @ cs))"
    if "list_all quietCall as" "emits m quietCall" for as and m :: "bool act"
    by (rule produces_emits [OF that(2)]) (use that(1) in \<open>auto intro: quiet_safe\<close>)
  have saw: "produces (inspectWithRetry e i) inspectSaw" for i
    unfolding inspectWithRetry_def by (rule inspectLoop_saw [OF assms])
  have verdict: "produces (case r of
         Inl x \<Rightarrow>
           if errIs x ErrVMNotFound
           then do {
             _ \<leftarrow> evictGoneIncarnation e key p (vpVM v) ''VMGone'' ''vm no longer exists'';
             still \<leftarrow> trackedPodMatches e key (ptUID p);
             (if still
              then do { _ \<leftarrow> scheduleDeferredRecheck e (vpID v); State_Monad.return True }
              else State_Monad.return False)
           }
           else do { _ \<leftarrow> scheduleDeferredRecheck e (vpID v); State_Monad.return True }
       | Inr inspected \<Rightarrow>
           if vState inspected = StateRunning then State_Monad.return False
           else restartOrEvict e key p (vpID v) inspected)
     (\<lambda>_ cs. evictionSafe (as @ bs @ cs))"
    if as: "list_all quietCall as" and r: "inspectSaw r bs" for as bs r key p v
  proof (cases r)
    case (Inl x)
    with as r show ?thesis
      using gone_tail [of "as @ bs" e key p "vpVM v" "''VMGone''" "''vm no longer exists''" "ptUID p" "vpID v"]
        quiet [of "as @ bs" "do { _ \<leftarrow> scheduleDeferredRecheck e (vpID v); State_Monad.return True }"]
      by (auto simp: inspectSaw_def intro!: emits_intros)
  next
    case (Inr u)
    with as r show ?thesis
      using restartOrEvict_safe [of u "as @ bs" e key p "vpID v"]
        quiet [of "as @ bs" "State_Monad.return False"]
      by (auto simp: inspectSaw_def intro!: emits_intros)
  qed
  show ?thesis
    unfolding handleVMGone_def
    by (intro produces_bind_emits [OF emits_podForVMMatch] produces_case_option produces_case_prod
        produces_bind_silent [OF emits_peek] produces_if produces_bind_locked
        produces_bind [OF saw] verdict quiet [where m = "State_Monad.return _", simplified]
        produces_return)
      (auto intro: quiet_safe)
qed

lemma recheckRound_calls:
  assumes "ctx_ok e"
  shows "produces (recheckRound e vmID deadline) (\<lambda>_ cs. preceded isKDelete provesGone cs)"
proof -
  have quiet: "\<not> list_ex isKDelete cs" if "list_all quietCall cs" for cs
    using that by (auto simp: list_ex_iff list_all_iff quietCall_def)
  have gone: "produces (do {
        _ \<leftarrow> evictGoneIncarnation e key p v reason message;
        trackedPodMatches e key uid }) (\<lambda>_ cs. preceded isKDelete provesGone (as @ RInspect vmID (Inl x) # cs))"
    if "list_all quietCall as" "errIs x ErrVMNotFound" for as x key p v reason message uid
  proof -
    have "list_ex provesGone (as @ [RInspect vmID (Inl x)])" "list_all quietCall (as @ [RInspect vmID (Inl x)])"
      using that by (auto simp: event_class_defs)
    from produces_bind [OF evictGone_safe [OF this],
        where L = "\<lambda>_ cs. evictionSafe ((as @ [RInspect vmID (Inl x)]) @ cs)"]
    show ?thesis
      by (rule produces_weaken) (auto intro!: produces_emits [OF emits_tracked [where P = "\<lambda>_. False"]]
          simp: list_all_False evictionSafe_def)
  qed
  have rm: "produces (removeThenEvict e v key p reason message)
      (\<lambda>_ cs. preceded isKDelete provesGone (as @ RInspect i r # TNow n # cs))"
    if "list_all quietCall as" for v key p reason message as i r n
    by (rule produces_weaken [OF removeThenEvict_calls])
      (use quiet [OF that] in \<open>simp add: preceded_append [OF preceded_none] preceded_Cons\<close>)
  have replay: "produces (handleVMGone e u)
      (\<lambda>_ cs. preceded isKDelete provesGone (as @ RInspect i r # cs))"
    if "list_all quietCall as" for u as i r
    by (rule produces_weaken [OF handleVMGone_safe [OF assms]])
      (use quiet [OF that] in \<open>simp add: preceded_append [OF preceded_none] preceded_Cons evictionSafe_def\<close>)
  show ?thesis
    unfolding recheckRound_def rtInspect_def timeNow_def
    by (intro produces_bind_emits [OF emits_podForVMMatch] produces_case_option produces_case_prod
        produces_return produces_bind_ext produces_case_sum produces_if)
      (simp_all add: gone rm replay preceded_none quiet produces_return)
qed

lemma recheckLoop_calls:
  assumes "ctx_ok e"
  shows "produces (recheckLoop e n vmID delay maxDelay deadline)
    (\<lambda>_ cs. preceded isKDelete provesGone cs)"
proof (induction n arbitrary: delay)
  case 0
  show ?case by (simp add: produces_return preceded_none)
next
  case (Suc n)
  have later: "produces (recheckLoop e n vmID d maxDelay deadline)
      (\<lambda>_ cs. preceded isKDelete provesGone (TSleep x r # as @ cs))"
    if "preceded isKDelete provesGone as" for d x r as
    by (rule produces_weaken [OF Suc])
      (use that in \<open>simp add: preceded_Cons preceded_append\<close>)
  show ?case
    unfolding recheckLoop.simps sleepCtx_def
    by (intro produces_bind_ext produces_if produces_return produces_bind [OF recheckRound_calls [OF assms]]
        later) (simp_all add: preceded_Cons preceded_none)
qed

section \<open>Effect of an eviction\<close>

text \<open>The apiserver no longer has this incarnation: it accepted the delete, did not know the pod, or
  has another incarnation under the name.\<close>

definition podReleased :: "call \<Rightarrow> bool" where
  "podReleased c = (case c of
      KDelete _ _ _ None \<Rightarrow> True
    | KDelete _ _ _ (Some x) \<Rightarrow> errIs x ApiNotFound \<or> errIs x ApiConflict
    | _ \<Rightarrow> False)"

definition deleteSaw :: "err option \<Rightarrow> call list \<Rightarrow> bool" where
  "deleteSaw r cs \<longleftrightarrow>
     (list_ex podReleased cs \<longleftrightarrow> (case r of None \<Rightarrow> True | Some x \<Rightarrow> errIs x ApiConflict))"

lemma deleteLoop_saw: "ctx_ok e \<Longrightarrow> 0 < n \<Longrightarrow> produces (deleteLoop e n i p) deleteSaw"
proof (induction n arbitrary: i)
  case (Suc n)
  have again: "produces (deleteLoop e n j p) (\<lambda>r cs. deleteSaw r (c # d # cs))"
    if "0 < n" "\<not> podReleased c" "\<not> podReleased d" for j c d
    by (rule produces_weaken [OF Suc.IH [OF Suc.prems(1) that(1)]])
      (use that in \<open>simp add: deleteSaw_def\<close>)
  show ?case
    unfolding deleteLoop.simps kubeDelete_def
    by (intro produces_bind_ext produces_case_option produces_if produces_return
        produces_bind_sleep [OF Suc.prems(1)] again)
      (auto simp: deleteSaw_def podReleased_def)
qed simp

lemma keeps_deleteLoop: "keeps (deleteLoop e n i p)"
  by (induction n arbitrary: i) (auto intro!: keeps_intros simp: kubeDelete_def sleepCtx_def)

definition evicted :: "env \<Rightarrow> string \<Rightarrow> string \<Rightarrow> prov \<Rightarrow> prov" where
  "evicted e key uid s = (if trackedPodMatchesLocked key uid s then forgotten e key s else s)"

lemma same_tables_setStatus_left: "same_tables (setStatus p f s) t = same_tables s t"
  by (simp add: same_tables_def setStatus_def)

lemma trace_setStatus: "trace (setStatus p f s) = trace s"
  by (simp add: setStatus_def)

lemma same_tables_evicted: "same_tables s t \<Longrightarrow> same_tables (evicted e key uid s) (evicted e key uid t)"
  by (simp add: evicted_def same_tables_forgotten trackedPodMatchesLocked_def) (simp add: same_tables_def)

lemma wp_untrackIncarnation:
  assumes "quiet e" and "\<And>t. trace t = trace s \<Longrightarrow> same_tables (evicted e key uid s) t \<Longrightarrow> Q () t"
  shows "wp (untrackIncarnation e key uid) Q s"
  unfolding untrackIncarnation_def forgetProbe_def using assms(1)
  by (auto simp: wp_quiet untrackIncarnationLocked_def trackedPodMatchesLocked_def evicted_def
      forgotten_def Let_def intro!: assms(2) split: option.splits)
    (auto simp: same_tables_def untrackLocked_def dropVMLocked_def Let_def split: option.splits)

lemma wp_deleteWithRetry:
  assumes "ctx_ok e"
    and "\<And>r t cs. same_tables s t \<Longrightarrow> trace t = trace s @ cs \<Longrightarrow> deleteSaw r cs \<Longrightarrow> Q r t"
  shows "wp (deletePodWithRetry e p) Q s"
  unfolding deletePodWithRetry_def
  by (rule wp_keeps_produces [OF keeps_deleteLoop deleteLoop_saw [OF assms(1)]])
    (simp_all add: evictDeleteAttempts_def assms(2))

definition evictEffect :: "env \<Rightarrow> string \<Rightarrow> string \<Rightarrow> prov \<Rightarrow> prov \<Rightarrow> bool" where
  "evictEffect e key uid s t \<longleftrightarrow>
     (\<exists>cs. trace t = trace s @ cs \<and>
        same_tables (if list_ex podReleased cs then evicted e key uid s else s) t)"

lemma evictPod_effect:
  assumes "quiet e" and "ctx_ok e"
  shows "wp (evictPod e key p reason message) (\<lambda>_. evictEffect e key (ptUID p) s) s"
  unfolding evictPod_def
proof (simp only: wp_bind, rule wp_deleteWithRetry [OF assms(2)])
  fix r t cs
  assume st: "same_tables s t" and tr: "trace t = trace s @ cs" and saw: "deleteSaw r cs"
  let ?Q = "\<lambda>_. evictEffect e key (ptUID p) s"
  have ev: "same_tables (evicted e key (ptUID p) s) u" if "same_tables (evicted e key (ptUID p) t) u" for u
    by (rule same_tables_trans [OF same_tables_evicted [OF st] that])
  have gone: "wp (untrackIncarnation e key (ptUID p)) Q t"
    if "\<And>u. trace u = trace s @ cs \<Longrightarrow> same_tables (evicted e key (ptUID p) s) u \<Longrightarrow> Q () u" for Q
    by (rule wp_untrackIncarnation [OF assms(1)]) (use that tr ev in auto)
  show "wp (case r of
        Some x \<Rightarrow> if errIs x ApiConflict then untrackIncarnation e key (ptUID p)
          else State_Monad.return ()
      | None \<Rightarrow> do {
          _ \<leftarrow> untrackIncarnation e key (ptUID p);
          _ \<leftarrow> State (\<lambda>s. ((), setStatus p (evictedStatus reason message) s));
          notify e p }) ?Q t"
  proof (cases r)
    case None
    have tail: "wp (notify e p) ?Q (setStatus p f u)"
      if "trace u = trace s @ cs" "same_tables (evicted e key (ptUID p) s) u" for u f
      by (rule wp_keeps_produces [OF keeps_notify [OF assms(1)]
            emits_produces [THEN iffD1, OF emits_notify [where P = "\<lambda>c. \<not> podReleased c"]]])
        (use that saw None in \<open>auto simp: evictEffect_def deleteSaw_def podReleased_def
          same_tables_setStatus_left trace_setStatus list_ex_iff list_all_iff
          intro!: exI [of _ "cs @ _"] elim: same_tables_trans\<close>)
    from None show ?thesis
      by (simp only: option.case wp_bind) (rule gone, simp add: tail)
  next
    case (Some x)
    show ?thesis
    proof (cases "errIs x ApiConflict")
      case True
      with Some saw show ?thesis
        by (simp del: wp_bind) (rule gone, auto simp: evictEffect_def deleteSaw_def)
    next
      case False
      with Some saw st tr show ?thesis by (auto simp: evictEffect_def deleteSaw_def)
    qed
  qed
qed

section \<open>Restarts and delays\<close>

text \<open>A history of one VM's restart requests and of the sweeps of the restart table; every request
  reads the clock twice, before and after its decision.\<close>

datatype restart_op = Request int int | Sweep int

definition restartStep :: "string \<Rightarrow> restart_op \<Rightarrow> prov \<Rightarrow> int option \<times> prov" where
  "restartStep vmID oper s = (case oper of
      Request since now \<Rightarrow>
        (let (ok, t) = takeRestart since now vmID s in (if ok then Some now else None, t))
    | Sweep now \<Rightarrow> (None, gcStaleRestarts now s))"

fun restarts :: "string \<Rightarrow> restart_op list \<Rightarrow> prov \<Rightarrow> int list" where
  "restarts vmID [] s = []"
| "restarts vmID (oper # os) s =
     (case restartStep vmID oper s of
        (None, t) \<Rightarrow> restarts vmID os t
      | (Some at, t) \<Rightarrow> at # restarts vmID os t)"

text \<open>The clock does not run backwards from one operation to the next.\<close>

fun clocked :: "int \<Rightarrow> restart_op list \<Rightarrow> bool" where
  "clocked prev [] \<longleftrightarrow> True"
| "clocked prev (Request since now # os) \<longleftrightarrow> prev \<le> since \<and> since \<le> now \<and> clocked now os"
| "clocked prev (Sweep now # os) \<longleftrightarrow> prev \<le> now \<and> clocked now os"

fun spaced :: "int list \<Rightarrow> bool" where
  "spaced (x # y # zs) \<longleftrightarrow> restartCooldown \<le> y - x \<and> spaced (y # zs)"
| "spaced _ \<longleftrightarrow> True"

text \<open>The last restart is still recorded, or the cooldown is over.\<close>

definition cooling :: "string \<Rightarrow> int \<Rightarrow> int \<Rightarrow> prov \<Rightarrow> bool" where
  "cooling vmID at now s \<longleftrightarrow> lastRestart s vmID = Some at \<or>
     (lastRestart s vmID = None \<and> at + restartCooldown \<le> now)"

lemma restarts_spaced:
  "clocked now os \<Longrightarrow> cooling vmID at now s \<Longrightarrow> spaced (at # restarts vmID os s)"
proof (induction now os arbitrary: at s rule: clocked.induct)
  case (2 prev since now os)
  then show ?case
    by (cases "lastRestart s vmID")
      (auto simp: restartStep_def takeRestart_def cooling_def Let_def restartCooldown_def second_def)
next
  case (3 prev now os)
  then show ?case
    by (auto simp: restartStep_def gcStaleRestarts_def cooling_def restartCooldown_def second_def)
qed simp

lemma restarts_spaced_start:
  "clocked now os \<Longrightarrow> spaced (restarts vmID os s)"
proof (induction now os arbitrary: s rule: clocked.induct)
  case (2 prev since now os)
  then show ?case
    by (auto simp: restartStep_def takeRestart_def Let_def cooling_def intro!: restarts_spaced)
qed (auto simp: restartStep_def)

lemmas delay_defs =
  second_def opRetryBaseDelay_def opRetryMaxDelay_def defaultDeferredRecheckInitialDelay_def
  defaultDeferredRecheckMaxDelay_def

interpretation retry_backoff: backoff opRetryDelay opRetryBaseDelay opRetryMaxDelay
  by unfold_locales (auto simp: opRetryDelay_def orInt_def delay_defs)

interpretation watch_backoff: backoff watchBackoff second "60 * second"
  by unfold_locales (auto simp: watchBackoff_def second_def)

section \<open>Properties\<close>

text \<open>Handling a stopped or deleted VM is safe, under any interference: the pod is deleted from
  the apiserver only after an inspect or a removal proved that its VM does not exist, and a VM is
  removed only after an inspect showed that very VM not running. A context error is never taken for
  such a proof.\<close>

theorem gone_handler_safe:
  assumes "ctx_ok e"
  shows "\<exists>cs. trace (snd (run_state (handleVMGone e ev) s)) = trace s @ cs \<and>
    preceded isKDelete provesGone cs \<and> (\<forall>j. preceded (isRemoveOf j) (provesStopped j) cs)"
  using producesD [OF handleVMGone_safe [OF assms], of ev s] unfolding evictionSafe_def by metis

definition exGone :: env where
  "exGone = exEnv\<lparr>ask := exWorld\<lparr>wInspect := (\<lambda>h i. Inl (Err [ErrVMNotFound] ''gone''))\<rparr>\<rparr>"

lemma exGone_sel [simp]:
  "quiet exGone" "ctx_ok exGone" "lib exGone = exLib" "cfg exGone = exConfig"
  "ask exGone = exWorld\<lparr>wInspect := (\<lambda>h i. Inl (Err [ErrVMNotFound] ''gone''))\<rparr>"
  by (simp_all add: exGone_def exEnv_def quiet_def ctx_ok_def exWorld_def)

theorem gone_handler_safe_witness:
  "ctx_ok exGone \<and> (\<exists>cs. trace (snd (run_state (handleVMGone exGone exVM) exProv)) = cs \<and>
     preceded isKDelete provesGone cs)"
  using gone_handler_safe [of exGone exVM exProv] by auto

text \<open>C25: an eviction keeps the provider's record of a pod unless the apiserver let go of it: when no
  delete was accepted, answered not-found or answered conflict, every table is as before, so a later
  recheck finds the pod; otherwise exactly the evicted incarnation is untracked, with its VM, intent,
  retry and probe agent, and a newer incarnation under the same name is left alone.\<close>

theorem evict_effect:
  assumes "quiet e" and "ctx_ok e" and "snd (run_state (evictPod e key p reason message) s) = t"
  shows "\<exists>cs. trace t = trace s @ cs \<and>
    same_tables (if list_ex podReleased cs \<and> trackedPodMatchesLocked key (ptUID p) s
      then forgotten e key s else s) t"
proof -
  have "evictEffect e key (ptUID p) s t"
    using wp_run [OF evictPod_effect [OF assms(1,2), of key p reason message s]] assms(3) by simp
  then show ?thesis unfolding evictEffect_def evicted_def by (auto split: if_splits)
qed

theorem evict_effect_witness:
  "\<exists>cs. trace (snd (run_state (evictPod exGone ''ns/a'' exPod ''VMGone'' ''gone'') exProv)) = cs \<and>
    same_tables (if list_ex podReleased cs \<and> trackedPodMatchesLocked ''ns/a'' ''u1'' exProv
      then forgotten exGone ''ns/a'' exProv else exProv)
      (snd (run_state (evictPod exGone ''ns/a'' exPod ''VMGone'' ''gone'') exProv))"
  using evict_effect [of exGone "''ns/a''" exPod "''VMGone''" "''gone''" exProv
      "snd (run_state (evictPod exGone ''ns/a'' exPod ''VMGone'' ''gone'') exProv)"]
  by simp



text \<open>The delay before a failed operation is retried starts at fifteen seconds, never shrinks,
  never exceeds five minutes and reaches them by the sixth failure in a row.\<close>

theorem retry_delay_schedule:
  "opRetryDelay 0 = 15 * second \<and>
   (let d = (\<lambda>n. (opRetryDelay ^^ Suc n) 0)
    in (\<forall>n. 15 * second \<le> d n \<and> d n \<le> d (Suc n) \<and> d n \<le> 300 * second) \<and>
       (\<forall>n. d (n + 5) = 300 * second))"
proof -
  have init: "opRetryDelay 0 = opRetryBaseDelay"
    by (simp add: opRetryDelay_def orInt_def delay_defs)
  have eq: "(opRetryDelay ^^ Suc n) 0 = retry_backoff.delay n" for n
    by (induction n) (simp_all add: init)
  have cap: "retry_backoff.delay (n + 5) = opRetryMaxDelay" for n
  proof (induction n)
    case 0
    show ?case by (simp add: numeral_eq_Suc) (simp add: opRetryDelay_def orInt_def delay_defs)
  next
    case (Suc n)
    then show ?case
      using retry_backoff.delay.simps(2) [of "n + 5"] by (simp add: retry_backoff.step_at_cap)
  qed
  show ?thesis
    using retry_backoff.delay_bounds retry_backoff.delay_mono cap
    by (simp only: eq Let_def init) (simp add: delay_defs)
qed

end
