(* ===== verification/Sources_Props.thy ===== *)
theory Sources_Props
  imports Sources Events_Props
begin

text \<open>
  What the choice of a source guarantees: a wake never runs on a local snapshot the registry did not
  confirm, never discards one the registry did not refute, and a pod's CPU policy stays inside the
  kernel's ranges.
\<close>

section \<open>Where a wake source comes from\<close>

text \<open>The calls that vouch for a source: a verified local snapshot, a completed pull, a completed peer
  transfer.\<close>

definition sourceVouched :: "env \<Rightarrow> string \<Rightarrow> wake_source \<Rightarrow> call list \<Rightarrow> bool" where
  "sourceVouched e vmName src cs \<longleftrightarrow>
     (\<exists>sn. wsSnapshot src = Some sn \<and> wsLocalName src = vmName \<and> RSnapshot vmName (Inr sn) \<in> set cs \<and>
        (cfgRegistry (cfg e) \<longrightarrow>
           (\<exists>k c. GFetchConfig vmName k (Inr c) \<in> set cs \<and> scSnapshotID c = snID sn))) \<or>
     (wsLocalName src = vmName @ HibernateImportSuffix (konst e) \<and>
        PPull vmName (HibernateSnapshotTag (konst e)) (vmName @ HibernateImportSuffix (konst e)) [] None
          \<in> set cs) \<or>
     (wsLocalName src = [] \<and> (\<exists>url. PPeerRestore url vmName None \<in> set cs))"

text \<open>The registry's word that a local snapshot is out of date.\<close>

definition refutes :: "env \<Rightarrow> string \<Rightarrow> call list \<Rightarrow> bool" where
  "refutes e vmName cs \<longleftrightarrow>
     (\<exists>x. GGetManifest vmName (HibernateSnapshotTag (konst e)) (Inl x) \<in> set cs \<and>
        errIs x ErrManifestNotFound) \<or>
     (\<exists>sn k c. RSnapshot vmName (Inr sn) \<in> set cs \<and> GFetchConfig vmName k (Inr c) \<in> set cs \<and>
        scSnapshotID c \<noteq> snID sn)"

definition isSnapRemove :: "call \<Rightarrow> bool" where
  "isSnapRemove c = (case c of RSnapshotRemove _ _ \<Rightarrow> True | _ \<Rightarrow> False)"

lemma isSnapRemove_simps [simp]:
  "isSnapRemove (RSnapshotRemove n r)" "\<not> isSnapRemove (RSnapshot n q)"
  "\<not> isSnapRemove (GGetManifest a b m)" "\<not> isSnapRemove (GFetchConfig a b k)"
  "\<not> isSnapRemove (KNode a z)" "\<not> isSnapRemove (PPeerRestore a b r)"
  "\<not> isSnapRemove (PPull a b c d r)"
  by (simp_all add: isSnapRemove_def)

text \<open>\<open>errStaleLocalSnapshot\<close> is private to the provider: no registry error carries it.\<close>

definition registry_ok :: "env \<Rightarrow> bool" where
  "registry_ok e \<longleftrightarrow>
     (\<forall>h r t x. wGetManifest (ask e) h r t = Inl x \<longrightarrow> \<not> errIs x ErrStaleLocalSnapshot) \<and>
     (\<forall>h r c x. wFetchConfig (ask e) h r c = Inl x \<longrightarrow> \<not> errIs x ErrStaleLocalSnapshot) \<and>
     (\<forall>raw x. mParseManifest (lib e) raw = Inl x \<longrightarrow> \<not> errIs x ErrStaleLocalSnapshot)"

definition wakeSafe :: "env \<Rightarrow> string \<Rightarrow> err + wake_source \<Rightarrow> call list \<Rightarrow> bool" where
  "wakeSafe e vmName r cs \<longleftrightarrow>
     (\<forall>src. r = Inr src \<longrightarrow> sourceVouched e vmName src cs) \<and>
     (\<forall>as c bs. cs = as @ c # bs \<longrightarrow> isSnapRemove c \<longrightarrow> refutes e vmName as)"

lemma sourceVouched_mono: "sourceVouched e n src cs \<Longrightarrow> set cs \<subseteq> set ds \<Longrightarrow> sourceVouched e n src ds"
  unfolding sourceVouched_def by (meson in_mono)

lemma refutes_mono: "refutes e n cs \<Longrightarrow> set cs \<subseteq> set ds \<Longrightarrow> refutes e n ds"
  unfolding refutes_def by (meson in_mono)

text \<open>Two ways to go on after the calls \<open>as\<close>: they made no removal, or the refutation is among them.\<close>

definition mayRemove :: "env \<Rightarrow> string \<Rightarrow> call list \<Rightarrow> bool" where
  "mayRemove e n cs \<longleftrightarrow> (\<forall>as c bs. cs = as @ c # bs \<longrightarrow> isSnapRemove c \<longrightarrow> refutes e n as)"

lemma mayRemove_none: "\<not> list_ex isSnapRemove cs \<Longrightarrow> mayRemove e n cs"
  by (auto simp: mayRemove_def)

lemma mayRemove_append:
  assumes "mayRemove e n cs" and "refutes e n cs \<or> \<not> list_ex isSnapRemove ds"
  shows "mayRemove e n (cs @ ds)"
  unfolding mayRemove_def
proof (intro allI impI)
  fix as c bs
  assume eq: "cs @ ds = as @ c # bs" and c: "isSnapRemove c"
  from eq consider us where "cs = as @ c # us" | us where "as = cs @ us" "ds = us @ c # bs"
    by (auto simp: append_eq_append_conv2 Cons_eq_append_conv append_eq_Cons_conv)
  then show "refutes e n as"
    using assms c by cases (auto simp: mayRemove_def intro: refutes_mono)
qed

lemma pullWakeSource_produces:
  "produces (pullWakeSource e n) (\<lambda>r cs. \<not> list_ex isSnapRemove cs \<and>
     (\<forall>src. r = Inr src \<longrightarrow> sourceVouched e n src cs))"
  unfolding pullWakeSource_def pullSnapshot_def rtSnapshot_def
  by (intro produces_intros) (auto simp: sourceVouched_def split: sum.splits)

lemma restoreFromPeer_produces:
  "produces (restoreFromPeer e n node c) (\<lambda>r cs. \<not> list_ex isSnapRemove cs \<and>
     (\<forall>src. r = Some src \<longrightarrow> sourceVouched e n src cs))"
  unfolding restoreFromPeer_def peerBaseURL_def kubeNodeAddress_def peerRestore_def
  by (intro produces_intros produces_bind [where K = "\<lambda>_ cs. \<not> list_ex isSnapRemove cs"])
    (auto simp: sourceVouched_def split: sum.splits option.splits)

lemma fetchManifest_noRemove:
  "produces (fetchHibernateManifest e n) (\<lambda>_ cs. \<not> list_ex isSnapRemove cs)"
  unfolding fetchHibernateManifest_def regGetManifest_def by (intro produces_intros) simp

lemma tryPeerRestore_produces:
  "produces (tryPeerRestore e n m c) (\<lambda>r cs. \<not> list_ex isSnapRemove cs \<and>
     (\<forall>src. r = Some src \<longrightarrow> sourceVouched e n src cs))"
proof -
  have peer: "produces (restoreFromPeer e n node c) (\<lambda>r cs. \<not> list_ex isSnapRemove (as @ cs) \<and>
      (\<forall>src. r = Some src \<longrightarrow> sourceVouched e n src (as @ cs)))"
    if "\<not> list_ex isSnapRemove as" for node c as
    by (rule produces_weaken [OF restoreFromPeer_produces])
      (use that in \<open>auto intro: sourceVouched_mono\<close>)
  show ?thesis
    unfolding tryPeerRestore_def fetchSnapshotConfig_def
    by (intro produces_if produces_return produces_bind [where K = "\<lambda>_ cs. \<not> list_ex isSnapRemove cs"]
        produces_bind [OF fetchManifest_noRemove] produces_case_option produces_Let produces_bind_ext
        produces_case_sum peer)
      (use peer [of "_ @ _"] in \<open>auto intro: fetchManifest_noRemove produces_ext split: sum.splits\<close>)
qed

lemma peerOrPull_produces:
  "produces (peerOrPull e n m c) (\<lambda>r cs. \<not> list_ex isSnapRemove cs \<and>
     (\<forall>src. r = Inr src \<longrightarrow> sourceVouched e n src cs))"
proof -
  have pull: "produces (pullWakeSource e n) (\<lambda>r cs. \<not> list_ex isSnapRemove (as @ cs) \<and>
      (\<forall>src. r = Inr src \<longrightarrow> sourceVouched e n src (as @ cs)))"
    if "\<not> list_ex isSnapRemove as" for as
    by (rule produces_weaken [OF pullWakeSource_produces])
      (use that in \<open>auto intro: sourceVouched_mono\<close>)
  show ?thesis
    unfolding peerOrPull_def
    by (rule produces_bind [OF tryPeerRestore_produces], rule produces_case_option)
      (use pull in \<open>auto intro: produces_return\<close>)
qed

text \<open>The answer of a verification, with the calls it rests on.\<close>

definition verifiedBy :: "env \<Rightarrow> string \<Rightarrow> snapshot \<Rightarrow>
  oci_manifest option \<times> snapshot_config option \<times> err option \<Rightarrow> call list \<Rightarrow> bool" where
  "verifiedBy e n sn r cs \<longleftrightarrow> \<not> list_ex isSnapRemove cs \<and>
     (case snd (snd r) of
        None \<Rightarrow> cfgRegistry (cfg e) \<longrightarrow>
          (\<exists>k c. GFetchConfig n k (Inr c) \<in> set cs \<and> scSnapshotID c = snID sn)
      | Some x \<Rightarrow> errIs x ErrStaleLocalSnapshot \<longrightarrow> refutes e n (RSnapshot n (Inr sn) # cs))"

lemma refutes_config:
  "scSnapshotID c \<noteq> snID sn \<Longrightarrow> refutes e n (RSnapshot n (Inr sn) # as @ [GFetchConfig n k (Inr c)])"
  unfolding refutes_def by (intro disjI2 exI [of _ sn] exI [of _ k] exI [of _ c]) simp

lemma verify_produces:
  assumes "registry_ok e"
  shows "produces (verifyLocalSnapshot e n sn) (verifiedBy e n sn)"
proof -
  have fetch: "produces (fetchHibernateManifest e n) (\<lambda>r cs. \<not> list_ex isSnapRemove cs \<and>
      (\<forall>x. r = Inl x \<longrightarrow> \<not> errIs x ErrStaleLocalSnapshot) \<and>
      (r = Inr None \<longrightarrow> refutes e n (RSnapshot n (Inr sn) # cs)))"
    unfolding fetchHibernateManifest_def regGetManifest_def using assms
    by (intro produces_bind_answer produces_return)
      (auto simp: registry_ok_def refutes_def split: sum.splits)
  show ?thesis
    unfolding verifyLocalSnapshot_def fetchSnapshotConfig_def using assms
    by (intro produces_if produces_return produces_bind [OF fetch] produces_case_sum produces_case_option produces_bind_answer)
      (auto simp: verifiedBy_def registry_ok_def staleSnapshotErr_def errIs_def wrapErr_def refutes_config
        split: sum.splits)
qed

lemma wakeSafe_iff:
  "wakeSafe e n r cs \<longleftrightarrow> (\<forall>src. r = Inr src \<longrightarrow> sourceVouched e n src cs) \<and> mayRemove e n cs"
  by (simp add: wakeSafe_def mayRemove_def)

lemma fetched_tail:
  assumes "mayRemove e n as" and m: "produces m (\<lambda>r cs. \<not> list_ex isSnapRemove cs \<and>
      (\<forall>src. r = Inr src \<longrightarrow> sourceVouched e n src cs))"
  shows "produces m (\<lambda>r cs. wakeSafe e n r (as @ cs))"
  by (rule produces_weaken [OF m])
    (use assms(1) in \<open>auto simp: wakeSafe_iff intro: sourceVouched_mono mayRemove_append\<close>)

lemma discard_tail:
  assumes as: "refutes e n as" "mayRemove e n as"
    and m: "produces m (\<lambda>r cs. \<not> list_ex isSnapRemove cs \<and>
      (\<forall>src. r = Inr src \<longrightarrow> sourceVouched e n src cs))"
  shows "produces (do { _ \<leftarrow> removeLocalSnapshots e n; m }) (\<lambda>r cs. wakeSafe e n r (as @ cs))"
proof (rule produces_bind_emits [OF emits_removeSnapshots])
  fix bs
  have "mayRemove e n (as @ bs)" by (rule mayRemove_append) (use as in auto)
  from fetched_tail [OF this m] show "produces m (\<lambda>r cs. wakeSafe e n r (as @ bs @ cs))" by simp
qed

lemma settleLocal_produces:
  assumes v: "verifiedBy e n sn v as"
  shows "produces (settleLocalSnapshot e n sn v) (\<lambda>r cs. wakeSafe e n r (RSnapshot n (Inr sn) # as @ cs))"
proof -
  obtain m c z where vz [simp]: "v = (m, c, z)" by (metis prod_cases3)
  have may: "mayRemove e n (RSnapshot n (Inr sn) # as)"
    using v by (intro mayRemove_none) (simp add: verifiedBy_def)
  show ?thesis
  proof (cases z)
    case None
    with v may show ?thesis
      by (auto simp: settleLocalSnapshot_def wakeSafe_iff sourceVouched_def verifiedBy_def
          intro!: produces_return)
  next
    case (Some x)
    show ?thesis
    proof (cases "errIs x ErrStaleLocalSnapshot")
      case True
      with v Some have "refutes e n (RSnapshot n (Inr sn) # as)" by (simp add: verifiedBy_def)
      from discard_tail [OF this may pullWakeSource_produces]
        discard_tail [OF this may peerOrPull_produces] True Some
      show ?thesis by (simp add: settleLocalSnapshot_def)
    next
      case False
      with may Some show ?thesis
        by (simp add: settleLocalSnapshot_def wakeSafe_iff produces_return)
    qed
  qed
qed

lemma resolveWakeSource_safe:
  assumes "registry_ok e"
  shows "produces (resolveWakeSource e n) (wakeSafe e n)"
proof -
  have may: "mayRemove e n [RSnapshot n q]" for q
    by (rule mayRemove_none) simp
  show ?thesis
    unfolding resolveWakeSource_def rtSnapshot_def
    by (intro produces_bind_ext produces_case_sum produces_if produces_return
        produces_bind [OF verify_produces [OF assms]])
      (use fetched_tail [OF may peerOrPull_produces] in
        \<open>auto simp: wakeSafe_iff may intro: settleLocal_produces [unfolded wakeSafe_iff]\<close>)
qed

section \<open>CPU policy\<close>

lemma cpuWeight_range: "1 \<le> cpuWeightFromMilli m \<and> cpuWeightFromMilli m \<le> 10000"
proof -
  define x where "x = min (max (quot (wrap64 (m * 1024)) 1000) minCPUShares) maxCPUShares - minCPUShares"
  have x: "0 \<le> x" "x \<le> 262142" by (auto simp: x_def minCPUShares_def maxCPUShares_def)
  then have "quot (x * 9999) 262142 = x * 9999 div 262142" by (intro quot_nonneg) auto
  moreover have "0 \<le> x * 9999 div 262142" "x * 9999 div 262142 \<le> 9999"
    using x by (simp_all add: pos_imp_zdiv_nonneg_iff)
  ultimately show ?thesis
    by (simp add: cpuWeightFromMilli_def Let_def x_def minCPUShares_def maxCPUShares_def)
qed

text \<open>Within \<open>int64\<close> the weight is the clamped share, scaled.\<close>

definition weightOfShares :: "int \<Rightarrow> int" where
  "weightOfShares x = 1 + (min (max x 2) 262144 - 2) * 9999 div 262142"

lemma weightOfShares_mono: "x \<le> y \<Longrightarrow> weightOfShares x \<le> weightOfShares y"
  unfolding weightOfShares_def by (intro add_left_mono zdiv_mono1 mult_right_mono diff_right_mono) auto

lemma cpuWeight_small:
  assumes "0 \<le> m" and "m * 1024 < 2 ^ 63"
  shows "cpuWeightFromMilli m = weightOfShares (m * 1024 div 1000)"
proof -
  have q: "quot (wrap64 (m * 1024)) 1000 = m * 1024 div 1000"
    using assms by (subst wrap64_id) (auto simp: quot_nonneg)
  have "quot ((min (max x 2) 262144 - 2) * 9999) 262142 = (min (max x 2) 262144 - 2) * 9999 div 262142"
    for x by (rule quot_nonneg) auto
  then show ?thesis
    unfolding cpuWeightFromMilli_def q Let_def minCPUShares_def maxCPUShares_def weightOfShares_def
    by simp
qed

lemma cpuWeight_mono:
  assumes "0 \<le> m" and "m \<le> n" and "n * 1024 < 2 ^ 63"
  shows "cpuWeightFromMilli m \<le> cpuWeightFromMilli n"
proof -
  have m: "m * 1024 < 2 ^ 63" and n: "0 \<le> n" using assms by linarith+
  have "m * 1024 div 1000 \<le> n * 1024 div 1000" using assms(2) by (intro zdiv_mono1) auto
  then show ?thesis
    unfolding cpuWeight_small [OF assms(1) m] cpuWeight_small [OF n assms(3)]
    by (rule weightOfShares_mono)
qed

section \<open>Properties\<close>

text \<open>C7: a wake source is never an unverified local snapshot, and a local snapshot is discarded only
  on the registry's word. Under any answers and any interference, a source is either the local
  snapshot whose identifier the registry's hibernate tag carries (any local snapshot when no registry
  is configured), or a completed pull, or a completed peer transfer; and before any local snapshot is
  removed, the registry answered that the tag does not exist or names another snapshot.\<close>

theorem wake_source_verified:
  assumes "registry_ok e"
  shows "\<exists>cs. trace (snd (run_state (resolveWakeSource e vmName) s)) = trace s @ cs \<and>
    (\<forall>src. fst (run_state (resolveWakeSource e vmName) s) = Inr src \<longrightarrow> sourceVouched e vmName src cs) \<and>
    (\<forall>as c bs. cs = as @ c # bs \<longrightarrow> isSnapRemove c \<longrightarrow> refutes e vmName as)"
  using producesD [OF resolveWakeSource_safe [OF assms], of vmName s] unfolding wakeSafe_def by metis

lemma exEnv_resolves:
  "fst (run_state (resolveWakeSource exEnv ''vk-a'') exProv) = Inr \<lparr>wsLocalName = ''vk-a'', wsDir = [],
     wsOrigin = [], wsSnapshot = Some exSnapshot, wsRelease = ReleaseNothing\<rparr>"
proof (rule wp_run)
  show "wp (resolveWakeSource exEnv ''vk-a'') (\<lambda>r _. r = Inr \<lparr>wsLocalName = ''vk-a'', wsDir = [],
     wsOrigin = [], wsSnapshot = Some exSnapshot, wsRelease = ReleaseNothing\<rparr>) exProv"
    by (simp add: resolveWakeSource_def verifyLocalSnapshot_def fetchHibernateManifest_def
        settleLocalSnapshot_def ext_defs exWorld_def exConfig_def exLib_def exSnapshot_def wp_simps)
qed

theorem wake_source_verified_witness:
  "registry_ok exEnv \<and> (\<exists>cs. sourceVouched exEnv ''vk-a'' \<lparr>wsLocalName = ''vk-a'', wsDir = [],
     wsOrigin = [], wsSnapshot = Some exSnapshot, wsRelease = ReleaseNothing\<rparr> cs)"
proof -
  have "registry_ok exEnv" by (simp add: registry_ok_def exWorld_def exLib_def)
  then show ?thesis
    using wake_source_verified [of exEnv "''vk-a''" exProv] exEnv_resolves by auto
qed

text \<open>The CPU policy of a pod with a container keeps cgroup ranges: the weight lies between 1 and
  10000 and grows with the request; without a limit there is no quota, with one the quota is at least
  the kernel's floor and, from ten millicores on, exactly the limit's share of the period.\<close>

theorem cpu_policy_ranges:
  assumes "pmContainers pm = res # rest"
  shows "1 \<le> cpuWeight (podCPUPolicy pm) \<and> cpuWeight (podCPUPolicy pm) \<le> 10000 \<and>
    (\<forall>m n. 0 \<le> m \<longrightarrow> m \<le> n \<longrightarrow> n * 1024 < 2 ^ 63 \<longrightarrow> cpuWeightFromMilli m \<le> cpuWeightFromMilli n) \<and>
    (rsLimits res ''cpu'' = None \<longrightarrow> cpuQuotaUs (podCPUPolicy pm) = 0 \<and> cpuPeriodUs (podCPUPolicy pm) = 0) \<and>
    (\<forall>q. rsLimits res ''cpu'' = Some q \<longrightarrow> \<not> qIsZero q \<longrightarrow>
       cpuPeriodUs (podCPUPolicy pm) = 100000 \<and> 1000 \<le> cpuQuotaUs (podCPUPolicy pm) \<and>
       (10 \<le> qMilliValue q \<longrightarrow> qMilliValue q * 100000 < 2 ^ 63 \<longrightarrow>
          cpuQuotaUs (podCPUPolicy pm) = qMilliValue q * 100))"
proof (intro conjI allI impI)
  fix q
  assume q: "rsLimits res ''cpu'' = Some q" "\<not> qIsZero q" "10 \<le> qMilliValue q"
    "qMilliValue q * 100000 < 2 ^ 63"
  then have "quot (wrap64 (qMilliValue q * 100000)) 1000 = qMilliValue q * 100"
    by (simp add: wrap64_id quot_nonneg)
  with assms q show "cpuQuotaUs (podCPUPolicy pm) = qMilliValue q * 100"
    by (simp add: podCPUPolicy_def Let_def cpuPeriod_def minQuotaUs_def zeroPolicy_def)
qed (use assms cpuWeight_range cpuWeight_mono in
  \<open>auto simp: podCPUPolicy_def Let_def zeroPolicy_def zeroQuantity_def cpuPeriod_def minQuotaUs_def\<close>)

definition exRes :: resources where
  "exRes = \<lparr>rsLimits = [''cpu'' \<mapsto> \<lparr>qMilliValue = 1500, qValue = 2, qIsZero = False, qString = ''1500m''\<rparr>],
     rsRequests = Map.empty\<rparr>"

theorem cpu_policy_ranges_witness:
  "let pm = (ptMeta exPod)\<lparr>pmContainers := [exRes]\<rparr>
   in cpuQuotaUs (podCPUPolicy pm) = 150000 \<and> cpuWeight (podCPUPolicy pm) \<le> 10000"
  using cpu_policy_ranges [of "(ptMeta exPod)\<lparr>pmContainers := [exRes]\<rparr>" exRes "[]"]
  by (simp add: exRes_def Let_def)

text \<open>A local snapshot name fits cocoon's limit of 63 characters whatever the image reference, and
  a reference that fits is kept verbatim, with the tag unless it is the default one.\<close>

theorem snapshot_name_bounded:
  "length (localSnapshotName e repo tag) \<le> 63 \<and>
   (length repo + length tag < 63 \<longrightarrow> localSnapshotName e repo tag =
      (if tag = [] \<or> tag = DefaultSnapshotTag (konst e) then repo else repo @ '':'' @ tag))"
  by (auto simp: localSnapshotName_def maxSnapshotNameLength_def Let_def)

theorem snapshot_name_bounded_witness:
  "localSnapshotName exEnv ''myvm'' ''v2'' = ''myvm:v2'' \<and>
   length (localSnapshotName exEnv (replicate 80 CHR ''x'') ''v2'') \<le> 63"
  using snapshot_name_bounded [of exEnv "''myvm''" "''v2''"]
    snapshot_name_bounded [of exEnv "replicate 80 CHR ''x''" "''v2''"]
  by (simp add: exLib_def exConsts_def)

end
