(* ===== verification/Gc_Props.thy ===== *)
theory Gc_Props
  imports Gc Sources_Props Example_Env
begin

text \<open>
  Reclamation never removes a local snapshot a pod of the node still needs, and removes a hibernation copy
  only on the registry's word.
\<close>

text \<open>The removals a pass over the listing may make, given the names in use.\<close>

definition reclaims :: "env \<Rightarrow> string list \<Rightarrow> call \<Rightarrow> bool" where
  "reclaims e inUse c = (case c of
     RSnapshotRemove n _ \<Rightarrow> (\<exists>v. v \<notin> set inUse \<and>
       (n = v \<and> \<not> hasSuffix n (HibernateImportSuffix (konst e)) \<or> n = v @ HibernateImportSuffix (konst e) \<or>
        n = forkSnapshotName v))
   | _ \<Rightarrow> True)"

lemma reclaims_list [simp]: "reclaims e inUse (RSnapshotList r)"
  by (simp add: reclaims_def)

lemma trimSuffix_append: "hasSuffix s p \<Longrightarrow> trimSuffix s p @ p = s"
  by (metis append_take_drop_id hasSuffix_def trimSuffix_def)

lemma hasSuffix_appendI: "hasSuffix (v @ p) p"
  by (simp add: hasSuffix_def)

lemma map_filter_mem: "x \<in> set xs \<Longrightarrow> f x = Some y \<Longrightarrow> y \<in> set (List.map_filter f xs)"
  by (force simp: List.map_filter_def)

lemma emits_reclaims_verify: "emits (verifyLocalSnapshot e n sn) (reclaims e inUse)"
  unfolding verifyLocalSnapshot_def fetchHibernateManifest_def regGetManifest_def fetchSnapshotConfig_def
  by (intro emits_intros) (simp_all add: reclaims_def)

lemma emits_reclaimSnapshot: "emits (reclaimSnapshot e inUse sn) (reclaims e inUse)"
proof (cases "hasSuffix (snName sn) (HibernateImportSuffix (konst e))")
  case True
  then have "reclaims e inUse (RSnapshotRemove (snName sn) r)"
    if "trimSuffix (snName sn) (HibernateImportSuffix (konst e)) \<notin> set inUse" for r
    using that trimSuffix_append [OF True] by (auto simp: reclaims_def)
  with True show ?thesis
    by (auto simp: reclaimSnapshot_def removeSnapshotDetached_def rtSnapshotRemove_def Let_def intro!: emits_intros)
next
  case False
  then have name: "trimSuffix (snName sn) (HibernateImportSuffix (konst e)) = snName sn" by (simp add: trimSuffix_def)
  have "reclaims e inUse (RSnapshotRemove (snName sn) r)" "reclaims e inUse (RSnapshotRemove (forkSnapshotName (snName sn)) r)"
    if "snName sn \<notin> set inUse" for r
    using that False by (auto simp: reclaims_def)
  with False name show ?thesis
    by (auto simp: reclaimSnapshot_def removeSnapshotDetached_def removeLocalSnapshots_def rtSnapshotRemove_def
        intro!: emits_intros emits_reclaims_verify)
qed

lemma emits_reclaimEach: "emits (reclaimEach e inUse sns) (reclaims e inUse)"
  by (induction sns) (auto intro!: emits_intros emits_reclaimSnapshot)

lemma reclaims_spares:
  assumes "u \<in> set inUse" "\<not> hasSuffix u (HibernateImportSuffix (konst e))"
    "\<not> hasPrefix (u @ HibernateImportSuffix (konst e)) ''fork-''"
    "n = u \<or> n = u @ HibernateImportSuffix (konst e)"
  shows "\<not> reclaims e inUse (RSnapshotRemove n r)"
proof -
  have "\<not> hasPrefix u ''fork-''" using assms(3) by (auto simp: hasPrefix_iff)
  with assms show ?thesis
    by (auto simp: reclaims_def hasSuffix_appendI forkSnapshotName_def hasPrefix_iff)
qed

text \<open>Reclamation spares what is in use. While a pod is tracked, neither the snapshot its VM wakes from
  (under the VM's name, or as a registry import of it) nor the clone source its image names is removed
  from the node, provided the name itself does not look like an import or a fork base.\<close>

theorem reclaim_spares_in_use:
  assumes "quiet e" and "key \<in> set keys" and "pods s key = Some p"
    and "u = vsVMName (mParseVMSpec (lib e) (podAt s p)) \<or>
      (\<exists>repo tag. mParseRef (lib e) (vsImage (mParseVMSpec (lib e) (podAt s p))) = (repo, tag) \<and>
        u = localSnapshotName e repo tag)"
    and "\<not> hasSuffix u (HibernateImportSuffix (konst e))"
    and "\<not> hasPrefix (u @ HibernateImportSuffix (konst e)) ''fork-''"
  shows "\<exists>cs. trace (snd (run_state (reclaimLocalSnapshots e keys) s)) = trace s @ cs \<and>
    (\<forall>r. RSnapshotRemove u r \<notin> set cs \<and> RSnapshotRemove (u @ HibernateImportSuffix (konst e)) r \<notin> set cs)"
proof -
  let ?ok = "\<lambda>c. reclaims e (snapshotNamesInUse e keys s) c"
  have used: "u \<in> set (snapshotNamesInUse e keys s)"
    using assms(4) map_filter_mem [of key keys "pods s" p] assms(2,3)
    by (auto simp: snapshotNamesInUse_def Let_def case_prod_beta intro!: bexI [of _ p])
  have names: "snapshotNamesInUse e keys (s\<lparr>trace := h, tick := n\<rparr>) = snapshotNamesInUse e keys s" for h n
    by (simp add: snapshotNamesInUse_def podAt_def)
  have "wp (reclaimLocalSnapshots e keys) (\<lambda>_ t. \<exists>cs. trace t = trace s @ cs \<and> list_all ?ok cs) s"
  proof (cases "wSnapshotList (ask e) (trace s)")
    case (Inl x)
    then show ?thesis using assms(1) by (simp add: reclaimLocalSnapshots_def rtSnapshotList_def)
  next
    case (Inr sns)
    have "wp (reclaimEach e (snapshotNamesInUse e keys s) sns) (\<lambda>_ t. \<exists>cs. trace t = trace s @ cs \<and> list_all ?ok cs)
        (s\<lparr>trace := trace s @ [RSnapshotList (Inr sns)], tick := Suc (tick s)\<rparr>)"
      by (rule wp_emits [OF emits_reclaimEach]) auto
    with Inr show ?thesis
      using assms(1) by (simp add: reclaimLocalSnapshots_def rtSnapshotList_def wp_quiet names)
  qed
  from wp_run [OF this] obtain cs where cs: "trace (snd (run_state (reclaimLocalSnapshots e keys) s)) = trace s @ cs"
    and ok: "list_all ?ok cs" by blast
  from ok have "RSnapshotRemove n r \<notin> set cs" if "\<not> ?ok (RSnapshotRemove n r)" for n r
    using that by (auto simp: list_all_iff)
  with reclaims_spares [OF used assms(5,6)] cs show ?thesis by blast
qed

theorem reclaim_spares_in_use_witness:
  "pods exProv ''ns/a'' = Some exPod \<and> vsVMName (mParseVMSpec exLib (podAt exProv exPod)) = ''vk-a'' \<and>
   (\<exists>cs. trace (snd (run_state (reclaimLocalSnapshots exEnv [''ns/a'']) exProv)) = trace exProv @ cs \<and>
     (\<forall>r. RSnapshotRemove ''vk-a'' r \<notin> set cs \<and> RSnapshotRemove ''vk-a-import'' r \<notin> set cs))"
proof -
  have name: "vsVMName (mParseVMSpec exLib (podAt exProv exPod)) = ''vk-a''"
    by (simp add: exLib_def exSpec_def podAt_def exAn_def)
  have suffix: "HibernateImportSuffix (mConsts exLib) = ''-import''" by (simp add: exLib_def exConsts_def)
  have "\<not> hasSuffix ''vk-a'' ''-import''" "\<not> hasPrefix (''vk-a'' @ ''-import'') ''fork-''" by code_simp+
  with name suffix show ?thesis
    using reclaim_spares_in_use [of exEnv "''ns/a''" "[''ns/a'']" exProv exPod "''vk-a''"] by simp
qed

text \<open>The proviso matters: a pod whose VM name ends in the import suffix loses its own local snapshot to
  the reclaimer, which takes the snapshot for an import of the shorter name.\<close>

lemma reclaim_import_collision:
  assumes "quiet e" "wSnapshotList (ask e) (trace s) = Inr [sn]"
    and "snName sn = v @ HibernateImportSuffix (konst e)" "hasPrefix v ''vk-''"
    and "v \<notin> set (snapshotNamesInUse e keys s)"
  shows "\<exists>r. RSnapshotRemove (snName sn) r \<in> set (trace (snd (run_state (reclaimLocalSnapshots e keys) s)))"
proof -
  have names: "snapshotNamesInUse e keys (s\<lparr>trace := h, tick := n\<rparr>) = snapshotNamesInUse e keys s" for h n
    by (simp add: snapshotNamesInUse_def podAt_def)
  have "trimSuffix (snName sn) (HibernateImportSuffix (konst e)) = v" "hasSuffix (snName sn) (HibernateImportSuffix (konst e))"
    using assms(3) by (simp_all add: trimSuffix_def hasSuffix_appendI)
  then have "wp (reclaimLocalSnapshots e keys) (\<lambda>_ t. \<exists>r. RSnapshotRemove (snName sn) r \<in> set (trace t)) s"
    using assms by (auto simp: reclaimLocalSnapshots_def rtSnapshotList_def wp_quiet names reclaimSnapshot_def
        removeSnapshotDetached_def rtSnapshotRemove_def)
  from wp_run [OF this] show ?thesis .
qed

end
