(* ===== verification/Status.thy ===== *)
theory Status
  imports Macos
begin

text \<open>
  The comparison of pod statuses (\<open>status.go\<close>), the periodic status reconciliation, and the remaining
  pod handlers of \<open>provider.go\<close>. A range over the pod table takes its keys in an unspecified order: \<open>keys\<close>
  is that order.
\<close>

section \<open>Comparing statuses\<close>

definition findBy :: "'a \<Rightarrow> 'a list \<Rightarrow> ('a \<Rightarrow> bool) \<Rightarrow> 'a \<times> bool" where
  "findBy zero items match = (case List.find match items of Some x \<Rightarrow> (x, True) | None \<Rightarrow> (zero, False))"

definition zeroCondition :: condition where
  "zeroCondition = \<lparr>cnType = [], cnStatus = [], cnMessage = [], cnTransition = 0\<rparr>"

definition zeroContainer :: container_status where
  "zeroContainer = \<lparr>csName = [], csReady = False, csRunning = None, csWaiting = False, csTerminated = None\<rparr>"

definition findCondition :: "condition list \<Rightarrow> string \<Rightarrow> condition \<times> bool" where
  "findCondition conditions conditionType = findBy zeroCondition conditions (\<lambda>c. cnType c = conditionType)"

definition conditionMatches :: "condition list \<Rightarrow> condition list \<Rightarrow> string \<Rightarrow> bool" where
  "conditionMatches current expected conditionType =
     (case findCondition current conditionType of (currentCondition, currentFound) \<Rightarrow>
      case findCondition expected conditionType of (expectedCondition, expectedFound) \<Rightarrow>
        if currentFound \<noteq> expectedFound \<or> cnStatus currentCondition \<noteq> cnStatus expectedCondition then False
        else conditionType \<noteq> ''Ready'' \<or> cnMessage currentCondition = cnMessage expectedCondition)"

definition findContainerStatus :: "container_status list \<Rightarrow> string \<Rightarrow> container_status \<times> bool" where
  "findContainerStatus statuses name = findBy zeroContainer statuses (\<lambda>c. csName c = name)"

definition containerStatusMatches :: "container_status list \<Rightarrow> container_status list \<Rightarrow> bool" where
  "containerStatusMatches current expected =
     (case findContainerStatus current containerName of (currentStatus, currentFound) \<Rightarrow>
      case findContainerStatus expected containerName of (expectedStatus, expectedFound) \<Rightarrow>
        if currentFound \<noteq> expectedFound then False
        else if \<not> currentFound then True
        else csReady currentStatus = csReady expectedStatus \<and>
          (csRunning currentStatus \<noteq> None) = (csRunning expectedStatus \<noteq> None) \<and>
          csWaiting currentStatus = csWaiting expectedStatus \<and>
          (csTerminated currentStatus \<noteq> None) = (csTerminated expectedStatus \<noteq> None))"

definition podStatusMatches :: "pod_status \<Rightarrow> pod_status \<Rightarrow> bool" where
  "podStatusMatches current expected =
     (if stPhase current \<noteq> stPhase expected \<or> stPodIP current \<noteq> stPodIP expected then False
      else if \<not> conditionMatches (stConditions current) (stConditions expected) ''Ready'' \<or>
              \<not> conditionMatches (stConditions current) (stConditions expected) ''Initialized'' then False
      else containerStatusMatches (stContainers current) (stContainers expected))"

section \<open>Reconciling statuses\<close>

text \<open>A pod object the API server or a lister handed out, at a fresh cell.\<close>

definition allocPod :: "pod \<Rightarrow> prov \<Rightarrow> podptr \<times> prov" where
  "allocPod q s =
     (\<lparr>ptAddr = nextAddr s, ptMeta = pMeta q\<rparr>,
      s\<lparr>heapAnnots := (heapAnnots s)(nextAddr s := pAnnotations q),
        heapStatus := (heapStatus s)(nextAddr s := pStatus q),
        nextAddr := Suc (nextAddr s)\<rparr>)"

definition newPod :: "pod \<Rightarrow> podptr act" where
  "newPod q = State (allocPod q)"

text \<open>The worker of \<open>reconcilePodStatuses\<close> for one pod: \<open>currentPod\<close> is the lister's answer; a status that drifted
  from the derived one is handed to the framework, as long as the incarnation is the tracked one.\<close>

definition republishStatus :: "env \<Rightarrow> podptr \<Rightarrow> podptr \<Rightarrow> pod_status \<Rightarrow> unit act" where
  "republishStatus e p current status = do {
     same \<leftarrow> peek (\<lambda>s. podStatusMatches (pStatus (podAt s current)) status);
     (if same then State_Monad.return ()
      else do {
        mine \<leftarrow> trackedPodMatches e (podKey e p) (ptUID p);
        (if \<not> mine then State_Monad.return ()
         else do {
           _ \<leftarrow> State (\<lambda>s. ((), setStatus current (\<lambda>_. status) s));
           notify e current
         })
      })
   }"

definition repairStatus :: "env \<Rightarrow> podptr \<Rightarrow> podptr \<Rightarrow> pod_status \<Rightarrow> unit act" where
  "repairStatus e p current status = do {
     mine \<leftarrow> trackedPodMatches e (podKey e p) (ptUID p);
     (if \<not> mine then State_Monad.return ()
      else do {
        ok \<leftarrow> reconcileRuntimeEndpoints e current (stPodIP status);
        (if \<not> ok then State_Monad.return () else republishStatus e p current status)
      })
   }"

definition reconcilePodStatus :: "env \<Rightarrow> podptr \<Rightarrow> unit act" where
  "reconcilePodStatus e p = do {
     current \<leftarrow> kubeGetPod e (ptNamespace p) (ptName p);
     (case current of
        Inl _ \<Rightarrow> State_Monad.return ()
      | Inr q \<Rightarrow>
          if pmUID (pMeta q) \<noteq> ptUID p then State_Monad.return ()
          else do {
            current \<leftarrow> newPod q;
            status \<leftarrow> GetPodStatus e (ptNamespace p) (ptName p);
            (case status of
               Inl _ \<Rightarrow> State_Monad.return ()
             | Inr status \<Rightarrow> repairStatus e p current status)
          })
   }"

fun reconcileEach :: "env \<Rightarrow> podptr list \<Rightarrow> unit act" where
  "reconcileEach e [] = State_Monad.return ()"
| "reconcileEach e (p # ps) = do { _ \<leftarrow> reconcilePodStatus e p; reconcileEach e ps }"

definition reconcilePodStatuses :: "env \<Rightarrow> string list \<Rightarrow> unit act" where
  "reconcilePodStatuses e keys = do {
     ps \<leftarrow> reading e (\<lambda>s. List.map_filter (pods s) keys);
     reconcileEach e ps
   }"

section \<open>Handlers of the pod table\<close>

fun deepCopies :: "podptr list \<Rightarrow> prov \<Rightarrow> podptr list \<times> prov" where
  "deepCopies [] s = ([], s)"
| "deepCopies (p # ps) s =
     (let (q, t) = deepCopy p s; (qs, u) = deepCopies ps t in (q # qs, u))"

definition GetPods :: "env \<Rightarrow> string list \<Rightarrow> podptr list act" where
  "GetPods e keys = locked e (\<lambda>s. deepCopies (List.map_filter (pods s) keys) s)"

definition RefreshKeepSnapshotOnDelete :: "env \<Rightarrow> podptr \<Rightarrow> unit act" where
  "RefreshKeepSnapshotOnDelete e p = do {
     keep \<leftarrow> peek (\<lambda>s. mReadKeepSnapshotOnDelete (lib e) (podAt s p));
     (if \<not> keep then State_Monad.return ()
      else writing e (\<lambda>s. case pods s (podKey e p) of
          Some t \<Rightarrow> if ptUID t = ptUID p then setAnnots t (mMarkKeepSnapshotOnDelete (lib e)) s else s
        | None \<Rightarrow> s))
   }"

end
