(* ===== verification/Preserves.thy ===== *)
theory Preserves
  imports Lifecycle
begin

text \<open>
  Invariants of the provider's state under actions. The contract of \<open>ghost_free\<close> is that the invariant does
  not look at the recorded calls or the interference clock; it is then kept by every external call, and by a
  critical section whose function keeps it.
\<close>

named_theorems preserves_intros "actions that keep an invariant"

definition preserves :: "(prov \<Rightarrow> bool) \<Rightarrow> 'a act \<Rightarrow> bool" where
  "preserves I m \<longleftrightarrow> (\<forall>s. I s \<longrightarrow> I (snd (run_state m s)))"

lemma preservesI: "(\<And>s. I s \<Longrightarrow> I (snd (run_state m s))) \<Longrightarrow> preserves I m"
  by (simp add: preserves_def)

lemma preservesD: "preserves I m \<Longrightarrow> I s \<Longrightarrow> I (snd (run_state m s))"
  by (simp add: preserves_def)

lemma wp_preserves: "preserves I m \<Longrightarrow> I s \<Longrightarrow> (\<And>r t. I t \<Longrightarrow> Q r t) \<Longrightarrow> wp m Q s"
  by (intro wp_runI) (simp add: preserves_def)

lemma preserves_return [preserves_intros]: "preserves I (State_Monad.return x)"
  by (simp add: preserves_def)

lemma preserves_bind [preserves_intros]:
  "preserves I m \<Longrightarrow> (\<And>r. preserves I (f r)) \<Longrightarrow> preserves I (State_Monad.bind m f)"
  by (auto simp: preserves_def case_prod_beta)

text \<open>The continuation may rely on what every answer satisfies.\<close>

lemma preserves_bind_yields:
  "preserves I m \<Longrightarrow> (\<And>s. R (fst (run_state m s))) \<Longrightarrow> (\<And>r. R r \<Longrightarrow> preserves I (f r)) \<Longrightarrow>
   preserves I (State_Monad.bind m f)"
  by (auto simp: preserves_def case_prod_beta)

lemma preserves_peek [preserves_intros]: "preserves I (peek f)"
  by (simp add: preserves_def peek_def)

lemma preserves_if [preserves_intros]: "preserves I m \<Longrightarrow> preserves I n \<Longrightarrow> preserves I (if b then m else n)"
  by simp

lemma preserves_case_option [preserves_intros]:
  "preserves I m \<Longrightarrow> (\<And>y. preserves I (f y)) \<Longrightarrow> preserves I (case x of None \<Rightarrow> m | Some y \<Rightarrow> f y)"
  by (cases x) simp_all

lemma preserves_case_sum [preserves_intros]:
  "(\<And>a. preserves I (f a)) \<Longrightarrow> (\<And>b. preserves I (g b)) \<Longrightarrow> preserves I (case x of Inl a \<Rightarrow> f a | Inr b \<Rightarrow> g b)"
  by (cases x) simp_all

lemma preserves_case_prod [preserves_intros]:
  "(\<And>a b. preserves I (f a b)) \<Longrightarrow> preserves I (case x of (a, b) \<Rightarrow> f a b)"
  by (cases x) simp_all

lemma preserves_Let [preserves_intros]: "preserves I (f x) \<Longrightarrow> preserves I (Let x f)"
  by simp

text \<open>A postcondition together with the calls made.\<close>

lemma wp_with_calls:
  assumes "wp m R s" "emits m P" "\<And>r t cs. R r t \<Longrightarrow> trace t = trace s @ cs \<Longrightarrow> list_all P cs \<Longrightarrow> Q r t"
  shows "wp m Q s"
  using assms(1) emitsE [OF assms(2), of s] assms(3) by (metis wp_run wp_runI)

lemma wp_preserves_calls:
  assumes "preserves I m" "emits m P" "I s"
    and "\<And>r t cs. I t \<Longrightarrow> trace t = trace s @ cs \<Longrightarrow> list_all P cs \<Longrightarrow> Q r t"
  shows "wp m Q s"
  by (rule wp_with_calls [where R = "\<lambda>_. I", OF wp_preserves [OF assms(1,3)] assms(2)]) (use assms(4) in auto)

locale ghost_free =
  fixes I :: "prov \<Rightarrow> bool"
  assumes ghost: "I (s\<lparr>trace := h\<rparr>) = I s" "I (s\<lparr>tick := n\<rparr>) = I s"
begin

lemma inv_ext: "preserves I (ext ans mk)"
  by (simp add: preserves_def ext_def Let_def ghost)

lemma inv_locked: "quiet e \<Longrightarrow> (\<And>s. I s \<Longrightarrow> I (snd (f s))) \<Longrightarrow> preserves I (locked e f)"
  by (simp add: preserves_def locked_def yield_def quiet_def Let_def case_prod_beta ghost)

lemma inv_reading: "quiet e \<Longrightarrow> preserves I (reading e f)"
  unfolding reading_def by (rule inv_locked) simp_all

lemma inv_writing: "quiet e \<Longrightarrow> (\<And>s. I s \<Longrightarrow> I (f s)) \<Longrightarrow> preserves I (writing e f)"
  unfolding writing_def by (rule inv_locked) simp_all

lemma inv_patchLoop: "preserves I fn \<Longrightarrow> preserves I (patchLoop e n fn)"
  by (induction n) (auto intro!: preserves_intros inv_ext simp: sleepCtx_def)

lemma inv_patchIncarnation: "preserves I (patchIncarnationAnnotations e ns name uid an)"
  unfolding patchIncarnationAnnotations_def kubePatch_def by (intro preserves_intros inv_ext)

lemma inv_publish: "quiet e \<Longrightarrow> preserves I (publishPodStatus e p)"
  unfolding publishPodStatus_def patchWithRetry_def kubeStatusPatch_def
  by (intro preserves_intros inv_patchLoop inv_reading inv_ext)

end

end
