(* ===== verification/Status_Props.thy ===== *)
theory Status_Props
  imports Status Preserves Lifecycle_Props Example_Env
begin

text \<open>
  What the status comparison compares, and that the reconciliation republishes drifted statuses only.
\<close>

section \<open>The compared view\<close>

text \<open>The part of a status that the comparison looks at: phase, address, the Ready and Initialized
  conditions (the message of Ready only), and the state of the one container.\<close>

record status_view =
  svPhase :: pod_phase
  svIP :: string
  svReady :: "(string \<times> string) option"
  svInitialized :: "string option"
  svContainer :: "(bool \<times> bool \<times> bool \<times> bool) option"

definition statusView :: "pod_status \<Rightarrow> status_view" where
  "statusView st = \<lparr>svPhase = stPhase st, svIP = stPodIP st,
     svReady = map_option (\<lambda>c. (cnStatus c, cnMessage c)) (List.find (\<lambda>c. cnType c = ''Ready'') (stConditions st)),
     svInitialized = map_option cnStatus (List.find (\<lambda>c. cnType c = ''Initialized'') (stConditions st)),
     svContainer = map_option (\<lambda>c. (csReady c, csRunning c \<noteq> None, csWaiting c, csTerminated c \<noteq> None))
       (List.find (\<lambda>c. csName c = containerName) (stContainers st))\<rparr>"

lemma matches_view: "podStatusMatches a b \<longleftrightarrow> statusView a = statusView b"
  by (auto simp: podStatusMatches_def statusView_def conditionMatches_def containerStatusMatches_def
      findCondition_def findContainerStatus_def findBy_def split: option.splits if_splits)

text \<open>C33: the status comparison is the equality of that view: two statuses match exactly when phase, address,
  the two conditions and the container's state agree, and nothing else (timestamps, other conditions,
  other containers) is looked at. It is therefore an equivalence relation.\<close>

theorem status_matches_view:
  "(podStatusMatches a b \<longleftrightarrow> statusView a = statusView b) \<and> equivp podStatusMatches"
  by (auto simp: matches_view intro!: equivpI reflpI sympI transpI)

section \<open>Reconciliation\<close>

text \<open>A pod object nobody else can reach keeps its status.\<close>

definition cellHolds :: "podptr \<Rightarrow> pod_status \<Rightarrow> prov \<Rightarrow> bool" where
  "cellHolds p st s \<longleftrightarrow> ptAddr p < nextAddr s \<and> heapStatus s (ptAddr p) = st"

interpretation cell: ghost_free "cellHolds p st" for p st
  by unfold_locales (simp_all add: cellHolds_def)

lemmas cell_intros = preserves_intros cell.inv_ext cell.inv_patchIncarnation cell.inv_patchLoop
  cell.inv_reading cell.inv_locked

lemma cell_resolve: "quiet e \<Longrightarrow> preserves (cellHolds p st) (resolveVMIP e ns n v)"
  unfolding resolveVMIP_def setVMIP_def lookupByMAC_def
  by (intro cell_intros) (auto simp: cellHolds_def updateTrackedVM_def setVMLocked_def allocVM_def Let_def split: option.split)

lemma cell_GetPodStatus: "quiet e \<Longrightarrow> preserves (cellHolds p st) (GetPodStatus e ns n)"
  unfolding GetPodStatus_def GetPod_def vmForPod_def timeNow_def
  by (intro cell_intros cell_resolve) (auto simp: cellHolds_def deepCopy_def Let_def split: option.split)

lemma cell_endpoints: "quiet e \<Longrightarrow> preserves (cellHolds p st) (reconcileRuntimeEndpoints e q ip)"
  unfolding reconcileRuntimeEndpoints_def patchWithRetry_def by (intro cell_intros)

definition noNotify :: "call \<Rightarrow> bool" where
  "noNotify c = (case c of ENotify _ _ \<Rightarrow> False | _ \<Rightarrow> True)"

lemma noNotify_status: "emits (GetPodStatus e ns n) noNotify"
  by (rule emits_weaken [OF emits_GetPodStatus]) (auto simp: statusRead_def noNotify_def split: call.splits)

lemma noNotify_endpoints: "emits (reconcileRuntimeEndpoints e p ip) noNotify"
  unfolding reconcileRuntimeEndpoints_def
  by (intro emits_intros emits_patchWithRetry emits_patchIncarnation) (simp_all add: noNotify_def)

text \<open>What a worker that read the pod \<open>q\<close> may notify.\<close>

definition driftOnly :: "pod \<Rightarrow> call list \<Rightarrow> bool" where
  "driftOnly q cs \<longleftrightarrow> (\<forall>k pd. ENotify k pd \<in> set cs \<longrightarrow> \<not> podStatusMatches (pStatus q) (pStatus pd))"

lemma driftOnly_calm: "list_all noNotify cs \<Longrightarrow> driftOnly q cs"
  by (auto simp: driftOnly_def noNotify_def list_all_iff)

lemma driftOnly_append [simp]: "driftOnly q (as @ bs) \<longleftrightarrow> driftOnly q as \<and> driftOnly q bs"
  by (auto simp: driftOnly_def)

definition drifts :: "pod \<Rightarrow> call list \<Rightarrow> prov \<Rightarrow> bool" where
  "drifts q h t \<longleftrightarrow> (\<exists>cs. trace t = h @ cs \<and> driftOnly q cs)"

lemma drifts_more: "drifts q h t \<Longrightarrow> trace u = trace t @ cs \<Longrightarrow> list_all noNotify cs \<Longrightarrow> drifts q h u"
  by (auto simp: drifts_def driftOnly_calm)

lemma drifts_ghost [simp]: "drifts q h (s\<lparr>tick := n\<rparr>) = drifts q h s"
  by (simp add: drifts_def)

lemma republish_drift:
  assumes "quiet e" "cellHolds current (pStatus q) t" "drifts q h t"
  shows "wp (republishStatus e p current status) (\<lambda>_. drifts q h) t"
  using assms
  by (auto simp: republishStatus_def trackedPodMatches_def notify_def wp_quiet setStatus_def deepCopy_def
      stampLifecycleIntentLocked_def applyStatus_def setAnnots_def podAt_def driftOnly_def drifts_def cellHolds_def
      Let_def split: option.split)

lemma repair_drift:
  assumes "quiet e" "cellHolds current (pStatus q) t" "drifts q h t"
  shows "wp (repairStatus e p current status) (\<lambda>_. drifts q h) t"
proof -
  have "wp (reconcileRuntimeEndpoints e current (stPodIP status)) (\<lambda>ok. wp (if \<not> ok then State_Monad.return ()
      else republishStatus e p current status) (\<lambda>_. drifts q h)) (t\<lparr>tick := n\<rparr>)" for n
    by (rule wp_preserves_calls [OF cell_endpoints [OF assms(1), of current "pStatus q"] noNotify_endpoints])
      (use assms drifts_more [OF assms(3)] in \<open>auto simp: cell.ghost intro!: republish_drift\<close>)
  with assms show ?thesis
    by (simp add: repairStatus_def trackedPodMatches_def wp_quiet)
qed

lemma worker_drift:
  assumes "quiet e" "wGetPod (ask e) (trace s) (ptNamespace p) (ptName p) = Inr q"
  shows "wp (reconcilePodStatus e p) (\<lambda>_. drifts q (trace s)) s"
proof -
  let ?u = "s\<lparr>trace := trace s @ [KGetPod (ptNamespace p) (ptName p) (Inr q)]\<rparr>"
  have u: "cellHolds (fst (allocPod q ?u)) (pStatus q) (snd (allocPod q ?u))" "drifts q (trace s) (snd (allocPod q ?u))"
    by (simp_all add: cellHolds_def allocPod_def drifts_def driftOnly_def)
  have "wp (GetPodStatus e (ptNamespace p) (ptName p)) (\<lambda>r. wp (case r of Inl _ \<Rightarrow> State_Monad.return ()
      | Inr status \<Rightarrow> repairStatus e p (fst (allocPod q ?u)) status) (\<lambda>_. drifts q (trace s))) (snd (allocPod q ?u))"
    by (rule wp_preserves_calls [OF cell_GetPodStatus [OF assms(1)] noNotify_status u(1)])
      (auto intro!: repair_drift [OF assms(1)] dest: drifts_more [OF u(2)] split: sum.split)
  with assms(2) u(2) show ?thesis
    by (auto simp: reconcilePodStatus_def kubeGetPod_def newPod_def case_prod_beta drifts_def driftOnly_def)
qed



end
