(* ===== verification/SAC.thy ===== *)
theory SAC
  imports Decimal VM_Runtime
begin

text \<open>
  The Windows serial console (\<open>guest/sac/sac.go\<close>): reading until the prompt and the parser of the
  NIC listing. The regular expression \<open>Net:\s+(\d+),\s+Ip=(\S+)\<close> is matched by hand: neighbouring
  classes are disjoint, so greedy matching never backtracks. Reads of the socket are a list of
  outcomes, one per iteration of the loop.
\<close>

section \<open>The prompt\<close>

definition sacPrompt :: string where "sacPrompt = ''SAC>''"

text \<open>One iteration: the context's error, whether the deadline passed, the error of writing the probe,
  what was read, and the error of the read (\<open>Inl ()\<close> is a timeout).\<close>

record sac_read =
  srCtx :: "err option"
  srLate :: bool
  srWrite :: "err option"
  srData :: string
  srErr :: "(unit + err) option"

fun readUntilPrompt :: "string \<Rightarrow> sac_read list \<Rightarrow> string \<Rightarrow> (string \<times> err option) option" where
  "readUntilPrompt probe [] sb = None"
| "readUntilPrompt probe (r # rs) sb =
     (case srCtx r of
        Some x \<Rightarrow> Some (sb, Some x)
      | None \<Rightarrow>
          if srLate r then Some (sb, Some (newErr ''timeout waiting for SAC> prompt''))
          else if probe \<noteq> [] \<and> srWrite r \<noteq> None
          then Some (sb, Some (wrapErr ''write prompt probe: '' (the (srWrite r)) []))
          else
            (let sb' = sb @ srData r in
             if srData r \<noteq> [] \<and> containsStr sb' sacPrompt then Some (sb', None)
             else (case srErr r of
                 Some (Inr x) \<Rightarrow> Some (sb', Some (wrapErr ''read: '' x []))
               | _ \<Rightarrow> readUntilPrompt probe rs sb')))"

text \<open>\<open>sacCommand\<close> after the drain: the write and the response.\<close>

definition sacCommand :: "err option \<Rightarrow> sac_read list \<Rightarrow> string \<Rightarrow> (err + string) option" where
  "sacCommand written rs cmd =
     (case written of
        Some x \<Rightarrow> Some (Inl (wrapErr (''write command '' @ quoteStr cmd @ '': '') x []))
      | None \<Rightarrow>
          (case readUntilPrompt [] rs [] of
             None \<Rightarrow> None
           | Some (out, Some x) \<Rightarrow> Some (Inl (wrapErr (''response to '' @ quoteStr cmd @ '': '') x []))
           | Some (out, None) \<Rightarrow> Some (Inr out)))"

text \<open>\<open>dial\<close>: one iteration is the context's error, whether the deadline passed, the error of the
  connect and the error of the sleep after it. \<open>Some None\<close> is a connection.\<close>

record sac_try =
  stCtx :: "err option"
  stLate :: bool
  stConn :: "err option"
  stSleep :: "err option"

fun dialLoop :: "sac_try list \<Rightarrow> err option \<Rightarrow> err option option" where
  "dialLoop [] lastErr = None"
| "dialLoop (t # ts) lastErr =
     (case stCtx t of
        Some x \<Rightarrow> Some (Some x)
      | None \<Rightarrow>
          if stLate t
          then Some (Some (case lastErr of
              Some x \<Rightarrow> wrapErr ''sac dial timeout: '' x [] | None \<Rightarrow> newErr ''sac dial timeout''))
          else (case stConn t of
              None \<Rightarrow> Some None
            | Some x \<Rightarrow> (case stSleep t of Some z \<Rightarrow> Some (Some z) | None \<Rightarrow> dialLoop ts (Some x))))"

text \<open>\<open>Dialer.Dial\<close>: connect, then wake the console until it prompts.\<close>

definition Dial :: "sac_try list \<Rightarrow> sac_read list \<Rightarrow> err option option" where
  "Dial ts rs =
     (case dialLoop ts None of
        None \<Rightarrow> None
      | Some (Some x) \<Rightarrow> Some (Some x)
      | Some None \<Rightarrow>
          (case readUntilPrompt [CHR 0x0D, CHR 0x0A] rs [] of
             None \<Rightarrow> None
           | Some (_, Some x) \<Rightarrow> Some (Some (wrapErr ''sac wait prompt: '' x []))
           | Some (_, None) \<Rightarrow> Some None))"

text \<open>\<open>Session.Run\<close>: the command words are joined by spaces.\<close>

definition Run :: "err option \<Rightarrow> sac_read list \<Rightarrow> string list \<Rightarrow> (err + string) option" where
  "Run written rs cmd = sacCommand written rs (joinStr cmd '' '')"

section \<open>The NIC listing\<close>

definition reSpace :: "char \<Rightarrow> bool" where
  "reSpace c \<longleftrightarrow> of_char c \<in> {9, 10, 12, 13, 32 :: nat}"

text \<open>A match at the start of the text: both groups and the text after the match.\<close>

definition matchNetAt :: "string \<Rightarrow> (string \<times> string \<times> string) option" where
  "matchNetAt s =
     (let a = drop 4 s; b = dropWhile reSpace a; ds = takeWhile isDigit b; c = dropWhile isDigit b;
          d = drop 1 c; f = dropWhile reSpace d; g = drop 3 f; ip = takeWhile (\<lambda>x. \<not> reSpace x) g
      in if \<not> hasPrefix s ''Net:'' \<or> a = b \<or> ds = [] \<or> \<not> hasPrefix c '','' \<or> d = f \<or>
            \<not> hasPrefix f ''Ip='' \<or> ip = []
         then None else Some (ds, ip, drop (length ip) g))"

lemma matchNetAt_shrinks:
  assumes "matchNetAt s = Some (ds, ip, rest)"
  shows "length rest < length s"
proof -
  have s: "s \<noteq> []"
    using assms by (auto simp: matchNetAt_def hasPrefix_def Let_def)
  have "length rest \<le> length (drop 4 s)"
    using assms unfolding matchNetAt_def Let_def
    by (auto split: if_splits simp: length_dropWhile_le intro!: diff_le_mono le_trans [OF diff_le_self]
        le_trans [OF length_dropWhile_le])
  with s show ?thesis by (cases s) auto
qed

text \<open>\<open>FindAllStringSubmatch\<close>: leftmost, not overlapping.\<close>

function netMatches :: "string \<Rightarrow> (string \<times> string) list" where
  "netMatches [] = []"
| "netMatches (c # cs) =
     (case matchNetAt (c # cs) of
        Some (ds, ip, rest) \<Rightarrow> (ds, ip) # netMatches rest
      | None \<Rightarrow> netMatches cs)"
  by pat_completeness auto
termination
  by (relation "measure length") (auto dest: matchNetAt_shrinks)

text \<open>\<open>strconv.Atoi\<close> of the digits with its error dropped: out of range saturates.\<close>

definition netNum :: "string \<Rightarrow> int" where
  "netNum ds = min (int (digitsVal ds)) (2 ^ 63 - 1)"

definition ParseNetEntries :: "string \<Rightarrow> int list" where
  "ParseNetEntries out =
     foldl (\<lambda>nums m. if netNum (fst m) \<in> set nums then nums else nums @ [netNum (fst m)]) [] (netMatches out)"

definition NetHasIP :: "string \<Rightarrow> int \<Rightarrow> string \<Rightarrow> bool" where
  "NetHasIP out num ip \<longleftrightarrow> list_ex (\<lambda>m. netNum (fst m) = num \<and> snd m = ip) (netMatches out)"

section \<open>Properties\<close>

declare netMatches.simps(2) [simp del]

lemma netMatches_skip: "CHR ''N'' \<notin> set post \<Longrightarrow> netMatches (post @ rest) = netMatches rest"
proof (induction post)
  case (Cons c post)
  then have "\<not> hasPrefix (c # post @ rest) ''Net:''" by (auto simp: hasPrefix_def)
  then have "matchNetAt (c # post @ rest) = None" by (simp add: matchNetAt_def Let_def)
  with Cons show ?case by (simp add: netMatches.simps(2))
qed simp

text \<open>A line of the listing: the number, the address and what follows it.\<close>

definition netLine :: "nat \<times> string \<times> string \<Rightarrow> string" where
  "netLine x = (case x of (n, ip, post) \<Rightarrow> ''Net: '' @ natDigits n @ '', Ip='' @ ip @ post)"

definition netLineOK :: "nat \<times> string \<times> string \<Rightarrow> bool" where
  "netLineOK x = (case x of (n, ip, post) \<Rightarrow>
     n < 2 ^ 63 \<and> ip \<noteq> [] \<and> list_all (\<lambda>c. \<not> reSpace c) ip \<and> post \<noteq> [] \<and> reSpace (hd post) \<and> CHR ''N'' \<notin> set post)"

lemma digit_not_space: "isDigit c \<Longrightarrow> \<not> reSpace c"
  by (auto simp: isDigit_def reSpace_def)

lemma matchNetAt_line:
  assumes "netLineOK (n, ip, post)"
  shows "matchNetAt (netLine (n, ip, post) @ rest) = Some (natDigits n, ip, post @ rest)"
proof -
  obtain c ds where ds: "natDigits n = c # ds" using natDigits_digits [of n] by (cases "natDigits n") auto
  have dig: "list_all isDigit (natDigits n)" using natDigits_digits by blast
  have c: "\<not> reSpace c" using dig ds digit_not_space by simp
  obtain z post' where post: "post = z # post'" "reSpace z" using assms by (cases post) (auto simp: netLineOK_def)
  have ip: "takeWhile (\<lambda>x. \<not> reSpace x) (ip @ post @ rest) = ip"
    using assms post by (auto simp: netLineOK_def takeWhile_append list_all_iff)
  let ?t = "natDigits n @ '', Ip='' @ ip @ post @ rest"
  have sp: "reSpace CHR '' ''" by (simp add: reSpace_def)
  have b: "dropWhile reSpace ('' '' @ ?t) = ?t" using ds c sp by simp
  have d: "takeWhile isDigit ?t = natDigits n" "dropWhile isDigit ?t = '', Ip='' @ ip @ post @ rest"
    using dig by (auto simp: takeWhile_append dropWhile_append list_all_iff isDigit_def)
  have f: "dropWhile reSpace ('' Ip='' @ ip @ post @ rest) = ''Ip='' @ ip @ post @ rest"
    using sp by (simp add: reSpace_def)
  have "ip \<noteq> []" "natDigits n \<noteq> []" using assms ds by (auto simp: netLineOK_def)
  with b d f ip show ?thesis
    by (simp add: matchNetAt_def netLine_def Let_def hasPrefix_def)
qed

lemma netMatches_line:
  assumes "netLineOK x"
  shows "netMatches (netLine x @ rest) = (natDigits (fst x), fst (snd x)) # netMatches rest"
proof -
  obtain n ip post where x: "x = (n, ip, post)" by (metis prod.collapse)
  have "netMatches (netLine x @ rest) = (natDigits n, ip) # netMatches (post @ rest)"
    using matchNetAt_line [of n ip post rest] assms
    unfolding x by (simp add: netLine_def netMatches.simps(2))
  then show ?thesis using assms x by (simp add: netMatches_skip netLineOK_def)
qed

lemma netMatches_lines:
  "list_all netLineOK xs \<Longrightarrow> netMatches (concat (map netLine xs)) = map (\<lambda>x. (natDigits (fst x), fst (snd x))) xs"
  by (induction xs) (simp_all add: netMatches_line)

lemma netNum_digits: "n < 2 ^ 63 \<Longrightarrow> netNum (natDigits n) = int n"
  by (simp add: netNum_def digitsVal_natDigits)

lemma nub_foldl:
  fixes acc :: "int list"
  defines "nub \<equiv> foldl (\<lambda>nums n. if n \<in> set nums then nums else nums @ [n])"
  shows "set (nub acc xs) = set acc \<union> set xs" "distinct acc \<Longrightarrow> distinct (nub acc xs)"
    "distinct (acc @ xs) \<Longrightarrow> nub acc xs = acc @ xs"
  unfolding nub_def by (induction xs arbitrary: acc) auto

lemma ParseNetEntries_lines:
  assumes "list_all netLineOK xs"
  shows "ParseNetEntries (concat (map netLine xs)) =
    foldl (\<lambda>nums n. if n \<in> set nums then nums else nums @ [n]) [] (map (\<lambda>x. int (fst x)) xs)"
proof -
  have "map (\<lambda>m. netNum (fst m)) (netMatches (concat (map netLine xs))) = map (\<lambda>x. int (fst x)) xs"
    using assms by (auto simp: netMatches_lines list_all_iff netLineOK_def netNum_digits)
  moreover have "ParseNetEntries out =
      foldl (\<lambda>nums n. if n \<in> set nums then nums else nums @ [n]) [] (map (\<lambda>m. netNum (fst m)) (netMatches out))" for out
    by (simp add: ParseNetEntries_def foldl_map)
  ultimately show ?thesis by simp
qed

text \<open>C30: the listing of the serial console round-trips: parsing printed lines gives the net numbers,
  each once and in the order of their first line, and \<open>NetHasIP\<close> holds exactly for the printed pairs.\<close>

theorem sac_listing_roundtrip:
  assumes "list_all netLineOK xs"
  shows "set (ParseNetEntries (concat (map netLine xs))) = (\<lambda>x. int (fst x)) ` set xs \<and>
    distinct (ParseNetEntries (concat (map netLine xs))) \<and>
    (distinct (map fst xs) \<longrightarrow> ParseNetEntries (concat (map netLine xs)) = map (\<lambda>x. int (fst x)) xs) \<and>
    (\<forall>n ip. NetHasIP (concat (map netLine xs)) (int n) ip \<longleftrightarrow> (\<exists>post. (n, ip, post) \<in> set xs))"
proof (intro conjI allI impI)
  fix n ip
  show "NetHasIP (concat (map netLine xs)) (int n) ip \<longleftrightarrow> (\<exists>post. (n, ip, post) \<in> set xs)"
  proof -
    have "netNum (natDigits (fst x)) = int (fst x)" if "x \<in> set xs" for x
      using assms that by (auto simp: list_all_iff netLineOK_def netNum_digits)
    then have "NetHasIP (concat (map netLine xs)) (int n) ip \<longleftrightarrow> (\<exists>x \<in> set xs. fst x = n \<and> fst (snd x) = ip)"
      by (auto simp: NetHasIP_def netMatches_lines [OF assms] list_ex_iff)
    then show ?thesis by (metis prod.collapse fst_conv snd_conv)
  qed
next
  assume "distinct (map fst xs)"
  then have "distinct (map (\<lambda>x. int (fst x)) xs)" by (auto simp: distinct_map inj_on_def)
  then show "ParseNetEntries (concat (map netLine xs)) = map (\<lambda>x. int (fst x)) xs"
    using ParseNetEntries_lines [OF assms] nub_foldl(3) [of "[]"] by simp
qed (simp_all add: ParseNetEntries_lines [OF assms] nub_foldl(1,2))

theorem sac_listing_roundtrip_witness:
  "list_all netLineOK [(2, ''10.0.0.5'', '' Subnet=x''), (7, ''10.0.0.6'', '' '')] \<and>
   ParseNetEntries (concat (map netLine [(2, ''10.0.0.5'', '' Subnet=x''), (7, ''10.0.0.6'', '' '')])) = [2, 7]"
proof -
  have ok: "list_all netLineOK [(2, ''10.0.0.5'', '' Subnet=x''), (7, ''10.0.0.6'', '' '')]"
    by (simp add: netLineOK_def reSpace_def)
  show ?thesis using sac_listing_roundtrip [OF ok] ok by simp
qed

text \<open>What a session returns contains the prompt, and is everything that was read.\<close>

lemma readUntilPrompt_reads:
  "readUntilPrompt probe rs sb = Some (out, None) \<Longrightarrow>
   containsStr out sacPrompt \<and> (\<exists>k. out = sb @ concat (map srData (take k rs)))"
proof (induction rs arbitrary: sb)
  case (Cons r rs)
  show ?case
  proof (cases "srData r \<noteq> [] \<and> containsStr (sb @ srData r) sacPrompt")
    case True
    with Cons.prems have "out = sb @ srData r" by (auto simp: Let_def split: option.splits if_splits)
    with True show ?thesis by (intro conjI exI [of _ 1]) auto
  next
    case False
    with Cons.prems have "readUntilPrompt probe rs (sb @ srData r) = Some (out, None)"
      by (auto simp: Let_def split: option.splits if_splits sum.splits)
    from Cons.IH [OF this] obtain k where "containsStr out sacPrompt"
      "out = (sb @ srData r) @ concat (map srData (take k rs))" by blast
    then show ?thesis by (intro conjI exI [of _ "Suc k"]) auto
  qed
qed simp

end
