(* ===== verification/Base64.thy ===== *)
theory Base64
  imports Prelude
begin

text \<open>
  \<open>base64.StdEncoding\<close>, used for the post-clone hint, with the decoder an operator applies to it.
\<close>

definition alphabet :: string where
  "alphabet = ''ABCDEFGHIJKLMNOPQRSTUVWXYZabcdefghijklmnopqrstuvwxyz0123456789+/''"

definition b64char :: "nat \<Rightarrow> char" where
  "b64char n = alphabet ! n"

definition b64val :: "char \<Rightarrow> nat" where
  "b64val c = length (takeWhile (\<lambda>x. x \<noteq> c) alphabet)"

text \<open>Three bytes at a time.\<close>

fun encode64 :: "nat list \<Rightarrow> string" where
  "encode64 [] = []"
| "encode64 [a] = [b64char (a div 4), b64char (a mod 4 * 16), CHR ''='', CHR ''='']"
| "encode64 [a, b] =
     [b64char (a div 4), b64char (a mod 4 * 16 + b div 16), b64char (b mod 16 * 4), CHR ''='']"
| "encode64 (a # b # c # xs) =
     [b64char (a div 4), b64char (a mod 4 * 16 + b div 16), b64char (b mod 16 * 4 + c div 64),
      b64char (c mod 64)] @ encode64 xs"

definition EncodeToString :: "string \<Rightarrow> string" where
  "EncodeToString s = encode64 (map of_char s)"

fun decode64 :: "string \<Rightarrow> nat list" where
  "decode64 (p # q # r # t # xs) =
     (let a = b64val p * 4 + b64val q div 16; b = b64val q mod 16 * 16 + b64val r div 4;
          c = b64val r mod 4 * 64 + b64val t
      in if r = CHR ''='' then [a] else if t = CHR ''='' then [a, b] else a # b # c # decode64 xs)"
| "decode64 _ = []"

definition DecodeString :: "string \<Rightarrow> string" where
  "DecodeString s = map char_of (decode64 s)"

lemma b64_table: "\<forall>n \<in> set [0..<64]. b64val (b64char n) = n \<and> b64char n \<noteq> CHR ''=''"
  by code_simp

lemma b64_inverse [simp]: "n < 64 \<Longrightarrow> b64val (b64char n) = n" "n < 64 \<Longrightarrow> b64char n \<noteq> CHR ''=''"
  using b64_table by auto

lemma decode_encode64: "list_all (\<lambda>n. n < 256) xs \<Longrightarrow> decode64 (encode64 xs) = xs"
proof (induction xs rule: encode64.induct)
  case (4 a b c xs)
  have "a div 4 < 64" "a mod 4 * 16 + b div 16 < 64" "b mod 16 * 4 + c div 64 < 64" "c mod 64 < 64"
    using 4(2) by (auto simp: less_mult_imp_div_less)
  moreover have "b div 16 < 16" "c div 64 < 4" using 4(2) by (auto simp: less_mult_imp_div_less)
  ultimately show ?case using 4 by (simp add: Let_def)
next
  case (3 a b)
  have "a div 4 < 64" "a mod 4 * 16 + b div 16 < 64" "b mod 16 * 4 < 64" "b div 16 < 16"
    using 3 by (auto simp: less_mult_imp_div_less)
  then show ?case by (simp add: Let_def)
next
  case (2 a)
  have "a div 4 < 64" "a mod 4 * 16 < 64" using 2 by (auto simp: less_mult_imp_div_less)
  then show ?case by (simp add: Let_def)
qed simp

lemma encode64_length: "length (encode64 xs) = 4 * ((length xs + 2) div 3)"
  by (induction xs rule: encode64.induct) (simp_all, presburger)

lemma decode_encode: "DecodeString (EncodeToString s) = s"
proof -
  have "list_all (\<lambda>n. n < 256) (map of_char s :: nat list)" by (simp add: list_all_iff)
  then show ?thesis by (simp add: DecodeString_def EncodeToString_def decode_encode64 comp_def)
qed

end
