(* ===== verification/Postclone.thy ===== *)
theory Postclone
  imports Create SAC Base64
begin

text \<open>
  What a cloned guest owes before it is ready (\<open>postclone.go\<close>): the script run by the guest agent, the
  static addresses set over the Windows serial console, and the wait for a lease.

  The agent loop runs until the sleep between two attempts is cut short by the budget of its context;
  \<open>postCloneLoop\<close> has the number of attempts as a bound and answers nothing when it is reached. The
  \<open>select\<close> between the agent's answer and the end of the context is the question \<open>ctxErr\<close>.
\<close>

unbundle bit_operations_syntax

section \<open>The script\<close>

definition nl :: string where "nl = [CHR 0x0A]"

text \<open>A backslash and an \<open>n\<close>, as the scripts pass them to \<open>printf\<close>.\<close>

definition escNL :: string where "escNL = [CHR 0x5C, CHR ''n'']"

definition buildWindowsPostCloneArgv :: "string list" where
  "buildWindowsPostCloneArgv = [''powershell'', ''-nop'', ''-c'',
     ''$x=Get-PnpDevice -Class Net -PresentOnly;'' @ ''$x|Disable-PnpDevice -Confirm:$false;''
       @ ''$x|Enable-PnpDevice -Confirm:$false'']"

definition buildNetworkdFileCmd :: "network_config \<Rightarrow> string" where
  "buildNetworkdFileCmd nc =
     (let macSan = filter (\<lambda>c. c \<noteq> CHR '':'') (ncMAC nc);
          conf = (case ncNetwork nc of
            Some ni \<Rightarrow>
              if niIP ni \<noteq> []
              then ''[Match]'' @ escNL @ ''MACAddress='' @ ncMAC nc @ escNL @ escNL @ ''[Network]'' @ escNL
                @ ''Address='' @ niIP ni @ ''/'' @ itoa (niPrefix ni) @ escNL
                @ ''Gateway='' @ niGateway ni @ escNL
              else ''[Match]'' @ escNL @ ''MACAddress='' @ ncMAC nc @ escNL @ escNL @ ''[Network]'' @ escNL
                @ ''DHCP=ipv4'' @ escNL @ escNL @ ''[DHCPv4]'' @ escNL @ ''ClientIdentifier=mac'' @ escNL
          | None \<Rightarrow> ''[Match]'' @ escNL @ ''MACAddress='' @ ncMAC nc @ escNL @ escNL @ ''[Network]'' @ escNL
                @ ''DHCP=ipv4'' @ escNL @ escNL @ ''[DHCPv4]'' @ escNL @ ''ClientIdentifier=mac'' @ escNL)
      in ''printf '' @ [CHR 0x27] @ conf @ [CHR 0x27] @ '' > /etc/systemd/network/10-'' @ macSan @ ''.network'')"

text \<open>The Firecracker commands name the interface by the index of its NIC.\<close>

definition setMACCmd :: "nat \<Rightarrow> network_config \<Rightarrow> string" where
  "setMACCmd i nc =
     (let dev = ''ip link set dev eth'' @ itoa (int i) in
      dev @ '' down && '' @ dev @ '' address '' @ ncMAC nc @ '' && '' @ dev @ '' up'')"

text \<open>\<open>overlay\<close> is the answer of \<open>HasCloudimgOverlay\<close>.\<close>

definition buildPostCloneCommands ::
  "string \<Rightarrow> string \<Rightarrow> bool \<Rightarrow> string \<Rightarrow> network_config list \<Rightarrow> string" where
  "buildPostCloneCommands vmName backend overlay sourceImage ncs =
     joinStr ([''echo 3 > /proc/sys/vm/drop_caches'', ''echo '' @ vmName @ '' > /etc/hostname'']
       @ (if backend = BackendFirecracker then map (\<lambda>(i, nc). setMACCmd i nc) (enumerate 0 ncs) else [])
       @ [''rm -f /etc/systemd/network/10-*.network'']
       @ (if isHTTPURL sourceImage \<or> overlay
          then [''cloud-init clean --logs --seed --configs network && cloud-init init --local && cloud-init init'',
                ''cloud-init modules --mode=config && systemctl restart systemd-networkd'']
          else map buildNetworkdFileCmd ncs @ [''systemctl restart systemd-networkd''])) nl"

definition postCloneKind :: "env \<Rightarrow> vm_spec \<Rightarrow> string" where
  "postCloneKind e spec =
     (if vsOS spec = OSWindows (konst e) then ''windows''
      else if vsBackend spec = BackendFirecracker then ''linux_fc'' else ''linux_static'')"

record post_clone_plan =
  pcArgv :: "string list"
  pcHint :: string

text \<open>The overlay is looked up only when the source image does not settle the question.\<close>

definition planPostClone :: "env \<Rightarrow> vm_spec \<Rightarrow> vm \<Rightarrow> string \<Rightarrow> post_clone_plan option act" where
  "planPostClone e spec v sourceImage =
     (if \<not> postCloneNeeded e spec v then State_Monad.return None
      else if vsOS spec = OSWindows (konst e)
      then (let argv = buildWindowsPostCloneArgv in
        State_Monad.return (Some \<lparr>pcArgv = argv,
          pcHint = argv ! 0 @ '' '' @ argv ! 1 @ '' '' @ argv ! 2 @ '' '' @ [CHR 0x27] @ argv ! 3 @ [CHR 0x27]\<rparr>))
      else do {
        overlay \<leftarrow> (if isHTTPURL sourceImage then State_Monad.return False
          else statExists e (runPath (cfgRootDir (cfg e)) ''cloudhypervisor'' (vID v) ''overlay.qcow2''));
        (let script = buildPostCloneCommands (vsVMName spec) (vsBackend spec) overlay sourceImage
             (vNetworkConfigs v)
         in State_Monad.return (Some \<lparr>pcArgv = [''sh'', ''-c'', script], pcHint = script\<rparr>))
      })"

section \<open>Annotations\<close>

definition annotationPostCloneHint :: string where
  "annotationPostCloneHint = ''vm.cocoonstack.io/post-clone-hint''"

definition annotationPostCloneErrors :: string where
  "annotationPostCloneErrors = ''vm.cocoonstack.io/post-clone-errors''"

text \<open>The critical section of \<open>markPostCloneState\<close>: a failed state is never overwritten by another.\<close>

definition markPostCloneLocked :: "env \<Rightarrow> podptr \<Rightarrow> string \<Rightarrow> prov \<Rightarrow> bool \<times> prov" where
  "markPostCloneLocked e p state s =
     (if supersededLocked (podKey e p) (ptUID p) s then (False, s)
      else
        (let target = (case pods s (podKey e p) of Some q \<Rightarrow> q | None \<Rightarrow> p) in
         if state \<noteq> ''failed'' \<and> annotOf (heapAnnots s (ptAddr target)) annotationPostCloneState = ''failed''
         then (False, s)
         else (True, setAnnots target (\<lambda>m. m(annotationPostCloneState \<mapsto> state)) s)))"

definition markPostCloneState :: "env \<Rightarrow> podptr \<Rightarrow> string \<Rightarrow> unit act" where
  "markPostCloneState e p state = do {
     marked \<leftarrow> locked e (markPostCloneLocked e p state);
     (if \<not> marked then State_Monad.return ()
      else do {
        _ \<leftarrow> patchIncarnationAnnotations e (ptNamespace p) (ptName p) (ptUID p)
          [annotationPostCloneState \<mapsto> Some state];
        State_Monad.return ()
      })
   }"

definition emitPostCloneHint :: "env \<Rightarrow> podptr \<Rightarrow> post_clone_plan \<Rightarrow> err \<Rightarrow> unit act" where
  "emitPostCloneHint e p plan joined = do {
     _ \<leftarrow> setPodAnnotation e p annotationPostCloneHint (EncodeToString (pcHint plan));
     setPodAnnotation e p annotationPostCloneErrors (Lifecycle.truncate (errMsg joined) lifecycleMessageMaxBytes)
   }"

section \<open>Static addresses on Windows\<close>

definition prefixToSubnet :: "int \<Rightarrow> string" where
  "prefixToSubnet prefix =
     (if prefix \<le> 0 \<or> 32 < prefix then ''255.255.255.0''
      else
        (let mask = push_bit (nat (32 - prefix)) (0xFFFFFFFF :: 32 word)
         in itoa (uint (drop_bit 24 mask)) @ ''.'' @ itoa (uint (drop_bit 16 mask AND 0xFF)) @ ''.''
              @ itoa (uint (drop_bit 8 mask AND 0xFF)) @ ''.'' @ itoa (uint (mask AND 0xFF))))"

definition sacEnumRetries :: nat where "sacEnumRetries = 60"
definition sacIPSetRetries :: nat where "sacIPSetRetries = 10"
definition sacRetryInterval :: int where "sacRetryInterval = 2 * second"

definition sacStaticIPNeeded :: "env \<Rightarrow> vm \<Rightarrow> bool" where
  "sacStaticIPNeeded e v \<longleftrightarrow> cfgGuestSAC (cfg e) \<and> list_ex isStaticNIC (vNetworkConfigs v)"

text \<open>\<open>nums\<close> is what the last successful query listed.\<close>

fun sacEnumLoop :: "env \<Rightarrow> nat \<Rightarrow> nat \<Rightarrow> int list \<Rightarrow> (err + int list) act" where
  "sacEnumLoop e 0 want nums = State_Monad.return (Inr nums)"
| "sacEnumLoop e (Suc n) want nums = do {
     r \<leftarrow> sacRun e [''i''];
     (let found = (if fst r = None then ParseNetEntries (snd r) else nums) in
      if fst r = None \<and> want \<le> length found then State_Monad.return (Inr found)
      else if n = 0
      then (let x = newErr (''sac enum exhausted: found '' @ itoa (int (length found)) @ '' need ''
                 @ itoa (int want)) in do {
        _ \<leftarrow> emitEvent True ''PostCloneSACEnumFailed'' (errMsg x);
        State_Monad.return (Inl x)
      })
      else do {
        z \<leftarrow> sleepCtx e sacRetryInterval;
        (case z of
           Some x \<Rightarrow> State_Monad.return (Inl x)
         | None \<Rightarrow> sacEnumLoop e n want found)
      })
   }"

definition sacEnumerateNICs :: "env \<Rightarrow> nat \<Rightarrow> (err + int list) act" where
  "sacEnumerateNICs e want = sacEnumLoop e sacEnumRetries want []"

fun sacSetLoop :: "env \<Rightarrow> nat \<Rightarrow> int \<Rightarrow> network_info \<Rightarrow> err option act" where
  "sacSetLoop e 0 num ni = State_Monad.return None"
| "sacSetLoop e (Suc n) num ni = do {
     r \<leftarrow> sacRun e [''i'', itoa num, niIP ni, prefixToSubnet (niPrefix ni), niGateway ni];
     (case fst r of
        Some x \<Rightarrow> do {
          _ \<leftarrow> emitEvent True ''PostCloneSACSetFailed'' (''net '' @ itoa num @ '': '' @ errMsg x);
          State_Monad.return (Some (wrapErr (''sac set ip net '' @ itoa num @ '': '') x []))
        }
      | None \<Rightarrow> do {
          q \<leftarrow> sacRun e [''i''];
          (if fst q = None \<and> NetHasIP (snd q) num (niIP ni) then State_Monad.return None
           else if n = 0
           then (let x = newErr (''sac verify exhausted: net '' @ itoa num @ '' ip '' @ niIP ni
                      @ '' did not take effect'') in do {
             _ \<leftarrow> emitEvent True ''PostCloneSACVerifyFailed'' (errMsg x);
             State_Monad.return (Some x)
           })
           else do {
             z \<leftarrow> sleepCtx e sacRetryInterval;
             (case z of
                Some x \<Rightarrow> State_Monad.return (Some x)
              | None \<Rightarrow> sacSetLoop e n num ni)
           })
        })
   }"

text \<open>The loop over the NICs: NIC \<open>i\<close> is set through the \<open>i\<close>-th listed number. The listing is at least
  as long as the NICs, so pairing them loses none.\<close>

fun sacSetNICs :: "env \<Rightarrow> (int \<times> network_config) list \<Rightarrow> err option act" where
  "sacSetNICs e [] = State_Monad.return None"
| "sacSetNICs e ((num, nc) # rest) =
     (case ncNetwork nc of
        None \<Rightarrow> sacSetNICs e rest
      | Some ni \<Rightarrow>
          if niIP ni = [] then sacSetNICs e rest
          else do {
            r \<leftarrow> sacSetLoop e sacIPSetRetries num ni;
            (case r of
               Some x \<Rightarrow> State_Monad.return (Some x)
             | None \<Rightarrow> sacSetNICs e rest)
          })"

definition applyWindowsStaticIP :: "env \<Rightarrow> vm \<Rightarrow> err option act" where
  "applyWindowsStaticIP e v =
     (if \<not> sacStaticIPNeeded e v then State_Monad.return None
      else do {
        d \<leftarrow> sacDial e (ConsoleSocketPath (cfgRootDir (cfg e)) (vID v));
        (case d of
           Some x \<Rightarrow> do {
             _ \<leftarrow> emitEvent True ''PostCloneSACDialFailed'' (errMsg x);
             State_Monad.return (Some (wrapErr ''sac dial: '' x []))
           }
         | None \<Rightarrow> do {
             nums \<leftarrow> sacEnumerateNICs e (length (vNetworkConfigs v));
             (case nums of
                Inl x \<Rightarrow> State_Monad.return (Some x)
              | Inr nums \<Rightarrow> sacSetNICs e (zip nums (vNetworkConfigs v)))
           })
      })"

definition runWindowsSAC :: "env \<Rightarrow> podptr \<Rightarrow> vm \<Rightarrow> string \<Rightarrow> bool act" where
  "runWindowsSAC e p v oper = do {
     r \<leftarrow> applyWindowsStaticIP e v;
     (case r of
        None \<Rightarrow> State_Monad.return True
      | Some x \<Rightarrow> do {
          _ \<leftarrow> markPostCloneState e p ''failed'';
          _ \<leftarrow> emitEvent True ''WindowsStaticIPFailed''
            (Lifecycle.truncate (oper @ '': '' @ errMsg x) eventMessageMaxBytes);
          _ \<leftarrow> markLifecycleState e p LifecycleStateFailed
            (Lifecycle.truncate (errMsg x) lifecycleMessageMaxBytes);
          State_Monad.return False
        })
   }"

section \<open>Post-clone setup\<close>

definition postCloneRetryInterval :: int where "postCloneRetryInterval = 3 * second"

text \<open>\<open>errors.Join\<close>.\<close>

definition joinErrs :: "err list \<Rightarrow> err" where
  "joinErrs xs = Err (concat (map errKinds xs)) (joinStr (map errMsg xs) nl)"

text \<open>One attempt; its failure, if any. The budget may end before the agent answers.\<close>

definition attemptPostClone :: "env \<Rightarrow> string \<Rightarrow> string list \<Rightarrow> int \<Rightarrow> err option act" where
  "attemptPostClone e vmID argv attempt = do {
     r \<leftarrow> rtExec e vmID argv;
     expired \<leftarrow> ctxErr e;
     (case expired of
        Some x \<Rightarrow> State_Monad.return (Some x)
      | None \<Rightarrow>
          (case fst r of
             None \<Rightarrow> State_Monad.return None
           | Some x \<Rightarrow> do {
               _ \<leftarrow> emitEvent True ''PostCloneExecAttemptFailed''
                 (''attempt '' @ itoa attempt @ '': '' @ errMsg x);
               State_Monad.return (Some x)
             }))
   }"

text \<open>The number of the successful attempt, or the errors of all when the budget is spent.\<close>

fun postCloneLoop :: "env \<Rightarrow> nat \<Rightarrow> string \<Rightarrow> string list \<Rightarrow> int \<Rightarrow> err list \<Rightarrow> (int + err list) option act" where
  "postCloneLoop e 0 vmID argv attempt errs = State_Monad.return None"
| "postCloneLoop e (Suc n) vmID argv attempt errs = do {
     failure \<leftarrow> attemptPostClone e vmID argv attempt;
     (case failure of
        None \<Rightarrow> State_Monad.return (Some (Inl attempt))
      | Some x \<Rightarrow>
          (let errs' = errs @ [wrapErr (''attempt '' @ itoa attempt @ '': '') x []] in do {
             z \<leftarrow> sleepCtx e postCloneRetryInterval;
             (if z \<noteq> None then State_Monad.return (Some (Inr errs'))
              else postCloneLoop e n vmID argv (attempt + 1) errs')
           }))
   }"

definition postCloneDone :: "env \<Rightarrow> (int \<Rightarrow> string) \<Rightarrow> nat \<Rightarrow> podptr \<Rightarrow> vm_spec \<Rightarrow> vmptr \<Rightarrow> string \<Rightarrow> ip_wait \<Rightarrow>
  int \<Rightarrow> unit act" where
  "postCloneDone e dur polls p spec v oper kind attempt = do {
     _ \<leftarrow> markPostCloneState e p ''done'';
     ok \<leftarrow> (if vsOS spec = OSWindows (konst e) then runWindowsSAC e p (vpVM v) oper
           else State_Monad.return True);
     (if \<not> ok then State_Monad.return ()
      else do {
        failed \<leftarrow> lifecycleAlreadyFailed e p;
        (if failed then State_Monad.return ()
         else do {
           _ \<leftarrow> emitEvent False ''PostCloneSucceeded''
             (''kind='' @ postCloneKind e spec @ '' attempts='' @ itoa attempt);
           markReadyAfterIP e dur polls p spec v kind
         })
      })
   }"

definition postCloneExhausted :: "env \<Rightarrow> podptr \<Rightarrow> post_clone_plan \<Rightarrow> string \<Rightarrow> err \<Rightarrow> unit act" where
  "postCloneExhausted e p plan oper joined = do {
     _ \<leftarrow> markPostCloneState e p ''failed'';
     _ \<leftarrow> emitPostCloneHint e p plan joined;
     _ \<leftarrow> emitEvent True ''PostCloneExecExhausted''
       (Lifecycle.truncate (oper @ '': '' @ errMsg joined) eventMessageMaxBytes);
     markLifecycleState e p LifecycleStateFailed (Lifecycle.truncate (errMsg joined) lifecycleMessageMaxBytes)
   }"

text \<open>What the attempts led to. A context cancelled by the shutdown leaves the pod to the next start. The
  result says whether the bound on the attempts sufficed.\<close>

definition settlePostClone :: "env \<Rightarrow> (int \<Rightarrow> string) \<Rightarrow> nat \<Rightarrow> podptr \<Rightarrow> vm_spec \<Rightarrow> vmptr \<Rightarrow> string \<Rightarrow> ip_wait \<Rightarrow>
  post_clone_plan \<Rightarrow> (int + err list) option \<Rightarrow> bool act" where
  "settlePostClone e dur polls p spec v oper kind plan r = (case r of
       None \<Rightarrow> State_Monad.return False
     | Some (Inl attempt) \<Rightarrow> do {
         _ \<leftarrow> postCloneDone e dur polls p spec v oper kind attempt;
         State_Monad.return True
       }
     | Some (Inr errs) \<Rightarrow> do {
         _ \<leftarrow> (if errIs (joinErrs errs) CtxCanceled then State_Monad.return ()
               else postCloneExhausted e p plan oper (joinErrs errs));
         State_Monad.return True
       })"

definition runPostCloneSetup :: "env \<Rightarrow> (int \<Rightarrow> string) \<Rightarrow> nat \<Rightarrow> nat \<Rightarrow> podptr \<Rightarrow> vm_spec \<Rightarrow> vmptr \<Rightarrow> string \<Rightarrow>
  string \<Rightarrow> ip_wait \<Rightarrow> bool act" where
  "runPostCloneSetup e dur polls tries p spec v sourceImage oper kind = do {
     plan \<leftarrow> planPostClone e spec (vpVM v) sourceImage;
     (case plan of
        None \<Rightarrow> do { _ \<leftarrow> markReadyAfterIP e dur polls p spec v kind; State_Monad.return True }
      | Some plan \<Rightarrow> do {
          _ \<leftarrow> markPostCloneState e p ''running'';
          r \<leftarrow> postCloneLoop e tries (vpID v) (pcArgv plan) 1 [];
          settlePostClone e dur polls p spec v oper kind plan r
        })
   }"

definition runReadyWait :: "env \<Rightarrow> (int \<Rightarrow> string) \<Rightarrow> nat \<Rightarrow> podptr \<Rightarrow> vm_spec \<Rightarrow> vmptr \<Rightarrow> ip_wait \<Rightarrow> string \<Rightarrow> unit act" where
  "runReadyWait e dur polls p spec v kind oper = do {
     ok \<leftarrow> (if vsOS spec = OSWindows (konst e) then runWindowsSAC e p (vpVM v) oper
           else State_Monad.return True);
     (if \<not> ok then State_Monad.return ()
      else do {
        failed \<leftarrow> lifecycleAlreadyFailed e p;
        (if failed then State_Monad.return () else markReadyAfterIP e dur polls p spec v kind)
      })
   }"

end
