(* ===== verification/Update.thy ===== *)
theory Update
  imports Postclone
begin

text \<open>
  Updates (\<open>update.go\<close>), their retries (\<open>retry.go\<close>) and the resumption of interrupted work
  (\<open>resume.go\<close>). \<open>dur\<close>, \<open>polls\<close> and \<open>tries\<close> are those of \<open>Postclone\<close>; \<open>rounds\<close> bounds the evidence
  lookups of \<open>classifyNICRecovery\<close>.
\<close>

section \<open>Updating a pod\<close>

definition trackedIncarnation :: "env \<Rightarrow> string \<Rightarrow> (vmptr option \<times> string \<times> bool) act" where
  "trackedIncarnation e key = reading e (\<lambda>s.
     case pods s key of
       None \<Rightarrow> (vmsByPod s key, [], False)
     | Some t \<Rightarrow> (vmsByPod s key, ptUID t, True))"

definition noopUpdate :: "env \<Rightarrow> podptr \<Rightarrow> err option act" where
  "noopUpdate e p = do { _ \<leftarrow> republishLifecycleOnGenerationBump e p; State_Monad.return None }"

definition errMacosHibernateUnsupported :: "string \<Rightarrow> err" where
  "errMacosHibernateUnsupported vmName = newErr (''macOS guest '' @ vmName @ '' does not support hibernate'')"

text \<open>The macOS branch: live snapshots and hibernation are answered with a refusal.\<close>

definition updateMacos :: "env \<Rightarrow> podptr \<Rightarrow> vm_spec \<Rightarrow> bool \<Rightarrow> err option act" where
  "updateMacos e p spec wantHibernate =
     (if wantHibernate
      then do {
        _ \<leftarrow> failHibernate e p ''HibernateUnsupported'' (errMacosHibernateUnsupported (vsVMName spec));
        State_Monad.return None
      }
      else do {
        lifted \<leftarrow> liftHibernateFailure e p;
        (case lifted of
           Inl x \<Rightarrow> State_Monad.return (Some x)
         | Inr True \<Rightarrow> do { _ \<leftarrow> publishMacosReadiness e (ptNamespace p) (ptName p); State_Monad.return None }
         | Inr False \<Rightarrow> noopUpdate e p)
      })"

text \<open>The branch for the other managed guests: hibernate, wake, or lift a cleared hibernate failure.\<close>

definition updateManaged :: "env \<Rightarrow> podptr \<Rightarrow> vm_spec \<Rightarrow> vmptr option \<Rightarrow> bool \<Rightarrow> err option act" where
  "updateManaged e p spec v wantHibernate =
     (case v of
        Some u \<Rightarrow>
          if wantHibernate
          then do {
            r \<leftarrow> hibernate e p spec u;
            (case r of
               Some x \<Rightarrow> State_Monad.return (Some x)
             | None \<Rightarrow> do { _ \<leftarrow> refreshAndNotify e p; State_Monad.return None })
          }
          else do {
            lifted \<leftarrow> liftHibernateFailure e p;
            (case lifted of
               Inl x \<Rightarrow> State_Monad.return (Some x)
             | Inr True \<Rightarrow> do { _ \<leftarrow> markReadyPublished e p; State_Monad.return None }
             | Inr False \<Rightarrow> noopUpdate e p)
          }
      | None \<Rightarrow>
          if wantHibernate then noopUpdate e p
          else do {
            r \<leftarrow> wake e p spec;
            (case r of
               Inl x \<Rightarrow> State_Monad.return (Some x)
             | Inr False \<Rightarrow> State_Monad.return None
             | Inr True \<Rightarrow> do { _ \<leftarrow> refreshAndNotify e p; State_Monad.return None })
          })"

definition applyUpdate ::
  "env \<Rightarrow> podptr \<Rightarrow> vm_spec \<Rightarrow> vmptr option \<Rightarrow> bool \<Rightarrow> string \<Rightarrow> err option act" where
  "applyUpdate e p spec v wantHibernate snapshotRef =
     (if isMacosSpec e spec
      then do {
        r \<leftarrow> (if snapshotRef \<noteq> []
              then answerSnapshot e p snapshotRef
                (Some (newErr (''macOS guest '' @ vsVMName spec @ '' does not support live snapshots'')))
              else State_Monad.return None);
        (case r of
           Some x \<Rightarrow> State_Monad.return (Some x)
         | None \<Rightarrow> updateMacos e p spec wantHibernate)
      }
      else if \<not> vsManaged spec then noopUpdate e p
      else do {
        r \<leftarrow> (case v of
            Some u \<Rightarrow>
              if snapshotRef \<noteq> [] \<and> \<not> wantHibernate \<and> cfgPusher (cfg e) then snapshotOp e p spec u snapshotRef
              else State_Monad.return None
          | None \<Rightarrow> State_Monad.return None);
        (case r of
           Some x \<Rightarrow> State_Monad.return (Some x)
         | None \<Rightarrow> updateManaged e p spec v wantHibernate)
      })"

text \<open>The end of \<open>updatePod\<close>: the pod is this incarnation's, or untracked.\<close>

definition updateTracked ::
  "env \<Rightarrow> podptr \<Rightarrow> vm_spec \<Rightarrow> vmptr option \<Rightarrow> bool \<Rightarrow> string \<Rightarrow> err option act" where
  "updateTracked e p spec v wantHibernate snapshotRef = do {
     ok \<leftarrow> locked e (trackPodUnlessDeletingLocked e p None);
     (if \<not> ok then State_Monad.return (Some (errDeleteInFlight p))
      else do {
        prev \<leftarrow> locked e (takeOpRetryLocked (podKey e p));
        r \<leftarrow> applyUpdate e p spec v wantHibernate snapshotRef;
        (case r of
           None \<Rightarrow> State_Monad.return None
         | Some _ \<Rightarrow> do { _ \<leftarrow> retryOpLater e p prev; State_Monad.return None })
      })
   }"

text \<open>What the lookup decides: recreate, detach the old incarnation and recreate, or update.\<close>

definition updateLookedUp ::
  "env \<Rightarrow> podptr \<Rightarrow> vm_spec \<Rightarrow> bool \<Rightarrow> string \<Rightarrow> vmptr option \<times> string \<times> bool \<Rightarrow> err option act" where
  "updateLookedUp e p spec wantHibernate snapshotRef found =
     (case found of (v, trackedUID, tracked) \<Rightarrow>
        if \<not> tracked \<and> v = None \<and> \<not> wantHibernate
        then do {
          src \<leftarrow> hasWakeSource e spec;
          (case src of
             Inl x \<Rightarrow> State_Monad.return (Some x)
           | Inr False \<Rightarrow> CreatePod e p
           | Inr True \<Rightarrow> updateTracked e p spec v wantHibernate snapshotRef)
        }
        else if tracked \<and> trackedUID \<noteq> ptUID p
        then do {
          ok \<leftarrow> detachIncarnation e (podKey e p) trackedUID v;
          (if \<not> ok then State_Monad.return (Some (errDeleteInFlight p)) else CreatePod e p)
        }
        else updateTracked e p spec v wantHibernate snapshotRef)"

definition updatePod :: "env \<Rightarrow> podptr \<Rightarrow> err option act" where
  "updatePod e p = do {
     bad \<leftarrow> peek (\<lambda>s. assertPodSnapshotCompatibility e (podAt s p));
     (case bad of
        Some x \<Rightarrow> State_Monad.return (Some x)
      | None \<Rightarrow> do {
          busy \<leftarrow> backoffIfResuming e (ptNamespace p) (ptName p);
          (case busy of
             Some x \<Rightarrow> State_Monad.return (Some x)
           | None \<Rightarrow> do {
               spec \<leftarrow> peek (\<lambda>s. mParseVMSpec (lib e) (podAt s p));
               wantHibernate \<leftarrow> peek (\<lambda>s. mReadHibernateState (lib e) (podAt s p));
               snapshotRef \<leftarrow> peek (\<lambda>s. pendingSnapshotRef e (podAt s p));
               found \<leftarrow> trackedIncarnation e (podKey e p);
               updateLookedUp e p spec wantHibernate snapshotRef found
             })
        })
   }"

definition UpdatePod :: "env \<Rightarrow> podptr \<Rightarrow> err option act" where
  "UpdatePod e p = do { _ \<leftarrow> podLock e (podKey e p); updatePod e p }"

text \<open>\<open>retryOp\<close>: \<open>free\<close> is the outcome of \<open>TryLock\<close> on the pod's mutex.\<close>

definition retryOp :: "env \<Rightarrow> bool \<Rightarrow> string \<Rightarrow> unit act" where
  "retryOp e free key = do {
     _ \<leftarrow> podLock e key;
     (if \<not> free then State_Monad.return ()
      else do {
        r \<leftarrow> locked e (\<lambda>s. case pods s key of
            None \<Rightarrow> ((opRetries s key, None), s)
          | Some p \<Rightarrow> (let (q, t) = deepCopy p s in ((opRetries s key, Some q), t)));
        (case r of
           (Some owed, Some q) \<Rightarrow> do {
             now \<leftarrow> timeNow e;
             (if now < orDue owed then State_Monad.return ()
              else do { _ \<leftarrow> updatePod e q; State_Monad.return () })
           }
         | _ \<Rightarrow> State_Monad.return ())
      })
   }"

section \<open>Resuming\<close>

text \<open>\<open>Some (evidence, ok)\<close> when the registry answered or the wait was cut short.\<close>

fun classifyLoop :: "env \<Rightarrow> nat \<Rightarrow> podptr \<Rightarrow> string \<Rightarrow> int \<Rightarrow> int \<Rightarrow> (bool \<times> bool) option act" where
  "classifyLoop e 0 p vmName delay maxDelay = State_Monad.return None"
| "classifyLoop e (Suc n) p vmName delay maxDelay = do {
     r \<leftarrow> hibernateEvidence e vmName;
     (case r of
        Inr (evidence, _) \<Rightarrow> State_Monad.return (Some (evidence, True))
      | Inl x \<Rightarrow> do {
          stopped \<leftarrow> ctxErr e;
          cut \<leftarrow> (if stopped = None then do { z \<leftarrow> sleepCtx e delay; State_Monad.return (z \<noteq> None) }
                 else State_Monad.return True);
          (if \<not> cut then classifyLoop e n p vmName (min (delay * 2) maxDelay) maxDelay
           else do {
             stopped \<leftarrow> ctxErr e;
             _ \<leftarrow> (if stopped = None then failOp e p ''ResumeClassifyFailed'' ''reconcile'' x
                   else State_Monad.return ());
             State_Monad.return (Some (False, False))
           })
        })
   }"

definition classifyNICRecovery :: "env \<Rightarrow> nat \<Rightarrow> podptr \<Rightarrow> string \<Rightarrow> (bool \<times> bool) option act" where
  "classifyNICRecovery e rounds p vmName =
     (case recheckBackoff e of (delay, maxDelay, _) \<Rightarrow> classifyLoop e rounds p vmName delay maxDelay)"

definition resumeHibernate :: "env \<Rightarrow> podptr \<Rightarrow> vm_spec \<Rightarrow> vmptr \<Rightarrow> unit act" where
  "resumeHibernate e p spec v = do {
     r \<leftarrow> rtStart e (vpID v);
     (case r of
        Some x \<Rightarrow> do {
          _ \<leftarrow> failHibernate e p ''ResumeStartFailed'' x;
          retryOpLater e p 0
        }
      | None \<Rightarrow> do {
          h \<leftarrow> hibernate e p spec v;
          (case h of Some _ \<Rightarrow> retryOpLater e p 0 | None \<Rightarrow> refreshAndNotify e p)
        })
   }"

text \<open>The body of a resumed operation; \<open>kind\<close> was fixed when it was dispatched.\<close>

definition resumeBody :: "env \<Rightarrow> (int \<Rightarrow> string) \<Rightarrow> nat \<Rightarrow> nat \<Rightarrow> nat \<Rightarrow> podptr \<Rightarrow> vm_spec \<Rightarrow> vmptr \<Rightarrow> resume_op \<Rightarrow>
  ip_wait \<Rightarrow> unit act" where
  "resumeBody e dur polls tries rounds p spec v oper kind =
     (case oper of
        resumeOpNone \<Rightarrow> State_Monad.return ()
      | resumeOpHibernate \<Rightarrow> resumeHibernate e p spec v
      | resumeOpSnapshot \<Rightarrow>
          if \<not> cfgPusher (cfg e) then State_Monad.return ()
          else do {
            ref \<leftarrow> peek (\<lambda>s. pendingSnapshotRef e (podAt s p));
            r \<leftarrow> snapshotOp e p spec v ref;
            (if r = None then State_Monad.return () else retryOpLater e p 0)
          }
      | resumeOpPostClone \<Rightarrow> do {
          _ \<leftarrow> runPostCloneSetup e dur polls tries p spec v [] ''reconcile'' ipWaitClone;
          State_Monad.return ()
        }
      | resumeOpReadyWait \<Rightarrow>
          if \<not> vsManaged spec then markReadyPublished e p
          else runReadyWait e dur polls p spec v kind ''reconcile''
      | resumeOpClassifyNIC \<Rightarrow> do {
          r \<leftarrow> classifyNICRecovery e rounds p (vsVMName spec);
          (case r of
             Some (evidence, True) \<Rightarrow>
               if evidence then runReadyWait e dur polls p spec v ipWaitWake ''reconcile''
               else do {
                 _ \<leftarrow> runPostCloneSetup e dur polls tries p spec v [] ''reconcile'' ipWaitClone;
                 State_Monad.return ()
               }
           | _ \<Rightarrow> State_Monad.return ())
        })"

definition resumeJob :: "env \<Rightarrow> (int \<Rightarrow> string) \<Rightarrow> nat \<Rightarrow> nat \<Rightarrow> nat \<Rightarrow> string \<Rightarrow> podptr \<Rightarrow> vm_spec \<Rightarrow> vmptr \<Rightarrow>
  resume_op \<Rightarrow> ip_wait \<Rightarrow> unit act" where
  "resumeJob e dur polls tries rounds key p spec v oper kind =
     deferring (resumeBody e dur polls tries rounds p spec v oper kind) (writing e (releaseResumeLocked key))"

text \<open>\<open>dispatchOwedWork\<close>: \<open>keys\<close> are the keys of the pod table in the order the range over it took.\<close>

definition owedWork :: "env \<Rightarrow> string list \<Rightarrow> prov \<Rightarrow> (string \<times> podptr \<times> vmptr \<times> resume_op) list" where
  "owedWork e keys s = List.map_filter (\<lambda>key. case (pods s key, vmsByPod s key) of
       (Some p, Some v) \<Rightarrow>
         (let oper = owedOpFor e (podAt s p) (Some v) in
          if oper = resumeOpNone then None else Some (key, p, v, oper))
     | _ \<Rightarrow> None) keys"

fun resumeAll :: "env \<Rightarrow> (string \<times> podptr \<times> vmptr \<times> resume_op) list \<Rightarrow> unit act" where
  "resumeAll e [] = State_Monad.return ()"
| "resumeAll e ((key, p, v, oper) # rest) = do { _ \<leftarrow> resumeOwedWork e key p v oper; resumeAll e rest }"

definition dispatchOwedWork :: "env \<Rightarrow> string list \<Rightarrow> unit act" where
  "dispatchOwedWork e keys = do { work \<leftarrow> reading e (owedWork e keys); resumeAll e work }"

end
