(* ===== verification/Reconcile.thy ===== *)
theory Reconcile
  imports Update Status
begin

text \<open>
  Startup reconciliation (\<open>reconcile.go\<close>). A fan-out is the sequence of its workers: where they share state
  they do so under \<open>p.mu\<close>, and every critical section admits interference. The two lists of \<open>StartupReconcile\<close>
  are fetched concurrently; here the pods come first. \<open>rounds\<close> bounds the polls of \<open>watchBusyCreate\<close> and \<open>keys\<close> is
  the order of the range over the pod table.
\<close>

section \<open>Orphans\<close>

definition OrphanDestroy :: string where "OrphanDestroy = ''destroy''"
definition OrphanKeep :: string where "OrphanKeep = ''keep''"

definition indexOrphanByName :: "env \<Rightarrow> vmptr option \<Rightarrow> unit act" where
  "indexOrphanByName e v = writing e (indexOrphanByNameLocked v)"

definition handleOrphan :: "env \<Rightarrow> vmptr \<Rightarrow> unit act" where
  "handleOrphan e v =
     (if cfgOrphanPolicy (cfg e) = OrphanDestroy then do { _ \<leftarrow> removeVM e (vpVM v); State_Monad.return () }
      else indexOrphanByName e (Some v))"

section \<open>Creating placeholders\<close>

text \<open>\<open>(Some v, True)\<close> adoptable, \<open>(None, True)\<close> settled, \<open>(None, False)\<close> still transitional.\<close>

definition classifySettledCreate :: "env \<Rightarrow> string \<Rightarrow> (vmptr option \<times> bool) act" where
  "classifySettledCreate e vmID = do {
     r \<leftarrow> rtInspect e vmID;
     (case r of
        Inl x \<Rightarrow> State_Monad.return (None, errIs x ErrVMNotFound)
      | Inr v \<Rightarrow> do {
          fresh \<leftarrow> newVM v;
          (if vState v = StateRunning then State_Monad.return (Some fresh, True)
           else if vState v = StateCreating \<or> vState v = StateCreated then State_Monad.return (None, False)
           else do { _ \<leftarrow> handleOrphan e fresh; State_Monad.return (None, True) })
        })
   }"

definition listNodePods :: "env \<Rightarrow> (err + pod list) act" where
  "listNodePods e = do {
     r \<leftarrow> kubeListPods e;
     State_Monad.return (case r of
         Inl x \<Rightarrow> Inl (wrapErr (''list pods on '' @ cfgNodeName (cfg e) @ '': '') x [])
       | Inr ps \<Rightarrow> Inr ps)
   }"

definition vmNameWanted :: "env \<Rightarrow> string \<Rightarrow> (err + bool) act" where
  "vmNameWanted e name = do {
     r \<leftarrow> listNodePods e;
     State_Monad.return (case r of
         Inl x \<Rightarrow> Inl x
       | Inr ps \<Rightarrow> Inr (list_ex (\<lambda>q. \<not> pmDeleted (pMeta q) \<and> vsVMName (mParseVMSpec (lib e) q) = name) ps))
   }"

definition settleCommittedCreate :: "env \<Rightarrow> vmptr \<Rightarrow> unit act" where
  "settleCommittedCreate e v = do {
     wanted \<leftarrow> vmNameWanted e (vpName v);
     (if wanted = Inr False then handleOrphan e v else indexOrphanByName e (Some v))
   }"

definition settleBusyCreateLocked :: "string \<Rightarrow> nat \<Rightarrow> prov \<Rightarrow> prov" where
  "settleBusyCreateLocked name settled s =
     (if busyCreates s name = Some settled then s\<lparr>busyCreates := (busyCreates s)(name := None)\<rparr> else s)"

text \<open>The rounds of the watcher after its claim; \<open>None\<close> when the bound on the rounds cut it off.\<close>

fun watchLoop :: "env \<Rightarrow> nat \<Rightarrow> string \<Rightarrow> int \<Rightarrow> int \<Rightarrow> int \<Rightarrow> unit option act" where
  "watchLoop e 0 vmID delay maxDelay deadline = State_Monad.return None"
| "watchLoop e (Suc n) vmID delay maxDelay deadline = do {
     z \<leftarrow> sleepCtx e delay;
     (if z \<noteq> None then State_Monad.return (Some ())
      else do {
        outcome \<leftarrow> rtReconcileStaleCreate e vmID;
        (if outcome = Inr StaleCreateCollected \<or> outcome = Inr StaleCreateNotFound
         then State_Monad.return (Some ())
         else do {
           r \<leftarrow> classifySettledCreate e vmID;
           (case r of (fresh, settled) \<Rightarrow>
             if settled
             then do {
               _ \<leftarrow> (case fresh of None \<Rightarrow> State_Monad.return () | Some v \<Rightarrow> settleCommittedCreate e v);
               State_Monad.return (Some ())
             }
             else do {
               now \<leftarrow> timeNow e;
               (if deadline < now then State_Monad.return (Some ())
                else watchLoop e n vmID (min (delay * 2) maxDelay) maxDelay deadline)
             })
         })
      })
   }"

definition watchJob :: "env \<Rightarrow> nat \<Rightarrow> string \<Rightarrow> string \<Rightarrow> nat \<Rightarrow> unit option act" where
  "watchJob e rounds vmID name settled =
     deferring
       (case recheckBackoff e of (delay, maxDelay, budget) \<Rightarrow> do {
          now \<leftarrow> timeNow e;
          watchLoop e rounds vmID delay maxDelay (now + budget)
        })
       (writing e (settleBusyCreateLocked name settled))"

text \<open>\<open>make(chan struct{})\<close> is a fresh address.\<close>

definition watchBusyCreate :: "env \<Rightarrow> string \<Rightarrow> string \<Rightarrow> unit act" where
  "watchBusyCreate e vmID name = do {
     settled \<leftarrow> State (\<lambda>s. (nextAddr s, s\<lparr>nextAddr := Suc (nextAddr s)\<rparr>));
     _ \<leftarrow> writing e (\<lambda>s. s\<lparr>busyCreates := (busyCreates s)(name \<mapsto> settled)\<rparr>);
     goBackground e (JobWatchBusyCreate vmID name settled)
   }"

text \<open>One placeholder: the VM to keep in the listing, if any.\<close>

definition reconcileStaleCreate :: "env \<Rightarrow> vm \<Rightarrow> vm option act" where
  "reconcileStaleCreate e v = do {
     outcome \<leftarrow> rtReconcileStaleCreate e (vID v);
     (case outcome of
        Inr StaleCreateNotCreating \<Rightarrow> do {
          r \<leftarrow> classifySettledCreate e (vID v);
          (case r of (fresh, settled) \<Rightarrow>
            if \<not> settled then do { _ \<leftarrow> watchBusyCreate e (vID v) (vName v); State_Monad.return None }
            else State_Monad.return (map_option vpVM fresh))
        }
      | Inr StaleCreateCollected \<Rightarrow> State_Monad.return None
      | Inr StaleCreateNotFound \<Rightarrow> State_Monad.return None
      | Inr (StaleCreateOther _) \<Rightarrow> State_Monad.return None
      | _ \<Rightarrow> do { _ \<leftarrow> watchBusyCreate e (vID v) (vName v); State_Monad.return None })
   }"

fun reconcileStaleCreates :: "env \<Rightarrow> vm list \<Rightarrow> vm list act" where
  "reconcileStaleCreates e [] = State_Monad.return []"
| "reconcileStaleCreates e (v # vs) =
     (if vState v \<noteq> StateCreating
      then do { rest \<leftarrow> reconcileStaleCreates e vs; State_Monad.return (v # rest) }
      else do {
        keep \<leftarrow> reconcileStaleCreate e v;
        rest \<leftarrow> reconcileStaleCreates e vs;
        State_Monad.return (case keep of None \<Rightarrow> rest | Some u \<Rightarrow> u # rest)
      })"

section \<open>Pods\<close>

definition seedLifecycleIntentFromPod :: "env \<Rightarrow> podptr \<Rightarrow> unit act" where
  "seedLifecycleIntentFromPod e p = writing e (seedLifecycleLocked e p)"

definition trackPod :: "env \<Rightarrow> podptr \<Rightarrow> vmptr option \<Rightarrow> unit act" where
  "trackPod e p v = writing e (trackPodLocked e p v)"

definition reconcileStaleHibernate :: "env \<Rightarrow> podptr \<Rightarrow> unit act" where
  "reconcileStaleHibernate e p = do {
     _ \<leftarrow> clearRuntimeAnnotations e p;
     _ \<leftarrow> trackPod e p None;
     seedLifecycleIntentFromPod e p
   }"

definition reconcileNoVMID :: "env \<Rightarrow> podptr \<Rightarrow> unit act" where
  "reconcileNoVMID e p = do {
     hib \<leftarrow> peek (\<lambda>s. mReadHibernateState (lib e) (podAt s p));
     (if \<not> hib then State_Monad.return ()
      else do { _ \<leftarrow> trackPod e p None; seedLifecycleIntentFromPod e p })
   }"

text \<open>The index of the listing by name: a later VM of the same name wins.\<close>

definition vmIndexByName :: "vmptr list \<Rightarrow> string \<Rightarrow> vmptr option" where
  "vmIndexByName vs name = (if name = [] then None else List.find (\<lambda>v. vpName v = name) (rev vs))"

definition vmIndexByID :: "vmptr list \<Rightarrow> string \<Rightarrow> vmptr option" where
  "vmIndexByID vs i = List.find (\<lambda>v. vpID v = i) (rev vs)"

definition adoptByVMName :: "env \<Rightarrow> podptr \<Rightarrow> vmptr list \<Rightarrow> vmptr option act" where
  "adoptByVMName e p vs = do {
     spec \<leftarrow> peek (\<lambda>s. mParseVMSpec (lib e) (podAt s p));
     (case vmIndexByName vs (vsVMName spec) of
        None \<Rightarrow> State_Monad.return None
      | Some v \<Rightarrow> do {
          ok \<leftarrow> applyRuntime e p v;
          (if \<not> ok then State_Monad.return None
           else do { _ \<leftarrow> seedLifecycleIntentFromPod e p; State_Monad.return (Some v) })
        })
   }"

text \<open>What a pod of the listing gives the rest of the pass: the id of the VM it holds, and whether it is probed
  or left to the macOS fan-out.\<close>

datatype pod_outcome = PodMacos vm_spec | PodMatched string | PodSkipped

definition reconcilePod :: "env \<Rightarrow> vmptr list \<Rightarrow> podptr \<Rightarrow> pod_outcome act" where
  "reconcilePod e vs p = do {
     spec \<leftarrow> peek (\<lambda>s. mParseVMSpec (lib e) (podAt s p));
     (if isMacosSpec e spec then State_Monad.return (PodMacos spec)
      else do {
        rt \<leftarrow> peek (\<lambda>s. mParseVMRuntime (lib e) (podAt s p));
        (if \<not> vsManaged spec \<and> vrVMID rt \<noteq> []
         then do {
           v \<leftarrow> newVM (zeroVM\<lparr>vID := vrVMID rt, vName := vsVMName spec, vIP := vrIP rt, vState := StateRunning\<rparr>);
           _ \<leftarrow> trackPod e p (Some v);
           _ \<leftarrow> seedLifecycleIntentFromPod e p;
           State_Monad.return (PodMatched (vrVMID rt))
         }
         else if vrVMID rt = []
         then do {
           v \<leftarrow> adoptByVMName e p vs;
           (case v of
              Some v \<Rightarrow> State_Monad.return (PodMatched (vpID v))
            | None \<Rightarrow> do { _ \<leftarrow> reconcileNoVMID e p; State_Monad.return PodSkipped })
         }
         else (case vmIndexByID vs (vrVMID rt) of
             None \<Rightarrow> do {
               hib \<leftarrow> peek (\<lambda>s. mReadHibernateState (lib e) (podAt s p));
               _ \<leftarrow> (if hib then reconcileStaleHibernate e p else State_Monad.return ());
               State_Monad.return PodSkipped
             }
           | Some v \<Rightarrow> do {
               _ \<leftarrow> trackPod e p (Some v);
               _ \<leftarrow> seedLifecycleIntentFromPod e p;
               _ \<leftarrow> liftClearedHibernateFailure e p;
               State_Monad.return (PodMatched (vpID v))
             }))
      })
   }"

fun reconcilePods :: "env \<Rightarrow> vmptr list \<Rightarrow> podptr list \<Rightarrow> (podptr \<times> pod_outcome) list act" where
  "reconcilePods e vs [] = State_Monad.return []"
| "reconcilePods e vs (p # ps) = do {
     r \<leftarrow> reconcilePod e vs p;
     rest \<leftarrow> reconcilePods e vs ps;
     State_Monad.return ((p, r) # rest)
   }"

text \<open>The fan-out over the probes and the macOS guests, and the orphans.\<close>

fun startupProbes :: "env \<Rightarrow> (podptr \<times> pod_outcome) list \<Rightarrow> unit act" where
  "startupProbes e [] = State_Monad.return ()"
| "startupProbes e ((p, r) # rest) = do {
     _ \<leftarrow> (case r of
            PodMacos spec \<Rightarrow> reconcileMacosPod e p spec
          | PodMatched _ \<Rightarrow> startProbeIfEnabled e p
          | PodSkipped \<Rightarrow> State_Monad.return ());
     startupProbes e rest
   }"

definition matchedIDs :: "(podptr \<times> pod_outcome) list \<Rightarrow> string list" where
  "matchedIDs rs = List.map_filter (\<lambda>(_, r). case r of PodMatched i \<Rightarrow> Some i | _ \<Rightarrow> None) rs"

fun handleOrphans :: "env \<Rightarrow> string list \<Rightarrow> vmptr list \<Rightarrow> unit act" where
  "handleOrphans e matched [] = State_Monad.return ()"
| "handleOrphans e matched (v # vs) = do {
     _ \<leftarrow> (if vpID v \<in> set matched then State_Monad.return () else handleOrphan e v);
     handleOrphans e matched vs
   }"

fun newVMs :: "vm list \<Rightarrow> vmptr list act" where
  "newVMs [] = State_Monad.return []"
| "newVMs (v # vs) = do { p \<leftarrow> newVM v; ps \<leftarrow> newVMs vs; State_Monad.return (p # ps) }"

fun newPods :: "pod list \<Rightarrow> podptr list act" where
  "newPods [] = State_Monad.return []"
| "newPods (q # qs) = do { p \<leftarrow> newPod q; ps \<leftarrow> newPods qs; State_Monad.return (p # ps) }"

text \<open>The pass over a listing whose placeholders have been dealt with.\<close>

definition startupPass :: "env \<Rightarrow> string list \<Rightarrow> pod list \<Rightarrow> vm list \<Rightarrow> unit act" where
  "startupPass e keys qs vms = do {
     ps \<leftarrow> newPods qs;
     vs \<leftarrow> newVMs vms;
     rs \<leftarrow> reconcilePods e vs ps;
     _ \<leftarrow> startupProbes e rs;
     _ \<leftarrow> handleOrphans e (matchedIDs rs) vs;
     dispatchOwedWork e keys
   }"

definition StartupReconcile :: "env \<Rightarrow> string list \<Rightarrow> err option act" where
  "StartupReconcile e keys = do {
     qs \<leftarrow> listNodePods e;
     vms \<leftarrow> rtList e;
     (case (qs, vms) of
        (Inl x, _) \<Rightarrow> State_Monad.return (Some x)
      | (_, Inl x) \<Rightarrow> State_Monad.return (Some (wrapErr ''list local VMs: '' x []))
      | (Inr qs, Inr vms) \<Rightarrow>
          (case List.find (\<lambda>q. assertPodSnapshotCompatibility e q \<noteq> None) qs of
             Some q \<Rightarrow> State_Monad.return
               (map_option (\<lambda>x. wrapErr ''startup compatibility check: '' x []) (assertPodSnapshotCompatibility e q))
           | None \<Rightarrow> do {
               vms \<leftarrow> reconcileStaleCreates e vms;
               _ \<leftarrow> startupPass e keys qs vms;
               State_Monad.return None
             }))
   }"

end
