(* ===== verification/Hibernate_Props.thy ===== *)
theory Hibernate_Props
  imports Hibernate Sources_Props
begin

text \<open>
  Hibernate never loses the guest: the VM is destroyed only once its snapshot is saved, and pushed when
  there is a registry to push to; a hibernate that failed keeps the VM, its leases and its pod, and a
  hibernate that succeeded leaves nothing behind but the snapshot.
\<close>

section \<open>Calls of a hibernate\<close>

text \<open>Destroying calls, and the calls that entitle to them.\<close>

definition destroys :: "call \<Rightarrow> bool" where
  "destroys c \<longleftrightarrow> isRemove c \<or> isRelease c"

definition isSaveOf :: "vmptr \<Rightarrow> call \<Rightarrow> bool" where
  "isSaveOf v c \<longleftrightarrow> c = RSnapshotSave (vpName v) (vpID v) None"

definition isPushOf :: "env \<Rightarrow> vmptr \<Rightarrow> vm_spec \<Rightarrow> call \<Rightarrow> bool" where
  "isPushOf e v spec c \<longleftrightarrow>
     c = PPush (vpName v) (vpName v) (HibernateSnapshotTag (konst e)) (vsImage spec) None"

definition removedOf :: "vmptr \<Rightarrow> call \<Rightarrow> bool" where
  "removedOf v c \<longleftrightarrow> isRemoveOf (vpID v) c \<and> provesGone c"

definition calm :: "call \<Rightarrow> bool" where
  "calm c \<longleftrightarrow> \<not> destroys c"

lemma calm_simps [simp]:
  "calm (RSnapshotSave a b r)" "calm (PPush a b c d r)" "calm (RNetResize a n r)" "calm (RExec a argv r)"
  "calm (RInspect a q)" "calm (GDeleteManifest a b r)" "calm (EEvent w x y)" "calm (KPatch a b c pt r)"
  "calm (TSleep n r)"
  by (simp_all add: calm_def destroys_def isRemove_def isRelease_def)

lemma emits_calm_book: "emits m bookkeeping \<Longrightarrow> emits m calm"
  by (erule emits_weaken, rename_tac c, case_tac c)
    (simp_all add: calm_def destroys_def isRemove_def isRelease_def bookkeeping_def)

lemma emits_calm_patch: "emits (patchIncarnationAnnotations e ns name uid pt) calm"
  by (rule emits_patchIncarnation) simp

lemma emits_calm_clear: "emits (clearRuntimeAnnotations e p) calm"
  unfolding clearRuntimeAnnotations_def by (intro emits_intros emits_calm_patch)

lemma emits_detach [emits_intros]: "emits (detachIncarnation e key uid v) P"
  unfolding detachIncarnation_def by (intro emits_intros)

lemma emits_calm_applyRuntime: "emits (applyRuntime e p v) calm"
  unfolding applyRuntime_def bindRuntime_def applyVMRuntime_def
  by (intro emits_intros emits_patchWithRetry emits_calm_patch) simp_all

lemma emits_calm_ipconfig: "emits (execGuestIpconfig e i verb) calm"
  unfolding execGuestIpconfig_def rtExec_def by (intro emits_intros) simp

lemma emits_calm_rollback: "emits (rollbackHibernate e p v dropped) calm"
  unfolding rollbackHibernate_def refreshRolledBackNIC_def rtNetResize_def rtInspect_def
  by (intro emits_intros emits_calm_applyRuntime emits_calm_ipconfig) simp_all

lemma emits_calm_dropNIC: "emits (dropNICForHibernate e v) calm"
  unfolding dropNICForHibernate_def rtNetResize_def
  by (intro emits_intros emits_calm_ipconfig) simp_all

lemma failHibernate_calm: "produces (failHibernate e p reason x) (\<lambda>r cs. r \<noteq> None \<and> list_all calm cs)"
  unfolding failHibernate_def
  by (rule produces_bind_emits [OF emits_calm_book [OF emits_book_failOp]]) (auto intro: produces_return)

section \<open>Safety\<close>

text \<open>What a hibernate that got as far as removing the VM did.\<close>

definition removalOutcome :: "env \<Rightarrow> vmptr \<Rightarrow> err option \<Rightarrow> call list \<Rightarrow> bool" where
  "removalOutcome e v r cs \<longleftrightarrow>
     list_all (\<lambda>c. \<forall>j. isRemoveOf j c \<longrightarrow> j = vpID v) cs \<and>
     (case r of
        None \<Rightarrow> list_ex (removedOf v) cs
      | Some _ \<Rightarrow> \<not> list_ex isRelease cs \<and> (list_ex isRemove cs \<longrightarrow> cfgRegistry (cfg e) \<longrightarrow>
          (\<exists>z. GDeleteManifest (vpName v) (HibernateSnapshotTag (konst e)) z \<in> set cs)))"

lemma calm_list:
  assumes "list_all calm cs"
  shows "\<not> list_ex isRemove cs" "\<not> list_ex isRelease cs" "\<not> list_ex destroys cs"
    "list_all (\<lambda>c. \<forall>j. isRemoveOf j c \<longrightarrow> j = i) cs"
  using assms by (auto simp: list_ex_iff list_all_iff calm_def destroys_def dest: isRemoveOf_isRemove)

lemma calm_failed: "list_all calm cs \<Longrightarrow> removalOutcome e v (Some x) cs"
  by (simp add: removalOutcome_def calm_list)

lemma removal_prefix:
  assumes "list_all calm as" and "removalOutcome e v r cs"
  shows "removalOutcome e v r (as @ cs)"
  using assms calm_list [OF assms(1)]
  by (auto simp: removalOutcome_def split: option.splits)

lemma removeVM_outcome:
  "produces (removeVM e (vpVM v)) (\<lambda>r cs. list_all (\<lambda>c. \<forall>j. isRemoveOf j c \<longrightarrow> j = vpID v) cs \<and>
     (r = None \<longrightarrow> list_ex (removedOf v) cs) \<and> (r \<noteq> None \<longrightarrow> \<not> list_ex isRelease cs))"
  unfolding removeVM_def rtRemove_def
  by (intro produces_intros produces_bind_emits [OF emits_quiet_leases])
    (auto simp: removedOf_def isRemoveOf_def provesGone_def isRelease_def list_all_iff list_ex_iff
      quietCall_def isRemove_def split: call.splits)

lemma hibernateRemove_outcome: "produces (hibernateRemove e p v dropped) (removalOutcome e v)"
proof -
  have failed: "produces (do {
        _ \<leftarrow> (if cfgRegistry (cfg e)
              then do { _ \<leftarrow> regDeleteManifest e (vpName v) (HibernateSnapshotTag (konst e));
                        State_Monad.return () }
              else State_Monad.return ());
        _ \<leftarrow> rollbackHibernate e p v dropped;
        failHibernate e p reason x }) (\<lambda>r cs. r \<noteq> None \<and> list_all calm cs \<and> (cfgRegistry (cfg e) \<longrightarrow>
          (\<exists>z. GDeleteManifest (vpName v) (HibernateSnapshotTag (konst e)) z \<in> set cs)))" for reason x
    unfolding regDeleteManifest_def
    by (rule produces_bind [where K = "\<lambda>_ cs. list_all calm cs \<and> (cfgRegistry (cfg e) \<longrightarrow>
          (\<exists>z. GDeleteManifest (vpName v) (HibernateSnapshotTag (konst e)) z \<in> set cs))"])
      (auto intro!: produces_intros produces_bind_emits [OF emits_calm_rollback]
        intro: produces_weaken [OF failHibernate_calm])
  have fin: "produces (do {
        _ \<leftarrow> (if b then do { _ \<leftarrow> clearRuntimeAnnotations e p; State_Monad.return () }
              else State_Monad.return ());
        _ \<leftarrow> forgetVMOnly e (ptNamespace p) (ptName p);
        _ \<leftarrow> forgetProbe e (podKey e p);
        _ \<leftarrow> markLifecycleState e p LifecycleStateHibernated [];
        _ \<leftarrow> emitEvent False reason msg;
        State_Monad.return (None :: err option) }) (\<lambda>r cs. r = None \<and> list_all calm cs)" for b reason msg
    unfolding forgetVMOnly_def emitEvent_def
    by (intro produces_bind_emits [where P = calm] emits_intros emits_calm_clear
        emits_calm_book [OF emits_book_mark] produces_return) (simp_all)
  show ?thesis
    unfolding hibernateRemove_def
    by (rule produces_bind_emits [OF emits_calm_clear], rule produces_bind [OF removeVM_outcome],
        rule produces_case_option, rule produces_weaken [OF fin],
        rule_tac [2] produces_weaken [OF failed])
      (auto intro!: removal_prefix simp: removalOutcome_def calm_list)
qed

text \<open>The whole contract of a hibernate.\<close>

definition hibernateSafe :: "env \<Rightarrow> vm_spec \<Rightarrow> vmptr \<Rightarrow> err option \<Rightarrow> call list \<Rightarrow> bool" where
  "hibernateSafe e spec v r cs \<longleftrightarrow>
     preceded destroys (isSaveOf v) cs \<and>
     (cfgPusher (cfg e) \<longrightarrow> preceded destroys (isPushOf e v spec) cs) \<and>
     removalOutcome e v r cs"

lemma hibernateSafe_calm: "list_all calm cs \<Longrightarrow> r \<noteq> None \<Longrightarrow> hibernateSafe e spec v r cs"
  by (auto simp: hibernateSafe_def calm_failed calm_list intro: preceded_none)

lemma hibernateSafe_prefix:
  "list_all calm as \<Longrightarrow> hibernateSafe e spec v r cs \<Longrightarrow> hibernateSafe e spec v r (as @ cs)"
  using calm_list(3) [of as]
  by (auto simp: hibernateSafe_def removal_prefix intro: preceded_append preceded_none)

lemma hibernateSave_safe: "produces (hibernateSave e p spec v dropped) (hibernateSafe e spec v)"
proof -
  have failed: "produces (do { _ \<leftarrow> rollbackHibernate e p v dropped; failHibernate e p reason x })
      (\<lambda>r cs. hibernateSafe e spec v r (as @ cs))" if "list_all calm as" for reason x as
    by (rule produces_bind_emits [OF emits_calm_rollback], rule produces_weaken [OF failHibernate_calm])
      (use that in \<open>auto intro: hibernateSafe_calm\<close>)
  have removed: "produces (hibernateRemove e p v dropped) (\<lambda>r cs. hibernateSafe e spec v r (as @ cs))"
    if "list_all calm as" "list_ex (isSaveOf v) as" "cfgPusher (cfg e) \<longrightarrow> list_ex (isPushOf e v spec) as"
    for as
    by (rule produces_weaken [OF hibernateRemove_outcome])
      (use that calm_list(3) [OF that(1)] in
        \<open>auto simp: hibernateSafe_def removal_prefix preceded_append [OF preceded_none]\<close>)
  have silent: "emits (snapshotAnnotations e p) (\<lambda>_. False)"
    unfolding snapshotAnnotations_def by (intro emits_intros)
  show ?thesis
    unfolding hibernateSave_def rtSnapshotSave_def pushSnapshot_def
    using failed [of "[_]"] failed [of "[_, _]"] removed [of "[_]"] removed [of "[_, _]"]
    by (intro produces_bind_ext produces_case_option produces_if produces_bind_silent [OF silent])
      (simp_all add: isSaveOf_def isPushOf_def)
qed

lemma hibernate_safe: "produces (hibernate e p spec v) (hibernateSafe e spec v)"
proof -
  have drop: "emits (if b then dropNICForHibernate e v else State_Monad.return None) calm" for b
    by (intro emits_intros emits_calm_dropNIC)
  have main: "produces (do {
       _ \<leftarrow> markLifecycleState e p LifecycleStateHibernating [];
       r \<leftarrow> (if b then dropNICForHibernate e v else State_Monad.return None);
       (case r of
          Some x \<Rightarrow> failHibernate e p ''HibernateNetResizeFailed'' x
        | None \<Rightarrow> hibernateSave e p spec v b) }) (hibernateSafe e spec v)" for b
    by (rule produces_bind_emits [OF emits_calm_book [OF emits_book_mark]],
        rule produces_bind_emits [OF drop], rule produces_case_option,
        rule produces_weaken [OF hibernateSave_safe], rule_tac [2] produces_weaken [OF failHibernate_calm])
      (auto intro: hibernateSafe_prefix hibernateSafe_calm)
  show ?thesis
    unfolding hibernate_def
    by (rule produces_bind_writing, rule produces_deferring [OF main])
      (auto intro!: produces_intros produces_bind_silent emits_intros
        produces_emits [OF emits_recheck [where P = "\<lambda>_. False"]] simp: list_all_False)
qed

section \<open>Effect\<close>

text \<open>What the end of a successful hibernate leaves alone, when no other goroutine interferes.\<close>

definition vmView :: "prov \<Rightarrow> (string \<rightharpoonup> vmptr) \<times> (string \<rightharpoonup> bool) \<times> manager" where
  "vmView s = (vmsByPod s, hibernating s, probes s)"

definition framed :: "'a act \<Rightarrow> bool" where
  "framed m \<longleftrightarrow> (\<forall>s. vmView (snd (run_state m s)) = vmView s)"

lemma framed_return: "framed (State_Monad.return x)"
  by (simp add: framed_def)

lemma framed_bind: "framed m \<Longrightarrow> (\<And>r. framed (f r)) \<Longrightarrow> framed (State_Monad.bind m f)"
  unfolding framed_def by (auto simp: case_prod_beta)

lemma framed_ext: "framed (ext ans mk)"
  by (simp add: framed_def ext_def Let_def vmView_def)

lemma framed_locked: "quiet e \<Longrightarrow> (\<And>s. vmView (snd (f s)) = vmView s) \<Longrightarrow> framed (locked e f)"
  unfolding framed_def locked_def yield_def quiet_def
  by (simp add: Let_def case_prod_beta) (simp add: vmView_def)

lemma framed_if: "framed m \<Longrightarrow> framed n \<Longrightarrow> framed (if b then m else n)"
  by simp

lemmas framed_intros = framed_return framed_bind framed_ext framed_if

lemma framed_keeps: "keeps m \<Longrightarrow> framed m"
  by (simp add: keeps_def framed_def same_tables_def vmView_def)

lemma wp_framed: "framed m \<Longrightarrow> (\<And>r t. vmView t = vmView s \<Longrightarrow> Q r t) \<Longrightarrow> wp m Q s"
  by (intro wp_runI) (simp add: framed_def)

lemma framed_flush: "quiet e \<Longrightarrow> framed (flushLoop e n ns name uid annos snap)"
proof (induction n)
  case (Suc n)
  then show ?case
    unfolding flushLoop.simps reading_def writing_def sleepCtx_def
    by (intro framed_intros framed_locked framed_keeps [OF keeps_patchIncarnation])
      (auto simp: vmView_def recordLifecycleFlushed_def dropSupersededLifecycle_def)
qed (simp add: framed_return)

lemma applyLifecycle_view: "vmView (snd (applyLifecycleLocked e p st msg s)) = vmView s"
  by (simp add: applyLifecycleLocked_def Let_def applyStatus_def setAnnots_def vmView_def
      split: option.splits)

lemma framed_mark: "quiet e \<Longrightarrow> framed (markLifecycleState e p st msg)"
  unfolding markLifecycleState_def setLifecycleState_def flushLifecycle_def
  by (intro framed_intros framed_locked framed_flush) (simp_all add: applyLifecycle_view)

lemma framed_clear: "quiet e \<Longrightarrow> framed (clearRuntimeAnnotations e p)"
  unfolding clearRuntimeAnnotations_def
  by (intro framed_intros framed_locked framed_keeps [OF keeps_patchIncarnation])
    (simp_all add: vmView_def setAnnots_def)

lemma wp_any: "(\<And>r t. Q r t) \<Longrightarrow> wp m Q s"
  by (simp add: wp_def case_prod_beta)

lemma wp_failHibernate: "wp (failHibernate e p reason x) (\<lambda>r t. r = None \<longrightarrow> Q t) s"
  by (simp add: failHibernate_def wp_any)

definition vmReleased :: "env \<Rightarrow> string \<Rightarrow> prov \<Rightarrow> bool" where
  "vmReleased e key t \<longleftrightarrow>
     vmsByPod t key = None \<and> (cfgProbes (cfg e) \<longrightarrow> agents (probes t) key = None)"

lemma vmReleased_view: "vmView t = vmView u \<Longrightarrow> vmReleased e key u \<Longrightarrow> vmReleased e key t"
  by (simp add: vmView_def vmReleased_def)

lemma hibernateRemove_effect:
  assumes "quiet e"
  shows "wp (hibernateRemove e p v dropped) (\<lambda>r t. r = None \<longrightarrow> vmReleased e (podKey e p) t) s"
proof -
  have drop: "vmsByPod (dropVMLocked key u) key = None" for key u
    by (simp add: dropVMLocked_def split: option.splits)
  have fin: "wp (do {
        _ \<leftarrow> forgetVMOnly e (ptNamespace p) (ptName p);
        _ \<leftarrow> forgetProbe e (podKey e p);
        _ \<leftarrow> markLifecycleState e p LifecycleStateHibernated [];
        _ \<leftarrow> emitEvent False reason msg;
        State_Monad.return (None :: err option) }) (\<lambda>r t. r = None \<longrightarrow> vmReleased e (podKey e p) t) u"
    for u reason msg
    unfolding forgetVMOnly_def forgetProbe_def emitEvent_def using assms
    by (auto simp: wp_quiet podKey_def drop mgrForget_def vmReleased_def vmView_def
        intro!: wp_framed [OF framed_mark])
  have verdict: "wp (case r of
        Some x \<Rightarrow> do { _ \<leftarrow> undo; _ \<leftarrow> rollback; failHibernate e p reason (wrapErr m x []) }
      | None \<Rightarrow> do {
          _ \<leftarrow> clear;
          _ \<leftarrow> forgetVMOnly e (ptNamespace p) (ptName p);
          _ \<leftarrow> forgetProbe e (podKey e p);
          _ \<leftarrow> markLifecycleState e p LifecycleStateHibernated [];
          _ \<leftarrow> emitEvent False rs msg;
          State_Monad.return (None :: err option) })
      (\<lambda>r t. r = None \<longrightarrow> vmReleased e (podKey e p) t) u"
    for r u reason m rs msg and undo rollback clear :: "unit act"
    using fin by (cases r) (simp_all add: wp_any wp_failHibernate)
  show ?thesis
    unfolding hibernateRemove_def
    by (subst wp_bind, rule wp_any, subst wp_bind, rule wp_any, rule verdict)
qed

lemma hibernateSave_effect:
  assumes "quiet e"
  shows "wp (hibernateSave e p spec v dropped) (\<lambda>r t. r = None \<longrightarrow> vmReleased e (podKey e p) t) s"
  unfolding hibernateSave_def rtSnapshotSave_def pushSnapshot_def snapshotAnnotations_def
  by (simp add: wp_any wp_failHibernate hibernateRemove_effect [OF assms] wp_simps split: option.splits)

text \<open>The deferred end of a hibernate closes its window.\<close>

lemma hibernate_window:
  assumes "quiet e" and "Q \<Longrightarrow> vmReleased e key s"
  shows "wp (do {
       gone \<leftarrow> locked e (finishHibernateLocked key);
       (if gone then scheduleDeferredRecheck e i else State_Monad.return ()) })
     (\<lambda>_ t. hibernating t key = None \<and> (Q \<longrightarrow> vmReleased e key t)) s"
  using assms unfolding scheduleDeferredRecheck_def
  by (auto simp: wp_quiet finishHibernateLocked_def scheduleDeferredRecheckLocked_def vmReleased_def
      goBackgroundLocked_def split: if_splits prod.splits)

section \<open>Properties\<close>

text \<open>C3: hibernate never loses a guest. In every run, under any interference and any answers: the VM
  is removed and its leases released only after its snapshot was saved and, with a pusher configured,
  pushed under the hibernate tag; no other VM is removed; success means the VM was removed or found
  gone; after a failure no lease was released, and if a removal had been tried, the pushed tag was
  withdrawn so that a later wake cannot revert the still running guest.\<close>

theorem hibernate_never_loses_vm:
  "\<exists>cs. trace (snd (run_state (hibernate e p spec v) s)) = trace s @ cs \<and>
    preceded destroys (isSaveOf v) cs \<and>
    (cfgPusher (cfg e) \<longrightarrow> preceded destroys (isPushOf e v spec) cs) \<and>
    removalOutcome e v (fst (run_state (hibernate e p spec v) s)) cs"
  using producesD [OF hibernate_safe, of e p spec v s] unfolding hibernateSafe_def by metis

theorem hibernate_never_loses_vm_witness:
  "\<exists>cs. trace (snd (run_state (hibernate exEnv exPod (exSpec (podAt exProv exPod)) exVMPtr) exProv)) = cs \<and>
    preceded destroys (isPushOf exEnv exVMPtr (exSpec (podAt exProv exPod))) cs"
  using hibernate_never_loses_vm [of exEnv exPod "exSpec (podAt exProv exPod)" exVMPtr exProv]
  by (auto simp: exConfig_def)

text \<open>C27: the effect of an undisturbed hibernate: its window is closed on every path, and when it
  succeeded the pod has no VM and no probe agent any more.\<close>

theorem hibernate_effect:
  assumes "quiet e" and "run_state (hibernate e p spec v) s = (r, t)"
  shows "hibernating t (podKey e p) = None \<and>
    (r = None \<longrightarrow> vmsByPod t (podKey e p) = None \<and>
       (cfgProbes (cfg e) \<longrightarrow> agents (probes t) (podKey e p) = None))"
proof -
  have main: "wp (do {
       _ \<leftarrow> mark;
       r \<leftarrow> drop;
       (case r of
          Some x \<Rightarrow> failHibernate e p reason x
        | None \<Rightarrow> hibernateSave e p spec v b) })
      (\<lambda>r t. r = None \<longrightarrow> vmReleased e (podKey e p) t) u" for u reason b and mark drop
    by (simp add: wp_any wp_failHibernate hibernateSave_effect [OF assms(1)] split: option.splits)
  have "wp (hibernate e p spec v) (\<lambda>r t. hibernating t (podKey e p) = None \<and>
      (r = None \<longrightarrow> vmReleased e (podKey e p) t)) s"
    unfolding hibernate_def
    by (subst wp_bind, rule wp_any, subst wp_deferring, rule wp_mono [OF main])
      (rule hibernate_window [OF assms(1)], simp)
  from wp_runD [OF this assms(2)] show ?thesis by (simp add: vmReleased_def)
qed

theorem hibernate_effect_witness:
  "let t = snd (run_state (hibernate exEnv exPod (exSpec (podAt exProv exPod)) exVMPtr) exProv)
   in hibernating t ''ns/a'' = None"
  using hibernate_effect [of exEnv exPod "exSpec (podAt exProv exPod)" exVMPtr exProv
      "fst (run_state (hibernate exEnv exPod (exSpec (podAt exProv exPod)) exVMPtr) exProv)"
      "snd (run_state (hibernate exEnv exPod (exSpec (podAt exProv exPod)) exVMPtr) exProv)"]
  by simp

end
