(* ===== verification/Create_Props.thy ===== *)
theory Create_Props
  imports Create Hibernate_Props
begin

text \<open>
  Creation never boots a guest over hibernated state: a VM is booted afresh only after the registry (or
  the local store) answered that no hibernate snapshot of the name exists, and otherwise only restored
  from a vouched source.
\<close>

section \<open>Boots\<close>

definition boots :: "call \<Rightarrow> bool" where
  "boots c = (case c of RRun _ _ \<Rightarrow> True | RClone _ _ \<Rightarrow> True | _ \<Rightarrow> False)"

text \<open>A pod deleted from the API server, and the calls that do neither.\<close>

definition evicts :: "call \<Rightarrow> bool" where
  "evicts c = (case c of KDelete _ _ _ _ \<Rightarrow> True | _ \<Rightarrow> False)"

definition tame :: "call \<Rightarrow> bool" where
  "tame c \<longleftrightarrow> \<not> boots c \<and> \<not> evicts c"

text \<open>The answer that there is no hibernated state under the name.\<close>

definition evidenceAbsent :: "env \<Rightarrow> string \<Rightarrow> call list \<Rightarrow> bool" where
  "evidenceAbsent e n cs \<longleftrightarrow>
     (if cfgRegistry (cfg e)
      then \<exists>x. GGetManifest n (HibernateSnapshotTag (konst e)) (Inl x) \<in> set cs \<and>
             errIs x ErrManifestNotFound
      else \<exists>x. RSnapshot n (Inl x) \<in> set cs \<and> errIs x ErrSnapshotNotFound)"

text \<open>A clone of a source the earlier calls vouch for.\<close>

definition restoresFrom :: "env \<Rightarrow> string \<Rightarrow> call \<Rightarrow> call list \<Rightarrow> bool" where
  "restoresFrom e n c cs \<longleftrightarrow>
     (\<exists>opts r src. c = RClone opts r \<and> coFrom opts = wsLocalName src \<and> coFromDir opts = wsDir src \<and>
        sourceVouched e n src cs)"

text \<open>The name the guest is booted under.\<close>

definition bootName :: "call \<Rightarrow> string" where
  "bootName c = (case c of RRun opts _ \<Rightarrow> roName opts | RClone opts _ \<Rightarrow> coTo opts | _ \<Rightarrow> [])"

definition bootsAs :: "string \<Rightarrow> call \<Rightarrow> bool" where
  "bootsAs n c \<longleftrightarrow> \<not> evicts c \<and> (boots c \<longrightarrow> bootName c = n)"

definition bootSafe :: "env \<Rightarrow> string \<Rightarrow> call list \<Rightarrow> bool" where
  "bootSafe e n cs \<longleftrightarrow>
     (\<forall>as c bs. cs = as @ c # bs \<longrightarrow> \<not> evicts c \<and>
        (boots c \<longrightarrow> bootName c = n \<and> (evidenceAbsent e n as \<or> restoresFrom e n c as)))"

lemma evicts_boots [simp]: "\<not> evicts (RRun opts v)" "\<not> evicts (RClone copts v)"
  by (simp_all add: evicts_def)

lemma tame_simps [simp]:
  "tame (RInspect a q)" "tame (RSnapshot a sn)" "tame (RSnapshotRemove a z)"
  "tame (RImage a z)" "tame (REnsureImage a b z)" "tame (GGetManifest a t m)"
  "tame (GFetchConfig a t k)" "tame (KNode a w)" "tame (PPull a t l d z)"
  "tame (PPeerRestore a t z)" "tame (PCloudImage a t b z)" "tame (XFlight a b)"
  "tame (XAwait a)" "tame (MExec args a z)" "tame (MAlive i b)" "tame (KPatch a t u pt z)"
  "tame (KStatusPatch a t u st z)" "tame (LLookup a ip)" "tame (NPing a z)"
  "tame (NDial a t z)" "tame (NSSH a bm)" "tame (TNow i)" "tame (TSleep i z)"
  "tame (TCtxErr z)" "tame (EEvent b a t)" "tame (ENotify a pd)" "tame (RSnapshotSave a t z)"
  by (simp_all add: tame_def boots_def evicts_def)

lemma tame_bootsAs: "tame c \<Longrightarrow> bootsAs n c"
  by (simp add: tame_def bootsAs_def)

lemma wp_produces: "produces m K \<Longrightarrow> wp m (\<lambda>r t. \<exists>cs. trace t = trace s @ cs \<and> K r cs) s"
  by (rule wp_runI) (auto simp: produces_def)

lemma tame_list: "list_all tame cs \<Longrightarrow> \<not> list_ex boots cs"
  by (auto simp: list_ex_iff list_all_iff tame_def)

lemma emits_tame_book: "emits m bookkeeping \<Longrightarrow> emits m tame"
  by (erule emits_weaken, rename_tac c, case_tac c) (simp_all add: bookkeeping_def)

lemma evidenceAbsent_mono: "evidenceAbsent e n cs \<Longrightarrow> set cs \<subseteq> set ds \<Longrightarrow> evidenceAbsent e n ds"
  unfolding evidenceAbsent_def by (meson in_mono)

lemma restoresFrom_mono: "restoresFrom e n c cs \<Longrightarrow> set cs \<subseteq> set ds \<Longrightarrow> restoresFrom e n c ds"
  unfolding restoresFrom_def using sourceVouched_mono [of e n _ cs ds] by blast

lemma bootSafe_none: "list_all tame cs \<Longrightarrow> bootSafe e n cs"
  by (auto simp: bootSafe_def tame_def)

lemma bootSafe_append:
  assumes "bootSafe e n cs" and "evidenceAbsent e n cs \<and> list_all (bootsAs n) ds \<or> bootSafe e n ds"
  shows "bootSafe e n (cs @ ds)"
  unfolding bootSafe_def
proof (intro allI impI)
  fix as c bs
  assume "cs @ ds = as @ c # bs"
  then consider us where "cs = as @ c # us" | us where "as = cs @ us" "ds = us @ c # bs"
    by (auto simp: append_eq_append_conv2 Cons_eq_append_conv append_eq_Cons_conv)
  then show "\<not> evicts c \<and> (boots c \<longrightarrow> bootName c = n \<and> (evidenceAbsent e n as \<or> restoresFrom e n c as))"
  proof cases
    case 1
    with assms(1) show ?thesis unfolding bootSafe_def by blast
  next
    case 2
    with assms(2) show ?thesis
      using evidenceAbsent_mono [of e n cs as] evidenceAbsent_mono [of e n us as]
        restoresFrom_mono [of e n c us as]
      by (auto simp: bootSafe_def bootsAs_def)
  qed
qed

section \<open>Calls without boots\<close>

lemma emits_tame_flight:
  "emits m tame \<Longrightarrow> emits (flightString e k m) tame"
  "emits m2 tame \<Longrightarrow> emits (flightSnapshot e k m2) tame"
  unfolding flightString_def flightSnapshot_def by (intro emits_intros; simp)+

lemma emits_tame_runImage [emits_intros]: "emits (ensureRunImage e img force) tame"
  unfolding ensureRunImage_def resolveRunImage_def rtEnsureImage_def regGetManifest_def ensureCloudImage_def
  by (intro emits_intros emits_tame_flight) (auto split: sum.splits manifest_kind.splits intro!: emits_intros)

lemma emits_tame_baseImage [emits_intros]: "emits (ensureSnapshotBaseImage e sn) tame"
  unfolding ensureSnapshotBaseImage_def rtImage_def by (intro emits_intros) simp_all

lemma emits_tame_manifest [emits_intros]: "emits (fetchHibernateManifest e n) tame"
  unfolding fetchHibernateManifest_def regGetManifest_def by (intro emits_intros) simp

lemma emits_tame_removeSnapshots [emits_intros]: "emits (removeLocalSnapshots e n) tame"
  unfolding removeLocalSnapshots_def removeSnapshotDetached_def rtSnapshotRemove_def
  by (intro emits_intros) simp_all

lemma emits_tame_pull [emits_intros]: "emits (pullWakeSource e n) tame"
  unfolding pullWakeSource_def pullSnapshot_def rtSnapshot_def by (intro emits_intros) simp_all

lemma emits_tame_peerOrPull [emits_intros]: "emits (peerOrPull e n m c) tame"
  unfolding peerOrPull_def tryPeerRestore_def restoreFromPeer_def peerBaseURL_def kubeNodeAddress_def
    peerRestore_def fetchSnapshotConfig_def
  by (intro emits_intros) simp_all

lemma emits_tame_resolve [emits_intros]: "emits (resolveWakeSource e n) tame"
  unfolding resolveWakeSource_def settleLocalSnapshot_def verifyLocalSnapshot_def rtSnapshot_def
    fetchSnapshotConfig_def
  by (intro emits_intros) simp_all

lemma emits_resolveVMIP: "(\<And>m r. P (LLookup m r)) \<Longrightarrow> emits (resolveVMIP e ns name v) P"
  unfolding resolveVMIP_def setVMIP_def lookupByMAC_def by (intro emits_intros)

lemma emits_tame_probe [emits_intros]: "emits (buildProbe e ns name) tame"
  unfolding buildProbe_def probePort_def probeTCP_def dialTCP_def ping_def
  by (intro emits_intros emits_resolveVMIP) simp_all

lemma emits_tame_startProbe: "emits probe tame \<Longrightarrow> emits (startProbe e p probe) tame"
  unfolding startProbe_def timeNow_def by (intro emits_intros) simp_all

lemma emits_goBackground [emits_intros]: "emits (goBackground e j) P"
  unfolding goBackground_def by (intro emits_intros)

lemma emits_newVM [emits_intros]: "emits (newVM v) P"
  by (simp add: emits_def newVM_def allocVM_def)

lemma emits_tame_patch [emits_intros]: "emits (patchIncarnationAnnotations e ns name uid pt) tame"
  by (rule emits_patchIncarnation) simp

lemma emits_tame_patchRetry [emits_intros]:
  "emits (patchWithRetry e (patchIncarnationAnnotations e ns name uid pt)) tame"
  by (intro emits_patchWithRetry emits_intros) simp

lemma emits_tame_bind [emits_intros]: "emits (bindRuntime e p v rt) tame"
  unfolding bindRuntime_def applyVMRuntime_def by (intro emits_intros)

lemma emits_tame_applyRuntime [emits_intros]: "emits (applyRuntime e p v) tame"
  unfolding applyRuntime_def by (intro emits_intros)

lemma emits_tame_seed [emits_intros]: "emits (seedLeaseIP e v) tame"
  unfolding seedLeaseIP_def lookupByMAC_def by (intro emits_intros) simp

lemma emits_tame_endpoints [emits_intros]: "emits (reconcileRuntimeEndpoints e p ip) tame"
  unfolding reconcileRuntimeEndpoints_def by (intro emits_intros)

lemma emits_alreadyFailed [emits_intros]: "emits (lifecycleAlreadyFailed e p) P"
  unfolding lifecycleAlreadyFailed_def by (intro emits_intros)

lemmas emits_tame_books [emits_intros] =
  emits_tame_book [OF emits_book_mark] emits_tame_book [OF emits_book_markReady]
  emits_tame_book [OF emits_book_refreshAndNotify] emits_tame_book [OF emits_book_failOp]

lemma emits_tame_macosInspect [emits_intros]: "emits (macosInspect e n) tame"
  unfolding macosInspect_def macosExec_def by (intro emits_intros) simp

lemma emits_tame_startMacos [emits_intros]: "emits (startMacosVM e n port) tame"
  unfolding startMacosVM_def macosExec_def by (intro emits_intros) simp

lemma emits_tame_recovered [emits_intros]: "emits (updateRecoveredMacosVM e ns n uid i rc) tame"
  unfolding updateRecoveredMacosVM_def by (intro emits_intros)

lemma emits_tame_recover [emits_intros]: "emits (recoverMacosVM e ns n uid v) tame"
  unfolding recoverMacosVM_def restartMacosVM_def macosProcessAlive_def by (intro emits_intros) simp_all

lemma emits_tame_elapsed [emits_intros]: "emits (elapsedSince e t) tame"
  unfolding elapsedSince_def timeNow_def by (intro emits_intros) simp

lemma emits_tame_macosProbe [emits_intros]: "emits (macosProbe e ns n uid clock) tame"
  unfolding macosProbe_def healMacosRecord_def dialMacosGuest_def probePort_def probeTCP_def dialTCP_def
    sshReady_def macosProcessAlive_def timeNow_def
  by (intro emits_intros emits_resolveVMIP) simp_all

lemma emits_tame_startMacosProbe [emits_intros]: "emits (startMacosProbe e p) tame"
  unfolding startMacosProbe_def by (intro emits_tame_startProbe emits_intros)

lemma emits_tame_readiness [emits_intros]: "emits (publishMacosReadiness e ns n) tame"
  unfolding publishMacosReadiness_def by (intro emits_intros)

lemma emits_tame_failCreate [emits_intros]: "emits (failCreate e p reason x) tame"
  unfolding failCreate_def macosVMAbsent_def macosExec_def by (intro emits_intros) simp_all

lemma emits_tame_macosImage [emits_intros]: "emits (ensureMacosImage e img) tame"
  unfolding ensureMacosImage_def macosImagePresent_def macosExec_def
  by (intro emits_intros emits_tame_flight) simp_all

lemma emits_tame_reveal [emits_intros]: "emits (revealMacosVM e p spec) tame"
  unfolding revealMacosVM_def runMacosVM_def macosProcessAlive_def macosExec_def
  by (intro emits_intros) simp_all

lemma emits_tame_createMacos [emits_intros]: "emits (createMacosPod e p spec) tame"
  unfolding createMacosPod_def registerMacosVM_def markPodRunning_def timeNow_def
  by (intro emits_intros) simp_all

lemma emits_tame_adoptable [emits_intros]: "emits (adoptableVM e n) tame"
proof -
  have "emits (inspectLoop e k i b id) tame" for k i b id
    by (induction k arbitrary: i) (auto intro!: emits_intros simp: rtInspect_def sleepCtx_def)
  then show ?thesis
    unfolding adoptableVM_def vmByName_def inspectWithRetry_def by (intro emits_intros)
qed

lemma emits_tame_adopt [emits_intros]: "emits (adoptVM e p v) tame"
  unfolding adoptVM_def startProbeIfEnabled_def resumeOwedWork_def dispatchResume_def emitEvent_def
  by (intro emits_intros emits_tame_startProbe) simp

lemma emits_tame_finish [emits_intros]: "emits (finishCreate e p spec v img restoring) tame"
  unfolding finishCreate_def dispatchHibernateRestore_def startProbeIfEnabled_def markPodRunning_def
    timeNow_def setPodAnnotation_def
  by (intro emits_intros emits_tame_startProbe) simp

section \<open>The boot itself\<close>

text \<open>What \<open>cocoon-common\<close> documents of its restore mark: a marked pod reads as marked.\<close>

definition restore_mark_ok :: "env \<Rightarrow> bool" where
  "restore_mark_ok e \<longleftrightarrow>
     (\<forall>pd. mReadRestoreFromHibernate (lib e)
        (pd\<lparr>pAnnotations := mMarkRestoreFromHibernate (lib e) (pAnnotations pd)\<rparr>))"

definition restoreCall :: "string \<Rightarrow> wake_source \<Rightarrow> call \<Rightarrow> bool" where
  "restoreCall n src c \<longleftrightarrow> \<not> evicts c \<and> (boots c \<longrightarrow>
     (\<exists>opts r. c = RClone opts r \<and> coTo opts = n \<and> coFrom opts = wsLocalName src \<and> coFromDir opts = wsDir src))"

lemma tame_restoreCall: "tame c \<Longrightarrow> restoreCall n src c"
  by (simp add: tame_def restoreCall_def)

lemma restoreCall_bootsAs: "restoreCall n src c \<Longrightarrow> bootsAs n c"
  by (auto simp: restoreCall_def bootsAs_def bootName_def)

lemma emits_cloneFromHibernate: "emits (cloneFromHibernate e spec src policy) (restoreCall (vsVMName spec) src)"
proof -
  have base: "emits (ensureSnapshotBaseImage e sn) (restoreCall (vsVMName spec) src)" for sn
    by (rule emits_weaken [OF emits_tame_baseImage tame_restoreCall])
  show ?thesis
    unfolding cloneFromHibernate_def releaseSource_def rtClone_def cloneOptionsFor_def
    by (cases "wsRelease src"; auto intro!: emits_intros base simp: restoreCall_def)
qed

lemma bootSafe_restore:
  assumes "list_all tame as" "sourceVouched e n src as" "list_all (restoreCall n src) bs"
  shows "bootSafe e n (as @ bs)"
  unfolding bootSafe_def
proof (intro allI impI)
  fix us c vs
  assume "as @ bs = us @ c # vs"
  with assms(1) consider "tame c" | ws where "us = as @ ws" "bs = ws @ c # vs"
    by (auto simp: append_eq_append_conv2 Cons_eq_append_conv append_eq_Cons_conv)
  then show "\<not> evicts c \<and> (boots c \<longrightarrow> bootName c = n \<and> (evidenceAbsent e n us \<or> restoresFrom e n c us))"
  proof cases
    case 1
    then show ?thesis by (simp add: tame_def)
  next
    case (2 ws)
    with assms(3) have rc: "restoreCall n src c" by simp
    with assms(2) 2 have "boots c \<Longrightarrow> restoresFrom e n c us"
      using sourceVouched_mono [of e n src as us] by (auto simp: restoreCall_def restoresFrom_def)
    with restoreCall_bootsAs [OF rc] show ?thesis by (auto simp: bootsAs_def)
  qed
qed

lemma restoreVM_safe:
  assumes "registry_ok e"
  shows "produces (restoreVM e spec policy) (\<lambda>_. bootSafe e (vsVMName spec))"
  unfolding restoreVM_def
proof (rule produces_bind [OF produces_emits_conj [OF resolveWakeSource_safe [OF assms] emits_tame_resolve]],
    rule produces_case_sum)
  fix r as x
  assume "wakeSafe e (vsVMName spec) r as \<and> list_all tame as" "r = Inl x"
  then show "produces (State_Monad.return (Inl x)) (\<lambda>_ bs. bootSafe e (vsVMName spec) (as @ bs))"
    by (intro produces_return) (simp add: bootSafe_none)
next
  fix r as src
  assume "wakeSafe e (vsVMName spec) r as \<and> list_all tame as" "r = Inr src"
  then have "list_all tame as" "sourceVouched e (vsVMName spec) src as" by (simp_all add: wakeSafe_def)
  then show "produces (cloneFromHibernate e spec src policy) (\<lambda>_ bs. bootSafe e (vsVMName spec) (as @ bs))"
    by (intro produces_emits [OF emits_cloneFromHibernate]) (rule bootSafe_restore)
qed

text \<open>A fresh VM is booted under the name of its spec.\<close>

lemma emits_fresh_named: "emits (freshVM e pm spec policy dir) (bootsAs (vsVMName spec))"
proof -
  let ?P = "bootsAs (vsVMName spec)"
  have w: "emits m tame \<Longrightarrow> emits m ?P" for m :: "'x act" by (erule emits_weaken) (rule tame_bootsAs)
  have snap: "emits (ensureSnapshot e repo tag loc) ?P" for repo tag loc
    unfolding ensureSnapshot_def rtSnapshot_def pullSnapshot_def
    by (intro emits_intros emits_flights) (simp_all add: tame_bootsAs)
  have fork: "emits (ensureForkSnapshot e f) ?P" for f
    unfolding ensureForkSnapshot_def rtSnapshot_def rtSnapshotSave_def rtInspect_def vmByName_def
    by (intro emits_intros emits_flights) (simp_all add: tame_bootsAs)
  show ?thesis
    unfolding freshVM_def cloneFromDirectory_def cloneFork_def runImage_def cloneSnapshot_def cloneInto_def
      rtClone_def rtRun_def rtSnapshotRemove_def cloneOptionsFor_def
    by (intro emits_intros snap fork w [OF emits_tame_runImage] w [OF emits_tame_baseImage])
      (simp_all add: tame_bootsAs, simp_all add: bootsAs_def bootName_def)
qed

text \<open>Bringing the VM up: a restore or no boot at all when the pod is marked or unmanaged.\<close>

lemma bringUp_restores:
  assumes "registry_ok e" and "\<not> vsManaged spec \<or> mReadRestoreFromHibernate (lib e) (podAt s p)"
  shows "wp (bringUpVM e p spec) (\<lambda>_ t. \<exists>cs. trace t = trace s @ cs \<and> bootSafe e (vsVMName spec) cs) s"
proof -
  note r = wp_produces [OF restoreVM_safe [OF assms(1)]]
  show ?thesis
    using assms(2) r bootSafe_none [of "[]"]
    by (auto simp: bringUpVM_def Let_def wp_case_sum split: sum.splits)
qed

lemma bringUp_named:
  "wp (bringUpVM e p spec) (\<lambda>_ t. \<exists>cs. trace t = trace s @ cs \<and> list_all (bootsAs (vsVMName spec)) cs) s"
proof -
  have "emits (restoreVM e spec pol) (bootsAs (vsVMName spec))" for pol
    unfolding restoreVM_def
    by (intro emits_intros emits_weaken [OF emits_cloneFromHibernate]
        emits_weaken [OF emits_tame_resolve]) (simp_all add: restoreCall_bootsAs tame_bootsAs)
  then have "emits (bringUpVM e p spec) (bootsAs (vsVMName spec))"
    unfolding bringUpVM_def by (intro emits_intros emits_fresh_named)
  then show ?thesis by (rule wp_emits) blast
qed

text \<open>The answer of the evidence lookup, with the call it rests on.\<close>

lemma hibernateEvidence_calls:
  "produces (hibernateEvidence e n) (\<lambda>r cs. list_all tame cs \<and>
     (\<forall>img. r = Inr (False, img) \<longrightarrow> evidenceAbsent e n cs))"
  unfolding hibernateEvidence_def fetchHibernateManifest_def regGetManifest_def rtSnapshot_def
  by (intro produces_intros)
    (auto intro!: produces_intros simp: evidenceAbsent_def split: sum.splits option.splits if_splits)

lemma hibernateEvidence_pod:
  "wp (hibernateEvidence e n) (\<lambda>r t. podAt t p = podAt s p) s"
  by (simp add: hibernateEvidence_def fetchHibernateManifest_def regGetManifest_def rtSnapshot_def podAt_def)

definition evidenceOutcome :: "env \<Rightarrow> podptr \<Rightarrow> string \<Rightarrow> prov \<Rightarrow> err + bool \<Rightarrow> prov \<Rightarrow> bool" where
  "evidenceOutcome e p n s r t \<longleftrightarrow> (\<exists>cs. trace t = trace s @ cs \<and> list_all tame cs \<and>
     (r = Inr True \<longrightarrow> mReadRestoreFromHibernate (lib e) (podAt t p)) \<and>
     (r = Inr False \<longrightarrow> evidenceAbsent e n cs))"

lemma derive_outcome:
  assumes "restore_mark_ok e" and "marked \<longrightarrow> mReadRestoreFromHibernate (lib e) (podAt s p)"
  shows "wp (deriveRestoreFromEvidence e p spec marked)
    (\<lambda>r t. evidenceOutcome e p (vsVMName spec) s r t \<and> (marked \<longrightarrow> mReadRestoreFromHibernate (lib e) (podAt t p))) s"
proof -
  have ev: "wp (hibernateEvidence e (vsVMName spec)) (\<lambda>r t. podAt t p = podAt s p \<and>
      (\<exists>cs. trace t = trace s @ cs \<and> list_all tame cs \<and>
        (\<forall>img. r = Inr (False, img) \<longrightarrow> evidenceAbsent e (vsVMName spec) cs))) s"
    unfolding wp_conj using hibernateEvidence_pod wp_produces [OF hibernateEvidence_calls] by blast
  have mark: "mReadRestoreFromHibernate (lib e) (podAt (setAnnots p (mMarkRestoreFromHibernate (lib e)) t) p)" for t
    using assms(1) [unfolded restore_mark_ok_def, rule_format, of "podAt t p"]
    by (simp add: podAt_def setAnnots_def)
  show ?thesis
    unfolding deriveRestoreFromEvidence_def wp_bind
    by (rule wp_mono [OF ev])
      (use assms(2) mark in \<open>auto simp: evidenceOutcome_def emitEvent_def writing_def locked_def yield_def
         podAt_def wp_case_sum split: sum.splits\<close>)
qed

lemma produces_boot_emits: "emits m tame \<Longrightarrow> produces m (\<lambda>_. bootSafe e n)"
  by (erule produces_emits) (rule bootSafe_none)

lemma produces_boot_bind:
  "emits m tame \<Longrightarrow> (\<And>r. produces (f r) (\<lambda>_. bootSafe e n)) \<Longrightarrow>
   produces (State_Monad.bind m f) (\<lambda>_. bootSafe e n)"
  by (erule produces_bind_emits, rule produces_weaken, assumption) (auto intro: bootSafe_append bootSafe_none)

lemma wp_boot_tail:
  assumes "produces m (\<lambda>_. bootSafe e n)" "trace t = trace s @ cs" "bootSafe e n cs"
  shows "wp m (\<lambda>_ u. \<exists>cs. trace u = trace s @ cs \<and> bootSafe e n cs) t"
  by (rule wp_mono [OF wp_produces [OF assms(1)]]) (use assms(2,3) bootSafe_append in fastforce)

text \<open>Bringing the VM up after the evidence was looked at.\<close>

lemma bringUp_safe:
  assumes "registry_ok e" "trace t = trace s @ cs" "list_all tame cs"
    and "evidenceAbsent e (vsVMName spec) cs \<or> \<not> vsManaged spec \<or>
      mReadRestoreFromHibernate (lib e) (podAt t p)"
  shows "wp (bringUpVM e p spec) (\<lambda>_ u. \<exists>cs. trace u = trace s @ cs \<and> bootSafe e (vsVMName spec) cs) t"
proof (cases "evidenceAbsent e (vsVMName spec) cs")
  case True
  show ?thesis
    by (rule wp_mono [OF bringUp_named]) (use True assms(2,3) bootSafe_append bootSafe_none in fastforce)
next
  case False
  with assms(4) have "\<not> vsManaged spec \<or> mReadRestoreFromHibernate (lib e) (podAt t p)" by simp
  from bringUp_restores [OF assms(1) this] show ?thesis
    by (rule wp_mono) (use assms(2,3) bootSafe_append bootSafe_none in fastforce)
qed

lemma bootPod_safe:
  assumes "registry_ok e" and "restore_mark_ok e"
  shows "produces (bootPod e p spec) (\<lambda>_. bootSafe e (vsVMName spec))"
proof -
  let ?n = "vsVMName spec"
  let ?safe = "\<lambda>s (_ :: err option) t. \<exists>cs. trace t = trace s @ cs \<and> bootSafe e ?n cs"
  have fin: "produces (do { _ \<leftarrow> finishCreate e p spec v img b; State_Monad.return (None :: err option) })
      (\<lambda>_. bootSafe e ?n)" for v img b
    by (intro produces_boot_emits emits_intros)
  have rest: "wp (do { r \<leftarrow> bringUpVM e p spec;
        (case r of
           Inl x \<Rightarrow> failCreate e p ''CreateBringUpFailed'' x
         | Inr (v, img) \<Rightarrow> do { _ \<leftarrow> finishCreate e p spec v img b; State_Monad.return None })}) (?safe s) t"
    if "trace t = trace s @ cs" "list_all tame cs"
      "evidenceAbsent e ?n cs \<or> \<not> vsManaged spec \<or> mReadRestoreFromHibernate (lib e) (podAt t p)" for s t cs b
    by (subst wp_bind, rule wp_mono [OF bringUp_safe [OF assms(1) that]])
      (auto intro!: wp_boot_tail fin produces_boot_emits emits_intros simp del: wp_bind
        split: sum.splits prod.splits)
  have derived: "wp (if vsManaged spec then deriveRestoreFromEvidence e p spec
          (mReadRestoreFromHibernate (lib e) (podAt s p))
        else State_Monad.return (Inr False))
      (\<lambda>r t. \<exists>cs. trace t = trace s @ cs \<and> list_all tame cs \<and> ((\<exists>x. r = Inl x) \<or>
        evidenceAbsent e ?n cs \<or> \<not> vsManaged spec \<or> mReadRestoreFromHibernate (lib e) (podAt t p))) s" for s
    by (auto intro!: wp_mono [OF derive_outcome [OF assms(2)]] simp: evidenceOutcome_def)
      (metis (full_types) sum.exhaust)
  have "wp (bootPod e p spec) (?safe s) s" for s
    unfolding bootPod_def
    by (subst wp_bind, subst wp_peek, subst wp_bind, rule wp_mono [OF derived])
      (auto intro!: rest bootSafe_none wp_boot_tail [OF produces_boot_emits [OF emits_tame_failCreate]]
        simp del: wp_bind split: sum.splits)
  from wp_run [OF this] show ?thesis by (auto simp: produces_def)
qed

lemma CreatePod_safe:
  assumes "registry_ok e" and "restore_mark_ok e"
  shows "wp (CreatePod e p) (\<lambda>_ t. \<exists>cs. trace t = trace s @ cs \<and>
    bootSafe e (vsVMName (mParseVMSpec (lib e) (podAt s p))) cs) s"
  unfolding CreatePod_def awaitBusyCreate_def
  by (subst wp_bind, subst wp_peek, rule wp_produces,
      intro produces_if produces_case_option produces_boot_bind produces_case_sum
        bootPod_safe [OF assms] produces_boot_emits emits_intros) simp_all

text \<open>A create never boots a guest over hibernated state. Every VM that \<open>CreatePod\<close> runs or clones has the name of
  the pod's spec and is either preceded by the answer that no hibernate snapshot of its name exists (the registry's typed 404,
  or the local store's when no registry is configured), or is a restore from a source that a verified
  local snapshot, a completed pull or a completed peer transfer vouches for.\<close>

theorem create_never_boots_over_hibernation:
  assumes "registry_ok e" and "restore_mark_ok e"
  shows "\<exists>cs. trace (snd (run_state (CreatePod e p) s)) = trace s @ cs \<and>
    bootSafe e (vsVMName (mParseVMSpec (lib e) (podAt s p))) cs"
  using wp_run [OF CreatePod_safe [OF assms]] .

definition exFresh :: prov where
  "exFresh = setAnnots exPod (\<lambda>_. [''vmname'' \<mapsto> ''vk-a'']) (NewProvider\<lparr>nextAddr := 200\<rparr>)"

theorem create_never_boots_over_hibernation_witness:
  "registry_ok exEnv \<and> restore_mark_ok exEnv \<and>
   bootSafe exEnv ''vk-a'' (trace (snd (run_state (CreatePod exEnv exPod) exFresh)))"
proof -
  have "registry_ok exEnv" by (simp add: registry_ok_def exWorld_def exLib_def)
  moreover have "restore_mark_ok exEnv" by (simp add: restore_mark_ok_def exLib_def exAn_def)
  moreover have "trace exFresh = []" "vsVMName (mParseVMSpec exLib (podAt exFresh exPod)) = ''vk-a''"
    by (simp_all add: exFresh_def setAnnots_def NewProvider_def exLib_def exSpec_def podAt_def exAn_def)
  ultimately show ?thesis
    using create_never_boots_over_hibernation [of exEnv exPod exFresh] by simp
qed

end
