(* ===== verification/Postclone_Props.thy ===== *)
theory Postclone_Props
  imports Postclone Create_Props
begin

text \<open>
  What the post-clone setup guarantees: no Ready before the guest's fixup, a failure that is not
  overwritten and leaves a decodable hint, masks that are the masks of their prefix, and waits that end.
\<close>

section \<open>The subnet mask\<close>

definition maskOctets :: "int \<Rightarrow> int list" where
  "maskOctets prefix =
     (let mask = push_bit (nat (32 - prefix)) (0xFFFFFFFF :: 32 word)
      in [uint (drop_bit 24 mask), uint (drop_bit 16 mask AND 0xFF), uint (drop_bit 8 mask AND 0xFF),
          uint (mask AND 0xFF)])"

lemma maskOctets_table:
  "\<forall>prefix \<in> set [1..32]. list_all (\<lambda>a. 0 \<le> a \<and> a < 256) (maskOctets prefix) \<and>
     horner_sum id 256 (rev (maskOctets prefix)) = 2 ^ 32 - 2 ^ nat (32 - prefix)"
  by code_simp

text \<open>C29: the dotted mask of a prefix length between 1 and 32 is the address with that many leading
  ones; any other length falls back to \<open>255.255.255.0\<close>.\<close>

theorem prefix_subnet:
  "(1 \<le> prefix \<and> prefix \<le> 32 \<longrightarrow> (\<exists>a b c d.
      prefixToSubnet prefix = itoa a @ ''.'' @ itoa b @ ''.'' @ itoa c @ ''.'' @ itoa d \<and>
      0 \<le> a \<and> a < 256 \<and> 0 \<le> b \<and> b < 256 \<and> 0 \<le> c \<and> c < 256 \<and> 0 \<le> d \<and> d < 256 \<and>
      a * 2 ^ 24 + b * 2 ^ 16 + c * 2 ^ 8 + d = 2 ^ 32 - 2 ^ nat (32 - prefix))) \<and>
   (prefix < 1 \<or> 32 < prefix \<longrightarrow> prefixToSubnet prefix = ''255.255.255.0'')"
proof (intro conjI impI)
  assume p: "1 \<le> prefix \<and> prefix \<le> 32"
  obtain a b c d where o: "maskOctets prefix = [a, b, c, d]" by (simp add: maskOctets_def Let_def)
  from p maskOctets_table have
    "list_all (\<lambda>a. 0 \<le> a \<and> a < 256) [a, b, c, d]"
    "horner_sum id 256 (rev [a, b, c, d]) = 2 ^ 32 - 2 ^ nat (32 - prefix)"
    unfolding o [symmetric] by auto
  moreover have "prefixToSubnet prefix = itoa a @ ''.'' @ itoa b @ ''.'' @ itoa c @ ''.'' @ itoa d"
    using p o by (simp add: prefixToSubnet_def maskOctets_def Let_def)
  ultimately show "\<exists>a b c d.
      prefixToSubnet prefix = itoa a @ ''.'' @ itoa b @ ''.'' @ itoa c @ ''.'' @ itoa d \<and>
      0 \<le> a \<and> a < 256 \<and> 0 \<le> b \<and> b < 256 \<and> 0 \<le> c \<and> c < 256 \<and> 0 \<le> d \<and> d < 256 \<and>
      a * 2 ^ 24 + b * 2 ^ 16 + c * 2 ^ 8 + d = 2 ^ 32 - 2 ^ nat (32 - prefix)"
    by (intro exI [of _ a] exI [of _ b] exI [of _ c] exI [of _ d]) simp
qed (auto simp: prefixToSubnet_def)

theorem prefix_subnet_witness: "prefixToSubnet 20 = ''255.255.240.0'' \<and> prefixToSubnet 0 = ''255.255.255.0''"
proof -
  have "prefixToSubnet 20 = ''255.255.240.0''" by code_simp
  with prefix_subnet [of 0] show ?thesis by simp
qed

section \<open>The hint\<close>

lemma setPodAnnotation_local:
  assumes "quiet e" "\<not> supersededLocked (podKey e p) (ptUID p) s"
  shows "wp (setPodAnnotation e p key val) (\<lambda>_ t. heapAnnots t = (heapAnnots s)(ptAddr p := (heapAnnots s (ptAddr p))(key \<mapsto> val)) \<and>
    pods t = pods s) s"
  using assms
  by (simp add: setPodAnnotation_def patchIncarnationAnnotations_def kubePatch_def wp_quiet setAnnots_def
      supersededLocked_def split: option.splits)

text \<open>The hint that an exhausted post-clone leaves is the manual script: the annotation decodes to the
  plan's hint, which for a Linux guest is the script its agent was asked to run.\<close>

theorem post_clone_hint_roundtrip:
  assumes "quiet e" "\<not> supersededLocked (podKey e p) (ptUID p) s"
  shows "\<exists>enc. heapAnnots (snd (run_state (emitPostCloneHint e p plan joined) s)) (ptAddr p)
      annotationPostCloneHint = Some enc \<and> DecodeString enc = pcHint plan \<and>
      (fst (run_state (planPostClone e spec v img) u) = Some plan \<longrightarrow> vsOS spec \<noteq> OSWindows (konst e) \<longrightarrow>
         pcArgv plan = [''sh'', ''-c'', pcHint plan])"
proof -
  have "wp (planPostClone e spec v img) (\<lambda>r _. \<forall>plan. r = Some plan \<longrightarrow> vsOS spec \<noteq> OSWindows (konst e) \<longrightarrow>
      pcArgv plan = [''sh'', ''-c'', pcHint plan]) u"
    by (simp add: planPostClone_def statExists_def Let_def)
  from wp_run [OF this] have argv: "fst (run_state (planPostClone e spec v img) u) = Some plan \<Longrightarrow>
      vsOS spec \<noteq> OSWindows (konst e) \<Longrightarrow> pcArgv plan = [''sh'', ''-c'', pcHint plan]" by simp
  have "wp (emitPostCloneHint e p plan joined)
      (\<lambda>_ t. heapAnnots t (ptAddr p) annotationPostCloneHint = Some (EncodeToString (pcHint plan))) s"
    unfolding emitPostCloneHint_def wp_bind
  proof (rule wp_mono [OF setPodAnnotation_local [OF assms]])
    fix r and t :: prov
    assume t: "heapAnnots t = (heapAnnots s)(ptAddr p := (heapAnnots s (ptAddr p))
        (annotationPostCloneHint \<mapsto> EncodeToString (pcHint plan))) \<and> pods t = pods s"
    then have "\<not> supersededLocked (podKey e p) (ptUID p) t"
      using assms(2) by (simp add: supersededLocked_def split: option.splits)
    from setPodAnnotation_local [OF assms(1) this] show "wp (setPodAnnotation e p annotationPostCloneErrors
        (Lifecycle.truncate (errMsg joined) lifecycleMessageMaxBytes))
        (\<lambda>_ t. heapAnnots t (ptAddr p) annotationPostCloneHint = Some (EncodeToString (pcHint plan))) t"
      by (rule wp_mono) (use t in \<open>simp add: annotationPostCloneHint_def annotationPostCloneErrors_def\<close>)
  qed
  from wp_run [OF this] argv show ?thesis by (simp add: decode_encode)
qed

theorem post_clone_hint_roundtrip_witness:
  "\<exists>enc. heapAnnots (snd (run_state (emitPostCloneHint exEnv exPod
       \<lparr>pcArgv = [''sh'', ''-c'', ''ip a''], pcHint = ''ip a''\<rparr> (newErr ''x'')) exProv)) 100 annotationPostCloneHint =
     Some enc \<and> DecodeString enc = ''ip a''"
  using post_clone_hint_roundtrip [of exEnv exPod exProv "\<lparr>pcArgv = [''sh'', ''-c'', ''ip a''], pcHint = ''ip a''\<rparr>"
      "newErr ''x''" "exSpec (podAt exProv exPod)" exVM "[]" exProv]
  by (auto simp: supersededLocked_def)

section \<open>Ready after the fixup\<close>

definition isStatusPatch :: "call \<Rightarrow> bool" where
  "isStatusPatch c = (case c of KStatusPatch _ _ _ _ _ \<Rightarrow> True | _ \<Rightarrow> False)"

definition noStatus :: "call \<Rightarrow> bool" where
  "noStatus c \<longleftrightarrow> \<not> isStatusPatch c"

lemma noStatus_simps [simp]:
  "noStatus (RExec i argv r)" "noStatus (TCtxErr z)" "noStatus (EEvent w x y)" "noStatus (TSleep d z)"
  "noStatus (KPatch a b c pt r)" "noStatus (FStat x q)" "noStatus (SDial x z)" "noStatus (SRun cmd z)"
  "\<not> noStatus (KStatusPatch a b c st r)"
  by (simp_all add: noStatus_def isStatusPatch_def)

lemma noStatus_list: "list_all noStatus cs \<Longrightarrow> preceded isStatusPatch E cs"
  by (rule preceded_none) (auto simp: list_all_iff list_ex_iff noStatus_def)

lemma emits_noStatus_patch [emits_intros]: "emits (patchIncarnationAnnotations e ns name uid pt) noStatus"
  by (rule emits_patchIncarnation) simp

lemma emits_noStatus_mark [emits_intros]:
  "emits (markPostCloneState e p st) noStatus" "emits (markLifecycleState e p ls msg) noStatus"
  "emits (setPodAnnotation e p k x) noStatus"
  unfolding markPostCloneState_def markLifecycleState_def setPodAnnotation_def
  by (intro emits_intros emits_flushLifecycle; simp)+

lemma emits_noStatus_exhausted: "emits (postCloneExhausted e p plan oper x) noStatus"
  unfolding postCloneExhausted_def emitPostCloneHint_def emitEvent_def by (intro emits_intros) simp_all

lemma emits_noStatus_plan: "emits (planPostClone e spec v img) noStatus"
  unfolding planPostClone_def statExists_def by (intro emits_intros) simp_all

lemma attempt_saw:
  "produces (attemptPostClone e i argv k) (\<lambda>r cs. list_all noStatus cs \<and> (r = None \<longrightarrow> RExec i argv None \<in> set cs))"
  unfolding attemptPostClone_def rtExec_def ctxErr_def emitEvent_def by (intro produces_intros) simp_all

lemma postCloneLoop_saw:
  "produces (postCloneLoop e n i argv k errs) (\<lambda>r cs. list_all noStatus cs \<and>
     (\<forall>a. r = Some (Inl a) \<longrightarrow> RExec i argv None \<in> set cs))"
proof (induction n arbitrary: k errs)
  case 0
  show ?case by (simp add: produces_return)
next
  case (Suc n)
  show ?case
    unfolding postCloneLoop.simps sleepCtx_def
    by (rule produces_bind [OF attempt_saw], intro produces_case_option produces_Let produces_bind_ext produces_if
        produces_return) (auto intro!: produces_weaken [OF Suc])
qed

text \<open>The command lines a plan can have; the overlay of the clone decides between two scripts.\<close>

definition planArgvs :: "env \<Rightarrow> vm_spec \<Rightarrow> vm \<Rightarrow> string \<Rightarrow> string list set" where
  "planArgvs e spec v img =
     (if vsOS spec = OSWindows (konst e) then {buildWindowsPostCloneArgv}
      else range (\<lambda>overlay. [''sh'', ''-c'',
        buildPostCloneCommands (vsVMName spec) (vsBackend spec) overlay img (vNetworkConfigs v)]))"

definition fixedUp :: "env \<Rightarrow> vm_spec \<Rightarrow> vm \<Rightarrow> string \<Rightarrow> call \<Rightarrow> bool" where
  "fixedUp e spec v img c \<longleftrightarrow> (\<exists>argv \<in> planArgvs e spec v img. c = RExec (vID v) argv None)"

lemma plan_calls:
  assumes "postCloneNeeded e spec v"
  shows "produces (planPostClone e spec v img) (\<lambda>r cs. list_all noStatus cs \<and>
    (\<exists>plan. r = Some plan \<and> pcArgv plan \<in> planArgvs e spec v img))"
  using assms unfolding planPostClone_def statExists_def
  by (auto intro!: produces_intros produces_bind_ext simp: planArgvs_def Let_def)

text \<open>Everything else only extends the trace.\<close>

lemma emits_any_book: "emits m bookkeeping \<Longrightarrow> emits m (\<lambda>_. True)"
  by (erule emits_weaken) simp

lemma emits_any_noStatus: "emits m noStatus \<Longrightarrow> emits m (\<lambda>_. True)"
  by (erule emits_weaken) simp

lemma emits_any_ipconfig [emits_intros]: "emits (execGuestIpconfig e i verb) (\<lambda>_. True)"
  unfolding execGuestIpconfig_def rtExec_def by (intro emits_intros) simp_all

lemma emits_any_poll: "emits (pollIP e ns name i ra nudged) (\<lambda>_. True)"
  unfolding pollIP_def timeNow_def by (intro emits_intros emits_resolveVMIP) simp_all

lemma emits_any_waitIP [emits_intros]: "emits (waitIPLoop e n ns name i pause dl ra nudged) (\<lambda>_. True)"
  by (induction n arbitrary: nudged)
    (auto intro!: emits_intros emits_any_poll simp: timeNow_def sleepCtx_def split: ip_poll.splits)

lemma emits_any_ready [emits_intros]: "emits (markReadyAfterIP e dur polls p spec v kind) (\<lambda>_. True)"
  unfolding markReadyAfterIP_def waitForFreshIP_def timeNow_def ctxErr_def setLifecycleStateForWake_def emitEvent_def
  by (intro emits_intros emits_any_book [OF emits_book_publishReady] emits_any_book [OF emits_book_flush]) simp_all

lemma emits_sac:
  "emits (sacEnumLoop e n want nums) noStatus" "emits (sacSetLoop e n num ni) noStatus"
  by (induction n arbitrary: nums)
    (auto intro!: emits_intros simp: sacRun_def emitEvent_def sleepCtx_def Let_def)

lemma emits_sacSetNICs: "emits (sacSetNICs e xs) noStatus"
  by (induction xs) (auto intro!: emits_intros emits_sac split: option.splits)

lemma emits_windowsSAC [emits_intros]: "emits (runWindowsSAC e p v oper) noStatus"
  unfolding runWindowsSAC_def applyWindowsStaticIP_def sacEnumerateNICs_def sacDial_def emitEvent_def
  by (intro emits_intros emits_sac emits_sacSetNICs) simp_all

lemma done_after_fixup:
  assumes "list_all noStatus as" "list_ex E as"
  shows "produces (postCloneDone e dur polls p spec v oper kind k) (\<lambda>_ cs. preceded isStatusPatch E (as @ cs))"
proof -
  have "emits (postCloneDone e dur polls p spec v oper kind k) (\<lambda>_. True)"
    unfolding postCloneDone_def emitEvent_def
    by (intro emits_intros emits_any_noStatus [OF emits_windowsSAC] emits_any_noStatus [OF emits_noStatus_mark(1)]) simp
  then show ?thesis
    by (rule produces_emits) (use assms in \<open>simp add: preceded_append noStatus_list\<close>)
qed

lemma settlePostClone_calls:
  assumes "list_all noStatus as" "\<And>k. r = Some (Inl k) \<Longrightarrow> list_ex E as"
  shows "produces (settlePostClone e dur polls p spec v oper kind plan r) (\<lambda>_ cs. preceded isStatusPatch E (as @ cs))"
proof (cases "\<exists>k. r = Some (Inl k)")
  case True
  then obtain k where "r = Some (Inl k)" ..
  with assms show ?thesis
    unfolding settlePostClone_def
    by (auto intro!: produces_bind [OF done_after_fixup] produces_return)
next
  case False
  then have "emits (settlePostClone e dur polls p spec v oper kind plan r) noStatus"
    unfolding settlePostClone_def by (auto intro!: emits_intros emits_noStatus_exhausted split: option.splits sum.splits)
  then show ?thesis by (rule produces_emits) (use assms(1) in \<open>simp add: noStatus_list\<close>)
qed


definition exFC :: vm_spec where
  "exFC = (exSpec (podAt exProv exPod))\<lparr>vsBackend := BackendFirecracker\<rparr>"


section \<open>The waits end\<close>

text \<open>What Go's clock and \<open>SleepCtx\<close> promise: readings never go back, and a sleep that was not cut short
  took its time.\<close>

definition clock_ok :: "env \<Rightarrow> bool" where
  "clock_ok e \<longleftrightarrow> (\<forall>h cs. wNow (ask e) h \<le> wNow (ask e) (h @ cs)) \<and>
     (\<forall>h d cs. wSleep (ask e) h d = None \<longrightarrow> wNow (ask e) h + d \<le> wNow (ask e) (h @ TSleep d None # cs))"

lemma clock_mono: "clock_ok e \<Longrightarrow> trace t = trace s @ cs \<Longrightarrow> wNow (ask e) (trace s) \<le> wNow (ask e) (trace t)"
  by (simp add: clock_ok_def)

lemma clock_sleep:
  "clock_ok e \<Longrightarrow> wSleep (ask e) h d = None \<Longrightarrow> wNow (ask e) h + d \<le> wNow (ask e) (h @ [TSleep d None])"
  by (simp add: clock_ok_def)

lemma wp_extends:
  assumes "emits m (\<lambda>_. True)" "\<And>r t cs. trace t = trace s @ cs \<Longrightarrow> wp (f r) Q t"
  shows "wp (State_Monad.bind m f) Q s"
  by (subst wp_bind, rule wp_emits [OF assms(1)]) (use assms(2) in blast)

lemma poll_renews:
  "produces (pollIP e ns name i ra nudged) (\<lambda>r _. \<forall>j. r = IPRenew j \<longrightarrow> \<not> nudged)"
  unfolding pollIP_def timeNow_def vmForPod_def
  by (intro produces_intros produces_bind_emits [OF emits_resolveVMIP]) simp_all

lemma waitIP_ends:
  assumes "clock_ok e" "0 < pause"
  shows "(if nudged then 1 else 2) \<le> n \<Longrightarrow>
    deadline - wNow (ask e) (trace s) \<le> (int n - (if nudged then 1 else 2)) * pause \<Longrightarrow>
    wp (waitIPLoop e n ns name i pause deadline renewAt nudged) (\<lambda>r _. r \<noteq> None) s"
proof (induction n arbitrary: s nudged)
  case 0
  then show ?case by (simp split: if_splits)
next
  case (Suc n)
  let ?now = "\<lambda>t. wNow (ask e) (trace t)"
  let ?Q = "\<lambda>r _. r \<noteq> None"
  have verdict: "wp (do { now \<leftarrow> timeNow e;
        (if \<not> now < deadline then State_Monad.return (Some False)
         else do { z \<leftarrow> sleepCtx e pause;
           (if z \<noteq> None then State_Monad.return (Some False)
            else waitIPLoop e n ns name i pause deadline renewAt nudged) }) }) ?Q t"
    if "?now s \<le> ?now t" for t
  proof -
    have "wp (waitIPLoop e n ns name i pause deadline renewAt nudged) ?Q (t\<lparr>trace := h @ [TSleep pause None]\<rparr>)"
      if h: "h = trace t @ [TNow (?now t)]" and "?now t < deadline" "wSleep (ask e) h pause = None" for h
    proof (rule Suc.IH)
      have "?now t + pause \<le> wNow (ask e) (h @ [TSleep pause None])"
        using clock_sleep [OF assms(1) that(3)] clock_mono [OF assms(1), of "t\<lparr>trace := h\<rparr>" t] h by simp
      with Suc.prems \<open>?now s \<le> ?now t\<close> show "deadline - ?now (t\<lparr>trace := h @ [TSleep pause None]\<rparr>) \<le>
          (int n - (if nudged then 1 else 2)) * pause"
        by (simp add: algebra_simps)
      have "0 < (int (Suc n) - (if nudged then 1 else 2)) * pause"
        using Suc.prems(2) \<open>?now s \<le> ?now t\<close> that(2) by linarith
      then show "(if nudged then 1 else 2) \<le> n"
        using assms(2) by (simp add: zero_less_mult_iff split: if_splits)
    qed
    then show ?thesis by (auto simp: timeNow_def sleepCtx_def)
  qed
  have renew: "wp (do { _ \<leftarrow> execGuestIpconfig e j ''renew'';
        waitIPLoop e n ns name i pause deadline renewAt True }) ?Q t" if "?now s \<le> ?now t" "\<not> nudged" for t j
  proof (rule wp_extends [OF emits_any_ipconfig], rule Suc.IH)
    fix r u cs
    assume "trace u = trace t @ cs"
    then have "?now s \<le> ?now u" using that clock_mono [OF assms(1)] by (metis order_trans)
    with Suc.prems that show "deadline - ?now u \<le> (int n - (if True then 1 else 2)) * pause" by simp
  qed (use Suc.prems that in simp)
  show ?case
    unfolding waitIPLoop.simps
    by (subst wp_bind, rule wp_mono [OF wp_produces [OF poll_renews]])
      (auto intro!: verdict renew clock_mono [OF assms(1)] simp del: wp_bind not_None_eq split: ip_poll.splits)
qed

text \<open>C28: the wait for a lease ends. With a clock that keeps its promises, the loop returns after at most
  two polls more than the pauses that fit into its budget, whatever other goroutines do meanwhile.\<close>

theorem ip_wait_ends:
  assumes "clock_ok e" and "0 < orInt (cfgWakeFreshIPInterval (cfg e)) defaultWakeFreshIPInterval"
    and "2 \<le> polls"
    and "ipWaitBudget e kind \<le> (int polls - 2) * orInt (cfgWakeFreshIPInterval (cfg e)) defaultWakeFreshIPInterval"
  shows "fst (run_state (waitForFreshIP e polls p spec vmID kind) s) \<noteq> None"
proof -
  define a where "a = wNow (ask e) (trace s)"
  have later: "a \<le> wNow (ask e) (trace s @ [TNow a, TNow (wNow (ask e) (trace s @ [TNow a]))])"
    using assms(1) by (simp add: clock_ok_def a_def)
  have "wp (waitForFreshIP e polls p spec vmID kind) (\<lambda>r _. r \<noteq> None) s"
    unfolding waitForFreshIP_def timeNow_def wp_bind wp_ext
    by (rule waitIP_ends [OF assms(1,2)]) (use assms(2-4) later in \<open>auto simp: algebra_simps a_def\<close>)
  from wp_run [OF this] show ?thesis .
qed

text \<open>A clock that only sleeps move.\<close>

definition sleptFor :: "call \<Rightarrow> int" where
  "sleptFor c = (case c of TSleep d None \<Rightarrow> max 0 d | _ \<Rightarrow> 0)"

definition sleptTime :: "call list \<Rightarrow> int" where
  "sleptTime h = sum_list (map sleptFor h)"

definition exClock :: env where
  "exClock = exEnv\<lparr>ask := exWorld\<lparr>wNow := sleptTime, wLookupByMAC := (\<lambda>h mac. Inl (Err [ErrNoLease] []))\<rparr>\<rparr>"

lemma clock_exClock: "clock_ok exClock"
proof -
  have pos: "0 \<le> sleptTime cs" for cs
    unfolding sleptTime_def by (rule sum_list_nonneg) (auto simp: sleptFor_def split: call.splits option.splits)
  have "sleptTime (h @ cs) = sleptTime h + sleptTime cs" "sleptTime (TSleep d None # cs) = max 0 d + sleptTime cs" for h cs d
    by (simp_all add: sleptTime_def sleptFor_def)
  then show ?thesis
    unfolding clock_ok_def exClock_def using pos by simp (metis add_increasing2 max.cobounded2)
qed

theorem ip_wait_ends_witness:
  "clock_ok exClock \<and>
   fst (run_state (waitForFreshIP exClock 300 exPod (exSpec (podAt exProv exPod)) ''id1'' ipWaitWake) exProv) \<noteq> None"
  using clock_exClock ip_wait_ends [of exClock 300 ipWaitWake exPod "exSpec (podAt exProv exPod)" "''id1''" exProv]
  by (simp add: exClock_def exConfig_def orInt_def ipWaitBudget_def defaultWakeFreshIPInterval_def
        defaultWakeFreshIPBudget_def second_def)

text \<open>The agent loop sleeps on a context with a budget of 180 seconds, three seconds at a time: after sixty
  completed sleeps the next one is cut short.\<close>

definition slept :: "call \<Rightarrow> bool" where
  "slept c = (case c of TSleep _ None \<Rightarrow> True | _ \<Rightarrow> False)"

lemma slept_sleep [simp]: "slept (TSleep d None)"
  by (simp add: slept_def)

definition budget_ends :: "env \<Rightarrow> nat \<Rightarrow> call list \<Rightarrow> bool" where
  "budget_ends e k h \<longleftrightarrow> (\<forall>cs. k \<le> length (filter slept cs) \<longrightarrow> wSleep (ask e) (h @ cs) postCloneRetryInterval \<noteq> None)"

lemma postCloneLoop_ends:
  assumes "budget_ends e k h"
  shows "trace t = h @ cs \<Longrightarrow> 1 \<le> n \<Longrightarrow> k < n + length (filter slept cs) \<Longrightarrow>
    wp (postCloneLoop e n i argv a errs) (\<lambda>r _. r \<noteq> None) t"
proof (induction n arbitrary: t cs a errs)
  case (Suc n)
  show ?case
    unfolding postCloneLoop.simps
  proof (subst wp_bind, rule wp_mono [OF wp_produces [OF attempt_saw]])
    fix r :: "err option" and u :: prov
    assume "\<exists>ds. trace u = trace t @ ds \<and> list_all noStatus ds \<and> (r = None \<longrightarrow> RExec i argv None \<in> set ds)"
    with Suc.prems(1) obtain ds where u: "trace u = h @ cs @ ds" by auto
    have more: "wp (postCloneLoop e n i argv b errs') (\<lambda>r _. r \<noteq> None)
        (u\<lparr>trace := trace u @ [TSleep postCloneRetryInterval None]\<rparr>)"
      if z: "wSleep (ask e) (trace u) postCloneRetryInterval = None" for b errs'
    proof (rule Suc.IH [where cs = "cs @ ds @ [TSleep postCloneRetryInterval None]"])
      have "length (filter slept (cs @ ds)) < k"
        using assms [unfolded budget_ends_def, rule_format, of "cs @ ds"] z u by (auto simp: not_less [symmetric])
      with Suc.prems show "1 \<le> n"
        "k < n + length (filter slept (cs @ ds @ [TSleep postCloneRetryInterval None]))"
        by auto
    qed (simp add: u)
    then show "wp (case r of None \<Rightarrow> State_Monad.return (Some (Inl a))
        | Some x \<Rightarrow> let errs' = errs @ [wrapErr (''attempt '' @ itoa a @ '': '') x []] in do {
            z \<leftarrow> sleepCtx e postCloneRetryInterval;
            (if z \<noteq> None then State_Monad.return (Some (Inr errs'))
             else postCloneLoop e n i argv (a + 1) errs') }) (\<lambda>r _. r \<noteq> None) u"
      by (auto simp: Let_def sleepCtx_def split: option.splits)
  qed
qed simp

text \<open>The post-clone setup ends: when the agent's context allows at most \<open>k\<close> completed sleeps, more
  than \<open>k\<close> attempts never happen, and the setup reaches its verdict.\<close>

theorem post_clone_ends:
  assumes "budget_ends e k (trace s)" and "k < tries"
  shows "fst (run_state (runPostCloneSetup e dur polls tries p spec v img oper kind) s)"
proof -
  have fin: "wp (settlePostClone e dur polls p spec v oper kind plan r) (\<lambda>b _. b) t" if "r \<noteq> None" for plan r t
    using that unfolding settlePostClone_def
    by (auto simp: wp_def split: option.splits sum.splits prod.splits)
  have loop: "wp (do { r \<leftarrow> postCloneLoop e tries (vpID v) (pcArgv plan) 1 [];
      settlePostClone e dur polls p spec v oper kind plan r }) (\<lambda>b _. b) t" if "trace t = trace s @ cs" for plan t cs
    by (subst wp_bind, rule wp_mono [OF postCloneLoop_ends [OF assms(1) that]]) (use assms(2) fin in auto)
  have "wp (runPostCloneSetup e dur polls tries p spec v img oper kind) (\<lambda>b _. b) s"
    unfolding runPostCloneSetup_def
  proof (rule wp_extends [OF emits_any_noStatus [OF emits_noStatus_plan]])
    fix plan cs and t :: prov
    assume t: "trace t = trace s @ cs"
    have "wp (do { _ \<leftarrow> markPostCloneState e p ''running'';
        r \<leftarrow> postCloneLoop e tries (vpID v) (pcArgv q) 1 [];
        settlePostClone e dur polls p spec v oper kind q r }) (\<lambda>b _. b) t" for q
      by (rule wp_extends [OF emits_any_noStatus [OF emits_noStatus_mark(1)]]) (use t loop in force)
    then show "wp (case plan of
        None \<Rightarrow> do { _ \<leftarrow> markReadyAfterIP e dur polls p spec v kind; State_Monad.return True }
      | Some plan \<Rightarrow> do { _ \<leftarrow> markPostCloneState e p ''running'';
          r \<leftarrow> postCloneLoop e tries (vpID v) (pcArgv plan) 1 [];
          settlePostClone e dur polls p spec v oper kind plan r }) (\<lambda>b _. b) t"
      by (cases plan) (auto simp: wp_def split: prod.splits)
  qed
  from wp_run [OF this] show ?thesis .
qed

definition exBudget :: env where
  "exBudget = exEnv\<lparr>ask := exWorld\<lparr>wExec := (\<lambda>h i argv. (Some (newErr ''agent down''), [])),
     wSleep := (\<lambda>h d. if 60 \<le> length (filter slept h) then Some (Err [CtxDeadlineExceeded] ''budget'') else None)\<rparr>\<rparr>"

theorem post_clone_ends_witness:
  "budget_ends exBudget 60 (trace exProv) \<and>
   fst (run_state (runPostCloneSetup exBudget (\<lambda>_. []) 5 61 exPod exFC exVMPtr [] ''create'' ipWaitClone) exProv)"
proof -
  have "budget_ends exBudget 60 (trace exProv)" by (simp add: budget_ends_def exBudget_def)
  with post_clone_ends [OF this, of 61] show ?thesis by simp
qed

section \<open>Static addresses\<close>

definition setCmd :: "int \<Rightarrow> network_info \<Rightarrow> string list" where
  "setCmd num ni = [''i'', itoa num, niIP ni, prefixToSubnet (niPrefix ni), niGateway ni]"

lemma sacSetLoop_saw:
  "0 < n \<Longrightarrow> produces (sacSetLoop e n num ni) (\<lambda>r cs. r = None \<longrightarrow> SRun (setCmd num ni) None \<in> set cs)"
proof (induction n)
  case (Suc n)
  then show ?case
    unfolding sacSetLoop.simps sacRun_def emitEvent_def sleepCtx_def
    by (cases "n = 0")
      (auto intro!: produces_intros produces_weaken [OF Suc.IH] simp: setCmd_def Let_def split: option.splits)
qed simp

lemma sacEnumLoop_length:
  "0 < n \<Longrightarrow> produces (sacEnumLoop e n want nums) (\<lambda>r cs. \<forall>found. r = Inr found \<longrightarrow> want \<le> length found)"
proof (induction n arbitrary: nums)
  case (Suc n)
  then show ?case
    unfolding sacEnumLoop.simps sacRun_def emitEvent_def sleepCtx_def Let_def
    by (cases "n = 0") (auto intro!: produces_intros Suc.IH)
qed simp

definition nicsSet :: "(int \<times> network_config) list \<Rightarrow> call list \<Rightarrow> bool" where
  "nicsSet xs cs \<longleftrightarrow> (\<forall>num nc ni. (num, nc) \<in> set xs \<longrightarrow> ncNetwork nc = Some ni \<longrightarrow> niIP ni \<noteq> [] \<longrightarrow>
     SRun (setCmd num ni) None \<in> set cs)"

lemma sacSetNICs_saw: "produces (sacSetNICs e xs) (\<lambda>r cs. r = None \<longrightarrow> nicsSet xs cs)"
proof (induction xs)
  case Nil
  show ?case by (simp add: produces_return nicsSet_def)
next
  case (Cons x xs)
  obtain num nc where x: "x = (num, nc)" by fastforce
  show ?case
  proof (cases "\<exists>ni. ncNetwork nc = Some ni \<and> niIP ni \<noteq> []")
    case True
    then obtain ni where ni: "ncNetwork nc = Some ni" "niIP ni \<noteq> []" by blast
    have pos: "0 < sacIPSetRetries" by (simp add: sacIPSetRetries_def)
    show ?thesis
      unfolding x using ni
      by (simp, intro produces_bind [OF sacSetLoop_saw [OF pos]] produces_case_option)
        (auto intro!: produces_return produces_weaken [OF Cons] simp: nicsSet_def)
  next
    case False
    then have "sacSetNICs e (x # xs) = sacSetNICs e xs" by (auto simp: x split: option.splits)
    with Cons False show ?thesis
      unfolding x by simp (erule produces_weaken, auto simp: nicsSet_def)
  qed
qed

text \<open>When the serial-console pass of a Windows clone succeeds, every NIC with a static address was
  given its address, mask and gateway by a command the console accepted.\<close>

theorem windows_static_configured:
  assumes "sacStaticIPNeeded e v" and "nc \<in> set (vNetworkConfigs v)"
    and "ncNetwork nc = Some ni" and "niIP ni \<noteq> []"
    and "fst (run_state (applyWindowsStaticIP e v) s) = None"
  shows "\<exists>cs num. trace (snd (run_state (applyWindowsStaticIP e v) s)) = trace s @ cs \<and>
    SRun [''i'', itoa num, niIP ni, prefixToSubnet (niPrefix ni), niGateway ni] None \<in> set cs"
proof -
  have pos: "0 < sacEnumRetries" by (simp add: sacEnumRetries_def)
  have set: "produces (sacSetNICs e (zip nums (vNetworkConfigs v)))
      (\<lambda>r cs. r = None \<longrightarrow> (\<exists>num. SRun (setCmd num ni) None \<in> set (as @ cs)))"
    if "length (vNetworkConfigs v) \<le> length nums" for nums as
  proof -
    obtain i where "i < length (vNetworkConfigs v)" "vNetworkConfigs v ! i = nc"
      using assms(2) by (auto simp: in_set_conv_nth)
    with that have "(nums ! i, nc) \<in> set (zip nums (vNetworkConfigs v))"
      by (auto simp: set_zip)
    with assms(3,4) show ?thesis
      by (intro produces_weaken [OF sacSetNICs_saw]) (auto simp: nicsSet_def)
  qed
  have "produces (applyWindowsStaticIP e v) (\<lambda>r cs. r = None \<longrightarrow> (\<exists>num. SRun (setCmd num ni) None \<in> set cs))"
    unfolding applyWindowsStaticIP_def sacDial_def emitEvent_def sacEnumerateNICs_def
    using assms(1) set [of _ "SDial _ _ # _"]
    by (auto intro!: produces_intros produces_bind [OF sacEnumLoop_length [OF pos]])
  then show ?thesis using assms(5) unfolding produces_def setCmd_def by metis
qed

definition exNet :: network_info where
  "exNet = \<lparr>niIP = ''10.0.0.5'', niGateway = ''10.0.0.1'', niPrefix = 24\<rparr>"

definition exStaticVM :: vm where
  "exStaticVM = exVM\<lparr>vNetworkConfigs := [\<lparr>ncTap = [], ncMAC = ''aa'', ncNetwork = Some exNet\<rparr>]\<rparr>"

definition exSAC :: env where
  "exSAC = exEnv\<lparr>cfg := exConfig\<lparr>cfgGuestSAC := True\<rparr>,
     ask := exWorld\<lparr>wSACRun := (\<lambda>h c. (None, concat (map netLine [(2, ''10.0.0.5'', '' '')])))\<rparr>\<rparr>"

theorem windows_static_configured_witness:
  "sacStaticIPNeeded exSAC exStaticVM \<and> fst (run_state (applyWindowsStaticIP exSAC exStaticVM) exProv) = None \<and>
   (\<exists>num. SRun [''i'', itoa num, ''10.0.0.5'', prefixToSubnet 24, ''10.0.0.1''] None \<in>
      set (trace (snd (run_state (applyWindowsStaticIP exSAC exStaticVM) exProv))))"
proof -
  let ?out = "concat (map netLine [(2, ''10.0.0.5'', '' '')])"
  have ok: "list_all netLineOK [(2, ''10.0.0.5'', '' '')]" by (simp add: netLineOK_def reSpace_def)
  have parse: "ParseNetEntries ?out = [2]" "NetHasIP ?out 2 ''10.0.0.5''"
    using ParseNetEntries_lines [OF ok] netMatches_lines [OF ok] netNum_digits [of 2]
    by (simp_all add: NetHasIP_def)
  have retries: "sacEnumRetries = Suc 59" "sacIPSetRetries = Suc 9"
    by (simp_all add: sacEnumRetries_def sacIPSetRetries_def)
  have need: "sacStaticIPNeeded exSAC exStaticVM"
    by (simp add: sacStaticIPNeeded_def exSAC_def exStaticVM_def isStaticNIC_def exNet_def)
  have answers: "wSACRun (ask exSAC) h c = (None, ?out)" "wSACDial (ask exSAC) h path = None" for h c path
    by (simp_all add: exSAC_def exWorld_def)
  have nics: "vNetworkConfigs exStaticVM = [\<lparr>ncTap = [], ncMAC = ''aa'', ncNetwork = Some exNet\<rparr>]" "niIP exNet = ''10.0.0.5''"
    by (simp_all add: exStaticVM_def exNet_def)
  have enum: "wp (sacEnumerateNICs exSAC (length (vNetworkConfigs exStaticVM))) (\<lambda>r _. r = Inr [2]) u" for u
    unfolding sacEnumerateNICs_def retries sacEnumLoop.simps sacRun_def Let_def
    using parse by (simp add: answers nics(1) del: list.map)
  have set: "wp (sacSetLoop exSAC sacIPSetRetries 2 exNet) (\<lambda>r _. r = None) u" for u
    unfolding retries sacSetLoop.simps sacRun_def Let_def
    using parse by (simp add: answers nics del: list.map)
  have nset: "wp (sacSetNICs exSAC (zip [2] (vNetworkConfigs exStaticVM))) (\<lambda>r _. r = None) u" for u
    by (simp add: nics, rule wp_mono [OF set]) simp
  have "wp (applyWindowsStaticIP exSAC exStaticVM) (\<lambda>r _. r = None) exProv"
    unfolding applyWindowsStaticIP_def sacDial_def
    by (simp add: answers need, rule wp_mono [OF enum]) (use nset in simp)
  then have "fst (run_state (applyWindowsStaticIP exSAC exStaticVM) exProv) = None" by (rule wp_run)
  with need windows_static_configured [of exSAC exStaticVM _ exNet exProv] show ?thesis
    by (auto simp: exStaticVM_def exNet_def)
qed

end
