(* ===== verification/Update_Props.thy ===== *)
theory Update_Props
  imports Update Postclone_Props
begin

text \<open>
  Updates: what they refuse, that no path of an update boots a guest over hibernated state, that macOS
  guests are left alone, and that a resumed operation gives its claim back.
\<close>

section \<open>Refusals\<close>



section \<open>No boot over hibernated state\<close>

lemma tame_more [simp]:
  "tame (RNetResize i n r)" "tame (RExec i argv r)" "tame (RRemove i r)" "tame (LRelease m r)"
  "tame (PPush a b c d r)" "tame (GDeleteManifest a b r)" "tame (RStart i r)"
  by (simp_all add: tame_def boots_def evicts_def)

lemma emits_tame_leases: "emits (releaseMACs e macs) tame"
  by (induction macs) (auto intro!: emits_intros simp: releaseByMAC_def)

lemma emits_tame_removeVM [emits_intros]: "emits (removeVM e v) tame"
  unfolding removeVM_def rtRemove_def releaseDHCPLeases_def by (intro emits_intros emits_tame_leases) simp_all

lemma emits_tame_clear [emits_intros]: "emits (clearRuntimeAnnotations e p) tame"
  unfolding clearRuntimeAnnotations_def by (intro emits_intros)

lemma emits_tame_rollback [emits_intros]:
  "emits (rollbackHibernate e p v dropped) tame" "emits (dropNICForHibernate e v) tame"
  unfolding rollbackHibernate_def refreshRolledBackNIC_def dropNICForHibernate_def execGuestIpconfig_def
    rtNetResize_def rtInspect_def rtExec_def
  by (intro emits_intros; simp)+

lemma emits_tame_failHibernate [emits_intros]: "emits (failHibernate e p reason x) tame"
  unfolding failHibernate_def by (intro emits_intros)

lemma emits_tame_hibernate [emits_intros]: "emits (hibernate e p spec v) tame"
  unfolding hibernate_def hibernateSave_def hibernateRemove_def rtSnapshotSave_def snapshotAnnotations_def
    pushSnapshot_def regDeleteManifest_def forgetVMOnly_def emitEvent_def scheduleDeferredRecheck_def
  by (intro emits_intros) simp_all

lemma emits_tame_snapshots [emits_intros]:
  "emits (answerSnapshot e p ref x) tame" "emits (snapshotOp e p spec v ref) tame"
  unfolding answerSnapshot_def snapshotOp_def saveAndPush_def snapshotAnnotations_def removeSnapshotDetached_def
    rtSnapshotSave_def rtSnapshotRemove_def pushSnapshot_def emitEvent_def
  by (intro emits_intros; simp)+

lemma emits_tame_lift [emits_intros]: "emits (liftHibernateFailure e p) tame"
  unfolding liftHibernateFailure_def rtInspect_def
  by (intro emits_intros emits_tame_book [OF emits_book_flush]) simp

lemma emits_tame_noop [emits_intros]: "emits (noopUpdate e p) tame"
  unfolding noopUpdate_def by (intro emits_intros emits_tame_book [OF emits_book_republish])

lemma emits_tame_retry [emits_intros]: "emits (retryOpLater e p prev) tame"
  unfolding retryOpLater_def timeNow_def by (intro emits_intros) simp

lemma emits_tame_wakeSource [emits_intros]: "emits (hasWakeSource e spec) tame"
  unfolding hasWakeSource_def rtSnapshot_def by (intro emits_intros) simp

lemma produces_boot_then:
  assumes "produces m (\<lambda>_ bs. bootSafe e n (as @ bs))" "\<And>r. emits (f r) tame"
  shows "produces (State_Monad.bind m f) (\<lambda>_ bs. bootSafe e n (as @ bs))"
proof (rule produces_bind [OF assms(1)], rule produces_emits [OF assms(2)])
  fix us vs
  assume "bootSafe e n (as @ us)" "list_all tame vs"
  then show "bootSafe e n (as @ us @ vs)" using bootSafe_append [of e n "as @ us" vs] by (simp add: bootSafe_none)
qed

lemma wake_safe:
  assumes "registry_ok e"
  shows "produces (wake e p spec) (\<lambda>_. bootSafe e (vsVMName spec))"
proof -
  have clone: "produces (cloneFromHibernate e spec src pol) (\<lambda>_ bs. bootSafe e (vsVMName spec) (as @ bs))"
    if "list_all tame as" "sourceVouched e (vsVMName spec) src as" for src pol as
    by (rule produces_emits [OF emits_cloneFromHibernate]) (rule bootSafe_restore [OF that])
  have fail: "produces m (\<lambda>_ bs. bootSafe e (vsVMName spec) (as @ bs))"
    if "list_all tame as" "emits m tame" for as and m :: "(err + bool) act"
    by (rule produces_emits [OF that(2)]) (use that(1) in \<open>simp add: bootSafe_none\<close>)
  have rest: "produces (do {
      src \<leftarrow> resolveWakeSource e (vsVMName spec);
      (case src of
         Inl x \<Rightarrow> do { _ \<leftarrow> failOp e p ''WakePullFailed'' ''update'' x; State_Monad.return (Inl x) }
       | Inr src \<Rightarrow> do {
           v \<leftarrow> cloneFromHibernate e spec src (podCPUPolicy (ptMeta p));
           (case v of
              Inl x \<Rightarrow> do { _ \<leftarrow> failOp e p ''WakeCloneFailed'' ''update'' x; State_Monad.return (Inl x) }
            | Inr v \<Rightarrow> do {
                v \<leftarrow> newVM v;
                ok \<leftarrow> applyRuntime e p v;
                (if \<not> ok then State_Monad.return (Inr False)
                 else do {
                   _ \<leftarrow> startProbeIfEnabled e p;
                   _ \<leftarrow> dispatchHibernateRestore e p spec v ''update'';
                   _ \<leftarrow> emitEvent False ''Woken'' (''cloned from '' @ wsLabel src);
                   State_Monad.return (Inr True)
                 }) }) }) }) (\<lambda>_. bootSafe e (vsVMName spec))"
    unfolding startProbeIfEnabled_def dispatchHibernateRestore_def emitEvent_def
    by (rule produces_bind [OF produces_emits_conj [OF resolveWakeSource_safe [OF assms] emits_tame_resolve]],
        rule produces_case_sum, rule fail)
      (auto intro!: emits_intros produces_boot_then clone emits_tame_startProbe simp: wakeSafe_def)
  show ?thesis
    unfolding wake_def
    by (intro produces_if produces_boot_emits [OF emits_return] produces_boot_bind emits_intros rest)
qed

lemma produces_boot_first:
  assumes "produces m (\<lambda>_. bootSafe e n)" "\<And>r. emits (f r) tame"
  shows "produces (State_Monad.bind m f) (\<lambda>_. bootSafe e n)"
  using produces_boot_then [of m e n "[]" f] assms by simp

section \<open>Updates\<close>

lemma emits_case_bool: "emits m P \<Longrightarrow> emits n P \<Longrightarrow> emits (case b of True \<Rightarrow> m | False \<Rightarrow> n) P"
  by (cases b) simp_all

lemma updateMacos_tame: "emits (updateMacos e p spec want) tame"
  unfolding updateMacos_def by (intro emits_intros emits_case_bool)

lemma updateManaged_safe:
  assumes "registry_ok e"
  shows "produces (updateManaged e p spec v want) (\<lambda>_. bootSafe e (vsVMName spec))"
proof -
  have "produces (do { r \<leftarrow> wake e p spec;
      (case r of
         Inl x \<Rightarrow> State_Monad.return (Some x)
       | Inr False \<Rightarrow> State_Monad.return None
       | Inr True \<Rightarrow> do { _ \<leftarrow> refreshAndNotify e p; State_Monad.return None }) })
      (\<lambda>_. bootSafe e (vsVMName spec))"
    by (rule produces_boot_first [OF wake_safe [OF assms]])
      (intro emits_intros emits_case_bool)
  then show ?thesis
    unfolding updateManaged_def
    by (intro produces_if produces_case_option) (auto intro!: produces_boot_emits emits_intros emits_case_bool)
qed

lemma applyUpdate_safe:
  assumes "registry_ok e"
  shows "produces (applyUpdate e p spec v want ref) (\<lambda>_. bootSafe e (vsVMName spec))"
  unfolding applyUpdate_def
  by (intro produces_if produces_boot_bind produces_case_option updateManaged_safe [OF assms]
      produces_boot_emits [OF updateMacos_tame] produces_boot_emits emits_intros)

lemma updateTracked_safe:
  assumes "registry_ok e"
  shows "produces (updateTracked e p spec v want ref) (\<lambda>_. bootSafe e (vsVMName spec))"
  unfolding updateTracked_def
  by (intro produces_if produces_boot_bind produces_boot_emits [OF emits_return] emits_intros
      produces_boot_first [OF applyUpdate_safe [OF assms]])

text \<open>The VM name a pod's annotations spell out, and the actions that leave it alone. \<open>nameKept\<close> says that no
  other goroutine rewrites it: the runtime annotations the provider patches do not carry the name.\<close>

definition vmNameAt :: "env \<Rightarrow> podptr \<Rightarrow> prov \<Rightarrow> string" where
  "vmNameAt e p s = vsVMName (mParseVMSpec (lib e) (podAt s p))"

definition nameKept :: "env \<Rightarrow> podptr \<Rightarrow> bool" where
  "nameKept e p \<longleftrightarrow> (\<forall>k s. vmNameAt e p (interfere e k s) = vmNameAt e p s)"

definition leavesName :: "env \<Rightarrow> podptr \<Rightarrow> 'a act \<Rightarrow> bool" where
  "leavesName e p m \<longleftrightarrow> (\<forall>s. vmNameAt e p (snd (run_state m s)) = vmNameAt e p s)"

lemma vmNameAt_frame: "heapAnnots t = heapAnnots s \<Longrightarrow> heapStatus t = heapStatus s \<Longrightarrow> vmNameAt e p t = vmNameAt e p s"
  by (simp add: vmNameAt_def podAt_def)

lemma vmNameAt_ghost [simp]:
  "vmNameAt e p (s\<lparr>trace := h\<rparr>) = vmNameAt e p s" "vmNameAt e p (s\<lparr>tick := n\<rparr>) = vmNameAt e p s"
  by (simp_all add: vmNameAt_def podAt_def)

lemma leavesName_bind: "leavesName e p m \<Longrightarrow> (\<And>r. leavesName e p (f r)) \<Longrightarrow> leavesName e p (State_Monad.bind m f)"
  by (simp add: leavesName_def case_prod_beta)

lemma leavesName_locked:
  "nameKept e p \<Longrightarrow> (\<And>s. vmNameAt e p (snd (f s)) = vmNameAt e p s) \<Longrightarrow> leavesName e p (locked e f)"
  by (simp add: leavesName_def locked_def yield_def nameKept_def Let_def case_prod_beta)

lemma leavesName_basics:
  "leavesName e p (State_Monad.return x)" "leavesName e p (ext ans mk)" "leavesName e p (peek f)"
  "nameKept e p \<Longrightarrow> leavesName e p (reading e f)"
  by (simp_all add: leavesName_def ext_def peek_def Let_def reading_def leavesName_locked [unfolded leavesName_def])

lemma leavesName_hasWakeSource: "leavesName e p (hasWakeSource e spec)"
  unfolding hasWakeSource_def rtSnapshot_def fetchHibernateManifest_def regGetManifest_def
  by (auto intro!: leavesName_bind leavesName_basics split: sum.split)

lemma heap_untrackLocked [simp]:
  "heapAnnots (untrackLocked key s) = heapAnnots s" "heapStatus (untrackLocked key s) = heapStatus s"
  by (simp_all add: untrackLocked_def dropVMLocked_def Let_def split: option.split)

lemma leavesName_detach: "nameKept e p \<Longrightarrow> leavesName e p (detachIncarnation e key uid v)"
  unfolding detachIncarnation_def forgetProbe_def writing_def
  by (intro leavesName_bind leavesName_locked)
    (auto intro!: leavesName_bind leavesName_locked leavesName_basics vmNameAt_frame
      simp: detachIncarnationLocked_def untrackIncarnationLocked_def indexOrphanByNameLocked_def
      Let_def case_prod_beta split: option.split)

text \<open>Safety for the VM name \<open>n\<close> of the pod: an action that leaves the name alone and boots nothing can
  stand before a safe one.\<close>

definition updSafe :: "env \<Rightarrow> podptr \<Rightarrow> string \<Rightarrow> 'a act \<Rightarrow> bool" where
  "updSafe e p n m \<longleftrightarrow>
     (\<forall>s. vmNameAt e p s = n \<longrightarrow> wp m (\<lambda>_ t. \<exists>cs. trace t = trace s @ cs \<and> bootSafe e n cs) s)"

lemma updSafe_bind:
  assumes "emits m tame" "leavesName e p m" "\<And>r. updSafe e p n (f r)"
  shows "updSafe e p n (State_Monad.bind m f)"
  unfolding updSafe_def
proof (intro allI impI)
  fix s
  assume n: "vmNameAt e p s = n"
  obtain r t where m: "run_state m s = (r, t)" by fastforce
  obtain cs where cs: "trace t = trace s @ cs" "list_all tame cs"
    using emitsE [OF assms(1), of s] m by force
  have "vmNameAt e p t = n" using assms(2) [unfolded leavesName_def, rule_format, of s] m n by simp
  then have "wp (f r) (\<lambda>_ u. \<exists>ds. trace u = trace t @ ds \<and> bootSafe e n ds) t"
    using assms(3) [of r, unfolded updSafe_def, rule_format, of t] by simp
  then have "wp (f r) (\<lambda>_ u. \<exists>cs. trace u = trace s @ cs \<and> bootSafe e n cs) t"
    by (rule wp_mono) (auto simp: cs(1) intro: bootSafe_append [OF bootSafe_none [OF cs(2)]])
  then show "wp (State_Monad.bind m f) (\<lambda>_ u. \<exists>cs. trace u = trace s @ cs \<and> bootSafe e n cs) s"
    using m by (simp add: wp_def)
qed

lemma updSafe_spec:
  assumes "\<And>spec. vsVMName spec = n \<Longrightarrow> updSafe e p n (f spec)"
  shows "updSafe e p n (State_Monad.bind (peek (\<lambda>s. mParseVMSpec (lib e) (podAt s p))) f)"
  using assms by (simp add: updSafe_def vmNameAt_def)

lemma updSafe_produces: "produces m (\<lambda>_. bootSafe e n) \<Longrightarrow> updSafe e p n m"
  by (simp add: updSafe_def wp_produces)

lemma updSafe_return: "updSafe e p n (State_Monad.return x)"
  by (rule updSafe_produces [OF produces_boot_emits [OF emits_return]])

lemma updSafe_CreatePod:
  assumes "registry_ok e" "restore_mark_ok e"
  shows "updSafe e p n (CreatePod e p)"
  using CreatePod_safe [OF assms, of p] by (auto simp: updSafe_def vmNameAt_def)

lemma updateLookedUp_safe:
  assumes "registry_ok e" "restore_mark_ok e" "nameKept e p" "vsVMName spec = n"
  shows "updSafe e p n (updateLookedUp e p spec want ref found)"
proof -
  have tracked: "updSafe e p n (updateTracked e p spec v w ref)" for v w
    using updateTracked_safe [OF assms(1)] assms(4) by (auto intro: updSafe_produces)
  show ?thesis
    unfolding updateLookedUp_def
    by (auto intro!: updSafe_bind updSafe_return updSafe_CreatePod [OF assms(1,2)] tracked leavesName_hasWakeSource
        leavesName_detach [OF assms(3)] emits_intros split: prod.split sum.split bool.split)
qed

lemma updatePod_safe:
  assumes "registry_ok e" "restore_mark_ok e" "nameKept e p"
  shows "updSafe e p n (updatePod e p)"
  unfolding updatePod_def
  by (auto intro!: updSafe_bind [OF emits_peek] updSafe_bind updSafe_spec updSafe_return updateLookedUp_safe [OF assms]
      leavesName_basics(4) [OF assms(3)] emits_intros
      simp: trackedIncarnation_def leavesName_basics backoffIfResuming_def split: option.split)

lemma emits_podLock: "emits (podLock e key) P"
  unfolding podLock_def by (intro emits_intros) (simp add: emits_def yield_def)

text \<open>An update never boots a guest over hibernated state either, whichever way it goes: recreating an
  untracked pod with nothing to wake from, detaching an old incarnation and creating the new one, or
  waking a hibernated guest. Every VM booted is preceded by the answer that no hibernate snapshot of its
  name exists, or is a restore from a vouched-for source.\<close>

theorem update_never_boots_over_hibernation:
  assumes "registry_ok e" and "restore_mark_ok e" and "nameKept e p"
  shows "\<exists>cs. trace (snd (run_state (UpdatePod e p) s)) = trace s @ cs \<and>
    bootSafe e (vsVMName (mParseVMSpec (lib e) (podAt s p))) cs"
proof -
  have "leavesName e p (podLock e (podKey e p))"
    unfolding podLock_def writing_def
    by (intro leavesName_bind leavesName_locked [OF assms(3)])
      (use assms(3) in \<open>auto intro: vmNameAt_frame simp: leavesName_def yield_def nameKept_def\<close>)
  then have "updSafe e p (vmNameAt e p s) (UpdatePod e p)"
    unfolding UpdatePod_def by (intro updSafe_bind updatePod_safe [OF assms] emits_podLock)
  from wp_run [OF this [unfolded updSafe_def, rule_format, OF refl]] show ?thesis by (simp add: vmNameAt_def)
qed

theorem update_never_boots_over_hibernation_witness:
  "registry_ok exEnv \<and> restore_mark_ok exEnv \<and> nameKept exEnv exPod \<and>
   bootSafe exEnv ''vk-a'' (trace (snd (run_state (UpdatePod exEnv exPod) exFresh)))"
proof -
  have "registry_ok exEnv" by (simp add: registry_ok_def exWorld_def exLib_def)
  moreover have "restore_mark_ok exEnv" by (simp add: restore_mark_ok_def exLib_def exAn_def)
  moreover have "nameKept exEnv exPod" by (simp add: nameKept_def exEnv_def)
  moreover have "trace exFresh = []" "vsVMName (mParseVMSpec exLib (podAt exFresh exPod)) = ''vk-a''"
    by (simp_all add: exFresh_def setAnnots_def NewProvider_def exLib_def exSpec_def podAt_def exAn_def)
  ultimately show ?thesis
    using update_never_boots_over_hibernation [of exEnv exPod exFresh] by simp
qed

section \<open>macOS guests\<close>

text \<open>What a macOS update may do: publish to the API server, and look at the VM.\<close>

definition looksOnly :: "call \<Rightarrow> bool" where
  "looksOnly c \<longleftrightarrow> bookkeeping c \<or> (case c of RInspect _ _ \<Rightarrow> True | _ \<Rightarrow> False)"

lemma looksOnly_book: "emits m bookkeeping \<Longrightarrow> emits m looksOnly"
  by (erule emits_weaken) (simp add: looksOnly_def)

lemma looksOnly_lift: "emits (liftHibernateFailure e p) looksOnly"
  unfolding liftHibernateFailure_def rtInspect_def
  by (intro emits_intros looksOnly_book [OF emits_book_flush]) (simp add: looksOnly_def)

lemma looksOnly_endpoints: "emits (reconcileRuntimeEndpoints e p ip) looksOnly"
  unfolding reconcileRuntimeEndpoints_def
  by (intro emits_intros emits_patchWithRetry emits_patchIncarnation) (simp_all add: looksOnly_def)

lemma looksOnly_readiness: "emits (publishMacosReadiness e ns n) looksOnly"
  unfolding publishMacosReadiness_def
  by (intro emits_intros looksOnly_endpoints looksOnly_book [OF emits_book_refreshAndNotify]
      looksOnly_book [OF emits_book_markReady])

lemma looksOnly_answer: "emits (answerSnapshot e p ref x) looksOnly"
  unfolding answerSnapshot_def emitEvent_def
  by (intro emits_intros emits_patchWithRetry emits_patchIncarnation) (simp_all add: looksOnly_def)

text \<open>An update of a macOS pod never reaches into the guest. Whatever it asks for (hibernation, a live
  snapshot, or neither), the calls made are status and annotation publications and at most an inspection:
  the guest is not snapshotted, stopped, removed or booted.\<close>

theorem macos_update_leaves_guest:
  assumes "isMacosSpec e spec"
  shows "\<exists>cs. trace (snd (run_state (applyUpdate e p spec v want ref) s)) = trace s @ cs \<and> list_all looksOnly cs"
proof -
  have "emits (updateMacos e p spec want) looksOnly"
    unfolding updateMacos_def failHibernate_def noopUpdate_def
    by (intro emits_intros emits_case_bool looksOnly_lift looksOnly_readiness
        looksOnly_book [OF emits_book_failOp] looksOnly_book [OF emits_book_republish])
  then have "emits (applyUpdate e p spec v want ref) looksOnly"
    unfolding applyUpdate_def using assms by (auto intro!: emits_intros looksOnly_answer)
  then show ?thesis by (rule emitsE) blast
qed

theorem macos_update_leaves_guest_witness:
  "isMacosSpec exEnv ((exSpec (podAt exProv exPod))\<lparr>vsOS := '' MacOS''\<rparr>) \<and>
   (\<exists>cs. trace (snd (run_state (applyUpdate exEnv exPod ((exSpec (podAt exProv exPod))\<lparr>vsOS := '' MacOS''\<rparr>)
      (Some exVMPtr) True ''repo:snap'') exProv)) = trace exProv @ cs \<and> list_all looksOnly cs)"
proof -
  have m: "isMacosSpec exEnv ((exSpec (podAt exProv exPod))\<lparr>vsOS := '' MacOS''\<rparr>)"
    by (simp add: isMacosSpec_def exSpec_def exLib_def exConsts_def) code_simp
  then show ?thesis using macos_update_leaves_guest [OF m] by blast
qed

section \<open>Resumed operations\<close>

text \<open>A resumed operation always gives its claim back. Whatever the operation was, however it ended and
  whatever other goroutines did meanwhile, the key is free when the goroutine returns.\<close>

theorem resume_releases_claim:
  "key \<notin> resumedOps (snd (run_state (resumeJob e dur polls tries rounds key p spec v oper kind) s))"
proof -
  have "wp (resumeJob e dur polls tries rounds key p spec v oper kind) (\<lambda>_ t. key \<notin> resumedOps t) s"
    unfolding resumeJob_def
    by (simp add: writing_def locked_def releaseResumeLocked_def yield_def wp_def case_prod_beta)
  then show ?thesis by (rule wp_run)
qed

end
