(* ===== verification/Reconcile_Props.thy ===== *)
theory Reconcile_Props
  imports Preserves Reconcile Update_Props
begin

text \<open>
  Startup reconciliation destroys orphans only, a busy create is always settled, and status reconciliation
  republishes exactly what drifted.
\<close>

section \<open>Bound VMs\<close>

text \<open>Every VM bound to a pod is a macOS guest or has an id of \<open>M\<close>.\<close>

definition boundTo :: "string set \<Rightarrow> prov \<Rightarrow> bool" where
  "boundTo M s \<longleftrightarrow> (\<forall>key v. vmsByPod s key = Some v \<longrightarrow> vpID v \<in> M \<or> isMacosVM (Some v))"

interpretation bd: ghost_free "boundTo M" for M
  by unfold_locales (simp_all add: boundTo_def)

lemma boundTo_mono: "boundTo M s \<Longrightarrow> M \<subseteq> N \<Longrightarrow> boundTo N s"
  by (auto simp: boundTo_def)

lemma boundTo_same: "vmsByPod t = vmsByPod s \<Longrightarrow> boundTo M s \<Longrightarrow> boundTo M t"
  by (simp add: boundTo_def)

lemma boundTo_setVM: "boundTo M s \<Longrightarrow> vpID v \<in> M \<or> isMacosVM (Some v) \<Longrightarrow> boundTo M (setVMLocked key v s)"
  by (auto simp: boundTo_def setVMLocked_def)

lemma boundTo_updateTracked:
  assumes "boundTo M s" "\<And>v. vID (f v) = vID v" "\<And>v. vHypervisor (f v) = vHypervisor v"
  shows "boundTo M (snd (updateTrackedVM key i f s))"
  using assms unfolding boundTo_def updateTrackedVM_def
  by (auto simp: allocVM_def setVMLocked_def isMacosVM_def Let_def split: option.splits)

lemma boundTo_track:
  assumes "boundTo M s" "\<And>u. v = Some u \<Longrightarrow> vpID u \<in> M \<or> isMacosVM (Some u)"
  shows "boundTo M (trackPodLocked e p v s)"
  using assms
  by (auto simp: trackPodLocked_def reassertLifecycleLocked_def Let_def split: option.split
      intro!: boundTo_setVM intro: boundTo_same)

lemma boundTo_drop: "boundTo M s \<Longrightarrow> boundTo M (untrackLocked key s)"
  by (auto simp: boundTo_def)

lemma boundTo_leaves [simp]:
  "boundTo M (snd (deepCopy p s)) = boundTo M s"
  "boundTo M (snd (applyLifecycleLocked e p st msg s)) = boundTo M s"
  "boundTo M (stampLifecycleIntentLocked e p s) = boundTo M s"
  "boundTo M (recordLifecycleFlushed e key uid snap s) = boundTo M s"
  "boundTo M (dropSupersededLifecycle e key uid snap s) = boundTo M s"
  "boundTo M (setStatus p g s) = boundTo M s" "boundTo M (setAnnots p f s) = boundTo M s"
  "boundTo M (seedLifecycleLocked e p s) = boundTo M s"
  "boundTo M (indexOrphanByNameLocked w s) = boundTo M s"
  "boundTo M (retryOpLaterLocked key uid r s) = boundTo M s"
  using applyLifecycle_view [of e p st msg s]
  by (simp_all add: boundTo_def deepCopy_def vmView_def stampLifecycleIntentLocked_def recordLifecycleFlushed_def
      dropSupersededLifecycle_def setStatus_def seedLifecycleLocked_def retryOpLaterLocked_def Let_def
      split: option.split)

lemma boundTo_detach: "boundTo M s \<Longrightarrow> boundTo M (snd (detachIncarnationLocked key uid v s))"
  by (auto simp: detachIncarnationLocked_def untrackIncarnationLocked_def Let_def intro: boundTo_drop)

lemmas bd_intros = preserves_intros bd.inv_ext bd.inv_patchIncarnation bd.inv_patchLoop bd.inv_reading
  bd.inv_publish bd.inv_locked bd.inv_writing

named_theorems bd_actions "actions that bind no VM of a foreign id"

lemma bd_resolve [bd_actions]: "quiet e \<Longrightarrow> preserves (boundTo M) (resolveVMIP e ns n v)"
  unfolding resolveVMIP_def setVMIP_def lookupByMAC_def
  by (intro bd_intros boundTo_updateTracked) simp_all

lemma bd_GetPod [bd_actions]: "quiet e \<Longrightarrow> preserves (boundTo M) (GetPod e ns n)"
  unfolding GetPod_def by (intro bd_intros) (auto simp: case_prod_beta Let_def split: option.split)

lemma bd_notify [bd_actions]: "quiet e \<Longrightarrow> preserves (boundTo M) (notify e p)"
  unfolding notify_def by (intro bd_intros) (auto simp: case_prod_beta Let_def)

lemma bd_GetPodStatus [bd_actions]: "quiet e \<Longrightarrow> preserves (boundTo M) (GetPodStatus e ns n)"
  unfolding GetPodStatus_def vmForPod_def timeNow_def by (intro bd_intros bd_actions)

lemma bd_refreshStatus [bd_actions]: "quiet e \<Longrightarrow> preserves (boundTo M) (refreshStatus e p)"
  unfolding refreshStatus_def by (intro bd_intros bd_actions) (auto simp: Let_def split: option.split)

lemma bd_flushLoop [bd_actions]: "quiet e \<Longrightarrow> preserves (boundTo M) (flushLoop e k ns n uid annos snap)"
  by (induction k) (auto simp: sleepCtx_def intro!: bd_intros)

lemma bd_flush [bd_actions]: "quiet e \<Longrightarrow> preserves (boundTo M) (flushLifecycle e ns n uid st)"
  unfolding flushLifecycle_def by (intro bd_intros bd_actions)

lemma bd_refreshAndNotify [bd_actions]: "quiet e \<Longrightarrow> preserves (boundTo M) (refreshAndNotify e p)"
  unfolding refreshAndNotify_def by (intro bd_intros bd_actions)

lemma bd_markReady [bd_actions]: "quiet e \<Longrightarrow> preserves (boundTo M) (markReadyPublished e p)"
  unfolding markReadyPublished_def setLifecycleState_def publishReadyLifecycle_def
  by (intro bd_intros bd_actions) simp_all

lemma bd_lift [bd_actions]: "quiet e \<Longrightarrow> preserves (boundTo M) (liftHibernateFailure e p)"
  unfolding liftHibernateFailure_def rtInspect_def
  by (intro bd_intros bd_actions) (auto simp: Let_def case_prod_beta)

lemma bd_liftCleared [bd_actions]: "quiet e \<Longrightarrow> preserves (boundTo M) (liftClearedHibernateFailure e p)"
  unfolding liftClearedHibernateFailure_def retryOpLater_def timeNow_def
  by (intro bd_intros bd_actions) simp_all

lemma bd_clear [bd_actions]: "quiet e \<Longrightarrow> preserves (boundTo M) (clearRuntimeAnnotations e p)"
  unfolding clearRuntimeAnnotations_def by (intro bd_intros) simp_all

lemma bd_applyVMRuntime [bd_actions]: "quiet e \<Longrightarrow> preserves (boundTo M) (applyVMRuntime e p rt)"
  unfolding applyVMRuntime_def patchWithRetry_def by (intro bd_intros) (auto split: if_splits)

lemma bd_detach [bd_actions]: "quiet e \<Longrightarrow> preserves (boundTo M) (detachIncarnation e key uid v)"
  unfolding detachIncarnation_def forgetProbe_def
  by (intro bd_intros boundTo_detach) (simp_all add: boundTo_def)

lemma bd_bind:
  "quiet e \<Longrightarrow> vpID v \<in> M \<or> isMacosVM (Some v) \<Longrightarrow> preserves (boundTo M) (bindRuntime e p v rt)"
  unfolding bindRuntime_def
  by (intro bd_intros bd_actions) (auto simp: trackPodIncarnationLocked_def Let_def intro!: boundTo_track)

lemma bd_newVM [bd_actions]: "preserves (boundTo M) (newVM v)"
  by (simp add: preserves_def newVM_def allocVM_def boundTo_def)

lemma bd_startProbe: "quiet e \<Longrightarrow> preserves (boundTo M) probe \<Longrightarrow> preserves (boundTo M) (startProbe e p probe)"
  unfolding startProbe_def timeNow_def
  by (intro bd_intros) (simp_all add: boundTo_def case_prod_beta Let_def)

lemma bd_probePort [bd_actions]: "quiet e \<Longrightarrow> preserves (boundTo M) (probePort e ns n)"
  unfolding probePort_def by (intro bd_intros bd_actions)

lemma bd_probeTCP [bd_actions]: "preserves (boundTo M) (probeTCP e ip port)"
  unfolding probeTCP_def dialTCP_def by (intro bd_intros)

lemma bd_startProbeIfEnabled [bd_actions]: "quiet e \<Longrightarrow> preserves (boundTo M) (startProbeIfEnabled e p)"
  unfolding startProbeIfEnabled_def buildProbe_def vmForPod_def ping_def
  by (intro bd_startProbe bd_intros bd_actions)

section \<open>macOS guests\<close>

lemma bd_endpoints [bd_actions]: "quiet e \<Longrightarrow> preserves (boundTo M) (reconcileRuntimeEndpoints e p ip)"
  unfolding reconcileRuntimeEndpoints_def patchWithRetry_def by (intro bd_intros)

lemma bd_adoptPort [bd_actions]: "quiet e \<Longrightarrow> preserves (boundTo M) (locked e (adoptMacosVNCPort key rc))"
  by (intro bd_intros) (auto simp: adoptMacosVNCPort_def boundTo_def)

lemma bd_recordUpdate [bd_actions]:
  "quiet e \<Longrightarrow> preserves (boundTo M) (locked e (updateTrackedVM key i (applyMacosRecord rc)))"
  by (intro bd_intros boundTo_updateTracked) (simp_all add: applyMacosRecord_def Let_def split: option.split)

lemma bd_macosInspect [bd_actions]: "preserves (boundTo M) (macosInspect e n)"
  unfolding macosInspect_def macosExec_def by (intro bd_intros)

lemma bd_recovered [bd_actions]: "quiet e \<Longrightarrow> preserves (boundTo M) (updateRecoveredMacosVM e ns n uid i rc)"
  unfolding updateRecoveredMacosVM_def trackedPodMatches_def by (intro bd_actions bd_intros)

lemma bd_recover [bd_actions]: "quiet e \<Longrightarrow> preserves (boundTo M) (recoverMacosVM e ns n uid v)"
  unfolding recoverMacosVM_def restartMacosVM_def startMacosVM_def macosExec_def macosProcessAlive_def
  by (intro bd_intros bd_actions)

lemma bd_heal [bd_actions]: "quiet e \<Longrightarrow> preserves (boundTo M) (healMacosRecord e ns n v l)"
  unfolding healMacosRecord_def elapsedSince_def timeNow_def by (intro bd_actions bd_intros)

lemma bd_macosProbe [bd_actions]: "quiet e \<Longrightarrow> preserves (boundTo M) (macosProbe e ns n uid clock)"
  unfolding macosProbe_def dialMacosGuest_def sshReady_def macosProcessAlive_def timeNow_def trackedPodMatches_def
    vmForPod_def elapsedSince_def
  by (intro bd_intros bd_actions)

lemma bd_readiness [bd_actions]: "quiet e \<Longrightarrow> preserves (boundTo M) (publishMacosReadiness e ns n)"
  unfolding publishMacosReadiness_def lifecycleAlreadyFailed_def vmForPod_def by (intro bd_intros bd_actions)

lemma bd_seedLease [bd_actions]: "preserves (boundTo M) (seedLeaseIP e v)"
  unfolding seedLeaseIP_def lookupByMAC_def by (intro bd_intros)

lemma seedLease_macos: "vHypervisor (fst (run_state (seedLeaseIP e v) s)) = vHypervisor v"
  by (auto simp: seedLeaseIP_def lookupByMAC_def ext_def Let_def split: sum.split)

lemma bd_macosProbes [bd_actions]: "quiet e \<Longrightarrow> preserves (boundTo M) (startMacosProbe e p)"
  unfolding startMacosProbe_def by (intro bd_startProbe bd_intros bd_actions)

lemma bd_register [bd_actions]:
  assumes "quiet e"
  shows "preserves (boundTo M) (registerMacosVM e p spec rc port)"
  unfolding registerMacosVM_def
proof (rule preserves_bind_yields [where R = "\<lambda>v. vHypervisor v = macosHypervisor"])
  fix u :: vm
  assume "vHypervisor u = macosHypervisor"
  then have "isMacosVM (Some v)" if "vpVM v = u" for v using that by (simp add: isMacosVM_def)
  with assms show "preserves (boundTo M) (do {
      v \<leftarrow> newVM u;
      ok \<leftarrow> bindRuntime e p v \<lparr>vrVMID = vpID v, vrIP = vIP (vpVM v), vrVNCPort = wrap32 port\<rparr>;
      (if \<not> ok then State_Monad.return False
       else do {
         r \<leftarrow> GetPod e (ptNamespace p) (ptName p);
         _ \<leftarrow> (case r of Inl _ \<Rightarrow> State_Monad.return True
               | Inr current \<Rightarrow> reconcileRuntimeEndpoints e current (vIP (vpVM v)));
         _ \<leftarrow> startMacosProbe e p;
         State_Monad.return True }) })"
    by (intro preserves_bind_yields [OF bd_newVM, where R = "\<lambda>v. vpVM v = u"] preserves_bind [OF bd_bind]
        bd_intros bd_actions) (simp_all add: newVM_def allocVM_def)
qed (simp_all add: bd_seedLease seedLease_macos applyMacosRecord_def Let_def split: option.split)

lemma bd_reconcileMacos [bd_actions]: "quiet e \<Longrightarrow> preserves (boundTo M) (reconcileMacosPod e p spec)"
  unfolding reconcileMacosPod_def macosProcessAlive_def
  by (intro bd_actions bd_intros) (simp_all add: boundTo_def seedLifecycleLocked_def Let_def)

section \<open>The pass over the pods\<close>

definition idsOf :: "pod_outcome \<Rightarrow> string set" where
  "idsOf r = (case r of PodMatched i \<Rightarrow> {i} | _ \<Rightarrow> {})"

lemma bd_seed [bd_actions]: "quiet e \<Longrightarrow> preserves (boundTo M) (seedLifecycleIntentFromPod e p)"
  unfolding seedLifecycleIntentFromPod_def by (intro bd_intros) simp_all

lemma bd_track: "quiet e \<Longrightarrow> (\<And>u. v = Some u \<Longrightarrow> vpID u \<in> M) \<Longrightarrow> preserves (boundTo M) (trackPod e p v)"
  unfolding trackPod_def by (intro bd_intros boundTo_track) auto

lemma keeps_applyVMRuntime: "quiet e \<Longrightarrow> keeps (applyVMRuntime e p rt)"
  unfolding applyVMRuntime_def patchWithRetry_def
  by (intro keeps_intros keeps_locked) (auto split: if_splits)

text \<open>A runtime that could not be applied leaves no binding behind.\<close>

lemma boundTo_probes: "boundTo M (s\<lparr>probes := m\<rparr>) = boundTo M s"
  by (simp add: boundTo_def)

lemma detach_unbinds:
  assumes "quiet e" "pods s key = Some p" "key \<notin> deleting s" "boundTo (insert i M) s"
    "\<And>k v. k \<noteq> key \<Longrightarrow> vmsByPod s k = Some v \<Longrightarrow> vpID v \<in> M \<or> isMacosVM (Some v)"
  shows "wp (detachIncarnation e key (ptUID p) w) (\<lambda>_. boundTo M) s"
proof -
  have "boundTo M (snd (detachIncarnationLocked key (ptUID p) w t))"
    if "pods t = pods s" "deleting t = deleting s" "vmsByPod t = vmsByPod s" for t
    using that assms
    by (auto simp: detachIncarnationLocked_def untrackIncarnationLocked_def trackedPodMatchesLocked_def Let_def)
      (auto simp: boundTo_def)
  from this [of "s\<lparr>tick := Suc (tick s)\<rparr>"] show ?thesis
    using assms(1) boundTo_probes
    by (auto simp: detachIncarnation_def forgetProbe_def wp_quiet case_prod_beta bd.ghost wp_case_option
        split: option.split)
qed

lemma applyRuntime_bound:
  assumes "quiet e" "boundTo M s"
  shows "wp (applyRuntime e p v) (\<lambda>ok. boundTo (if ok then insert (vpID v) M else M)) s"
proof (cases "podKey e p \<in> deleting s \<or> supersededLocked (podKey e p) (ptUID p) s")
  case True
  then show ?thesis
    using assms by (simp add: applyRuntime_def bindRuntime_def wp_quiet trackPodIncarnationLocked_def
        supersededLocked_def bd.ghost Let_def)
next
  case False
  let ?t = "trackPodLocked e p (Some v) (s\<lparr>tick := Suc (tick s)\<rparr>)\<lparr>trace := trace s, tick := Suc (tick s)\<rparr>"
  have bound: "boundTo (insert (vpID v) M) ?t"
    using assms(2) by (auto simp: bd.ghost intro!: boundTo_track intro: boundTo_mono)
  have tabs: "pods ?t (podKey e p) = Some p" "deleting ?t = deleting s"
    "vmsByPod ?t = (vmsByPod s)(podKey e p \<mapsto> v)"
    by (simp_all add: trackPodLocked_def reassertLifecycleLocked_def setVMLocked_def Let_def split: option.split)
  have "wp (applyVMRuntime e p rt) (\<lambda>r. wp (if r then State_Monad.return True
        else do { _ \<leftarrow> detachIncarnation e (podKey e p) (ptUID p) (Some v); State_Monad.return False })
      (\<lambda>ok. boundTo (if ok then insert (vpID v) M else M))) ?t" for rt
  proof (rule wp_keeps [OF keeps_applyVMRuntime [OF assms(1)]])
    fix r u
    assume u: "same_tables ?t u"
    then have "pods u (podKey e p) = Some p" "podKey e p \<notin> deleting u" "vmsByPod u = (vmsByPod s)(podKey e p \<mapsto> v)"
      using tabs False by (simp_all add: same_tables_def)
    moreover have "boundTo (insert (vpID v) M) u" using u boundTo_same [OF _ bound] by (simp add: same_tables_def)
    moreover have "wp (detachIncarnation e (podKey e p) (ptUID p) (Some v)) (\<lambda>_. boundTo M) u"
      if "boundTo (insert (vpID v) M) u" "pods u (podKey e p) = Some p" "podKey e p \<notin> deleting u"
        "vmsByPod u = (vmsByPod s)(podKey e p \<mapsto> v)"
      by (rule detach_unbinds [OF assms(1) that(2,3,1)]) (use that(4) assms(2) in \<open>auto simp: boundTo_def\<close>)
    ultimately show "wp (if r then State_Monad.return True
        else do { _ \<leftarrow> detachIncarnation e (podKey e p) (ptUID p) (Some v); State_Monad.return False })
      (\<lambda>ok. boundTo (if ok then insert (vpID v) M else M)) u"
      by simp
  qed
  with False assms(1) show ?thesis
    by (simp add: applyRuntime_def bindRuntime_def wp_quiet trackPodIncarnationLocked_def supersededLocked_def Let_def)
qed

lemma adoptByVMName_bound:
  assumes "quiet e" "boundTo M s"
  shows "wp (adoptByVMName e p vs) (\<lambda>r. boundTo (M \<union> (case r of None \<Rightarrow> {} | Some v \<Rightarrow> {vpID v}))) s"
proof (cases "vmIndexByName vs (vsVMName (mParseVMSpec (lib e) (podAt s p)))")
  case (Some v)
  have "wp (seedLifecycleIntentFromPod e p) (\<lambda>_. boundTo (insert (vpID v) M)) t" if "boundTo (insert (vpID v) M) t" for t
    by (rule wp_preserves [OF bd_seed [OF assms(1)] that])
  then show ?thesis
    using Some by (auto simp: adoptByVMName_def intro!: wp_mono [OF applyRuntime_bound [OF assms, of p v]])
qed (use assms in \<open>simp add: adoptByVMName_def\<close>)

lemma bd_noVMID: "quiet e \<Longrightarrow> preserves (boundTo M) (reconcileNoVMID e p)"
  unfolding reconcileNoVMID_def by (intro bd_intros bd_actions bd_track) simp_all

lemma bd_staleHibernate: "quiet e \<Longrightarrow> preserves (boundTo M) (reconcileStaleHibernate e p)"
  unfolding reconcileStaleHibernate_def by (intro bd_intros bd_actions bd_track) simp_all

lemma tracked_bound:
  assumes "quiet e" "boundTo M s" "vpID v = i" "preserves (boundTo (insert i M)) m"
  shows "wp (do { _ \<leftarrow> trackPod e p (Some v); _ \<leftarrow> seedLifecycleIntentFromPod e p; _ \<leftarrow> m;
    State_Monad.return (PodMatched i) }) (\<lambda>r. boundTo (M \<union> idsOf r)) s"
proof -
  have "preserves (boundTo (insert i M)) (do { _ \<leftarrow> trackPod e p (Some v); _ \<leftarrow> seedLifecycleIntentFromPod e p; m })"
    using assms by (intro bd_intros bd_actions bd_track) auto
  then have "wp (do { _ \<leftarrow> trackPod e p (Some v); _ \<leftarrow> seedLifecycleIntentFromPod e p; m })
      (\<lambda>_. boundTo (insert i M)) s"
    by (rule wp_preserves) (use assms(2) in \<open>auto intro: boundTo_mono\<close>)
  then show ?thesis by (simp add: idsOf_def)
qed

lemma reconcilePod_bound:
  assumes "quiet e" "boundTo M s"
  shows "wp (reconcilePod e vs p) (\<lambda>r. boundTo (M \<union> idsOf r)) s"
proof -
  let ?spec = "mParseVMSpec (lib e) (podAt s p)" and ?id = "vrVMID (mParseVMRuntime (lib e) (podAt s p))"
  let ?v = "zeroVM\<lparr>vID := ?id, vName := vsVMName ?spec, vIP := vrIP (mParseVMRuntime (lib e) (podAt s p)),
    vState := StateRunning\<rparr>"
  have unmanaged: "wp (do { v \<leftarrow> newVM ?v; _ \<leftarrow> trackPod e p (Some v); _ \<leftarrow> seedLifecycleIntentFromPod e p;
      State_Monad.return (PodMatched ?id) }) (\<lambda>r. boundTo (M \<union> idsOf r)) s"
    using tracked_bound [OF assms(1), of M "snd (allocVM ?v s)" "fst (allocVM ?v s)" ?id "State_Monad.return ()" p] assms(2)
    by (simp add: newVM_def allocVM_def preserves_return) (simp add: boundTo_def)
  have indexed: "wp (do { _ \<leftarrow> trackPod e p (Some v); _ \<leftarrow> seedLifecycleIntentFromPod e p;
      _ \<leftarrow> liftClearedHibernateFailure e p; State_Monad.return (PodMatched (vpID v)) })
      (\<lambda>r. boundTo (M \<union> idsOf r)) s" for v
    by (rule tracked_bound [OF assms refl bd_liftCleared [OF assms(1)]])
  have missing: "wp (do { hib \<leftarrow> peek (\<lambda>s. mReadHibernateState (lib e) (podAt s p));
      _ \<leftarrow> (if hib then reconcileStaleHibernate e p else State_Monad.return ());
      State_Monad.return PodSkipped }) (\<lambda>r. boundTo (M \<union> idsOf r)) s"
    using assms(2) by (auto simp: idsOf_def intro: wp_preserves [OF bd_staleHibernate [OF assms(1)]])
  have adopted: "wp (do { v \<leftarrow> adoptByVMName e p vs;
      (case v of Some v \<Rightarrow> State_Monad.return (PodMatched (vpID v))
       | None \<Rightarrow> do { _ \<leftarrow> reconcileNoVMID e p; State_Monad.return PodSkipped }) })
      (\<lambda>r. boundTo (M \<union> idsOf r)) s"
    by (simp, rule wp_mono [OF adoptByVMName_bound [OF assms]])
      (auto simp: idsOf_def split: option.splits intro: wp_preserves [OF bd_noVMID [OF assms(1)]])
  show ?thesis
    using assms(2) unmanaged indexed missing adopted
    by (simp add: reconcilePod_def idsOf_def del: wp_bind add: wp_bind [of "peek _"] split: option.split)
qed

lemma matchedIDs_Cons: "set (matchedIDs ((p, r) # rs)) = idsOf r \<union> set (matchedIDs rs)"
  by (auto simp: matchedIDs_def List.map_filter_def idsOf_def split: pod_outcome.splits)

lemma reconcilePods_bound:
  assumes "quiet e"
  shows "boundTo M s \<Longrightarrow> wp (reconcilePods e vs ps) (\<lambda>rs. boundTo (M \<union> set (matchedIDs rs))) s"
proof (induction ps arbitrary: M s)
  case Nil
  then show ?case by (simp add: matchedIDs_def List.map_filter_def)
next
  case (Cons p ps)
  have "wp (reconcilePods e vs ps) (\<lambda>rs. boundTo (M \<union> (idsOf r \<union> set (matchedIDs rs)))) t"
    if "boundTo (M \<union> idsOf r) t" for r t
    using Cons.IH [OF that] by (simp add: Un_assoc)
  then show ?case
    using wp_mono [OF reconcilePod_bound [OF assms Cons.prems]] by (simp add: matchedIDs_Cons)
qed

lemma bd_startupProbes: "quiet e \<Longrightarrow> preserves (boundTo M) (startupProbes e rs)"
  by (induction rs) (auto intro!: bd_intros bd_actions split: pod_outcome.split)

lemma bd_releaseMACs: "preserves (boundTo M) (releaseMACs e macs)"
  by (induction macs) (auto intro!: bd_intros simp: releaseByMAC_def)

lemma bd_orphan [bd_actions]: "quiet e \<Longrightarrow> preserves (boundTo M) (handleOrphan e v)"
  unfolding handleOrphan_def removeVM_def rtRemove_def releaseDHCPLeases_def indexOrphanByName_def
  by (intro bd_intros bd_releaseMACs) simp_all

lemma bd_orphans: "quiet e \<Longrightarrow> preserves (boundTo M) (handleOrphans e ids vs)"
  by (induction vs) (auto intro!: bd_intros bd_actions)

lemma bd_resumeAll: "quiet e \<Longrightarrow> preserves (boundTo M) (resumeAll e work)"
  by (induction work rule: resumeAll.induct)
    (auto intro!: bd_intros simp: resumeOwedWork_def emitEvent_def dispatchResume_def goBackground_def
      claimResumeLocked_def goBackgroundLocked_def boundTo_def)

lemma bd_dispatch: "quiet e \<Longrightarrow> preserves (boundTo M) (dispatchOwedWork e keys)"
  unfolding dispatchOwedWork_def by (intro bd_intros bd_resumeAll)

section \<open>The calls of the pass\<close>

named_theorems nr_actions "actions that remove no VM"

lemma noRemove_simps [simp]:
  "noRemove (KPatch a b c pt r)" "noRemove (TSleep n r)" "noRemove (TNow i)" "noRemove (LLookup m q)"
  "noRemove (NPing ip r)" "noRemove (NDial ip port r)" "noRemove (NSSH addr z)" "noRemove (MExec argv out r)"
  "noRemove (MAlive pid al)" "noRemove (EEvent w x y)" "noRemove (RInspect a z')"
  by (simp_all add: noRemove_def isRemove_def)

lemma nr_book: "emits m bookkeeping \<Longrightarrow> emits m noRemove"
  by (erule emits_weaken) (auto simp: noRemove_def isRemove_def bookkeeping_def split: call.splits)

lemma nr_looks: "emits m looksOnly \<Longrightarrow> emits m noRemove"
  by (erule emits_weaken) (auto simp: noRemove_def isRemove_def looksOnly_def bookkeeping_def split: call.splits)

lemma nr_calm: "emits m calm \<Longrightarrow> emits m noRemove"
  by (erule emits_weaken) (auto simp: noRemove_def calm_def destroys_def)

lemmas nr_known [nr_actions] = nr_calm [OF emits_calm_clear] nr_calm [OF emits_calm_applyRuntime]
  nr_looks [OF looksOnly_readiness] nr_looks [OF looksOnly_lift] nr_looks [OF looksOnly_endpoints]
  nr_book [OF emits_book_markReady]

lemma nr_probeTCP [nr_actions]: "emits (probeTCP e ip port) noRemove"
  unfolding probeTCP_def dialTCP_def by (intro emits_intros) simp_all

lemma nr_probePort [nr_actions]: "emits (probePort e ns n) noRemove"
  unfolding probePort_def by (intro emits_intros)

lemma nr_startProbe: "emits probe noRemove \<Longrightarrow> emits (startProbe e p probe) noRemove"
  unfolding startProbe_def timeNow_def by (intro emits_intros) simp_all

lemma nr_startProbeIfEnabled [nr_actions]: "emits (startProbeIfEnabled e p) noRemove"
  unfolding startProbeIfEnabled_def buildProbe_def ping_def
  by (intro nr_startProbe emits_intros emits_resolveVMIP nr_actions) simp_all

lemma nr_macosInspect [nr_actions]: "emits (macosInspect e n) noRemove"
  unfolding macosInspect_def macosExec_def by (intro emits_intros) simp

lemma nr_bind [nr_actions]: "emits (bindRuntime e p v rt) noRemove"
  unfolding bindRuntime_def applyVMRuntime_def
  by (intro emits_intros emits_detach emits_patchWithRetry emits_patchIncarnation) simp_all

lemma nr_recovered [nr_actions]: "emits (updateRecoveredMacosVM e ns n uid i rc) noRemove"
  unfolding updateRecoveredMacosVM_def by (intro emits_intros nr_actions)

lemma nr_recover [nr_actions]: "emits (recoverMacosVM e ns n uid v) noRemove"
  unfolding recoverMacosVM_def restartMacosVM_def startMacosVM_def macosExec_def macosProcessAlive_def
  by (intro emits_intros nr_actions) simp_all

lemma nr_macosProbe [nr_actions]: "emits (macosProbe e ns n uid clock) noRemove"
  unfolding macosProbe_def healMacosRecord_def dialMacosGuest_def sshReady_def macosProcessAlive_def timeNow_def
    elapsedSince_def
  by (intro emits_intros emits_resolveVMIP nr_actions) simp_all

lemma nr_startMacosProbe [nr_actions]: "emits (startMacosProbe e p) noRemove"
  unfolding startMacosProbe_def by (intro nr_startProbe emits_intros nr_actions)

lemma nr_reconcileMacos [nr_actions]: "emits (reconcileMacosPod e p spec) noRemove"
  unfolding reconcileMacosPod_def registerMacosVM_def seedLeaseIP_def lookupByMAC_def macosProcessAlive_def
  by (intro emits_intros nr_actions) simp_all

lemma nr_reconcilePod: "emits (reconcilePod e vs p) noRemove"
  unfolding reconcilePod_def adoptByVMName_def reconcileNoVMID_def reconcileStaleHibernate_def
    seedLifecycleIntentFromPod_def trackPod_def liftClearedHibernateFailure_def retryOpLater_def timeNow_def
  by (intro emits_intros nr_actions) simp_all

lemma nr_reconcilePods: "emits (reconcilePods e vs ps) noRemove"
  by (induction ps) (auto intro!: emits_intros nr_reconcilePod)

lemma nr_startupProbes: "emits (startupProbes e rs) noRemove"
  by (induction rs) (auto intro!: emits_intros nr_actions split: pod_outcome.split)

lemma nr_newVMs: "emits (newVMs vs) noRemove"
  by (induction vs) (auto intro!: emits_intros)

lemma emits_newPod: "emits (newPod q) P"
  by (simp add: newPod_def emits_def allocPod_def)

lemma nr_newPods: "emits (newPods qs) noRemove"
  by (induction qs) (auto intro!: emits_intros emits_newPod)

lemma nr_dispatch: "emits (dispatchOwedWork e keys) noRemove"
proof -
  have "emits (resumeAll e work) noRemove" for work
    by (induction work rule: resumeAll.induct)
      (auto intro!: emits_intros simp: resumeOwedWork_def emitEvent_def dispatchResume_def goBackground_def)
  then show ?thesis unfolding dispatchOwedWork_def by (intro emits_intros)
qed

text \<open>A removal of the orphan phase: the policy is to destroy, and the VM is listed and unmatched.\<close>

definition orphanCall :: "env \<Rightarrow> string list \<Rightarrow> vmptr list \<Rightarrow> call \<Rightarrow> bool" where
  "orphanCall e ids vs c \<longleftrightarrow> (case c of
     RRemove i _ \<Rightarrow> cfgOrphanPolicy (cfg e) = OrphanDestroy \<and> i \<notin> set ids \<and> i \<in> vpID ` set vs
   | _ \<Rightarrow> True)"

lemma orphanCall_noRemove: "noRemove c \<Longrightarrow> orphanCall e ids vs c"
  by (cases c) (simp_all add: orphanCall_def noRemove_def isRemove_def)

lemma orphanCall_remove:
  "orphanCall e ids vs (RRemove i r) \<longleftrightarrow>
     cfgOrphanPolicy (cfg e) = OrphanDestroy \<and> i \<notin> set ids \<and> i \<in> vpID ` set vs"
  by (simp add: orphanCall_def)

lemma emits_orphans:
  "set vs \<subseteq> set ws \<Longrightarrow> emits (handleOrphans e ids vs) (orphanCall e ids ws)"
proof (induction vs)
  case (Cons v vs)
  have "emits (releaseDHCPLeases e w) (orphanCall e ids ws)" for w
    by (rule emits_weaken [OF emits_quiet_leases]) (simp add: orphanCall_noRemove noRemove_def quietCall_def)
  with Cons show ?case
    by (auto simp: handleOrphan_def removeVM_def rtRemove_def indexOrphanByName_def orphanCall_remove
        intro!: emits_intros)
qed (simp add: emits_return)

lemma newVMs_fresh: "wp (newVMs vms) (\<lambda>vs t. map vpVM vs = vms \<and> vmsByPod t = vmsByPod s) s"
proof (induction vms arbitrary: s)
  case (Cons v vms)
  show ?case
    using wp_mono [OF Cons.IH [of "snd (allocVM v s)"]] by (simp add: newVM_def allocVM_def)
qed simp

lemma newPods_unbound: "wp (newPods qs) (\<lambda>_ t. vmsByPod t = vmsByPod s) s"
proof (induction qs arbitrary: s)
  case (Cons q qs)
  show ?case
    using wp_mono [OF Cons.IH [of "snd (allocPod q s)"]] by (simp add: newPod_def allocPod_def)
qed simp

definition passed :: "env \<Rightarrow> vm list \<Rightarrow> call list \<Rightarrow> prov \<Rightarrow> bool" where
  "passed e vms h t \<longleftrightarrow> (\<exists>cs ids vs. trace t = h @ cs \<and> list_all (orphanCall e ids vs) cs \<and> map vpVM vs = vms \<and>
     boundTo (set ids) t)"

lemma startup_tail:
  assumes "quiet e" "boundTo (set (matchedIDs rs)) t" "map vpVM vs = vms" "trace t = h @ cs" "list_all noRemove cs"
  shows "wp (do { _ \<leftarrow> startupProbes e rs; _ \<leftarrow> handleOrphans e (matchedIDs rs) vs; dispatchOwedWork e keys })
    (\<lambda>_. passed e vms h) t"
proof -
  let ?m = "do { _ \<leftarrow> startupProbes e rs; _ \<leftarrow> handleOrphans e (matchedIDs rs) vs; dispatchOwedWork e keys }"
  have "preserves (boundTo (set (matchedIDs rs))) ?m"
    by (intro bd_intros bd_startupProbes bd_orphans bd_dispatch assms(1))
  from wp_preserves [OF this assms(2)] have "wp ?m (\<lambda>_. boundTo (set (matchedIDs rs))) t" .
  moreover have "emits ?m (orphanCall e (matchedIDs rs) vs)"
    by (intro emits_bind emits_orphans emits_weaken [OF nr_startupProbes orphanCall_noRemove]
        emits_weaken [OF nr_dispatch orphanCall_noRemove]) auto
  moreover have "list_all (orphanCall e (matchedIDs rs) vs) cs"
    using assms(5) by (auto simp: list_all_iff orphanCall_noRemove)
  ultimately show ?thesis
    using assms(3,4) by (elim wp_with_calls) (auto simp: passed_def intro!: exI [of _ "matchedIDs rs"] exI [of _ vs])
qed

lemma startupPass_passed:
  assumes "quiet e" "vmsByPod s = Map.empty"
  shows "wp (startupPass e keys qs vms) (\<lambda>_. passed e vms (trace s)) s"
  unfolding startupPass_def
proof (subst wp_bind, rule wp_with_calls [OF newPods_unbound nr_newPods], subst wp_bind,
    rule wp_with_calls [OF newVMs_fresh nr_newVMs], subst wp_bind)
  fix ps as bs and vs :: "vmptr list" and t u :: prov
  assume t: "vmsByPod t = vmsByPod s" "trace t = trace s @ as" "list_all noRemove as"
    and u: "map vpVM vs = vms \<and> vmsByPod u = vmsByPod t" "trace u = trace t @ bs" "list_all noRemove bs"
  have "boundTo {} u" using t(1) u(1) assms(2) by (simp add: boundTo_def)
  show "wp (reconcilePods e vs ps) (\<lambda>rs. wp (do { _ \<leftarrow> startupProbes e rs; _ \<leftarrow> handleOrphans e (matchedIDs rs) vs;
      dispatchOwedWork e keys }) (\<lambda>_. passed e vms (trace s))) u"
  proof (rule wp_with_calls [OF reconcilePods_bound [OF assms(1) \<open>boundTo {} u\<close>] nr_reconcilePods])
    fix rs cs and w :: prov
    assume "boundTo ({} \<union> set (matchedIDs rs)) w" "trace w = trace u @ cs" "list_all noRemove cs"
    with t u show "wp (do { _ \<leftarrow> startupProbes e rs; _ \<leftarrow> handleOrphans e (matchedIDs rs) vs;
        dispatchOwedWork e keys }) (\<lambda>_. passed e vms (trace s)) w"
      by (intro startup_tail [OF assms(1), of rs w vs vms _ "as @ bs @ cs"]) auto
  qed
qed

text \<open>C5: startup destroys orphans only. Starting from empty tables, a VM is removed only when the policy says
  so and the VM was listed, and no pod ends up bound to it: whatever a pod of the node holds, by its
  annotated id or adopted by name, survives the pass.\<close>

theorem startup_destroys_orphans_only:
  assumes "quiet e" and "vmsByPod s = Map.empty"
  shows "\<exists>cs. trace (snd (run_state (startupPass e keys qs vms) s)) = trace s @ cs \<and>
    (\<forall>i r. RRemove i r \<in> set cs \<longrightarrow> cfgOrphanPolicy (cfg e) = OrphanDestroy \<and> i \<in> vID ` set vms \<and>
      (\<forall>key v. vmsByPod (snd (run_state (startupPass e keys qs vms) s)) key = Some v \<longrightarrow>
        vpID v \<noteq> i \<or> isMacosVM (Some v)))"
proof -
  from wp_run [OF startupPass_passed [OF assms, of keys qs vms]]
  obtain cs ids vs where "trace (snd (run_state (startupPass e keys qs vms) s)) = trace s @ cs"
    "list_all (orphanCall e ids vs) cs" "map vpVM vs = vms"
    "boundTo (set ids) (snd (run_state (startupPass e keys qs vms) s))"
    by (auto simp: passed_def)
  then show ?thesis
    by (intro exI [of _ cs]) (fastforce simp: list_all_iff orphanCall_remove boundTo_def dest: bspec)
qed

theorem startup_destroys_orphans_only_witness:
  "vmsByPod NewProvider = Map.empty \<and>
   (\<exists>cs. trace (snd (run_state (startupPass exEnv [''ns/a'']
       [\<lparr>pMeta = ptMeta exPod, pAnnotations = [''vmname'' \<mapsto> ''vk-a''], pStatus = zeroStatus\<rparr>] [exVM]) NewProvider)) = cs \<and>
     (\<forall>i r. RRemove i r \<in> set cs \<longrightarrow> i = ''id1''))"
proof -
  have "vmsByPod NewProvider = Map.empty" "trace NewProvider = []" by (simp_all add: NewProvider_def)
  then show ?thesis
    using startup_destroys_orphans_only [OF quiet_exEnv, of NewProvider "[''ns/a'']"
        "[\<lparr>pMeta = ptMeta exPod, pAnnotations = [''vmname'' \<mapsto> ''vk-a''], pStatus = zeroStatus\<rparr>]" "[exVM]"]
    by auto
qed

section \<open>Busy creates\<close>

lemma emits_any_classify: "emits (classifySettledCreate e i) (\<lambda>_. True)"
proof -
  have "emits (releaseDHCPLeases e v) (\<lambda>_. True)" for v by (rule emits_weaken [OF emits_quiet_leases]) simp
  then show ?thesis
    unfolding classifySettledCreate_def rtInspect_def handleOrphan_def removeVM_def rtRemove_def indexOrphanByName_def
    by (intro emits_intros) simp_all
qed

lemma watch_ends:
  assumes "clock_ok e" "0 < d0" "d0 \<le> maxDelay"
  shows "1 \<le> n \<Longrightarrow> d0 \<le> delay \<Longrightarrow> deadline - wNow (ask e) (trace s) < int n * d0 \<Longrightarrow>
    wp (watchLoop e n i delay maxDelay deadline) (\<lambda>r _. r = Some ()) s"
proof (induction n arbitrary: s delay)
  case (Suc n)
  let ?now = "\<lambda>t. wNow (ask e) (trace t)" and ?Q = "\<lambda>r _. r = Some ()"
  have verdict: "wp (do { now \<leftarrow> timeNow e;
      (if deadline < now then State_Monad.return (Some ())
       else watchLoop e n i (min (delay * 2) maxDelay) maxDelay deadline) }) ?Q t" if "?now s + delay \<le> ?now t" for t
  proof -
    let ?u = "t\<lparr>trace := trace t @ [TNow (?now t)]\<rparr>"
    have u: "?now t \<le> ?now ?u" using clock_mono [OF assms(1), of ?u t] by simp
    have "wp (watchLoop e n i (min (delay * 2) maxDelay) maxDelay deadline) ?Q ?u" if "\<not> deadline < ?now t"
    proof (rule Suc.IH)
      from Suc.prems u \<open>?now s + delay \<le> ?now t\<close> show "deadline - ?now ?u < int n * d0" by (simp add: algebra_simps)
      with that u show "1 \<le> n" using u Suc.prems \<open>?now s + delay \<le> ?now t\<close> assms(2)
        by (cases n) (simp_all add: algebra_simps)
    qed (use Suc.prems assms in simp)
    then show ?thesis by (auto simp: timeNow_def)
  qed
  have classified: "wp (do { r \<leftarrow> classifySettledCreate e i;
      (case r of (fresh, settled) \<Rightarrow>
        if settled
        then do { _ \<leftarrow> (case fresh of None \<Rightarrow> State_Monad.return () | Some v \<Rightarrow> settleCommittedCreate e v);
          State_Monad.return (Some ()) }
        else do { now \<leftarrow> timeNow e;
          (if deadline < now then State_Monad.return (Some ())
           else watchLoop e n i (min (delay * 2) maxDelay) maxDelay deadline) }) }) ?Q t"
    if "?now s + delay \<le> ?now t" for t
  proof (rule wp_extends [OF emits_any_classify])
    fix r cs and u :: prov
    assume "trace u = trace t @ cs"
    then have "?now s + delay \<le> ?now u" using clock_mono [OF assms(1), of u t cs] that by simp
    from verdict [OF this] show "wp (case r of (fresh, settled) \<Rightarrow>
        if settled
        then do { _ \<leftarrow> (case fresh of None \<Rightarrow> State_Monad.return () | Some v \<Rightarrow> settleCommittedCreate e v);
          State_Monad.return (Some ()) }
        else do { now \<leftarrow> timeNow e;
          (if deadline < now then State_Monad.return (Some ())
           else watchLoop e n i (min (delay * 2) maxDelay) maxDelay deadline) }) ?Q u"
      by (cases r) (auto simp del: wp_bind simp add: wp_bind [of "case _ of None \<Rightarrow> _ | Some v \<Rightarrow> _ v"])
  qed
  have slept: "?now s + delay \<le> wNow (ask e) (trace s @ TSleep delay None # cs)" if "wSleep (ask e) (trace s) delay = None" for cs
    using clock_sleep [OF assms(1) that] clock_mono [OF assms(1), of "s\<lparr>trace := trace s @ TSleep delay None # cs\<rparr>"
        "s\<lparr>trace := trace s @ [TSleep delay None]\<rparr>" cs] by simp
  show ?case
    unfolding watchLoop.simps sleepCtx_def rtReconcileStaleCreate_def
    by (subst wp_bind, subst wp_ext) (auto simp del: wp_bind simp add: wp_bind [of "ext _ _"] intro!: classified slept)
qed simp

text \<open>C32: a create found in flight is always settled. The watcher returns after a number of rounds that its
  budget and initial delay bound, whatever the runtime answers and other goroutines do, and when it has
  returned its claim on the name is gone, so a create waiting on it goes on.\<close>

theorem busy_create_settled:
  assumes "clock_ok e" and "recheckBackoff e = (delay, maxDelay, budget)"
    and "0 < delay" and "delay \<le> maxDelay" and "1 \<le> rounds" and "budget < int rounds * delay"
  shows "fst (run_state (watchJob e rounds vmID name settled) s) = Some () \<and>
    busyCreates (snd (run_state (watchJob e rounds vmID name settled) s)) name \<noteq> Some settled"
proof -
  have later: "wNow (ask e) (trace s) \<le> wNow (ask e) (trace s @ [TNow (wNow (ask e) (trace s))])"
    using assms(1) by (simp add: clock_ok_def)
  have "wp (do { now \<leftarrow> timeNow e; watchLoop e rounds vmID delay maxDelay (now + budget) }) (\<lambda>r _. r = Some ()) s"
    unfolding timeNow_def wp_bind wp_ext
    by (rule watch_ends [OF assms(1,3,4,5)]) (use later assms(6) in simp_all)
  then have "wp (watchJob e rounds vmID name settled)
      (\<lambda>r t. r = Some () \<and> busyCreates t name \<noteq> Some settled) s"
    unfolding watchJob_def wp_deferring assms(2) prod.case
    by (rule wp_mono) (auto simp: writing_def locked_def settleBusyCreateLocked_def wp_def yield_def)
  from wp_run [OF this] show ?thesis .
qed

theorem busy_create_settled_witness:
  "recheckBackoff exClock = (1000000000, 30000000000, 1800000000000) \<and>
   fst (run_state (watchJob exClock 1801 ''id1'' ''vk-a'' 7) exProv) = Some ()"
proof -
  have b: "recheckBackoff exClock = (1000000000, 30000000000, 1800000000000)"
    by (simp add: recheckBackoff_def exClock_def exConfig_def orInt_def defaultDeferredRecheckInitialDelay_def
        defaultDeferredRecheckMaxDelay_def defaultDeferredRecheckBudget_def second_def)
  show ?thesis using busy_create_settled [OF clock_exClock b, of 1801] b by simp
qed

end
