(* ===== verification/Peer.thy ===== *)
theory Peer
  imports VM_Runtime Paths Decimal
begin

text \<open>
  Peer-to-peer snapshot transfer (\<open>src/snapshots/peer.go\<close>, \<open>extents_linux.go\<close>, \<open>staging.go\<close>): the plan of
  a sparse snapshot directory, the slices the server streams, and the restorer that writes them into a
  staging directory. Files are byte lists; the answers of the operating system (seeks, opens, writes)
  and of the network are arguments. Offsets of local files are mathematical integers, as no file
  reaches the limits of \<open>int64\<close>; the sums over a plan received from the network wrap.
\<close>

unbundle bit_operations_syntax

type_synonym byte = "8 word"

record peer_slice =
  slOffset :: int
  slLength :: int

record peer_file =
  pfName :: string
  pfSize :: int
  pfSlices :: "peer_slice list"

record peer_plan =
  ppSnapshotID :: string
  ppFiles :: "peer_file list"

record extent =
  exOffset :: int
  exLength :: int

definition peerSliceBytes :: int where "peerSliceBytes = 256 * 2 ^ 20"
definition coalesceGapBytes :: int where "coalesceGapBytes = 4 * 2 ^ 20"
definition restoreBufBytes :: nat where "restoreBufBytes = 4 * 2 ^ 20"
definition zeroSkipBytes :: nat where "zeroSkipBytes = 2 ^ 20"

section \<open>Planning\<close>

datatype seek_error = ENXIO | EINVAL | ENOTSUP | OtherErrno err

text \<open>A directory entry with what the system calls on it answer.\<close>

record dir_entry =
  deName :: string
  deRegular :: bool
  deOpenErr :: "err option"
  deStatErr :: "err option"
  deContent :: "byte list"
  deSeekData :: "int \<Rightarrow> seek_error + int"
  deSeekHole :: "int \<Rightarrow> err + int"

text \<open>The loop of \<open>scanExtents\<close> with a bound on its rounds; \<open>None\<close> when the bound cut it off.\<close>

fun scanLoop :: "dir_entry \<Rightarrow> nat \<Rightarrow> int \<Rightarrow> int \<Rightarrow> extent list \<Rightarrow> (err + extent list) option" where
  "scanLoop f 0 off fsize extents = (if off < fsize then None else Some (Inr extents))"
| "scanLoop f (Suc n) off fsize extents =
     (if \<not> off < fsize then Some (Inr extents)
      else (case deSeekData f off of
          Inl ENXIO \<Rightarrow> Some (Inr extents)
        | Inl EINVAL \<Rightarrow> Some (Inr [\<lparr>exOffset = 0, exLength = fsize\<rparr>])
        | Inl ENOTSUP \<Rightarrow> Some (Inr [\<lparr>exOffset = 0, exLength = fsize\<rparr>])
        | Inl (OtherErrno x) \<Rightarrow> Some (Inl (wrapErr (''seek data at '' @ itoa off @ '': '') x []))
        | Inr dataStart \<Rightarrow>
            (case deSeekHole f dataStart of
               Inl x \<Rightarrow> Some (Inl (wrapErr (''seek hole at '' @ itoa dataStart @ '': '') x []))
             | Inr holeStart \<Rightarrow>
                 scanLoop f n holeStart fsize
                   (extents @ [\<lparr>exOffset = dataStart, exLength = holeStart - dataStart\<rparr>]))))"

definition scanExtents :: "dir_entry \<Rightarrow> (err + int \<times> extent list) option" where
  "scanExtents f =
     (case deStatErr f of
        Some x \<Rightarrow> Some (Inl x)
      | None \<Rightarrow>
          (let fsize = int (length (deContent f)) in
           if fsize = 0 then Some (Inr (0, []))
           else map_option (\<lambda>r. case r of Inl x \<Rightarrow> Inl x | Inr es \<Rightarrow> Inr (fsize, es))
             (scanLoop f (length (deContent f)) 0 fsize [])))"

definition coalesceStep :: "int \<Rightarrow> extent list \<Rightarrow> extent \<Rightarrow> extent list" where
  "coalesceStep maxGap out x =
     (if out \<noteq> [] \<and> exOffset x - (exOffset (last out) + exLength (last out)) \<le> maxGap
      then butlast out @ [(last out)\<lparr>exLength := exOffset x + exLength x - exOffset (last out)\<rparr>]
      else out @ [x])"

definition coalesceExtents :: "extent list \<Rightarrow> int \<Rightarrow> extent list" where
  "coalesceExtents extents maxGap = foldl (coalesceStep maxGap) [] extents"

text \<open>The inner loop of \<open>splitExtents\<close>; its one caller passes a positive limit.\<close>

function splitFrom :: "int \<Rightarrow> int \<Rightarrow> int \<Rightarrow> peer_slice list" where
  "splitFrom off end limit =
     (if off < end \<and> 0 < limit
      then \<lparr>slOffset = off, slLength = min limit (end - off)\<rparr> # splitFrom (off + limit) end limit
      else [])"
  by pat_completeness auto
termination
  by (relation "measure (\<lambda>(off, end, limit). nat (end - off))") auto

declare splitFrom.simps [simp del]

definition splitExtents :: "extent list \<Rightarrow> int \<Rightarrow> peer_slice list" where
  "splitExtents extents limit =
     concat (map (\<lambda>x. splitFrom (exOffset x) (exOffset x + exLength x) limit) extents)"

definition isPlainName :: "string \<Rightarrow> bool" where
  "isPlainName s \<longleftrightarrow> s \<noteq> [] \<and> s \<noteq> ''.'' \<and> s \<noteq> ''..'' \<and> s = pathBase s"

text \<open>The store: its root and the directories and files under it.\<close>

record store =
  stRoot :: string
  stReadDir :: "string \<Rightarrow> err + dir_entry list"
  stOpen :: "string \<Rightarrow> err + byte list"

definition snapshotDir :: "store \<Rightarrow> string \<Rightarrow> err + string" where
  "snapshotDir st i =
     (if \<not> isPlainName i then Inl (newErr (''invalid snapshot id '' @ quoteStr i))
      else Inr (joinAbs (stRoot st) i))"

definition planFile :: "dir_entry \<Rightarrow> (err + peer_file) option" where
  "planFile f =
     (case deOpenErr f of
        Some x \<Rightarrow> Some (Inl x)
      | None \<Rightarrow> map_option (\<lambda>r. case r of
            Inl x \<Rightarrow> Inl (wrapErr (''scan '' @ deName f @ '': '') x [])
          | Inr (fsize, extents) \<Rightarrow> Inr \<lparr>pfName = deName f, pfSize = fsize,
              pfSlices = splitExtents (coalesceExtents extents coalesceGapBytes) peerSliceBytes\<rparr>)
          (scanExtents f))"

fun planFiles :: "dir_entry list \<Rightarrow> (err + peer_file list) option" where
  "planFiles [] = Some (Inr [])"
| "planFiles (f # fs) =
     (if \<not> deRegular f then planFiles fs
      else (case planFile f of
          None \<Rightarrow> None
        | Some (Inl x) \<Rightarrow> Some (Inl x)
        | Some (Inr pf) \<Rightarrow> map_option (map_sum id (\<lambda>pfs. pf # pfs)) (planFiles fs)))"

definition buildPlan :: "store \<Rightarrow> string \<Rightarrow> (err + peer_plan) option" where
  "buildPlan st i =
     (case snapshotDir st i of
        Inl x \<Rightarrow> Some (Inl x)
      | Inr dir \<Rightarrow>
          (case stReadDir st dir of
             Inl x \<Rightarrow> Some (Inl x)
           | Inr entries \<Rightarrow> map_option (\<lambda>r. case r of
                 Inl x \<Rightarrow> Inl x
               | Inr files \<Rightarrow>
                   if files = [] then Inl (newErr (''snapshot dir '' @ i @ '' has no regular files''))
                   else Inr \<lparr>ppSnapshotID = i, ppFiles = files\<rparr>) (planFiles entries)))"

section \<open>Serving\<close>

text \<open>CRC-32C as \<open>hash/crc32\<close> with the Castagnoli table computes it, and its trailer in lower-case hexadecimal.\<close>

definition crcBit :: "32 word \<Rightarrow> 32 word" where
  "crcBit c = (if bit c 0 then drop_bit 1 c XOR 0x82F63B78 else drop_bit 1 c)"

definition crcByte :: "32 word \<Rightarrow> byte \<Rightarrow> 32 word" where
  "crcByte c b = (crcBit ^^ 8) (c XOR ucast b)"

definition crc32c :: "byte list \<Rightarrow> 32 word" where
  "crc32c bs = NOT (foldl crcByte (NOT 0) bs)"

fun hexDigits :: "nat \<Rightarrow> string" where
  "hexDigits n = (if n < 16 then [hexDigit n] else hexDigits (n div 16) @ [hexDigit (n mod 16)])"

declare hexDigits.simps [simp del]

definition sliceChecksum :: "byte list \<Rightarrow> string" where
  "sliceChecksum bs = hexDigits (unat (crc32c bs))"

datatype slice_reply = HTTPError nat string | HTTPSlice "byte list" "string option"

text \<open>\<open>handleSlice\<close>: \<open>free\<close> says whether the gate has a stream left. The trailer is set only when the section
  was read to its full length.\<close>

definition handleSlice :: "store \<Rightarrow> bool \<Rightarrow> string \<Rightarrow> string \<Rightarrow> string \<Rightarrow> string \<Rightarrow> slice_reply" where
  "handleSlice st free i name rawOffset rawLength =
     (case (atoi rawOffset, atoi rawLength) of
        (Some off, Some len) \<Rightarrow>
          if i = [] \<or> name = [] \<or> off < 0 \<or> len \<le> 0
          then HTTPError 400 ''id, file, offset, length are required''
          else (case snapshotDir st i of
              Inl x \<Rightarrow> HTTPError 400 (errMsg x)
            | Inr dir \<Rightarrow>
                if \<not> isPlainName name then HTTPError 400 ''file must be a plain name''
                else if \<not> free then HTTPError 503 ''slice streams saturated''
                else (case stOpen st (joinAbs dir name) of
                    Inl x \<Rightarrow> HTTPError 404 (errMsg x)
                  | Inr content \<Rightarrow>
                      (let body = take (nat len) (drop (nat off) content) in
                       HTTPSlice body (if int (length body) \<noteq> len then None else Some (sliceChecksum body)))))
      | _ \<Rightarrow> HTTPError 400 ''id, file, offset, length are required'')"

section \<open>Writing\<close>

text \<open>\<open>WriteAt\<close> on a file; writing past the end fills the gap with zeros. \<open>wr\<close> is what the system answers at
  each offset: a failed write carries the number of bytes that still reached the file.\<close>

definition writeBytes :: "byte list \<Rightarrow> byte list \<Rightarrow> nat \<Rightarrow> byte list" where
  "writeBytes f bs off =
     (let g = f @ replicate (off + length bs - length f) 0 in take off g @ bs @ drop (off + length bs) g)"

type_synonym write_answer = "int \<Rightarrow> (nat \<times> err) option"

text \<open>The length of the run of chunks up to the next all-zero one.\<close>

function nonZeroRun :: "byte list \<Rightarrow> nat" where
  "nonZeroRun bs =
     (if bs = [] \<or> list_all (\<lambda>b. b = 0) (take zeroSkipBytes bs) then 0
      else length (take zeroSkipBytes bs) + nonZeroRun (drop zeroSkipBytes bs))"
  by pat_completeness auto
termination
  by (relation "measure length") (auto simp: zeroSkipBytes_def)

declare nonZeroRun.simps [simp del]

function writeSkippingZeros :: "write_answer \<Rightarrow> byte list \<Rightarrow> byte list \<Rightarrow> int \<Rightarrow> err option \<times> byte list" where
  "writeSkippingZeros wr f bs off =
     (if bs = [] then (None, f)
      else if list_all (\<lambda>b. b = 0) (take zeroSkipBytes bs)
      then writeSkippingZeros wr f (drop zeroSkipBytes bs) (off + int (length (take zeroSkipBytes bs)))
      else (case wr off of
          Some (k, x) \<Rightarrow> (Some x, writeBytes f (take k (take (nonZeroRun bs) bs)) (nat off))
        | None \<Rightarrow> writeSkippingZeros wr (writeBytes f (take (nonZeroRun bs) bs) (nat off))
            (drop (nonZeroRun bs) bs) (off + int (nonZeroRun bs))))"
  by pat_completeness auto
termination
proof (relation "measure (\<lambda>(wr, f, bs, off). length bs)", simp)
  fix bs :: "byte list"
  assume "bs \<noteq> []" "\<not> list_all (\<lambda>b. b = 0) (take zeroSkipBytes bs)"
  then have "0 < nonZeroRun bs" by (subst nonZeroRun.simps) (auto simp: zeroSkipBytes_def)
  then show "((wr, writeBytes f (take (nonZeroRun bs) bs) (nat off), drop (nonZeroRun bs) bs, off + int (nonZeroRun bs)),
      wr, f, bs, off) \<in> measure (\<lambda>(wr, f, bs, off). length bs)" for wr f off
    using \<open>bs \<noteq> []\<close> by simp
qed (auto simp: zeroSkipBytes_def)

declare writeSkippingZeros.simps [simp del]

text \<open>The buffer of a section writer is the filled part of \<open>buf\<close>; its capacity is \<open>restoreBufBytes\<close>.\<close>

record section_writer =
  swFile :: "byte list"
  swOff :: int
  swBuf :: "byte list"

definition swFlush :: "write_answer \<Rightarrow> section_writer \<Rightarrow> err option \<times> section_writer" where
  "swFlush wr sw =
     (if swBuf sw = [] then (None, sw)
      else (case writeSkippingZeros wr (swFile sw) (swBuf sw) (swOff sw) of
          (Some x, f) \<Rightarrow> (Some x, sw\<lparr>swFile := f\<rparr>)
        | (None, f) \<Rightarrow> (None, sw\<lparr>swFile := f, swOff := swOff sw + int (length (swBuf sw)), swBuf := []\<rparr>)))"

function swWrite :: "write_answer \<Rightarrow> section_writer \<Rightarrow> byte list \<Rightarrow> err option \<times> section_writer" where
  "swWrite wr sw p =
     (if p = [] then (None, sw)
      else
        (let c = min (restoreBufBytes - length (swBuf sw)) (length p);
             filled = sw\<lparr>swBuf := swBuf sw @ take c p\<rparr>
         in if restoreBufBytes \<le> length (swBuf filled)
            then (case swFlush wr filled of
                (Some x, u) \<Rightarrow> (Some x, u)
              | (None, u) \<Rightarrow> swWrite wr u (drop c p))
            else swWrite wr filled (drop c p)))"
  by pat_completeness auto
termination
proof (relation "measure (\<lambda>(wr, sw, p). 2 * length p + (if restoreBufBytes \<le> length (swBuf sw) then 1 else 0))", simp)
qed (auto simp: restoreBufBytes_def swFlush_def split: if_splits prod.splits option.splits)

declare swWrite.simps [simp del]

section \<open>Fetching\<close>

datatype 'a http_reply = NoReply err | Reply nat string string 'a

definition doGet :: "'a http_reply \<Rightarrow> err + 'a" where
  "doGet r =
     (case r of
        NoReply x \<Rightarrow> Inl x
      | Reply code status msg body \<Rightarrow>
          if code \<noteq> 200 then Inl (newErr (status @ '': '' @ take 512 msg)) else Inr body)"

text \<open>A response body as the reader returns it: its pieces, the error that cut it short, and the trailer
  (empty when there is none). A stalled read is such an error.\<close>

record slice_body =
  sbChunks :: "byte list list"
  sbReadErr :: "err option"
  sbTrailer :: string

text \<open>The answers of the peer and of the local system during one restore. The plan is the decoded body,
  or the error of its decoding; a slice is asked for by snapshot, file, offset and length.\<close>

record peer_world =
  pwAcquire :: "err option"
  pwPlan :: "string \<Rightarrow> (err + peer_plan) http_reply"
  pwSlice :: "string \<Rightarrow> string \<Rightarrow> string \<Rightarrow> string \<Rightarrow> slice_body http_reply"
  pwMkdirAll :: "err option"
  pwMkdirTemp :: "string \<Rightarrow> err + string"
  pwOpen :: "string \<Rightarrow> err option"
  pwTruncate :: "string \<Rightarrow> err option"
  pwWrite :: "string \<Rightarrow> write_answer"
  pwWriteFile :: "err option"
  pwRemoved :: bool
  pwSchedule :: "nat list"

text \<open>The part of the file system under the staging root, by path.\<close>

record fsys =
  fsDirs :: "string list"
  fsFiles :: "string \<Rightarrow> byte list option"

fun copyBody :: "write_answer \<Rightarrow> section_writer \<Rightarrow> byte list list \<Rightarrow> err option \<times> section_writer" where
  "copyBody wr sw [] = (None, sw)"
| "copyBody wr sw (c # cs) =
     (case swWrite wr sw c of (Some x, u) \<Rightarrow> (Some x, u) | (None, u) \<Rightarrow> copyBody wr u cs)"

definition fetchSlice :: "peer_world \<Rightarrow> string \<Rightarrow> string \<Rightarrow> peer_slice \<Rightarrow> byte list \<Rightarrow> err option \<times> byte list" where
  "fetchSlice w snapshotID path sl f =
     (let name = pathBase path;
          at = ''peer slice '' @ name @ ''@'' @ itoa (slOffset sl);
          wr = pwWrite w path
      in case doGet (pwSlice w snapshotID name (itoa (slOffset sl)) (itoa (slLength sl))) of
           Inl x \<Rightarrow> (Some (wrapErr (at @ '': '') x []), f)
         | Inr body \<Rightarrow>
             (case copyBody wr \<lparr>swFile = f, swOff = slOffset sl, swBuf = []\<rparr> (sbChunks body) of
                (Some x, sw) \<Rightarrow> (Some (wrapErr (at @ '': read: '') x []), swFile sw)
              | (None, sw) \<Rightarrow>
                  (case sbReadErr body of
                     Some x \<Rightarrow> (Some (wrapErr (at @ '': read: '') x []), swFile sw)
                   | None \<Rightarrow>
                       (case swFlush wr sw of
                          (Some x, sw) \<Rightarrow> (Some (wrapErr (at @ '': write: '') x []), swFile sw)
                        | (None, sw) \<Rightarrow>
                            (let got = concat (sbChunks body) in
                             if int (length got) \<noteq> slLength sl
                             then (Some (newErr (at @ '': got '' @ itoa (int (length got)) @ '' bytes, want '' @
                                     itoa (slLength sl))), swFile sw)
                             else if sbTrailer body = []
                             then (Some (newErr (at @ '': server sent no checksum trailer'')), swFile sw)
                             else if sliceChecksum got \<noteq> sbTrailer body
                             then (Some (newErr (at @ '': checksum mismatch'')), swFile sw)
                             else (None, swFile sw))))))"

definition outOfBounds :: "int \<Rightarrow> peer_slice \<Rightarrow> bool" where
  "outOfBounds fsize sl \<longleftrightarrow> slOffset sl < 0 \<or> slLength sl \<le> 0 \<or> wrap64 (slOffset sl + slLength sl) > fsize"

text \<open>\<open>slices.Chunk\<close>.\<close>

function chunksOf :: "nat \<Rightarrow> 'a list \<Rightarrow> 'a list list" where
  "chunksOf n xs = (if xs = [] \<or> n = 0 then [] else take n xs # chunksOf n (drop n xs))"
  by pat_completeness auto
termination
  by (relation "measure (\<lambda>(n, xs). length xs)") auto

declare chunksOf.simps [simp del]

definition perStream :: "peer_slice list \<Rightarrow> nat" where
  "perStream sls = max 1 ((length sls + 8 - 1) div 8)"

text \<open>The first loop of \<open>fetchFiles\<close>, for one file of the plan: checked, created, truncated to its size and
  divided into tasks. A task is the list of its slices with the path each is written to.\<close>

type_synonym peer_task = "(string \<times> peer_slice) list"

definition prepareFile :: "peer_world \<Rightarrow> string \<Rightarrow> peer_file \<Rightarrow> fsys \<Rightarrow> (err + peer_task list) \<times> fsys" where
  "prepareFile w dir pf fs =
     (if \<not> isPlainName (pfName pf)
      then (Inl (newErr (''peer plan names non-plain file '' @ quoteStr (pfName pf))), fs)
      else (case find (outOfBounds (pfSize pf)) (pfSlices pf) of
          Some sl \<Rightarrow> (Inl (newErr (''peer plan slice '' @ pfName pf @ ''@'' @ itoa (slOffset sl) @ ''+'' @
            itoa (slLength sl) @ '' out of bounds (size '' @ itoa (pfSize pf) @ '')'')), fs)
        | None \<Rightarrow>
            (let path = joinAbs dir (pfName pf) in
             case pwOpen w path of
               Some x \<Rightarrow> (Inl x, fs)
             | None \<Rightarrow>
                 if path \<in> set (fsDirs fs) \<or> fsFiles fs path \<noteq> None
                 then (Inl (newErr (''open '' @ path @ '': file exists'')), fs)
                 else (case pwTruncate w path of
                     Some x \<Rightarrow> (Inl (wrapErr (''truncate '' @ pfName pf @ '': '') x []),
                       fs\<lparr>fsFiles := (fsFiles fs)(path \<mapsto> [])\<rparr>)
                   | None \<Rightarrow>
                       if pfSize pf < 0
                       then (Inl (newErr (''truncate '' @ pfName pf @ '': invalid argument'')),
                         fs\<lparr>fsFiles := (fsFiles fs)(path \<mapsto> [])\<rparr>)
                       else (Inr (map (map (Pair path)) (chunksOf (perStream (pfSlices pf)) (pfSlices pf))),
                         fs\<lparr>fsFiles := (fsFiles fs)(path \<mapsto> replicate (nat (pfSize pf)) 0)\<rparr>)))))"

fun prepareFiles :: "peer_world \<Rightarrow> string \<Rightarrow> peer_file list \<Rightarrow> fsys \<Rightarrow> (err + peer_task list) \<times> fsys" where
  "prepareFiles w dir [] fs = (Inr [], fs)"
| "prepareFiles w dir (pf # pfs) fs =
     (case prepareFile w dir pf fs of
        (Inl x, fs) \<Rightarrow> (Inl x, fs)
      | (Inr ts, fs) \<Rightarrow>
          (case prepareFiles w dir pfs fs of (Inl x, fs) \<Rightarrow> (Inl x, fs) | (Inr us, fs) \<Rightarrow> (Inr (ts @ us), fs)))"

text \<open>
  The error group runs at most \<open>defaultPeerConcurrency\<close> tasks at a time, in the order they were queued. A
  schedule picks, slice by slice, the running task that goes on; when it is used up the rest runs in order.
\<close>

definition defaultPeerConcurrency :: nat where "defaultPeerConcurrency = 32"

fun interleave :: "nat list \<Rightarrow> 'a list list \<Rightarrow> 'a list" where
  "interleave [] tasks = concat tasks"
| "interleave (n # ns) tasks =
     (let live = filter (\<lambda>t. t \<noteq> []) tasks; k = n mod min defaultPeerConcurrency (length live) in
      if live = [] then [] else hd (live ! k) # interleave ns (live[k := tl (live ! k)]))"

text \<open>The first failed slice is what \<open>Wait\<close> returns; it cancels the others, and the caller drops the files.\<close>

fun runSlices :: "peer_world \<Rightarrow> string \<Rightarrow> peer_task \<Rightarrow> fsys \<Rightarrow> err option \<times> fsys" where
  "runSlices w snapshotID [] fs = (None, fs)"
| "runSlices w snapshotID ((path, sl) # rest) fs =
     (case fetchSlice w snapshotID path sl (case fsFiles fs path of None \<Rightarrow> [] | Some f \<Rightarrow> f) of
        (Some x, f) \<Rightarrow> (Some x, fs\<lparr>fsFiles := (fsFiles fs)(path \<mapsto> f)\<rparr>)
      | (None, f) \<Rightarrow> runSlices w snapshotID rest (fs\<lparr>fsFiles := (fsFiles fs)(path \<mapsto> f)\<rparr>))"

definition fetchFiles :: "peer_world \<Rightarrow> peer_plan \<Rightarrow> string \<Rightarrow> fsys \<Rightarrow> err option \<times> fsys" where
  "fetchFiles w plan dir fs =
     (case prepareFiles w dir (ppFiles plan) fs of
        (Inl x, fs) \<Rightarrow> (Some x, fs)
      | (Inr tasks, fs) \<Rightarrow> runSlices w (ppSnapshotID plan) (interleave (pwSchedule w) tasks) fs)"

section \<open>Restoring\<close>

text \<open>What the registry's config blob says of a snapshot; \<open>marshal\<close> is the library's envelope encoder.\<close>

record registry_config =
  rcSnapshotID :: string
  rcImage :: string
  rcImageDigest :: string
  rcHypervisor :: string

definition stagingChar :: "char \<Rightarrow> char" where
  "stagingChar c =
     (let n = (of_char c :: nat) in
      if 97 \<le> n \<and> n \<le> 122 \<or> 65 \<le> n \<and> n \<le> 90 \<or> 48 \<le> n \<and> n \<le> 57 \<or> c = CHR ''-'' \<or> c = CHR ''.''
      then c else CHR ''_'')"

definition sanitizeStagingPrefix :: "string \<Rightarrow> string" where
  "sanitizeStagingPrefix name = map stagingChar name"

text \<open>\<open>MkdirTemp\<close> answers the suffix it completed the pattern with.\<close>

definition newStagingDir :: "peer_world \<Rightarrow> string \<Rightarrow> string \<Rightarrow> fsys \<Rightarrow> (err + string) \<times> fsys" where
  "newStagingDir w root localName fs =
     (if root = [] then (Inl (newErr ''staging root is not configured''), fs)
      else (case pwMkdirAll w of
          Some x \<Rightarrow> (Inl (wrapErr ''create staging root: '' x []), fs)
        | None \<Rightarrow>
            (let pat = sanitizeStagingPrefix localName @ ''-'' in
             case pwMkdirTemp w pat of
               Inl x \<Rightarrow> (Inl (wrapErr ''create staging dir: '' x []), fs)
             | Inr suffix \<Rightarrow>
                 (let dir = joinAbs root (pat @ suffix) in (Inr dir, fs\<lparr>fsDirs := dir # fsDirs fs\<rparr>)))))"

text \<open>\<open>os.RemoveAll\<close>; \<open>gone\<close> says whether it succeeds.\<close>

definition removeAll :: "bool \<Rightarrow> string \<Rightarrow> fsys \<Rightarrow> fsys" where
  "removeAll gone dir fs =
     (if gone
      then fs\<lparr>fsDirs := filter (\<lambda>d. d \<noteq> dir \<and> \<not> hasPrefix d (dir @ ''/'')) (fsDirs fs),
              fsFiles := (\<lambda>p. if p = dir \<or> hasPrefix p (dir @ ''/'') then None else fsFiles fs p)\<rparr>
      else fs)"

definition writeEnvelope ::
  "peer_world \<Rightarrow> (registry_config \<Rightarrow> string \<Rightarrow> err + byte list) \<Rightarrow> string \<Rightarrow> registry_config \<Rightarrow> string \<Rightarrow> fsys \<Rightarrow>
   err option \<times> fsys" where
  "writeEnvelope w marshal dir c localName fs =
     (case marshal c localName of
        Inl x \<Rightarrow> (Some x, fs)
      | Inr bytes \<Rightarrow>
          (case pwWriteFile w of
             Some x \<Rightarrow> (Some x, fs)
           | None \<Rightarrow> (None, fs\<lparr>fsFiles := (fsFiles fs)(joinAbs dir ''snapshot.json'' \<mapsto> bytes)\<rparr>)))"

definition fetchPlan :: "peer_world \<Rightarrow> string \<Rightarrow> err + peer_plan" where
  "fetchPlan w name =
     (case doGet (pwPlan w name) of
        Inl x \<Rightarrow> Inl (wrapErr ''peer plan: '' x [])
      | Inr (Inl x) \<Rightarrow> Inl (wrapErr ''peer plan: decode: '' x [])
      | Inr (Inr plan) \<Rightarrow> Inr plan)"

definition Restore ::
  "peer_world \<Rightarrow> (registry_config \<Rightarrow> string \<Rightarrow> err + byte list) \<Rightarrow> string \<Rightarrow> string \<Rightarrow> registry_config \<Rightarrow> fsys \<Rightarrow>
   (err + string \<times> snapshot) \<times> fsys" where
  "Restore w marshal root name c fs =
     (case pwAcquire w of
        Some x \<Rightarrow> (Inl x, fs)
      | None \<Rightarrow>
          (case fetchPlan w name of
             Inl x \<Rightarrow> (Inl x, fs)
           | Inr plan \<Rightarrow>
               if ppSnapshotID plan \<noteq> rcSnapshotID c
               then (Inl (newErr (''peer has snapshot '' @ ppSnapshotID plan @ '', registry says '' @ rcSnapshotID c)), fs)
               else (case newStagingDir w root name fs of
                   (Inl x, fs) \<Rightarrow> (Inl x, fs)
                 | (Inr dir, fs) \<Rightarrow>
                     (case fetchFiles w plan dir fs of
                        (Some x, fs) \<Rightarrow> (Inl x, removeAll (pwRemoved w) dir fs)
                      | (None, fs) \<Rightarrow>
                          (case writeEnvelope w marshal dir c name fs of
                             (Some x, fs) \<Rightarrow> (Inl x, removeAll (pwRemoved w) dir fs)
                           | (None, fs) \<Rightarrow>
                               (Inr (dir, \<lparr>snID = rcSnapshotID c, snName = name, snImage = rcImage c,
                                  snImageDigest = rcImageDigest c, snHypervisor = rcHypervisor c,
                                  snDescription = []\<rparr>), fs))))))"

text \<open>\<open>SweepStaging\<close>: the entries of the staging root, removed one by one; \<open>gone\<close> says which removals succeed.\<close>

definition SweepStaging :: "(string \<Rightarrow> bool) \<Rightarrow> (err + string list) \<Rightarrow> string \<Rightarrow> fsys \<Rightarrow> fsys" where
  "SweepStaging gone listing root fs =
     (case listing of
        Inl x \<Rightarrow> fs
      | Inr names \<Rightarrow> foldl (\<lambda>fs n. removeAll (gone (joinAbs root n)) (joinAbs root n) fs) fs names)"

text \<open>\<open>handlePlan\<close>: \<open>resolve\<close> is the runtime's \<open>Snapshot\<close>.\<close>

datatype plan_reply = PlanError nat string | PlanOK peer_plan

definition handlePlan :: "store \<Rightarrow> (string \<Rightarrow> err + snapshot) \<Rightarrow> string \<Rightarrow> plan_reply option" where
  "handlePlan st resolve name =
     (if name = [] then Some (PlanError 400 ''name is required'')
      else (case resolve name of
          Inl x \<Rightarrow> Some (PlanError (if errIs x ErrSnapshotNotFound then 404 else 500)
            (''resolve snapshot '' @ name @ '': '' @ errMsg x))
        | Inr sn \<Rightarrow> map_option (\<lambda>r. case r of
              Inl x \<Rightarrow> PlanError 500 (''plan snapshot '' @ name @ '': '' @ errMsg x)
            | Inr plan \<Rightarrow> PlanOK plan) (buildPlan st (snID sn))))"

end
