(* ===== verification/Peer_Transfer.thy ===== *)
theory Peer_Transfer
  imports Peer "HOL-Library.Multiset"
begin

text \<open>
  Why peer-to-peer transfer reproduces a snapshot: a plan lists ordered, disjoint slices that cover all data of
  a file, the writer lands every byte of a slice or leaves out a zero, and the slices of an honest peer
  complete every file in whatever order they are run.
\<close>

section \<open>Ranges\<close>

text \<open>Ranges of positive length, in order, disjoint, between two bounds.\<close>

fun ordered :: "int \<Rightarrow> int \<Rightarrow> (int \<times> int) list \<Rightarrow> bool" where
  "ordered lo hi [] \<longleftrightarrow> lo \<le> hi"
| "ordered lo hi ((o1, l1) # rs) \<longleftrightarrow> lo \<le> o1 \<and> 0 < l1 \<and> ordered (o1 + l1) hi rs"

definition covered :: "(int \<times> int) list \<Rightarrow> int \<Rightarrow> bool" where
  "covered rs i \<longleftrightarrow> (\<exists>(o1, l1)\<in>set rs. o1 \<le> i \<and> i < o1 + l1)"

definition exRange :: "extent \<Rightarrow> int \<times> int" where
  "exRange x = (exOffset x, exLength x)"

definition slRange :: "peer_slice \<Rightarrow> int \<times> int" where
  "slRange x = (slOffset x, slLength x)"

lemma range_make [simp]:
  "exRange \<lparr>exOffset = a, exLength = b\<rparr> = (a, b)" "slRange \<lparr>slOffset = a, slLength = b\<rparr> = (a, b)"
  by (simp_all add: exRange_def slRange_def)

lemma covered_simps [simp]:
  "\<not> covered [] i"
  "covered ((o1, l1) # rs) i \<longleftrightarrow> o1 \<le> i \<and> i < o1 + l1 \<or> covered rs i"
  "covered (rs @ rs') i \<longleftrightarrow> covered rs i \<or> covered rs' i"
  by (auto simp: covered_def)

lemma range_Cons [simp]:
  "ordered lo hi (exRange x # rs) \<longleftrightarrow> lo \<le> exOffset x \<and> 0 < exLength x \<and> ordered (exOffset x + exLength x) hi rs"
  "covered (exRange x # rs) i \<longleftrightarrow> exOffset x \<le> i \<and> i < exOffset x + exLength x \<or> covered rs i"
  by (simp_all add: exRange_def)

lemma ordered_le: "ordered lo hi rs \<Longrightarrow> lo \<le> hi"
  by (induction lo hi rs rule: ordered.induct) auto

lemma ordered_mono: "ordered lo hi rs \<Longrightarrow> lo' \<le> lo \<Longrightarrow> hi \<le> hi' \<Longrightarrow> ordered lo' hi' rs"
  by (induction lo hi rs arbitrary: lo' rule: ordered.induct) auto

lemma ordered_append: "ordered lo hi (rs @ rs') \<longleftrightarrow> (\<exists>m. ordered lo m rs \<and> ordered m hi rs')"
proof (induction lo hi rs rule: ordered.induct)
  case (1 lo hi)
  show ?case
    using ordered_le [of _ hi rs'] by (metis append_Nil dual_order.refl ordered.simps(1) ordered_mono)
qed auto

lemma ordered_bounds: "ordered lo hi rs \<Longrightarrow> (o1, l1) \<in> set rs \<Longrightarrow> lo \<le> o1 \<and> 0 < l1 \<and> o1 + l1 \<le> hi"
proof (induction lo hi rs rule: ordered.induct)
  case (2 lo hi o2 l2 rs)
  then show ?case using ordered_le [of "o2 + l2" hi rs] by auto
qed simp

section \<open>The plan of a file\<close>

text \<open>
  What \<open>lseek\<close> documents of \<open>SEEK_DATA\<close> and \<open>SEEK_HOLE\<close>: what it steps over reads as zeros, \<open>ENXIO\<close> says there
  is no more data, and a hole starts after the data it ends, at the latest at the end of the file. A
  file system without the calls answers \<open>EINVAL\<close> or \<open>ENOTSUP\<close>.
\<close>

definition zeroFrom :: "byte list \<Rightarrow> int \<Rightarrow> int \<Rightarrow> bool" where
  "zeroFrom c lo hi \<longleftrightarrow> list_all (\<lambda>b. b = 0) (take (nat (hi - lo)) (drop (nat lo) c))"

definition seekOk :: "dir_entry \<Rightarrow> int \<Rightarrow> bool" where
  "seekOk f off =
     (let n = int (length (deContent f)) in
      case deSeekData f off of
        Inl ENXIO \<Rightarrow> zeroFrom (deContent f) off n
      | Inl (OtherErrno x) \<Rightarrow> False
      | Inl _ \<Rightarrow> True
      | Inr d \<Rightarrow> off \<le> d \<and> d < n \<and> zeroFrom (deContent f) off d \<and>
          (case deSeekHole f d of Inl x \<Rightarrow> False | Inr h \<Rightarrow> d < h \<and> h \<le> n))"

definition seeks :: "dir_entry \<Rightarrow> bool" where
  "seeks f \<longleftrightarrow> (\<forall>k < length (deContent f). seekOk f (int k))"

lemma zeroFrom_nth: "zeroFrom c lo hi \<Longrightarrow> 0 \<le> lo \<Longrightarrow> lo \<le> i \<Longrightarrow> i < hi \<Longrightarrow> i < int (length c) \<Longrightarrow> c ! nat i = 0"
proof -
  assume a: "zeroFrom c lo hi" "0 \<le> lo" "lo \<le> i" "i < hi" "i < int (length c)"
  then have "take (nat (hi - lo)) (drop (nat lo) c) ! nat (i - lo) = c ! nat i"
    by (simp add: nat_diff_distrib le_nat_iff)
  moreover have "nat (i - lo) < length (take (nat (hi - lo)) (drop (nat lo) c))" using a by auto
  ultimately show ?thesis
    using a(1) nth_mem [of "nat (i - lo)" "take (nat (hi - lo)) (drop (nat lo) c)"]
    unfolding zeroFrom_def list_all_iff by metis
qed

text \<open>Ranges that cover every byte that is not zero, between two offsets of a file.\<close>

definition coversData :: "byte list \<Rightarrow> int \<Rightarrow> (int \<times> int) list \<Rightarrow> bool" where
  "coversData c lo rs \<longleftrightarrow> (\<forall>i. lo \<le> i \<longrightarrow> i < int (length c) \<longrightarrow> c ! nat i \<noteq> 0 \<longrightarrow> covered rs i)"

text \<open>The scan ends within as many rounds as the file has bytes.\<close>

lemma scanLoop_ends:
  assumes "seeks f" "0 \<le> off" "int (length (deContent f)) \<le> off + int n"
    "ordered 0 off (map exRange es)"
    "\<And>i. i < off \<Longrightarrow> 0 \<le> i \<Longrightarrow> deContent f ! nat i \<noteq> 0 \<Longrightarrow> covered (map exRange es) i"
    "off \<le> int (length (deContent f))"
  shows "\<exists>es'. scanLoop f n off (int (length (deContent f))) es = Some (Inr es') \<and>
    ordered 0 (int (length (deContent f))) (map exRange es') \<and> coversData (deContent f) 0 (map exRange es')"
  using assms
proof (induction n arbitrary: off es)
  case 0
  then show ?case by (auto simp: coversData_def)
next
  case (Suc n)
  show ?case
  proof (cases "off < int (length (deContent f))")
    case False
    with Suc.prems show ?thesis by (auto simp: coversData_def)
  next
    case True
    then have ok: "seekOk f off"
      using Suc.prems(1,2) by (metis seeks_def int_nat_eq nat_less_iff)
    show ?thesis
    proof (cases "deSeekData f off")
      case (Inl x)
      show ?thesis
      proof (cases x)
        case ENXIO
        have "covered (map exRange es) i" if i: "0 \<le> i" "i < int (length (deContent f))" "deContent f ! nat i \<noteq> 0" for i
        proof (rule ccontr)
          assume n: "\<not> covered (map exRange es) i"
          then have "off \<le> i" using Suc.prems(5) [of i] i by force
          with ok Inl ENXIO i Suc.prems(2) show False by (auto simp: seekOk_def dest: zeroFrom_nth)
        qed
        with True Inl ENXIO ordered_mono [OF Suc.prems(4), of 0] show ?thesis by (simp add: coversData_def)
      qed (use True Inl ok Suc.prems(2) in \<open>auto simp: seekOk_def coversData_def\<close>)
    next
      case (Inr d)
      with ok obtain h where h: "deSeekHole f d = Inr h" "off \<le> d" "d < h" "h \<le> int (length (deContent f))"
        "zeroFrom (deContent f) off d" by (auto simp: seekOk_def Let_def split: sum.splits)
      let ?x = "\<lparr>exOffset = d, exLength = h - d\<rparr>"
      have "ordered 0 h (map exRange (es @ [?x]))"
        using Suc.prems(4) h by (auto simp: ordered_append intro!: exI [of _ off])
      moreover have "covered (map exRange (es @ [?x])) i" if "i < h" "0 \<le> i" "deContent f ! nat i \<noteq> 0" for i
      proof (cases "i < off")
        case True
        with Suc.prems(5) that show ?thesis by simp
      next
        case False
        then have "d \<le> i" using zeroFrom_nth [OF h(5) Suc.prems(2), of i] that h by force
        with that show ?thesis by simp
      qed
      ultimately show ?thesis
        using Suc.IH [of h "es @ [?x]"] Suc.prems h True Inr by simp
    qed
  qed
qed

lemma scanExtents_ends:
  assumes "seeks f" "deStatErr f = None"
  shows "\<exists>es. scanExtents f = Some (Inr (int (length (deContent f)), es)) \<and>
    ordered 0 (int (length (deContent f))) (map exRange es) \<and> coversData (deContent f) 0 (map exRange es)"
  using scanLoop_ends [OF assms(1), of 0 "length (deContent f)" "[]"] assms(2)
  by (cases "deContent f = []") (auto simp: scanExtents_def coversData_def Let_def intro: exI [of _ "[]"])

lemma coalesceStep_keeps:
  assumes "ordered lo hi (map exRange (out @ x # xs))"
  shows "ordered lo hi (map exRange (coalesceStep g out x @ xs)) \<and>
    (covered (map exRange (out @ [x])) i \<longrightarrow> covered (map exRange (coalesceStep g out x)) i)"
proof (cases out rule: rev_cases)
  case (snoc ys y)
  then show ?thesis
    using assms by (force simp: coalesceStep_def ordered_append)
qed (use assms in \<open>simp add: coalesceStep_def\<close>)

lemma coalesceExtents_keeps:
  assumes "ordered lo hi (map exRange es)"
  shows "ordered lo hi (map exRange (coalesceExtents es g)) \<and>
    (covered (map exRange es) i \<longrightarrow> covered (map exRange (coalesceExtents es g)) i)"
proof -
  have "ordered lo hi (map exRange (out @ xs)) \<Longrightarrow>
    ordered lo hi (map exRange (foldl (coalesceStep g) out xs)) \<and>
    (covered (map exRange (out @ xs)) i \<longrightarrow> covered (map exRange (foldl (coalesceStep g) out xs)) i)" for out xs
  proof (induction xs arbitrary: out)
    case (Cons x xs)
    then show ?case
      using coalesceStep_keeps [of lo hi out x xs g i] Cons.IH [of "coalesceStep g out x"] by auto
  qed simp
  from this [of "[]" es] assms show ?thesis by (simp add: coalesceExtents_def)
qed

lemma splitFrom_ordered:
  "0 < limit \<Longrightarrow> off \<le> hi \<Longrightarrow> ordered off hi (map slRange (splitFrom off hi limit)) \<and>
    (covered (map slRange (splitFrom off hi limit)) i \<longleftrightarrow> off \<le> i \<and> i < hi)"
proof (induction off hi limit rule: splitFrom.induct)
  case (1 off hi limit)
  show ?case
  proof (cases "off < hi \<and> off + limit \<le> hi")
    case True
    with 1 show ?thesis by (subst (1 2) splitFrom.simps) auto
  next
    case False
    then have "splitFrom (off + limit) hi limit = []" by (subst splitFrom.simps) auto
    with 1 False show ?thesis by (subst (1 2) splitFrom.simps) auto
  qed
qed

lemma splitExtents_keeps:
  assumes "0 < limit" "ordered lo hi (map exRange es)"
  shows "ordered lo hi (map slRange (splitExtents es limit)) \<and>
    (covered (map exRange es) i \<longrightarrow> covered (map slRange (splitExtents es limit)) i)"
  using assms(2)
proof (induction es arbitrary: lo)
  case (Cons x es)
  let ?e = "exOffset x + exLength x"
  from Cons.prems have x: "lo \<le> exOffset x" "exOffset x < ?e" "ordered ?e hi (map exRange es)"
    by auto
  show ?case
    using Cons.IH [OF x(3)] x(1,2) splitFrom_ordered [OF assms(1), of "exOffset x" ?e i]
      ordered_mono [of "exOffset x" ?e _ lo ?e]
    by (auto simp: splitExtents_def ordered_append)
qed (simp add: splitExtents_def)

lemma splitFrom_limit: "sl \<in> set (splitFrom off hi limit) \<Longrightarrow> slLength sl \<le> limit"
proof (induction off hi limit rule: splitFrom.induct)
  case (1 off hi limit)
  then show ?case by (subst (asm) (2) splitFrom.simps) (auto split: if_splits)
qed

lemma planFile_slices:
  assumes "seeks f" "deOpenErr f = None" "deStatErr f = None"
  shows "\<exists>sls. planFile f = Some (Inr \<lparr>pfName = deName f, pfSize = int (length (deContent f)), pfSlices = sls\<rparr>) \<and>
    ordered 0 (int (length (deContent f))) (map slRange sls) \<and> coversData (deContent f) 0 (map slRange sls) \<and>
    list_all (\<lambda>sl. slLength sl \<le> peerSliceBytes) sls"
proof -
  let ?n = "int (length (deContent f))"
  obtain es where es: "scanExtents f = Some (Inr (?n, es))" "ordered 0 ?n (map exRange es)"
    "coversData (deContent f) 0 (map exRange es)" using scanExtents_ends [OF assms(1,3)] by blast
  have l: "0 < peerSliceBytes" by (simp add: peerSliceBytes_def)
  let ?c = "coalesceExtents es coalesceGapBytes"
  have "ordered 0 ?n (map exRange ?c)" using coalesceExtents_keeps [OF es(2)] by blast
  moreover have "list_all (\<lambda>sl. slLength sl \<le> peerSliceBytes) (splitExtents ?c peerSliceBytes)"
    by (auto simp: list_all_iff splitExtents_def splitFrom_limit)
  ultimately show ?thesis
    using splitExtents_keeps [OF l, of 0 ?n ?c] coalesceExtents_keeps [OF es(2)] es(1,3) assms(2)
    by (auto simp: planFile_def coversData_def)
qed

section \<open>Writing a slice\<close>

text \<open>The bytes have landed at an offset: everything outside the range is as before, and inside it each byte is
  the new one, or the new one is a zero that was left out.\<close>

definition landed :: "byte list \<Rightarrow> byte list \<Rightarrow> byte list \<Rightarrow> nat \<Rightarrow> bool" where
  "landed f g bs off \<longleftrightarrow> length g = length f \<and>
     (\<forall>i < length f. if off \<le> i \<and> i < off + length bs
        then g ! i = bs ! (i - off) \<or> bs ! (i - off) = 0 \<and> g ! i = f ! i else g ! i = f ! i)"

lemma landed_nil [simp]: "landed f f [] off"
  by (auto simp: landed_def)

lemma landed_zeros: "list_all (\<lambda>b. b = 0) bs \<Longrightarrow> landed f f bs off"
  by (auto simp: landed_def list_all_length)

lemma landedD:
  assumes "landed f g bs off" "i < length f"
  shows "\<not> (off \<le> i \<and> i < off + length bs) \<Longrightarrow> g ! i = f ! i"
    and "off \<le> i \<Longrightarrow> i < off + length bs \<Longrightarrow> g ! i = bs ! (i - off) \<or> bs ! (i - off) = 0 \<and> g ! i = f ! i"
  using assms by (auto simp: landed_def split: if_splits)

lemma landed_trans:
  assumes "landed f g bs off" "landed g h cs (off + length bs)"
  shows "landed f h (bs @ cs) off"
proof -
  have l: "length g = length f" "length h = length f" using assms by (simp_all add: landed_def)
  have "if off \<le> i \<and> i < off + length (bs @ cs)
    then h ! i = (bs @ cs) ! (i - off) \<or> (bs @ cs) ! (i - off) = 0 \<and> h ! i = f ! i else h ! i = f ! i"
    if i: "i < length f" for i
  proof (cases "i < off + length bs")
    case True
    then have "h ! i = g ! i" using landedD(1) [OF assms(2)] i l by simp
    with True landedD [OF assms(1) i] show ?thesis by (auto simp: nth_append)
  next
    case False
    then have "g ! i = f ! i" using landedD(1) [OF assms(1) i] by simp
    with False landedD [OF assms(2), of i] i l show ?thesis by (auto simp: nth_append)
  qed
  with l show ?thesis by (simp add: landed_def)
qed

lemma landed_write: "off + length bs \<le> length f \<Longrightarrow> landed f (writeBytes f bs off) bs off"
  by (auto simp: landed_def writeBytes_def nth_append min_def)

lemma nonZeroRun_le: "nonZeroRun bs \<le> length bs"
proof (induction bs rule: nonZeroRun.induct)
  case (1 bs)
  then show ?case by (subst nonZeroRun.simps) auto
qed

text \<open>Writing with the zeros left out lands the bytes, when no write fails.\<close>

lemma writeSkippingZeros_lands:
  assumes "nat off + length bs \<le> length f" "0 \<le> off" "wr = (\<lambda>_. None)"
  shows "\<exists>g. writeSkippingZeros wr f bs off = (None, g) \<and> landed f g bs (nat off)"
  using assms
proof (induction wr f bs off rule: writeSkippingZeros.induct)
  case (1 wr f bs off)
  consider "bs = []" | "bs \<noteq> []" "list_all (\<lambda>b. b = 0) (take zeroSkipBytes bs)" |
    "bs \<noteq> []" "\<not> list_all (\<lambda>b. b = 0) (take zeroSkipBytes bs)" by blast
  then show ?case
  proof cases
    case 2
    let ?k = "length (take zeroSkipBytes bs)"
    obtain g where g: "writeSkippingZeros wr f (drop zeroSkipBytes bs) (off + int ?k) = (None, g)"
      "landed f g (drop zeroSkipBytes bs) (nat (off + int ?k))" using 1(1) [OF 2] 1(3-5) by fastforce
    have "landed f g (take zeroSkipBytes bs @ drop zeroSkipBytes bs) (nat off)"
      using landed_trans [OF landed_zeros [OF 2(2)]] g(2) 1(4) by (simp add: nat_add_distrib del: length_take append_take_drop_id)
    with g(1) 2 show ?thesis by (subst writeSkippingZeros.simps) simp
  next
    case 3
    let ?k = "nonZeroRun bs"
    let ?f = "writeBytes f (take ?k bs) (nat off)"
    have k: "?k \<le> length bs" by (rule nonZeroRun_le)
    have l: "landed f ?f (take ?k bs) (nat off)" using landed_write 1(3) k by simp
    then have "length ?f = length f" by (simp add: landed_def)
    then obtain g where g: "writeSkippingZeros wr ?f (drop ?k bs) (off + int ?k) = (None, g)"
      "landed ?f g (drop ?k bs) (nat (off + int ?k))" using 1(2) [OF 3] 1(3-5) k by fastforce
    have "landed f g (take ?k bs @ drop ?k bs) (nat off)"
      using landed_trans [OF l] g(2) 1(4) k by (simp add: nat_add_distrib del: append_take_drop_id)
    with g(1) 3 1(5) show ?thesis by (subst writeSkippingZeros.simps) simp
  qed (auto simp: writeSkippingZeros.simps)
qed

text \<open>A section writer has taken in a stream: what is not in its buffer has landed.\<close>

definition sink :: "byte list \<Rightarrow> nat \<Rightarrow> section_writer \<Rightarrow> byte list \<Rightarrow> bool" where
  "sink f off sw s \<longleftrightarrow>
     (\<exists>d. landed f (swFile sw) d off \<and> swOff sw = int (off + length d) \<and> s = d @ swBuf sw)"

lemma swFlush_sinks:
  assumes "sink f off sw s" "off + length s \<le> length f" "wr = (\<lambda>_. None)"
  shows "\<exists>u. swFlush wr sw = (None, u) \<and> swBuf u = [] \<and> sink f off u s"
proof (cases "swBuf sw = []")
  case False
  obtain d where d: "landed f (swFile sw) d off" "swOff sw = int (off + length d)" "s = d @ swBuf sw"
    using assms(1) by (auto simp: sink_def)
  have "nat (swOff sw) + length (swBuf sw) \<le> length (swFile sw)" using d assms(2) by (simp add: landed_def)
  with d(2) assms(3) obtain g where g: "writeSkippingZeros wr (swFile sw) (swBuf sw) (swOff sw) = (None, g)"
    "landed (swFile sw) g (swBuf sw) (nat (swOff sw))" using writeSkippingZeros_lands by (metis of_nat_0_le_iff)
  have "landed f g s off" using landed_trans [OF d(1)] g(2) d(2,3) by (simp add: nat_int_add)
  with False g(1) d(2,3) show ?thesis by (simp add: swFlush_def sink_def)
qed (use assms(1) in \<open>simp add: swFlush_def\<close>)

lemma swWrite_sinks:
  assumes "sink f off sw s" "off + length (s @ p) \<le> length f" "wr = (\<lambda>_. None)"
  shows "\<exists>u. swWrite wr sw p = (None, u) \<and> sink f off u (s @ p)"
  using assms
proof (induction wr sw p arbitrary: s rule: swWrite.induct)
  case (1 wr sw p)
  let ?c = "min (restoreBufBytes - length (swBuf sw)) (length p)"
  let ?w = "sw\<lparr>swBuf := swBuf sw @ take ?c p\<rparr>"
  have k: "sink f off ?w (s @ take ?c p)" using 1(3) by (auto simp: sink_def)
  have b: "off + length (s @ take ?c p) \<le> length f" "off + length ((s @ take ?c p) @ drop ?c p) \<le> length f"
    using 1(4) by auto
  show ?case
  proof (cases "p = []")
    case False
    show ?thesis
    proof (cases "restoreBufBytes \<le> length (swBuf ?w)")
      case True
      obtain u where u: "swFlush wr ?w = (None, u)" "sink f off u (s @ take ?c p)"
        using swFlush_sinks [OF k b(1) 1(5)] by blast
      have "swWrite wr sw p = swWrite wr u (drop ?c p)"
        by (simp only: swWrite.simps [of wr sw p] Let_def False True u(1) if_False if_True prod.case option.case)
      with 1(1) [OF False refl refl True u(1) [symmetric] refl u(2) b(2) 1(5)] show ?thesis by simp
    next
      case full: False
      have "swWrite wr sw p = swWrite wr ?w (drop ?c p)"
        by (simp only: swWrite.simps [of wr sw p] Let_def False full if_False)
      with 1(2) [OF False refl refl full k b(2) 1(5)] show ?thesis by simp
    qed
  qed (use 1(3) in \<open>simp add: swWrite.simps\<close>)
qed

lemma copyBody_sinks:
  assumes "sink f off sw s" "off + length (s @ concat cs) \<le> length f" "wr = (\<lambda>_. None)"
  shows "\<exists>u. copyBody wr sw cs = (None, u) \<and> sink f off u (s @ concat cs)"
  using assms(1,2)
proof (induction cs arbitrary: sw s)
  case (Cons c cs)
  obtain u where u: "swWrite wr sw c = (None, u)" "sink f off u (s @ c)"
    using swWrite_sinks [OF Cons.prems(1) _ assms(3), of c] Cons.prems(2) by auto
  with Cons.IH [OF u(2)] Cons.prems(2) show ?case by simp
qed simp

lemma hexDigits_nonempty [simp]: "hexDigits n \<noteq> []"
  by (subst hexDigits.simps) simp

text \<open>A slice that arrives whole and with its checksum lands in the file.\<close>

lemma fetchSlice_lands:
  assumes "doGet (pwSlice w i (pathBase path) (itoa (slOffset sl)) (itoa (slLength sl))) = Inr body"
    "concat (sbChunks body) = bs" "sbReadErr body = None" "sbTrailer body = sliceChecksum bs"
    "int (length bs) = slLength sl" "0 \<le> slOffset sl" "slOffset sl + slLength sl \<le> int (length f)"
    "pwWrite w path = (\<lambda>_. None)"
  shows "\<exists>g. fetchSlice w i path sl f = (None, g) \<and> landed f g bs (nat (slOffset sl))"
proof -
  let ?o = "nat (slOffset sl)" let ?s = "\<lparr>swFile = f, swOff = slOffset sl, swBuf = []\<rparr>"
  have "sink f ?o ?s []" using assms(6) by (auto simp: sink_def intro!: exI [of _ "[]"])
  moreover have "?o + length bs \<le> length f" using assms(5-7) by linarith
  ultimately obtain u where u: "copyBody (pwWrite w path) ?s (sbChunks body) = (None, u)" "sink f ?o u bs"
    using copyBody_sinks [of f ?o ?s "[]" "sbChunks body"] assms(2,8) by auto
  obtain v where v: "swFlush (pwWrite w path) u = (None, v)" "swBuf v = []" "sink f ?o v bs"
    using swFlush_sinks [OF u(2) \<open>?o + length bs \<le> length f\<close> assms(8)] by blast
  from v(2,3) have "landed f (swFile v) bs ?o" by (auto simp: sink_def)
  with u(1) v(1) assms(1-5) show ?thesis by (auto simp: fetchSlice_def Let_def sliceChecksum_def)
qed

section \<open>Running the slices\<close>

lemma mset_concat_update: "k < length xss \<Longrightarrow> mset (concat (xss[k := ys])) + mset (xss ! k) = mset (concat xss) + mset ys"
proof (induction xss arbitrary: k)
  case (Cons xs xss)
  then show ?case by (cases k) (simp_all add: ac_simps)
qed simp

lemma interleave_mset: "mset (interleave ns tasks) = mset (concat tasks)"
proof (induction ns arbitrary: tasks)
  case (Cons n ns)
  let ?l = "filter (\<lambda>t. t \<noteq> []) tasks"
  let ?k = "n mod min defaultPeerConcurrency (length ?l)"
  have c: "concat ?l = concat tasks" by (induction tasks) auto
  show ?case
  proof (cases "?l = []")
    case False
    then have k: "?k < length ?l" by (simp add: defaultPeerConcurrency_def less_le_trans [OF mod_less_divisor])
    then have "?l ! ?k \<noteq> []" using nth_mem [of ?k ?l] by simp
    then have t: "mset (tl (?l ! ?k)) + {#hd (?l ! ?k)#} = mset (?l ! ?k)" by (cases "?l ! ?k") auto
    have "(mset (concat (?l[?k := tl (?l ! ?k)])) + {#hd (?l ! ?k)#}) + mset (tl (?l ! ?k)) =
        mset (concat ?l) + mset (tl (?l ! ?k))"
      using mset_concat_update [OF k, of "tl (?l ! ?k)"] by (simp only: t [symmetric] ac_simps)
    then have "mset (concat (?l[?k := tl (?l ! ?k)])) + {#hd (?l ! ?k)#} = mset (concat ?l)"
      by (simp only: add_right_cancel)
    then show ?thesis using False c Cons.IH by (simp add: Let_def)
  qed (use c in simp)
qed simp

lemma interleave_set [simp]: "set (interleave ns tasks) = set (concat tasks)"
  using interleave_mset by (metis set_mset_mset)

lemma concat_chunksOf: "0 < n \<Longrightarrow> concat (chunksOf n xs) = xs"
proof (induction n xs rule: chunksOf.induct)
  case (1 n xs)
  then show ?case by (subst chunksOf.simps) auto
qed

text \<open>A file on its way to a content: each byte is already there or still zero.\<close>

definition near :: "byte list \<Rightarrow> byte list \<Rightarrow> bool" where
  "near f c \<longleftrightarrow> length f = length c \<and> (\<forall>i < length c. f ! i = c ! i \<or> f ! i = 0)"

lemma landed_near:
  assumes "near f c" "landed f g (take l (drop off c)) off" "off + l \<le> length c"
  shows "near g c" "i < length c \<Longrightarrow> f ! i = c ! i \<or> off \<le> i \<and> i < off + l \<Longrightarrow> g ! i = c ! i"
proof -
  have "length g = length c" using assms by (simp add: near_def landed_def)
  moreover have b: "(g ! i = c ! i \<or> g ! i = 0) \<and> (f ! i = c ! i \<or> off \<le> i \<and> i < off + l \<longrightarrow> g ! i = c ! i)"
    if "i < length c" for i
  proof -
    have "length f = length c" "f ! i = c ! i \<or> f ! i = 0" using assms(1) that by (auto simp: near_def)
    with landedD [OF assms(2), of i] assms(3) that show ?thesis by (cases "off \<le> i \<and> i < off + l") auto
  qed
  ultimately show "near g c" by (simp add: near_def)
  show "i < length c \<Longrightarrow> f ! i = c ! i \<or> off \<le> i \<and> i < off + l \<Longrightarrow> g ! i = c ! i" using b by blast
qed

text \<open>The peer delivers a slice of a content.\<close>

definition delivers :: "peer_world \<Rightarrow> string \<Rightarrow> string \<Rightarrow> byte list \<Rightarrow> peer_slice \<Rightarrow> bool" where
  "delivers w i path c sl \<longleftrightarrow> 0 \<le> slOffset sl \<and> 0 < slLength sl \<and> slOffset sl + slLength sl \<le> int (length c) \<and>
     (\<forall>f. length f = length c \<longrightarrow> (\<exists>g. fetchSlice w i path sl f = (None, g) \<and>
        landed f g (take (nat (slLength sl)) (drop (nat (slOffset sl)) c)) (nat (slOffset sl))))"

definition arrived :: "fsys \<Rightarrow> string \<Rightarrow> byte list \<Rightarrow> nat \<Rightarrow> bool" where
  "arrived fs path c k \<longleftrightarrow> (\<exists>f. fsFiles fs path = Some f \<and> f ! k = c ! k)"

lemma runSlices_deliver:
  assumes "\<And>path sl. (path, sl) \<in> set ts \<Longrightarrow> \<exists>c. goal path = Some c \<and> delivers w i path c sl"
    "\<And>path c. goal path = Some c \<Longrightarrow> \<exists>f. fsFiles fs path = Some f \<and> near f c"
  shows "\<exists>fs'. runSlices w i ts fs = (None, fs') \<and>
    (\<forall>path c. goal path = Some c \<longrightarrow> (\<exists>f. fsFiles fs' path = Some f \<and> near f c) \<and>
      (\<forall>k < length c. arrived fs path c k \<or> (\<exists>sl. (path, sl) \<in> set ts \<and> covered [slRange sl] (int k)) \<longrightarrow>
         arrived fs' path c k))"
  using assms
proof (induction ts arbitrary: fs)
  case (Cons t ts)
  obtain path sl where t: "t = (path, sl)" by force
  have "(path, sl) \<in> set (t # ts)" using t by simp
  from Cons.prems(1) [OF this] obtain c where c: "goal path = Some c" "delivers w i path c sl" by blast
  obtain f where f: "fsFiles fs path = Some f" "near f c" using Cons.prems(2) c(1) by blast
  obtain g where g: "fetchSlice w i path sl f = (None, g)"
    "landed f g (take (nat (slLength sl)) (drop (nat (slOffset sl)) c)) (nat (slOffset sl))"
    using c(2) f(2) by (auto simp: delivers_def near_def)
  have l: "nat (slOffset sl) + nat (slLength sl) \<le> length c" using c(2) unfolding delivers_def by linarith
  note n = landed_near [OF f(2) g(2) l]
  let ?fs = "fs\<lparr>fsFiles := (fsFiles fs)(path \<mapsto> g)\<rparr>"
  have a: "arrived ?fs path' c' k"
    if "arrived fs path' c' k \<or> path' = path \<and> covered [slRange sl] (int k)" "goal path' = Some c'" "k < length c'" for path' c' k
  proof (cases "path' = path")
    case True
    have "0 \<le> slOffset sl" using c(2) by (simp add: delivers_def)
    with True that c(1) f(1) have "f ! k = c ! k \<or> nat (slOffset sl) \<le> k \<and> k < nat (slOffset sl) + nat (slLength sl)"
      by (auto simp: arrived_def slRange_def nat_le_iff)
    with True n(2) that(2,3) c(1) show ?thesis by (simp add: arrived_def)
  qed (use that in \<open>simp add: arrived_def\<close>)
  have "\<exists>c. goal path' = Some c \<and> delivers w i path' c sl'" if "(path', sl') \<in> set ts" for path' sl'
    by (rule Cons.prems(1)) (use that in simp)
  moreover have "\<exists>f. fsFiles ?fs path' = Some f \<and> near f c'" if "goal path' = Some c'" for path' c'
    using Cons.prems(2) [OF that] n(1) c(1) that by (cases "path' = path") simp_all
  ultimately obtain fs' where fs': "runSlices w i ts ?fs = (None, fs')"
    "\<forall>path c. goal path = Some c \<longrightarrow> (\<exists>f. fsFiles fs' path = Some f \<and> near f c) \<and>
      (\<forall>k < length c. arrived ?fs path c k \<or> (\<exists>sl. (path, sl) \<in> set ts \<and> covered [slRange sl] (int k)) \<longrightarrow>
         arrived fs' path c k)" using Cons.IH [of ?fs] by blast
  have "runSlices w i (t # ts) fs = (None, fs')" using t f(1) g(1) fs'(1) by simp
  moreover have "arrived fs' path' c' k" if "goal path' = Some c'" "k < length c'"
    "arrived fs path' c' k \<or> (\<exists>sl. (path', sl) \<in> set (t # ts) \<and> covered [slRange sl] (int k))" for path' c' k
  proof -
    have "arrived ?fs path' c' k \<or> (\<exists>sl. (path', sl) \<in> set ts \<and> covered [slRange sl] (int k))"
      using a [OF _ that(1,2)] that(3) t by (auto simp del: covered_simps)
    with fs'(2) that(1,2) show ?thesis by blast
  qed
  ultimately show ?case using fs'(2) by blast
qed auto

section \<open>Names\<close>

lemma plainComponent_plain: "plainComponent s \<Longrightarrow> isPlainName s"
proof -
  assume p: "plainComponent s"
  then have "dropWhile (\<lambda>c. c = CHR ''/'') (rev s) = rev s"
    by (cases s rule: rev_cases) (auto simp: plainComponent_def)
  with p show ?thesis by (auto simp: isPlainName_def pathBase_def splitSlash_plain plainComponent_def)
qed

lemma isPlainName_cases: "isPlainName s \<Longrightarrow> plainComponent s \<or> s = ''/''"
  using pathBase_fixed [of s] by (auto simp: isPlainName_def plainComponent_def)

section \<open>Preparing the files\<close>

lemma inBounds: "0 \<le> slOffset sl \<Longrightarrow> 0 < slLength sl \<Longrightarrow> slOffset sl + slLength sl \<le> fsize \<Longrightarrow> fsize < 2 ^ 63 \<Longrightarrow>
  \<not> outOfBounds fsize sl"
  by (simp add: outOfBounds_def wrap64_id)

text \<open>A local system that refuses nothing.\<close>

definition worksLocally :: "peer_world \<Rightarrow> bool" where
  "worksLocally w \<longleftrightarrow> pwAcquire w = None \<and> pwMkdirAll w = None \<and> pwOpen w = (\<lambda>_. None) \<and> pwTruncate w = (\<lambda>_. None) \<and>
     pwWrite w = (\<lambda>_ _. None) \<and> pwWriteFile w = None"

lemma prepareFile_ok:
  assumes "worksLocally w" "plainComponent (pfName pf)" "0 \<le> pfSize pf"
    "list_all (\<lambda>sl. \<not> outOfBounds (pfSize pf) sl) (pfSlices pf)"
    "joinAbs dir (pfName pf) \<notin> set (fsDirs fs)" "fsFiles fs (joinAbs dir (pfName pf)) = None"
  shows "\<exists>ts. prepareFile w dir pf fs = (Inr ts,
      fs\<lparr>fsFiles := (fsFiles fs)(joinAbs dir (pfName pf) \<mapsto> replicate (nat (pfSize pf)) 0)\<rparr>) \<and>
    concat ts = map (Pair (joinAbs dir (pfName pf))) (pfSlices pf)"
proof -
  have "find (outOfBounds (pfSize pf)) (pfSlices pf) = None"
    using assms(4) by (auto simp: find_None_iff list_all_iff)
  moreover have "concat (map (map (Pair (joinAbs dir (pfName pf)))) (chunksOf (perStream (pfSlices pf)) (pfSlices pf))) =
      map (Pair (joinAbs dir (pfName pf))) (pfSlices pf)"
    using concat_chunksOf [of "perStream (pfSlices pf)" "pfSlices pf"] by (simp add: map_concat [symmetric] perStream_def)
  ultimately show ?thesis
    using assms plainComponent_plain by (simp add: prepareFile_def worksLocally_def Let_def)
qed

lemma prepareFiles_ok:
  assumes "worksLocally w" "distinct (map pfName pfs)"
    "\<And>pf. pf \<in> set pfs \<Longrightarrow> plainComponent (pfName pf) \<and> 0 \<le> pfSize pf \<and>
      list_all (\<lambda>sl. \<not> outOfBounds (pfSize pf) sl) (pfSlices pf) \<and>
      joinAbs dir (pfName pf) \<notin> set (fsDirs fs) \<and> fsFiles fs (joinAbs dir (pfName pf)) = None"
  shows "\<exists>ts fs'. prepareFiles w dir pfs fs = (Inr ts, fs') \<and> fsDirs fs' = fsDirs fs \<and>
    concat ts = concat (map (\<lambda>pf. map (Pair (joinAbs dir (pfName pf))) (pfSlices pf)) pfs) \<and>
    (\<forall>pf \<in> set pfs. fsFiles fs' (joinAbs dir (pfName pf)) = Some (replicate (nat (pfSize pf)) 0)) \<and>
    (\<forall>path. path \<notin> (\<lambda>pf. joinAbs dir (pfName pf)) ` set pfs \<longrightarrow> fsFiles fs' path = fsFiles fs path)"
  using assms(2,3)
proof (induction pfs arbitrary: fs)
  case (Cons pf pfs)
  let ?p = "joinAbs dir (pfName pf)"
  let ?fs = "fs\<lparr>fsFiles := (fsFiles fs)(?p \<mapsto> replicate (nat (pfSize pf)) 0)\<rparr>"
  obtain ts where ts: "prepareFile w dir pf fs = (Inr ts, ?fs)" "concat ts = map (Pair ?p) (pfSlices pf)"
    using prepareFile_ok [OF assms(1), of pf dir fs] Cons.prems(2) [of pf] by auto
  have d: "joinAbs dir (pfName qf) \<noteq> ?p" if "qf \<in> set pfs" for qf
  proof -
    have "pfName qf \<noteq> pfName pf" using Cons.prems(1) that by (auto simp: image_iff)
    with Cons.prems(2) [of qf] Cons.prems(2) [of pf] that show ?thesis by (simp add: joinAbs_inj)
  qed
  have "plainComponent (pfName qf) \<and> 0 \<le> pfSize qf \<and> list_all (\<lambda>sl. \<not> outOfBounds (pfSize qf) sl) (pfSlices qf) \<and>
      joinAbs dir (pfName qf) \<notin> set (fsDirs ?fs) \<and> fsFiles ?fs (joinAbs dir (pfName qf)) = None"
    if "qf \<in> set pfs" for qf using Cons.prems(2) [of qf] d [OF that] that by simp
  with Cons.IH [of ?fs] Cons.prems(1) obtain us fs' where u: "prepareFiles w dir pfs ?fs = (Inr us, fs')"
    "fsDirs fs' = fsDirs fs" "concat us = concat (map (\<lambda>pf. map (Pair (joinAbs dir (pfName pf))) (pfSlices pf)) pfs)"
    "\<forall>pf \<in> set pfs. fsFiles fs' (joinAbs dir (pfName pf)) = Some (replicate (nat (pfSize pf)) 0)"
    "\<forall>path. path \<notin> (\<lambda>pf. joinAbs dir (pfName pf)) ` set pfs \<longrightarrow> fsFiles fs' path = fsFiles ?fs path" by auto
  have "?p \<notin> (\<lambda>pf. joinAbs dir (pfName pf)) ` set pfs" using d by (metis (no_types, lifting) image_iff)
  then have "fsFiles fs' ?p = Some (replicate (nat (pfSize pf)) 0)" using u(5) by simp
  with ts u show ?case by (auto simp: image_iff)
qed simp

section \<open>An honest peer\<close>

text \<open>The replies of a server as its client sees them; \<open>pieces\<close> says how the transport cuts a body.\<close>

definition sliceOverHTTP :: "(nat \<Rightarrow> string) \<Rightarrow> (byte list \<Rightarrow> byte list list) \<Rightarrow> slice_reply \<Rightarrow> slice_body http_reply" where
  "sliceOverHTTP statusLine pieces r =
     (case r of
        HTTPError code msg \<Rightarrow> Reply code (statusLine code) msg \<lparr>sbChunks = [], sbReadErr = None, sbTrailer = []\<rparr>
      | HTTPSlice body t \<Rightarrow> Reply 200 (statusLine 200) [] \<lparr>sbChunks = pieces body, sbReadErr = None,
          sbTrailer = (case t of None \<Rightarrow> [] | Some h \<Rightarrow> h)\<rparr>)"

definition planOverHTTP :: "(nat \<Rightarrow> string) \<Rightarrow> plan_reply option \<Rightarrow> (err + peer_plan) http_reply" where
  "planOverHTTP statusLine r =
     (case r of
        None \<Rightarrow> NoReply (newErr ''timeout'')
      | Some (PlanError code msg) \<Rightarrow> Reply code (statusLine code) msg (Inl (newErr msg))
      | Some (PlanOK plan) \<Rightarrow> Reply 200 (statusLine 200) [] (Inr plan))"

definition connected :: "store \<Rightarrow> (string \<Rightarrow> err + snapshot) \<Rightarrow> (nat \<Rightarrow> string) \<Rightarrow> (byte list \<Rightarrow> byte list list) \<Rightarrow> peer_world \<Rightarrow> bool" where
  "connected st resolve statusLine pieces w \<longleftrightarrow> (\<forall>bs. concat (pieces bs) = bs) \<and>
     pwPlan w = (\<lambda>name. planOverHTTP statusLine (handlePlan st resolve name)) \<and>
     pwSlice w = (\<lambda>i name off len. sliceOverHTTP statusLine pieces (handleSlice st True i name off len))"

text \<open>A regular file of a snapshot directory that the server can open, and whose size fits an \<open>int64\<close>.\<close>

definition servable :: "store \<Rightarrow> string \<Rightarrow> dir_entry \<Rightarrow> bool" where
  "servable st dir f \<longleftrightarrow> plainComponent (deName f) \<and> seeks f \<and> deOpenErr f = None \<and> deStatErr f = None \<and>
     stOpen st (joinAbs dir (deName f)) = Inr (deContent f) \<and> int (length (deContent f)) < 2 ^ 63"

text \<open>What a plan says of a file.\<close>

definition plans :: "dir_entry \<Rightarrow> peer_file \<Rightarrow> bool" where
  "plans f pf \<longleftrightarrow> pfName pf = deName f \<and> pfSize pf = int (length (deContent f)) \<and>
     ordered 0 (int (length (deContent f))) (map slRange (pfSlices pf)) \<and>
     coversData (deContent f) 0 (map slRange (pfSlices pf))"

lemma planFiles_ok:
  assumes "\<And>f. f \<in> set fs \<Longrightarrow> deRegular f \<Longrightarrow> servable st dir f"
  shows "\<exists>pfs. planFiles fs = Some (Inr pfs) \<and> list_all2 plans (filter deRegular fs) pfs"
  using assms
proof (induction fs)
  case (Cons f fs)
  then obtain pfs where p: "planFiles fs = Some (Inr pfs)" "list_all2 plans (filter deRegular fs) pfs" by auto
  show ?case
  proof (cases "deRegular f")
    case True
    with Cons.prems [of f] planFile_slices [of f] obtain pf where "planFile f = Some (Inr pf)" "plans f pf"
      by (fastforce simp: servable_def plans_def)
    with True p show ?thesis by simp
  qed (use p in simp)
qed simp

lemma plans_slice:
  assumes "plans f pf" "sl \<in> set (pfSlices pf)"
  shows "0 \<le> slOffset sl \<and> 0 < slLength sl \<and> slOffset sl + slLength sl \<le> int (length (deContent f))"
  using assms ordered_bounds [of 0 "int (length (deContent f))" "map slRange (pfSlices pf)" "slOffset sl" "slLength sl"]
  by (auto simp: plans_def slRange_def)

text \<open>The slice handler answers a planned slice with its bytes and their checksum.\<close>

lemma handleSlice_ok:
  assumes "plainComponent i" "servable st (joinAbs (stRoot st) i) f"
    "0 \<le> slOffset sl" "0 < slLength sl" "slOffset sl + slLength sl \<le> int (length (deContent f))"
  shows "handleSlice st True i (deName f) (itoa (slOffset sl)) (itoa (slLength sl)) =
    (let body = take (nat (slLength sl)) (drop (nat (slOffset sl)) (deContent f)) in HTTPSlice body (Some (sliceChecksum body)))"
proof -
  have "atoi (itoa (slOffset sl)) = Some (slOffset sl)" "atoi (itoa (slLength sl)) = Some (slLength sl)"
    using assms(2-5) by (simp_all add: atoi_itoa servable_def)
  moreover have "isPlainName i" "isPlainName (deName f)" "i \<noteq> []" "deName f \<noteq> []"
    using assms(1,2) by (auto simp: servable_def plainComponent_plain) (simp_all add: plainComponent_def)
  moreover have "int (length (take (nat (slLength sl)) (drop (nat (slOffset sl)) (deContent f)))) = slLength sl"
    using assms(3-5) by simp
  ultimately show ?thesis
    using assms by (simp add: handleSlice_def snapshotDir_def servable_def Let_def)
qed

lemma connected_delivers:
  assumes "connected st resolve statusLine pieces w" "worksLocally w" "plainComponent i"
    "servable st (joinAbs (stRoot st) i) f"
    "0 \<le> slOffset sl" "0 < slLength sl" "slOffset sl + slLength sl \<le> int (length (deContent f))"
  shows "delivers w i (joinAbs dir (deName f)) (deContent f) sl"
proof -
  let ?bs = "take (nat (slLength sl)) (drop (nat (slOffset sl)) (deContent f))"
  let ?b = "\<lparr>sbChunks = pieces ?bs, sbReadErr = None, sbTrailer = sliceChecksum ?bs\<rparr>"
  have n: "pathBase (joinAbs dir (deName f)) = deName f" using assms(4) by (simp add: servable_def pathBase_joinAbs)
  have "doGet (pwSlice w i (deName f) (itoa (slOffset sl)) (itoa (slLength sl))) = Inr ?b"
    using assms(1) handleSlice_ok [OF assms(3-7)] by (simp add: connected_def sliceOverHTTP_def doGet_def Let_def)
  moreover have "concat (pieces ?bs) = ?bs" using assms(1) by (simp add: connected_def)
  moreover have "int (length ?bs) = slLength sl" using assms(5-7) by simp
  ultimately show ?thesis
    using assms(2,5-7) fetchSlice_lands [of w i "joinAbs dir (deName f)" sl ?b ?bs] n
    by (simp add: delivers_def worksLocally_def)
qed

lemma near_zeros: "near (replicate (length c) 0) c"
  by (simp add: near_def)

lemma plans_all:
  assumes "list_all2 plans fs pfs"
  shows "map pfName pfs = map deName fs" "\<And>pf. pf \<in> set pfs \<Longrightarrow> \<exists>f \<in> set fs. plans f pf"
    "\<And>f. f \<in> set fs \<Longrightarrow> \<exists>pf \<in> set pfs. plans f pf"
  using assms by (induction fs pfs rule: list_all2_induct) (auto simp: plans_def)

text \<open>Once all slices of a plan have arrived the file is complete: what no slice covers is zero.\<close>

lemma near_complete:
  assumes "near g c" "plans f pf" "deContent f = c"
    "\<And>k sl. k < length c \<Longrightarrow> sl \<in> set (pfSlices pf) \<Longrightarrow> covered [slRange sl] (int k) \<Longrightarrow> g ! k = c ! k"
  shows "g = c"
proof (rule nth_equalityI)
  show "length g = length c" using assms(1) by (simp add: near_def)
  fix k assume k: "k < length g"
  then have kc: "k < length c" using assms(1) by (simp add: near_def)
  show "g ! k = c ! k"
  proof (cases "c ! k = 0")
    case True
    with assms(1) kc show ?thesis by (auto simp: near_def)
  next
    case False
    with assms(2,3) kc have "covered (map slRange (pfSlices pf)) (int k)" by (simp add: plans_def coversData_def)
    then obtain sl where "sl \<in> set (pfSlices pf)" "covered [slRange sl] (int k)" by (auto simp: covered_def)
    with assms(4) kc show ?thesis by blast
  qed
qed

definition goalOf :: "string \<Rightarrow> dir_entry list \<Rightarrow> string \<Rightarrow> byte list option" where
  "goalOf dir fs = map_of (map (\<lambda>f. (joinAbs dir (deName f), deContent f)) fs)"

lemma goalOf_SomeD: "goalOf dir fs path = Some c \<Longrightarrow> \<exists>f \<in> set fs. path = joinAbs dir (deName f) \<and> c = deContent f"
  unfolding goalOf_def by (drule map_of_SomeD) auto

lemma goalOf_path:
  "distinct (map deName fs) \<Longrightarrow> list_all (\<lambda>f. plainComponent (deName f)) fs \<Longrightarrow> f \<in> set fs \<Longrightarrow>
   goalOf dir fs (joinAbs dir (deName f)) = Some (deContent f)"
proof (induction fs)
  case (Cons g fs)
  show ?case
  proof (cases "f = g")
    case False
    with Cons.prems have f: "f \<in> set fs" "deName f \<noteq> deName g" "plainComponent (deName f)" "plainComponent (deName g)"
      by (auto simp: list_all_iff image_iff)
    then have "joinAbs dir (deName f) \<noteq> joinAbs dir (deName g)" by (simp add: joinAbs_inj)
    with Cons f(1) show ?thesis by (simp add: goalOf_def)
  qed (simp add: goalOf_def)
qed simp

text \<open>After the first loop every planned file exists, filled with zeros, and its slices are queued.\<close>

lemma prepareFiles_planned:
  assumes "worksLocally w" "distinct (map deName fs)" "list_all2 plans fs pfs"
    "\<And>f. f \<in> set fs \<Longrightarrow> plainComponent (deName f) \<and> int (length (deContent f)) < 2 ^ 63 \<and>
      joinAbs dir (deName f) \<notin> set (fsDirs sys) \<and> fsFiles sys (joinAbs dir (deName f)) = None"
  shows "\<exists>ts mid. prepareFiles w dir pfs sys = (Inr ts, mid) \<and>
    (\<forall>(path, sl) \<in> set (concat ts). \<exists>f \<in> set fs. path = joinAbs dir (deName f) \<and>
       0 \<le> slOffset sl \<and> 0 < slLength sl \<and> slOffset sl + slLength sl \<le> int (length (deContent f))) \<and>
    (\<forall>f \<in> set fs. fsFiles mid (joinAbs dir (deName f)) = Some (replicate (length (deContent f)) 0) \<and>
       (\<exists>pf. plans f pf \<and> (\<forall>sl \<in> set (pfSlices pf). (joinAbs dir (deName f), sl) \<in> set (concat ts))))"
proof -
  note pl = plans_all [OF assms(3)]
  have d: "distinct (map pfName pfs)" using assms(2) pl(1) by simp
  have ok: "plainComponent (pfName pf) \<and> 0 \<le> pfSize pf \<and> list_all (\<lambda>sl. \<not> outOfBounds (pfSize pf) sl) (pfSlices pf) \<and>
      joinAbs dir (pfName pf) \<notin> set (fsDirs sys) \<and> fsFiles sys (joinAbs dir (pfName pf)) = None" if pf: "pf \<in> set pfs" for pf
  proof -
    obtain f where f: "f \<in> set fs" "plans f pf" using pl(2) [OF pf] by blast
    with plans_slice [OF f(2)] assms(4) [OF f(1)] show ?thesis by (auto simp: plans_def list_all_iff inBounds)
  qed
  obtain ts mid where m: "prepareFiles w dir pfs sys = (Inr ts, mid)"
    "concat ts = concat (map (\<lambda>pf. map (Pair (joinAbs dir (pfName pf))) (pfSlices pf)) pfs)"
    "\<forall>pf \<in> set pfs. fsFiles mid (joinAbs dir (pfName pf)) = Some (replicate (nat (pfSize pf)) 0)"
    using prepareFiles_ok [OF assms(1) d ok] by blast
  have "\<exists>f \<in> set fs. path = joinAbs dir (deName f) \<and>
      0 \<le> slOffset sl \<and> 0 < slLength sl \<and> slOffset sl + slLength sl \<le> int (length (deContent f))"
    if "(path, sl) \<in> set (concat ts)" for path sl
  proof -
    from that m(2) obtain pf where pf: "pf \<in> set pfs" "path = joinAbs dir (pfName pf)" "sl \<in> set (pfSlices pf)" by auto
    obtain f where f: "f \<in> set fs" "plans f pf" using pl(2) [OF pf(1)] by blast
    with pf plans_slice [OF f(2) pf(3)] show ?thesis by (auto simp: plans_def)
  qed
  moreover have "fsFiles mid (joinAbs dir (deName f)) = Some (replicate (length (deContent f)) 0) \<and>
      (\<exists>pf. plans f pf \<and> (\<forall>sl \<in> set (pfSlices pf). (joinAbs dir (deName f), sl) \<in> set (concat ts)))" if f: "f \<in> set fs" for f
  proof -
    obtain pf where pf: "pf \<in> set pfs" "plans f pf" using pl(3) [OF f] by blast
    then have "pfName pf = deName f" "nat (pfSize pf) = length (deContent f)" by (simp_all add: plans_def)
    moreover from this have "(joinAbs dir (deName f), sl) \<in> set (concat ts)" if "sl \<in> set (pfSlices pf)" for sl
      using that pf(1) m(2) by (auto simp: image_iff intro!: bexI [of _ pf])
    ultimately show ?thesis using pf m(3) by (metis (no_types, lifting))
  qed
  ultimately show ?thesis using m(1) by blast
qed

lemma fetchFiles_exact:
  assumes "connected st resolve statusLine pieces w" "worksLocally w" "plainComponent i" "distinct (map deName fs)"
    "\<And>f. f \<in> set fs \<Longrightarrow> servable st (joinAbs (stRoot st) i) f" "list_all2 plans fs pfs"
    "\<And>f. f \<in> set fs \<Longrightarrow> joinAbs dir (deName f) \<notin> set (fsDirs sys) \<and> fsFiles sys (joinAbs dir (deName f)) = None"
  shows "\<exists>sys'. fetchFiles w \<lparr>ppSnapshotID = i, ppFiles = pfs\<rparr> dir sys = (None, sys') \<and>
    (\<forall>f \<in> set fs. fsFiles sys' (joinAbs dir (deName f)) = Some (deContent f))"
proof -
  let ?path = "\<lambda>f. joinAbs dir (deName f)"
  have s: "plainComponent (deName f) \<and> int (length (deContent f)) < 2 ^ 63" if "f \<in> set fs" for f
    using assms(5) [OF that] by (simp add: servable_def)
  then have goal: "goalOf dir fs (?path f) = Some (deContent f)" if "f \<in> set fs" for f
    using goalOf_path [OF assms(4) _ that] by (simp add: list_all_iff)
  obtain ts mid where m: "prepareFiles w dir pfs sys = (Inr ts, mid)"
    "\<forall>(path, sl) \<in> set (concat ts). \<exists>f \<in> set fs. path = ?path f \<and>
       0 \<le> slOffset sl \<and> 0 < slLength sl \<and> slOffset sl + slLength sl \<le> int (length (deContent f))"
    "\<forall>f \<in> set fs. fsFiles mid (?path f) = Some (replicate (length (deContent f)) 0) \<and>
       (\<exists>pf. plans f pf \<and> (\<forall>sl \<in> set (pfSlices pf). (?path f, sl) \<in> set (concat ts)))"
    using prepareFiles_planned [OF assms(2,4,6)] s assms(7) by blast
  let ?ts = "interleave (pwSchedule w) ts"
  have t: "set ?ts = set (concat ts)" by (rule interleave_set)
  have "\<exists>c. goalOf dir fs path = Some c \<and> delivers w i path c sl" if "(path, sl) \<in> set ?ts" for path sl
  proof -
    have "(path, sl) \<in> set (concat ts)" using that t by blast
    with m(2) obtain f where f: "f \<in> set fs" "path = ?path f" "0 \<le> slOffset sl" "0 < slLength sl"
      "slOffset sl + slLength sl \<le> int (length (deContent f))" by blast
    from connected_delivers [OF assms(1-3) assms(5) [OF f(1)] f(3-5)] goal [OF f(1)] f(2) show ?thesis by blast
  qed
  moreover have "\<exists>g. fsFiles mid path = Some g \<and> near g c" if "goalOf dir fs path = Some c" for path c
    using goalOf_SomeD [OF that] m(3) near_zeros by blast
  ultimately obtain sys' where r: "runSlices w i ?ts mid = (None, sys')"
    "\<forall>path c. goalOf dir fs path = Some c \<longrightarrow> (\<exists>f. fsFiles sys' path = Some f \<and> near f c) \<and>
      (\<forall>k < length c. arrived mid path c k \<or> (\<exists>sl. (path, sl) \<in> set ?ts \<and> covered [slRange sl] (int k)) \<longrightarrow>
         arrived sys' path c k)"
    using runSlices_deliver [of ?ts "goalOf dir fs" w i mid] by blast
  have "fsFiles sys' (?path f) = Some (deContent f)" if f: "f \<in> set fs" for f
  proof -
    obtain pf where pf: "plans f pf" "\<forall>sl \<in> set (pfSlices pf). (?path f, sl) \<in> set ?ts" using m(3) f t by blast
    obtain g where g: "fsFiles sys' (?path f) = Some g" "near g (deContent f)" using r(2) goal [OF f] by blast
    have "g ! k = deContent f ! k" if "k < length (deContent f)" "sl \<in> set (pfSlices pf)" "covered [slRange sl] (int k)" for k sl
      using r(2) goal [OF f] that pf(2) g(1) arrived_def by (metis option.inject)
    with near_complete [OF g(2) pf(1) refl] g(1) show ?thesis by blast
  qed
  with m(1) r(1) show ?thesis by (simp add: fetchFiles_def)
qed

end
