(* ===== verification/Peer_Props.thy ===== *)
theory Peer_Props
  imports Peer_Transfer
begin

text \<open>
  What peer-to-peer transfer promises: a restore from an honest peer reproduces the snapshot byte for byte under
  every schedule; from any peer it writes nothing outside its staging directory, leaves nothing behind when it
  fails, and accepts only slices that pass their checks; the server opens nothing outside its store.
\<close>

section \<open>The plan\<close>

text \<open>The plan of a regular file whose seeks behave as documented is computed within the bound on its rounds, and
  its slices are ordered, disjoint, inside the file and no longer than the limit, and cover every byte that is
  not zero.\<close>

theorem plan_slices:
  assumes "seeks f" "deOpenErr f = None" "deStatErr f = None"
  shows "\<exists>sls. planFile f = Some (Inr \<lparr>pfName = deName f, pfSize = int (length (deContent f)), pfSlices = sls\<rparr>) \<and>
    ordered 0 (int (length (deContent f))) (map slRange sls) \<and> coversData (deContent f) 0 (map slRange sls) \<and>
    list_all (\<lambda>sl. slLength sl \<le> peerSliceBytes) sls"
  using assms by (rule planFile_slices)

section \<open>The staging directory\<close>

lemma stagingChar_slash: "stagingChar c \<noteq> CHR ''/''"
  by (auto simp: stagingChar_def Let_def)

lemma dash_plain: "CHR ''-'' \<in> set s \<Longrightarrow> CHR ''/'' \<notin> set s \<Longrightarrow> plainComponent s"
  by (auto simp: plainComponent_def)

lemma staging_plain: "CHR ''/'' \<notin> set suffix \<Longrightarrow> plainComponent (sanitizeStagingPrefix name @ ''-'' @ suffix)"
  using stagingChar_slash by (intro dash_plain) (auto simp: sanitizeStagingPrefix_def dest: sym)

definition stagingDir :: "string \<Rightarrow> string \<Rightarrow> string \<Rightarrow> string" where
  "stagingDir root name suffix = joinAbs root (sanitizeStagingPrefix name @ ''-'' @ suffix)"

text \<open>A path is inside a directory when it is the directory or lies below it.\<close>

definition inside :: "string \<Rightarrow> string \<Rightarrow> bool" where
  "inside dir path \<longleftrightarrow> path = dir \<or> hasPrefix path (dir @ ''/'')"

lemma inside_join:
  assumes "CHR ''/'' \<notin> set suffix" "isPlainName n"
  shows "inside (stagingDir root name suffix) (joinAbs (stagingDir root name suffix) n)"
proof (cases "plainComponent n")
  case True
  with staging_plain [OF assms(1), of name] show ?thesis
    by (simp add: stagingDir_def inside_def joinAbs_below hasPrefix_def)
next
  case False
  with isPlainName_cases assms(2) have "n = ''/''" by blast
  then show ?thesis
    using joinAbs_comps [OF staging_plain [OF assms(1)]] pathComps_joinAbs [OF staging_plain [OF assms(1)]]
    by (simp add: joinAbs_self inside_def stagingDir_def cleanAbs_comps)
qed

text \<open>A directory \<open>MkdirTemp\<close> can create: nothing of that name, and so nothing below it.\<close>

definition fresh :: "string \<Rightarrow> fsys \<Rightarrow> bool" where
  "fresh dir fs \<longleftrightarrow> list_all (\<lambda>d. \<not> inside dir d) (fsDirs fs) \<and> (\<forall>p. inside dir p \<longrightarrow> fsFiles fs p = None)"

section \<open>What a restore touches\<close>

text \<open>Two file systems agree outside a directory.\<close>

definition agreeOutside :: "string \<Rightarrow> fsys \<Rightarrow> fsys \<Rightarrow> bool" where
  "agreeOutside dir fs fs' \<longleftrightarrow> fsDirs fs' = fsDirs fs \<and> (\<forall>p. \<not> inside dir p \<longrightarrow> fsFiles fs' p = fsFiles fs p)"

lemma agreeOutside_refl [simp]: "agreeOutside dir fs fs"
  by (simp add: agreeOutside_def)

lemma agreeOutside_trans: "agreeOutside dir fs gs \<Longrightarrow> agreeOutside dir gs hs \<Longrightarrow> agreeOutside dir fs hs"
  by (simp add: agreeOutside_def)

lemma agreeOutside_upd [simp]: "inside dir p \<Longrightarrow> agreeOutside dir fs (fs\<lparr>fsFiles := (fsFiles fs)(p \<mapsto> b)\<rparr>)"
  by (auto simp: agreeOutside_def)

lemma prepareFile_inside:
  assumes "\<And>n. isPlainName n \<Longrightarrow> inside dir (joinAbs dir n)" "prepareFile w dir pf fs = (r, fs')"
  shows "agreeOutside dir fs fs' \<and> (\<forall>ts. r = Inr ts \<longrightarrow> isPlainName (pfName pf) \<and>
    joinAbs dir (pfName pf) \<notin> set (fsDirs fs) \<and>
    concat ts = map (Pair (joinAbs dir (pfName pf))) (pfSlices pf))"
proof -
  have "concat (map (map (Pair (joinAbs dir (pfName pf)))) (chunksOf (perStream (pfSlices pf)) (pfSlices pf))) =
      map (Pair (joinAbs dir (pfName pf))) (pfSlices pf)"
    using concat_chunksOf [of "perStream (pfSlices pf)" "pfSlices pf"] by (simp add: map_concat [symmetric] perStream_def)
  with assms show ?thesis by (auto simp: prepareFile_def Let_def split: if_splits option.splits)
qed

lemma prepareFiles_inside:
  assumes "\<And>n. isPlainName n \<Longrightarrow> inside dir (joinAbs dir n)" "prepareFiles w dir pfs fs = (r, fs')"
  shows "agreeOutside dir fs fs' \<and> (\<forall>ts. r = Inr ts \<longrightarrow>
    (\<forall>pf \<in> set pfs. isPlainName (pfName pf) \<and> joinAbs dir (pfName pf) \<notin> set (fsDirs fs)) \<and>
    concat ts = concat (map (\<lambda>pf. map (Pair (joinAbs dir (pfName pf))) (pfSlices pf)) pfs))"
  using assms(2)
proof (induction pfs arbitrary: fs r fs')
  case (Cons pf pfs)
  obtain r1 fs1 where 1: "prepareFile w dir pf fs = (r1, fs1)" by force
  note p = prepareFile_inside [OF assms(1) 1]
  show ?case
  proof (cases r1)
    case (Inr ts)
    obtain r2 fs2 where 2: "prepareFiles w dir pfs fs1 = (r2, fs2)" by force
    have d: "fsDirs fs1 = fsDirs fs" using p by (simp add: agreeOutside_def)
    from Cons.IH [OF 2] Cons.prems 1 2 Inr p agreeOutside_trans [of dir fs fs1 fs2] show ?thesis
      by (cases r2) (auto simp: d)
  qed (use Cons.prems 1 p in auto)
qed simp

lemma runSlices_inside:
  "list_all (\<lambda>t. inside dir (fst t)) ts \<Longrightarrow> runSlices w i ts fs = (r, fs') \<Longrightarrow> agreeOutside dir fs fs'"
proof (induction w i ts fs rule: runSlices.induct)
  case (2 w i path sl rest fs)
  obtain x f where f: "fetchSlice w i path sl (case fsFiles fs path of None \<Rightarrow> [] | Some f \<Rightarrow> f) = (x, f)" by force
  let ?fs = "fs\<lparr>fsFiles := (fsFiles fs)(path \<mapsto> f)\<rparr>"
  have i: "agreeOutside dir fs ?fs" by (rule agreeOutside_upd) (use 2(2) in auto)
  show ?case
  proof (cases x)
    case None
    then have "agreeOutside dir ?fs fs'" using 2 f by simp
    with i show ?thesis by (rule agreeOutside_trans)
  qed (use 2 f i in auto)
qed simp

lemma fetchFiles_inside:
  assumes "\<And>n. isPlainName n \<Longrightarrow> inside dir (joinAbs dir n)" "fetchFiles w plan dir fs = (r, fs')"
  shows "agreeOutside dir fs fs'"
proof -
  obtain q fs1 where p: "prepareFiles w dir (ppFiles plan) fs = (q, fs1)" by force
  note i = prepareFiles_inside [OF assms(1) p]
  show ?thesis
  proof (cases q)
    case (Inr ts)
    have "list_all (\<lambda>t. inside dir (fst t)) (interleave (pwSchedule w) ts)"
      using i Inr assms(1) unfolding list_all_iff interleave_set by auto
    then have "agreeOutside dir fs1 fs'"
      by (rule runSlices_inside [where r = r]) (use assms(2) p Inr in \<open>simp add: fetchFiles_def\<close>)
    with i agreeOutside_trans show ?thesis by blast
  qed (use assms(2) p i in \<open>simp add: fetchFiles_def\<close>)
qed

text \<open>A restore past its checks of the plan: the files are fetched into the new directory, then the envelope is
  written, and any failure removes the directory.\<close>

definition staged :: "string \<Rightarrow> fsys \<Rightarrow> fsys" where
  "staged dir fs = fs\<lparr>fsDirs := dir # fsDirs fs\<rparr>"

lemma Restore_cases:
  assumes "pwMkdirTemp w (sanitizeStagingPrefix name @ ''-'') = Inr suffix" "Restore w marshal root name c fs = (r, fs')"
  obtains (refused) x where "r = Inl x" "fs' = fs"
  | (fetchFailed) x plan fs1 where "r = Inl x" "fetchFiles w plan (stagingDir root name suffix) (staged (stagingDir root name suffix) fs) = (Some x, fs1)"
      "fs' = removeAll (pwRemoved w) (stagingDir root name suffix) fs1"
  | (envelopeFailed) x plan fs1 where "r = Inl x" "fetchFiles w plan (stagingDir root name suffix) (staged (stagingDir root name suffix) fs) = (None, fs1)"
      "fs' = removeAll (pwRemoved w) (stagingDir root name suffix) fs1"
  | (restored) plan fs1 bytes where "fetchPlan w name = Inr plan" "ppSnapshotID plan = rcSnapshotID c"
      "fetchFiles w plan (stagingDir root name suffix) (staged (stagingDir root name suffix) fs) = (None, fs1)"
      "marshal c name = Inr bytes"
      "fs' = fs1\<lparr>fsFiles := (fsFiles fs1)(joinAbs (stagingDir root name suffix) ''snapshot.json'' \<mapsto> bytes)\<rparr>"
      "r = Inr (stagingDir root name suffix, \<lparr>snID = rcSnapshotID c, snName = name, snImage = rcImage c,
         snImageDigest = rcImageDigest c, snHypervisor = rcHypervisor c, snDescription = []\<rparr>)"
  using assms
  by (auto simp: Restore_def newStagingDir_def writeEnvelope_def stagingDir_def staged_def Let_def
    split: option.splits sum.splits if_splits prod.splits)

lemma fetchFiles_staged:
  assumes "CHR ''/'' \<notin> set suffix" "fetchFiles w plan (stagingDir root name suffix) fs = (r, fs')"
  shows "agreeOutside (stagingDir root name suffix) fs fs'"
  by (rule fetchFiles_inside [OF _ assms(2)]) (rule inside_join [OF assms(1)])

lemma removeAll_agree: "agreeOutside dir fs gs \<Longrightarrow> \<not> inside dir p \<Longrightarrow> fsFiles (removeAll g dir gs) p = fsFiles fs p"
  by (simp add: removeAll_def agreeOutside_def inside_def)

lemma removeAll_fresh:
  assumes "fresh dir fs" "agreeOutside dir (staged dir fs) gs"
  shows "removeAll True dir gs = fs"
proof -
  have "filter (\<lambda>d. d \<noteq> dir \<and> \<not> hasPrefix d (dir @ ''/'')) (fsDirs gs) = fsDirs fs"
    using assms by (auto simp: agreeOutside_def staged_def fresh_def inside_def list_all_iff filter_id_conv)
  moreover have "(\<lambda>p. if p = dir \<or> hasPrefix p (dir @ ''/'') then None else fsFiles gs p) = fsFiles fs"
    using assms by (auto simp: fun_eq_iff agreeOutside_def staged_def fresh_def inside_def)
  ultimately show ?thesis by (simp add: removeAll_def)
qed

text \<open>C15: Whatever the peer answers, a restore changes no file outside its staging directory: the names of a plan
  cannot climb out of it.\<close>

theorem restore_confined:
  assumes "pwMkdirTemp w (sanitizeStagingPrefix name @ ''-'') = Inr suffix" "CHR ''/'' \<notin> set suffix"
    "Restore w marshal root name c fs = (r, fs')" "\<not> inside (stagingDir root name suffix) path"
  shows "fsFiles fs' path = fsFiles fs path"
proof -
  let ?d = "stagingDir root name suffix"
  note f = fetchFiles_staged [OF assms(2)]
  have s: "fsFiles (staged ?d fs) path = fsFiles fs path" by (simp add: staged_def)
  from assms(1,3) show ?thesis
  proof (cases rule: Restore_cases)
    case (fetchFailed x plan fs1)
    with removeAll_agree [OF f [OF fetchFailed(2)] assms(4)] s show ?thesis by simp
  next
    case (envelopeFailed x plan fs1)
    with removeAll_agree [OF f [OF envelopeFailed(2)] assms(4)] s show ?thesis by simp
  next
    case (restored plan fs1 bytes)
    have "plainComponent ''snapshot.json''" by (simp add: plainComponent_def)
    then have "joinAbs ?d ''snapshot.json'' \<noteq> path"
      using inside_join [OF assms(2) plainComponent_plain] assms(4) by blast
    with f [OF restored(3)] restored(5) assms(4) s show ?thesis by (simp add: agreeOutside_def)
  qed simp
qed

text \<open>C35: A failed restore leaves the file system as it was: no staging directory and no half-fetched file.\<close>

theorem failed_restore_leaves_nothing:
  assumes "pwMkdirTemp w (sanitizeStagingPrefix name @ ''-'') = Inr suffix" "CHR ''/'' \<notin> set suffix"
    "fresh (stagingDir root name suffix) fs" "pwRemoved w"
    "Restore w marshal root name c fs = (Inl x, fs')"
  shows "fs' = fs"
proof -
  note f = fetchFiles_staged [OF assms(2)]
  from assms(1,5) show ?thesis
  proof (cases rule: Restore_cases)
    case (fetchFailed x plan fs1)
    with removeAll_fresh [OF assms(3) f [OF fetchFailed(2)]] assms(4) show ?thesis by simp
  next
    case (envelopeFailed x plan fs1)
    with removeAll_fresh [OF assms(3) f [OF envelopeFailed(2)]] assms(4) show ?thesis by simp
  qed simp_all
qed

section \<open>What a restore accepts\<close>

text \<open>A slice that passed the client's checks.\<close>

definition sliceChecked :: "peer_world \<Rightarrow> string \<Rightarrow> string \<Rightarrow> peer_slice \<Rightarrow> bool" where
  "sliceChecked w i name sl =
     (case doGet (pwSlice w i name (itoa (slOffset sl)) (itoa (slLength sl))) of
        Inl x \<Rightarrow> False
      | Inr body \<Rightarrow> sbReadErr body = None \<and> int (length (concat (sbChunks body))) = slLength sl \<and>
          sbTrailer body = sliceChecksum (concat (sbChunks body)))"

lemma fetchSlice_checked: "fetchSlice w i path sl f = (None, g) \<Longrightarrow> sliceChecked w i (pathBase path) sl"
  by (auto simp: fetchSlice_def sliceChecked_def Let_def split: sum.splits prod.splits option.splits if_splits)

lemma runSlices_checked:
  "runSlices w i ts fs = (None, fs') \<Longrightarrow> (path, sl) \<in> set ts \<Longrightarrow> sliceChecked w i (pathBase path) sl"
  by (induction w i ts fs rule: runSlices.induct)
    (auto split: prod.splits option.splits dest: fetchSlice_checked)

lemma fetchFiles_checked:
  assumes "CHR ''/'' \<notin> set suffix" "dir = stagingDir root name suffix"
    "fetchFiles w plan dir (staged dir fs) = (None, fs')" "pf \<in> set (ppFiles plan)" "sl \<in> set (pfSlices pf)"
  shows "plainComponent (pfName pf) \<and> sliceChecked w (ppSnapshotID plan) (pfName pf) sl"
proof -
  obtain ts fs1 where p: "prepareFiles w dir (ppFiles plan) (staged dir fs) = (Inr ts, fs1)"
    "runSlices w (ppSnapshotID plan) (interleave (pwSchedule w) ts) fs1 = (None, fs')"
    using assms(3) by (auto simp: fetchFiles_def split: prod.splits sum.splits)
  have "inside dir (joinAbs dir n)" if "isPlainName n" for n using inside_join [OF assms(1) that] assms(2) by simp
  note i = prepareFiles_inside [OF this p(1)]
  then have n: "isPlainName (pfName pf)" "joinAbs dir (pfName pf) \<noteq> dir" using assms(4) by (auto simp: staged_def)
  have "joinAbs dir ''/'' = dir"
    using joinAbs_comps [OF staging_plain [OF assms(1)]] pathComps_joinAbs [OF staging_plain [OF assms(1)]]
    by (simp add: joinAbs_self assms(2) stagingDir_def cleanAbs_comps)
  with n(2) isPlainName_cases [OF n(1)] have "plainComponent (pfName pf)" by auto
  moreover have "(joinAbs dir (pfName pf), sl) \<in> set (interleave (pwSchedule w) ts)"
    using i assms(4,5) by auto
  from runSlices_checked [OF p(2) this] calculation have "sliceChecked w (ppSnapshotID plan) (pfName pf) sl"
    by (simp add: pathBase_joinAbs)
  ultimately show ?thesis ..
qed

text \<open>C14: A restore that succeeds fetched the snapshot the registry names, every slice of its plan arrived in full
  and matched its checksum, and the envelope beside the files is the registry's whatever the peer sent.\<close>

theorem restore_verified:
  assumes "pwMkdirTemp w (sanitizeStagingPrefix name @ ''-'') = Inr suffix" "CHR ''/'' \<notin> set suffix"
    "Restore w marshal root name c fs = (Inr (dir, sn), fs')"
  shows "dir = stagingDir root name suffix \<and> snID sn = rcSnapshotID c \<and>
    (\<exists>plan bytes. fetchPlan w name = Inr plan \<and> ppSnapshotID plan = rcSnapshotID c \<and>
      (\<forall>pf \<in> set (ppFiles plan). \<forall>sl \<in> set (pfSlices pf).
         plainComponent (pfName pf) \<and> sliceChecked w (rcSnapshotID c) (pfName pf) sl) \<and>
      marshal c name = Inr bytes \<and> fsFiles fs' (joinAbs dir ''snapshot.json'') = Some bytes)"
  using assms(1,3)
proof (cases rule: Restore_cases)
  case (restored plan fs1 bytes)
  have "\<forall>pf \<in> set (ppFiles plan). \<forall>sl \<in> set (pfSlices pf).
      plainComponent (pfName pf) \<and> sliceChecked w (rcSnapshotID c) (pfName pf) sl"
    using fetchFiles_checked [OF assms(2) refl restored(3)] restored(2) by auto
  with restored show ?thesis by auto
qed simp_all

section \<open>A restore from an honest peer\<close>

lemma buildPlan_ok:
  assumes "plainComponent i" "stReadDir st (joinAbs (stRoot st) i) = Inr entries" "\<exists>f \<in> set entries. deRegular f"
    "\<And>f. f \<in> set entries \<Longrightarrow> deRegular f \<Longrightarrow> servable st (joinAbs (stRoot st) i) f"
  shows "\<exists>pfs. buildPlan st i = Some (Inr \<lparr>ppSnapshotID = i, ppFiles = pfs\<rparr>) \<and>
    list_all2 plans (filter deRegular entries) pfs"
proof -
  obtain pfs where p: "planFiles entries = Some (Inr pfs)" "list_all2 plans (filter deRegular entries) pfs"
    using planFiles_ok [OF assms(4)] by blast
  moreover have "pfs \<noteq> []" using p(2) assms(3) by (auto simp: filter_empty_conv)
  ultimately show ?thesis
    using assms(1,2) plainComponent_plain by (simp add: buildPlan_def snapshotDir_def)
qed

lemma Restore_exact:
  assumes "connected st resolve statusLine pieces w" "worksLocally w" "name \<noteq> []" "root \<noteq> []"
    "resolve name = Inr sn" "snID sn = rcSnapshotID c" "plainComponent (rcSnapshotID c)"
    "stReadDir st (joinAbs (stRoot st) (rcSnapshotID c)) = Inr entries"
    "distinct (map deName entries)" "\<exists>f \<in> set entries. deRegular f"
    "\<And>f. f \<in> set entries \<Longrightarrow> deRegular f \<Longrightarrow> servable st (joinAbs (stRoot st) (rcSnapshotID c)) f"
    "pwMkdirTemp w (sanitizeStagingPrefix name @ ''-'') = Inr suffix" "CHR ''/'' \<notin> set suffix"
    "fresh (stagingDir root name suffix) fs" "marshal c name = Inr bytes"
  shows "\<exists>sn' fs'. Restore w marshal root name c fs = (Inr (stagingDir root name suffix, sn'), fs') \<and>
    (\<forall>f \<in> set entries. deRegular f \<and> deName f \<noteq> ''snapshot.json'' \<longrightarrow>
       fsFiles fs' (joinAbs (stagingDir root name suffix) (deName f)) = Some (deContent f))"
proof -
  let ?i = "rcSnapshotID c" let ?d = "stagingDir root name suffix" let ?r = "filter deRegular entries"
  obtain pfs where p: "buildPlan st ?i = Some (Inr \<lparr>ppSnapshotID = ?i, ppFiles = pfs\<rparr>)" "list_all2 plans ?r pfs"
    using buildPlan_ok [OF assms(7,8,10,11)] by blast
  have s: "servable st (joinAbs (stRoot st) ?i) f" if "f \<in> set ?r" for f using assms(11) that by simp
  have n: "joinAbs ?d (deName f) \<notin> set (fsDirs (staged ?d fs)) \<and> fsFiles (staged ?d fs) (joinAbs ?d (deName f)) = None"
    if f: "f \<in> set ?r" for f
  proof -
    have q: "plainComponent (deName f)" using s [OF f] by (simp add: servable_def)
    have "joinAbs ?d (deName f) = ?d @ ''/'' @ deName f"
      using joinAbs_below [OF staging_plain [OF assms(13)] q] by (simp add: stagingDir_def)
    with assms(14) inside_join [OF assms(13) plainComponent_plain [OF q], of root name] show ?thesis
      by (auto simp: fresh_def staged_def list_all_iff)
  qed
  have "distinct (map deName ?r)" using assms(9) by (simp add: distinct_map_filter)
  then obtain fs1 where f: "fetchFiles w \<lparr>ppSnapshotID = ?i, ppFiles = pfs\<rparr> ?d (staged ?d fs) = (None, fs1)"
    "\<forall>f \<in> set ?r. fsFiles fs1 (joinAbs ?d (deName f)) = Some (deContent f)"
    using fetchFiles_exact [OF assms(1,2,7) _ s p(2) n] by blast
  have "fetchPlan w name = Inr \<lparr>ppSnapshotID = ?i, ppFiles = pfs\<rparr>"
    using assms(1,3,5,6) p(1) by (simp add: fetchPlan_def doGet_def connected_def planOverHTTP_def handlePlan_def)
  moreover have "newStagingDir w root name fs = (Inr ?d, staged ?d fs)"
    using assms(2,4,12) by (simp add: newStagingDir_def worksLocally_def stagingDir_def staged_def Let_def)
  moreover have "joinAbs ?d (deName g) \<noteq> joinAbs ?d ''snapshot.json''" if "g \<in> set ?r" "deName g \<noteq> ''snapshot.json''" for g
    using s [OF that(1)] that(2) by (simp add: servable_def joinAbs_inj plainComponent_def)
  ultimately show ?thesis
    using f assms(2,15) by (simp add: Restore_def worksLocally_def writeEnvelope_def)
qed

text \<open>C36: A restore from a peer that serves the snapshot succeeds under every schedule of its tasks and every way the
  transport cuts the streams, and the staged files are byte for byte the regular files of the peer.\<close>

theorem peer_transfer_exact:
  assumes "connected st resolve statusLine pieces w" "worksLocally w" "name \<noteq> []" "root \<noteq> []"
    "resolve name = Inr sn" "snID sn = rcSnapshotID c" "plainComponent (rcSnapshotID c)"
    "stReadDir st (joinAbs (stRoot st) (rcSnapshotID c)) = Inr entries"
    "distinct (map deName entries)" "\<exists>f \<in> set entries. deRegular f"
    "\<And>f. f \<in> set entries \<Longrightarrow> deRegular f \<Longrightarrow> servable st (joinAbs (stRoot st) (rcSnapshotID c)) f"
    "pwMkdirTemp w (sanitizeStagingPrefix name @ ''-'') = Inr suffix" "CHR ''/'' \<notin> set suffix"
    "fresh (stagingDir root name suffix) fs" "marshal c name = Inr bytes"
  shows "\<exists>sn' fs'. Restore w marshal root name c fs = (Inr (stagingDir root name suffix, sn'), fs') \<and>
    (\<forall>f \<in> set entries. deRegular f \<and> deName f \<noteq> ''snapshot.json'' \<longrightarrow>
       fsFiles fs' (joinAbs (stagingDir root name suffix) (deName f)) = Some (deContent f))"
  using assms by (rule Restore_exact)

section \<open>What the server opens\<close>

text \<open>A path at most two components below the store's root.\<close>

definition inStore :: "string \<Rightarrow> string \<Rightarrow> bool" where
  "inStore root path \<longleftrightarrow> (\<exists>names. length names \<le> 2 \<and> list_all plainComponent names \<and> path = absPath (pathComps root @ names))"

lemma joinAbs_plainName:
  assumes "isPlainName n"
  shows "joinAbs dir n = absPath (pathComps dir @ (if n = ''/'' then [] else [n]))"
proof (cases "n = ''/''")
  case False
  with isPlainName_cases [OF assms] show ?thesis by (simp add: joinAbs_comps)
qed (simp add: joinAbs_self cleanAbs_comps)

lemma served_inStore:
  assumes "isPlainName i" "isPlainName name"
  shows "inStore root (joinAbs (joinAbs root i) name)"
proof -
  let ?ns = "\<lambda>n. if n = ''/'' then [] else [n]"
  have p: "list_all plainComponent (?ns n)" if "isPlainName n" for n using isPlainName_cases [OF that] by auto
  have "joinAbs (joinAbs root i) name = absPath ((pathComps root @ ?ns i) @ ?ns name)"
    using joinAbs_plainName [OF assms(2), of "joinAbs root i"] joinAbs_plainName [OF assms(1), of root] p [OF assms(1)]
      pathComps_plain [of root] by simp
  with p [OF assms(1)] p [OF assms(2)] show ?thesis
    unfolding inStore_def by (intro exI [of _ "?ns i @ ?ns name"]) auto
qed

text \<open>What the slice handler answers depends on no file outside the store: no snapshot id and no file name of a
  request climbs out of it.\<close>

theorem slice_served_from_store:
  assumes "stRoot st' = stRoot st" "\<And>path. inStore (stRoot st) path \<Longrightarrow> stOpen st' path = stOpen st path"
  shows "handleSlice st' free i name off len = handleSlice st free i name off len"
proof (cases "isPlainName i \<and> isPlainName name")
  case True
  then have "stOpen st' (joinAbs (joinAbs (stRoot st) i) name) = stOpen st (joinAbs (joinAbs (stRoot st) i) name)"
    using assms(2) served_inStore by blast
  with True assms(1) show ?thesis by (simp add: handleSlice_def snapshotDir_def split: option.split)
qed (use assms(1) in \<open>auto simp: handleSlice_def snapshotDir_def split: option.splits\<close>)

text \<open>The root itself is not a proper component, yet \<open>isPlainName\<close> lets it pass: the id \<open>/\<close> names the store's
  root.\<close>

lemma root_is_plain_name: "isPlainName ''/'' \<and> snapshotDir st ''/'' = Inr (cleanAbs (stRoot st))"
  by (simp add: isPlainName_def pathBase_def snapshotDir_def joinAbs_self)

section \<open>The bounds check of a plan\<close>

lemma wrap64_over:
  assumes "2 ^ 63 \<le> i" "i < 2 ^ 64 + 2 ^ 63"
  shows "wrap64 i = i - 2 ^ 64"
proof -
  have "(i + 2 ^ 63) mod 2 ^ 64 = (i + 2 ^ 63 - 2 ^ 64) mod 2 ^ 64" by (simp only: minus_mod_self2)
  also have "\<dots> = i + 2 ^ 63 - 2 ^ 64" using assms by (intro mod_pos_pos_trivial) simp_all
  finally show ?thesis by (simp add: wrap64_def)
qed

text \<open>The check lets a slice pass exactly when it lies within the file, or when its end overflows \<open>int64\<close>.\<close>

theorem slice_bounds_check:
  assumes "0 \<le> fsize" "slOffset sl < 2 ^ 63" "slLength sl < 2 ^ 63"
  shows "\<not> outOfBounds fsize sl \<longleftrightarrow> 0 \<le> slOffset sl \<and> 0 < slLength sl \<and>
    (slOffset sl + slLength sl \<le> fsize \<or> 2 ^ 63 \<le> slOffset sl + slLength sl)"
proof (cases "0 \<le> slOffset sl \<and> 0 < slLength sl \<and> 2 ^ 63 \<le> slOffset sl + slLength sl")
  case True
  then have "wrap64 (slOffset sl + slLength sl) = slOffset sl + slLength sl - 2 ^ 64"
    using assms(2,3) by (intro wrap64_over) simp_all
  with True assms show ?thesis by (simp add: outOfBounds_def)
next
  case False
  then show ?thesis using wrap64_id [of "slOffset sl + slLength sl"] by (auto simp: outOfBounds_def not_le)
qed

section \<open>Examples\<close>

definition exEntry :: dir_entry where
  "exEntry = \<lparr>deName = ''disk'', deRegular = True, deOpenErr = None, deStatErr = None, deContent = [0, 7, 0],
     deSeekData = (\<lambda>off. if off \<le> 1 then Inr 1 else Inl ENXIO), deSeekHole = (\<lambda>off. Inr 2)\<rparr>"

definition exStore :: store where
  "exStore = \<lparr>stRoot = ''/var'', stReadDir = (\<lambda>_. Inr [exEntry]), stOpen = (\<lambda>_. Inr [0, 7, 0])\<rparr>"

definition exResolve :: "string \<Rightarrow> err + snapshot" where
  "exResolve name = Inr \<lparr>snID = ''s1'', snName = name, snImage = [], snImageDigest = [], snHypervisor = [], snDescription = []\<rparr>"

definition exPeer :: peer_world where
  "exPeer = \<lparr>pwAcquire = None,
     pwPlan = (\<lambda>name. planOverHTTP (\<lambda>_. []) (handlePlan exStore exResolve name)),
     pwSlice = (\<lambda>i name off len. sliceOverHTTP (\<lambda>_. []) (\<lambda>bs. [bs]) (handleSlice exStore True i name off len)),
     pwMkdirAll = None, pwMkdirTemp = (\<lambda>_. Inr ''1''), pwOpen = (\<lambda>_. None), pwTruncate = (\<lambda>_. None),
     pwWrite = (\<lambda>_ _. None), pwWriteFile = None, pwRemoved = True, pwSchedule = []\<rparr>"

definition exRegistryConfig :: registry_config where
  "exRegistryConfig = \<lparr>rcSnapshotID = ''s1'', rcImage = [], rcImageDigest = [], rcHypervisor = []\<rparr>"

definition exDisk :: fsys where
  "exDisk = \<lparr>fsDirs = [], fsFiles = (\<lambda>_. None)\<rparr>"

lemma exEntry_servable: "servable exStore dir exEntry"
  by (simp add: servable_def seeks_def seekOk_def zeroFrom_def exStore_def exEntry_def plainComponent_def numeral_eq_Suc All_less_Suc)

lemma exPeer_connected: "connected exStore exResolve (\<lambda>_. []) (\<lambda>bs. [bs]) exPeer" "worksLocally exPeer"
  by (simp_all add: connected_def worksLocally_def exPeer_def)

lemma exDisk_fresh: "fresh dir exDisk"
  by (simp add: fresh_def exDisk_def)

theorem peer_transfer_exact_witness:
  "\<exists>sn fs. Restore exPeer (\<lambda>_ _. Inr [1]) ''/run'' ''a'' exRegistryConfig exDisk = (Inr (stagingDir ''/run'' ''a'' ''1'', sn), fs) \<and>
    fsFiles fs (joinAbs (stagingDir ''/run'' ''a'' ''1'') ''disk'') = Some [0, 7, 0]"
  using peer_transfer_exact [OF exPeer_connected, of "''a''" "''/run''" _ exRegistryConfig "[exEntry]" "''1''" exDisk "\<lambda>_ _. Inr [1]" "[1]"]
    exEntry_servable exDisk_fresh
  by (simp add: exResolve_def exRegistryConfig_def exStore_def plainComponent_def) (simp add: exEntry_def exPeer_def)

theorem plan_slices_witness: "\<exists>pf. planFile exEntry = Some (Inr pf) \<and> coversData [0, 7, 0] 0 (map slRange (pfSlices pf))"
  using plan_slices [of exEntry] exEntry_servable by (force simp: servable_def exEntry_def)

text \<open>A peer whose plan names a file above the staging directory.\<close>

definition exHostile :: peer_world where
  "exHostile = exPeer\<lparr>pwPlan := (\<lambda>_. Reply 200 [] [] (Inr \<lparr>ppSnapshotID = ''s1'',
     ppFiles = [\<lparr>pfName = ''../x'', pfSize = 1, pfSlices = []\<rparr>]\<rparr>))\<rparr>"

lemma exHostile_fails: "\<exists>x fs. Restore exHostile (\<lambda>_ _. Inr [1]) ''/run'' ''a'' exRegistryConfig exDisk = (Inl x, fs)"
proof -
  have "\<not> isPlainName ''../x''" by code_simp
  then show ?thesis
    by (simp add: exHostile_def exPeer_def exRegistryConfig_def Restore_def fetchPlan_def doGet_def newStagingDir_def fetchFiles_def
      prepareFile_def Let_def)
qed

theorem restore_confined_witness:
  "fsFiles (snd (Restore exHostile (\<lambda>_ _. Inr [1]) ''/run'' ''a'' exRegistryConfig exDisk)) ''/x'' = None"
proof -
  obtain r fs where e: "Restore exHostile (\<lambda>_ _. Inr [1]) ''/run'' ''a'' exRegistryConfig exDisk = (r, fs)" by force
  have "pwMkdirTemp exHostile (sanitizeStagingPrefix ''a'' @ ''-'') = Inr ''1''" by (simp add: exHostile_def exPeer_def)
  moreover have "\<not> inside (stagingDir ''/run'' ''a'' ''1'') ''/x''" by code_simp
  ultimately have "fsFiles fs ''/x'' = fsFiles exDisk ''/x''" using restore_confined [OF _ _ e] by simp
  with e show ?thesis by (simp add: exDisk_def)
qed

theorem failed_restore_leaves_nothing_witness:
  "snd (Restore exHostile (\<lambda>_ _. Inr [1]) ''/run'' ''a'' exRegistryConfig exDisk) = exDisk"
proof -
  obtain x fs where r: "Restore exHostile (\<lambda>_ _. Inr [1]) ''/run'' ''a'' exRegistryConfig exDisk = (Inl x, fs)"
    using exHostile_fails by blast
  with failed_restore_leaves_nothing [OF _ _ exDisk_fresh _ r, of "''1''"] show ?thesis
    by (simp add: exHostile_def exPeer_def)
qed

lemma exPeer_restores:
  "\<exists>sn fs. Restore exPeer (\<lambda>_ _. Inr [1]) ''/run'' ''a'' exRegistryConfig exDisk = (Inr (stagingDir ''/run'' ''a'' ''1'', sn), fs)"
  using Restore_exact [OF exPeer_connected, of "''a''" "''/run''" _ exRegistryConfig "[exEntry]" "''1''" exDisk "\<lambda>_ _. Inr [1]" "[1]"]
    exEntry_servable exDisk_fresh
  by (simp add: exResolve_def exRegistryConfig_def exStore_def plainComponent_def) (simp add: exEntry_def exPeer_def, blast)

theorem restore_verified_witness:
  "\<exists>dir sn fs. Restore exPeer (\<lambda>_ _. Inr [1]) ''/run'' ''a'' exRegistryConfig exDisk = (Inr (dir, sn), fs) \<and> snID sn = ''s1'' \<and>
    fsFiles fs (joinAbs dir ''snapshot.json'') = Some [1]"
proof -
  obtain dir sn fs where r: "Restore exPeer (\<lambda>_ _. Inr [1]) ''/run'' ''a'' exRegistryConfig exDisk = (Inr (dir, sn), fs)"
    using exPeer_restores by blast
  have "pwMkdirTemp exPeer (sanitizeStagingPrefix ''a'' @ ''-'') = Inr ''1''" by (simp add: exPeer_def)
  from restore_verified [OF this _ r] have "snID sn = ''s1''" "fsFiles fs (joinAbs dir ''snapshot.json'') = Some [1]"
    by (auto simp: exRegistryConfig_def)
  with r show ?thesis by blast
qed

theorem slice_served_from_store_witness:
  "handleSlice (exStore\<lparr>stOpen := (\<lambda>path. if inStore ''/var'' path then Inr [0, 7, 0] else Inr [1])\<rparr>) True ''s1'' ''disk'' ''0'' ''1'' =
   handleSlice exStore True ''s1'' ''disk'' ''0'' ''1''"
  by (rule slice_served_from_store) (simp_all add: exStore_def)

theorem slice_bounds_check_witness:
  "\<not> outOfBounds 1 \<lparr>slOffset = 2 ^ 62, slLength = 2 ^ 62\<rparr>"
  using slice_bounds_check [of 1 "\<lparr>slOffset = 2 ^ 62, slLength = 2 ^ 62\<rparr>"] by simp

end
