(* ===== verification/Cli.thy ===== *)
theory Cli
  imports VM_Runtime "HOL-Library.State_Monad" "HOL-Library.Char_ord" "HOL-Library.List_Lexorder"
begin

text \<open>
  The production runtime (\<open>src/vm/cocoon_cli.go\<close>): every operation runs the \<open>cocoon\<close> binary and reads its
  answer. What the binary answers, whether a wait is cut short, and the clock are functions of what was run
  before; the JSON decoders and Kubernetes quantities are parameters. Logging and the widening of a pipe's
  buffer have no effect on the results and are left out.
\<close>

section \<open>Running the binary\<close>

text \<open>The answer to one command: standard output, standard error, the combined output in the order the bytes
  came, and the error of the run with its exit code when the child exited.\<close>

record proc_result =
  prOut :: string
  prErrOut :: string
  prCombined :: string
  prFail :: "err option"
  prExit :: "int option"

text \<open>What happened so far, the gates of the snapshot transfers included.\<close>

datatype cli_event =
    Ran "string list"
  | Slept int
  | PipeOpened "string list"
  | Started "string list"
  | PipeClosed "string list"
  | Waited "string list"
  | GateTaken string
  | GateFreed string

record cli_world =
  clRun :: "cli_event list \<Rightarrow> string list \<Rightarrow> proc_result"
  clNow :: "cli_event list \<Rightarrow> int"
  clSleep :: "cli_event list \<Rightarrow> err option"
  clPipe :: "cli_event list \<Rightarrow> err option"
  clStart :: "cli_event list \<Rightarrow> err option"
  clWait :: "cli_event list \<Rightarrow> err option"
  clInspectJSON :: "string \<Rightarrow> err + inspect_json"
  clVMListJSON :: "string \<Rightarrow> err + inspect_json list"
  clSnapshotJSON :: "string \<Rightarrow> err + snapshot"
  clSnapshotListJSON :: "string \<Rightarrow> err + snapshot list"
  clOutcomeJSON :: "string \<Rightarrow> err + string"
  clQuantity :: "string \<Rightarrow> int option"

type_synonym 'a cli = "(cli_event list, 'a) state"

definition emitCli :: "cli_event \<Rightarrow> unit cli" where
  "emitCli ev = State (\<lambda>h. ((), h @ [ev]))"

text \<open>Running a command to its end.\<close>

definition runCmd :: "cli_world \<Rightarrow> string list \<Rightarrow> proc_result cli" where
  "runCmd w args = State (\<lambda>h. (clRun w h args, h @ [Ran args]))"

definition runJSON :: "cli_world \<Rightarrow> string list \<Rightarrow> (err + string) cli" where
  "runJSON w args = do {
     r \<leftarrow> runCmd w args;
     State_Monad.return (case prFail r of
         Some x \<Rightarrow> Inl (wrapErr [] x ('' (stderr: '' @ trimSpace (prErrOut r) @ '')''))
       | None \<Rightarrow> Inr (prOut r))
   }"

definition runAndParseVM :: "cli_world \<Rightarrow> string \<Rightarrow> string \<Rightarrow> string list \<Rightarrow> (err + vm) cli" where
  "runAndParseVM w op ref args = do {
     r \<leftarrow> runJSON w args;
     State_Monad.return (case r of
         Inl x \<Rightarrow> Inl (wrapErr (op @ '': '') x [])
       | Inr out \<Rightarrow>
           (case parseInspectJSON (clInspectJSON w) out of
              Inl x \<Rightarrow> Inl (wrapErr (op @ '': '') x [])
            | Inr v \<Rightarrow>
                if vID v = [] then Inl (newErr (op @ '' '' @ ref @ '': empty VM record in JSON payload''))
                else Inr v))
   }"

section \<open>VM verbs\<close>

definition Clone :: "cli_world \<Rightarrow> clone_options \<Rightarrow> (err + vm) cli" where
  "Clone w opts = runAndParseVM w ''cocoon vm clone'' (coTo opts) (buildCloneArgs opts)"

definition Inspect :: "cli_world \<Rightarrow> string \<Rightarrow> (err + vm) cli" where
  "Inspect w vmID = do {
     r \<leftarrow> runJSON w [''vm'', ''inspect'', vmID];
     State_Monad.return (case r of
         Inl x \<Rightarrow> Inl (if isCocoonNotFound (Some x)
           then wrapErr (''cocoon vm inspect '' @ vmID @ '': '') (Err [ErrVMNotFound] ''vm not found'') []
           else wrapErr (''cocoon vm inspect '' @ vmID @ '': '') x [])
       | Inr out \<Rightarrow> parseInspectJSON (clInspectJSON w) out)
   }"

definition RunVM :: "cli_world \<Rightarrow> run_options \<Rightarrow> (err + vm) cli" where
  "RunVM w opts = do {
     r \<leftarrow> runAndParseVM w ''cocoon vm run'' (roName opts) (buildRunArgs (clQuantity w) opts);
     (case r of
        Inl x \<Rightarrow> State_Monad.return (Inl x)
      | Inr v \<Rightarrow>
          if vState v \<noteq> StateRunning \<or> vPID v = 0 then Inspect w (vID v)
          else State_Monad.return (Inr v))
   }"

definition VMList :: "cli_world \<Rightarrow> (err + vm list) cli" where
  "VMList w = do {
     r \<leftarrow> runJSON w [''vm'', ''list'', ''-o'', ''json''];
     State_Monad.return (case r of
         Inl x \<Rightarrow> Inl (wrapErr ''cocoon vm list: '' x [])
       | Inr out \<Rightarrow> parseVMListJSON (clVMListJSON w) out)
   }"

text \<open>The outcome is a string type in the source.\<close>

definition ReconcileStaleCreate :: "cli_world \<Rightarrow> string \<Rightarrow> (err + string) cli" where
  "ReconcileStaleCreate w vmID = do {
     r \<leftarrow> runJSON w [''vm'', ''reconcile-stale-create'', vmID, ''-o'', ''json''];
     State_Monad.return (let at = ''cocoon vm reconcile-stale-create '' @ vmID @ '': '' in
       case r of
         Inl x \<Rightarrow> Inl (wrapErr at x [])
       | Inr out \<Rightarrow>
           (case clOutcomeJSON w out of
              Inl x \<Rightarrow> Inl (wrapErr at x [])
            | Inr oc \<Rightarrow> if oc = [] then Inl (newErr (at @ ''empty outcome in JSON payload'')) else Inr oc))
   }"

text \<open>Verbs that only report whether they succeeded, with the combined output in the error.\<close>

definition runPlain :: "cli_world \<Rightarrow> string \<Rightarrow> string \<Rightarrow> string list \<Rightarrow> err option cli" where
  "runPlain w op ref args = do {
     r \<leftarrow> runCmd w args;
     State_Monad.return (case prFail r of None \<Rightarrow> None | Some x \<Rightarrow> Some (cocoonCmdError op ref x (prCombined r)))
   }"

definition StartVM :: "cli_world \<Rightarrow> string \<Rightarrow> err option cli" where
  "StartVM w vmID = runPlain w ''vm start'' vmID [''vm'', ''start'', vmID]"

definition NetResize :: "cli_world \<Rightarrow> string \<Rightarrow> int \<Rightarrow> err option cli" where
  "NetResize w vmID target = runPlain w ''vm net'' vmID [''vm'', ''net'', ''--nics'', itoa target, vmID]"

definition EnsureImage :: "cli_world \<Rightarrow> string \<Rightarrow> bool \<Rightarrow> err option cli" where
  "EnsureImage w img force =
     runPlain w ''image pull'' img ([''image'', ''pull''] @ (if force then [''--force''] else []) @ [img])"

definition Image :: "cli_world \<Rightarrow> string \<Rightarrow> err option cli" where
  "Image w name = do {
     r \<leftarrow> runCmd w [''image'', ''inspect'', name];
     State_Monad.return (case prFail r of
         None \<Rightarrow> None
       | Some x \<Rightarrow>
           if containsStr (toLower (prCombined r)) ''not found in any backend''
           then Some (wrapErr (''cocoon image inspect '' @ name @ '': '') (Err [ErrImageNotFound] ''image not found'') [])
           else Some (cocoonCmdError ''image inspect'' name x (prCombined r)))
   }"

definition Remove :: "cli_world \<Rightarrow> string \<Rightarrow> err option cli" where
  "Remove w vmID = do {
     r \<leftarrow> runCmd w [''vm'', ''rm'', ''--force'', vmID];
     State_Monad.return (case prFail r of
         None \<Rightarrow> None
       | Some x \<Rightarrow>
           (let wrapped = cocoonCmdError ''vm rm'' vmID x (prCombined r) in
            if \<not> isCocoonNotFound (Some wrapped) then Some wrapped
            else Some (wrapErr (''cocoon vm rm '' @ vmID @ '': '') (Err [ErrVMNotFound] ''vm not found'') [])))
   }"

definition Logs :: "cli_world \<Rightarrow> string \<Rightarrow> int \<Rightarrow> (err + string) cli" where
  "Logs w vmID tail =
     (if vmID = [] then State_Monad.return (Inl (newErr ''cocoon vm logs: vmID is empty''))
      else do {
        r \<leftarrow> runCmd w ([''vm'', ''logs''] @ (if tail > 0 then [''--tail'', itoa tail] else []) @ [vmID]);
        State_Monad.return (case prFail r of
            Some x \<Rightarrow> Inl (cocoonCmdError ''vm logs'' vmID x (prErrOut r))
          | None \<Rightarrow> Inr (prOut r))
      })"

section \<open>Exec\<close>

text \<open>The environment is a Go map: pairs with distinct keys, in any order.\<close>

definition buildExecArgs :: "string \<Rightarrow> string list \<Rightarrow> (string \<times> string) list \<Rightarrow> bool \<Rightarrow> string list" where
  "buildExecArgs vmID argv env interactive =
     [''vm'', ''exec''] @ (if interactive then [''-i''] else []) @
     concat (map (\<lambda>(k, v). [''-e'', k @ ''='' @ v]) (sort_key fst env)) @ [vmID, ''--''] @ argv"

text \<open>The error with the exit code of the child, when it is the child that failed.\<close>

definition Exec :: "cli_world \<Rightarrow> string \<Rightarrow> string list \<Rightarrow> (string \<times> string) list \<Rightarrow> bool \<Rightarrow> (err \<times> int option) option cli" where
  "Exec w vmID argv env interactive =
     (if vmID = [] then State_Monad.return (Some (newErr ''cocoon vm exec: vmID is empty'', None))
      else if argv = [] then State_Monad.return (Some (newErr ''cocoon vm exec: argv is empty'', None))
      else do {
        r \<leftarrow> runCmd w (buildExecArgs vmID argv env interactive);
        State_Monad.return (case prFail r of
            None \<Rightarrow> None
          | Some x \<Rightarrow>
              (case prExit r of
                 Some code \<Rightarrow> Some (newErr (''cocoon vm exec '' @ vmID @ '': exit '' @ itoa code), Some code)
               | None \<Rightarrow> Some (wrapErr (''cocoon vm exec '' @ vmID @ '': '') x [], None)))
      })"

section \<open>Snapshot verbs\<close>

definition staleSnapshotRmBudget :: int where "staleSnapshotRmBudget = 30000000000"
definition staleSnapshotRmDelay :: int where "staleSnapshotRmDelay = 500000000"

definition snapshotNameTaken :: "string list" where
  "snapshotNameTaken = [''already exists'', ''already in use by'']"

definition snapshotLeaseHeld :: "string list" where
  "snapshotLeaseHeld = [''is in use by an active'']"

definition nowCli :: "cli_world \<Rightarrow> int cli" where
  "nowCli w = State (\<lambda>h. (clNow w h, h))"

text \<open>\<open>SleepCtx\<close>: the context's error when it ended first.\<close>

definition sleepCli :: "cli_world \<Rightarrow> int \<Rightarrow> err option cli" where
  "sleepCli w d = State (\<lambda>h. (clSleep w h, h @ [Slept d]))"

text \<open>The loop of \<open>removeStaleSnapshot\<close> with a bound on its rounds; \<open>None\<close> when the bound cut it off.\<close>

fun staleRmLoop :: "cli_world \<Rightarrow> nat \<Rightarrow> int \<Rightarrow> string \<Rightarrow> err option option cli" where
  "staleRmLoop w 0 deadline ref = State_Monad.return None"
| "staleRmLoop w (Suc n) deadline ref = do {
     r \<leftarrow> runCmd w [''snapshot'', ''rm'', ref];
     (case prFail r of
        None \<Rightarrow> State_Monad.return (Some None)
      | Some x \<Rightarrow>
          (let trimmed = trimSpace (prCombined r) in
           if \<not> containsAny trimmed snapshotLeaseHeld
           then State_Monad.return (Some (Some (wrapErr ''rm failed: '' x ('' (output: '' @ trimmed @ '')''))))
           else do {
             t \<leftarrow> nowCli w;
             if \<not> t < deadline
             then State_Monad.return (Some (Some (wrapErr ''rm still lease-blocked after 30s: '' x ('' (output: '' @ trimmed @ '')''))))
             else do {
               c \<leftarrow> sleepCli w staleSnapshotRmDelay;
               (case c of Some x \<Rightarrow> State_Monad.return (Some (Some x)) | None \<Rightarrow> staleRmLoop w n deadline ref)
             }
           }))
   }"

definition removeStaleSnapshot :: "cli_world \<Rightarrow> nat \<Rightarrow> string \<Rightarrow> err option option cli" where
  "removeStaleSnapshot w fuel ref = do {
     t \<leftarrow> nowCli w;
     staleRmLoop w fuel (t + staleSnapshotRmBudget) ref
   }"

definition saveArgs :: "string \<Rightarrow> string \<Rightarrow> string list" where
  "saveArgs vmName vmID = [''snapshot'', ''save'', ''--name'', vmName, vmID]"

definition SnapshotSave :: "cli_world \<Rightarrow> nat \<Rightarrow> string \<Rightarrow> string \<Rightarrow> err option option cli" where
  "SnapshotSave w fuel vmName vmID = do {
     r \<leftarrow> runCmd w (saveArgs vmName vmID);
     (case prFail r of
        None \<Rightarrow> State_Monad.return (Some None)
      | Some x \<Rightarrow>
          if \<not> containsAny (prCombined r) snapshotNameTaken
          then State_Monad.return (Some (Some (cocoonCmdError ''snapshot save'' vmName x (prCombined r))))
          else
            (let holder = orStr (snapshotNameHolderID (prCombined r)) vmName in do {
               rm \<leftarrow> removeStaleSnapshot w fuel holder;
               (case rm of
                  None \<Rightarrow> State_Monad.return None
                | Some (Some x) \<Rightarrow> State_Monad.return (Some (Some
                    (wrapErr (''cocoon snapshot save '' @ vmName @ '': name held by '' @ holder @ '': '') x [])))
                | Some None \<Rightarrow> do {
                    r2 \<leftarrow> runCmd w (saveArgs vmName vmID);
                    State_Monad.return (Some (case prFail r2 of
                        None \<Rightarrow> None
                      | Some x \<Rightarrow> Some (cocoonCmdError ''snapshot save (after rm)'' vmName x (prCombined r2))))
                  })
             }))
   }"

definition SnapshotInspect :: "cli_world \<Rightarrow> string \<Rightarrow> (err + snapshot) cli" where
  "SnapshotInspect w name = do {
     r \<leftarrow> runJSON w [''snapshot'', ''inspect'', name];
     State_Monad.return (case r of
         Inl x \<Rightarrow> Inl (wrapErr (''cocoon snapshot inspect '' @ name @ '': '')
           (if isCocoonSnapshotNotFound (Some x) then Err [ErrSnapshotNotFound] ''snapshot not found'' else x) [])
       | Inr out \<Rightarrow> parseSnapshotJSON (clSnapshotJSON w) out)
   }"

definition SnapshotList :: "cli_world \<Rightarrow> (err + snapshot list) cli" where
  "SnapshotList w = do {
     r \<leftarrow> runJSON w [''snapshot'', ''list'', ''-o'', ''json''];
     State_Monad.return (case r of
         Inl x \<Rightarrow> Inl (wrapErr ''cocoon snapshot list: '' x [])
       | Inr out \<Rightarrow> decodeListJSON (clSnapshotListJSON w) out ''No snapshots found.'' ''snapshot list'')
   }"

definition SnapshotRemoveIfExists :: "cli_world \<Rightarrow> string \<Rightarrow> err option cli" where
  "SnapshotRemoveIfExists w name = do {
     r \<leftarrow> runCmd w [''snapshot'', ''rm'', name];
     State_Monad.return (case prFail r of
         None \<Rightarrow> None
       | Some x \<Rightarrow>
           (let wrapped = cocoonCmdError ''snapshot rm'' name x (prCombined r) in
            if isCocoonSnapshotNotFound (Some wrapped) then None else Some wrapped))
   }"

section \<open>Pipes\<close>

text \<open>A started command whose pipe the caller holds.\<close>

record cmd_pipe =
  cpArgs :: "string list"
  cpOp :: string

definition startCmdPipe :: "cli_world \<Rightarrow> string list \<Rightarrow> string \<Rightarrow> (err + cmd_pipe) cli" where
  "startCmdPipe w args op = do {
     h \<leftarrow> State_Monad.get;
     (case clPipe w h of
        Some x \<Rightarrow> State_Monad.return (Inl (wrapErr (op @ '' pipe: '') x []))
      | None \<Rightarrow> do {
          _ \<leftarrow> emitCli (PipeOpened args);
          h \<leftarrow> State_Monad.get;
          (case clStart w h of
             Some x \<Rightarrow> do {
               _ \<leftarrow> emitCli (PipeClosed args);
               State_Monad.return (Inl (wrapErr (''start '' @ op @ '': '') x []))
             }
           | None \<Rightarrow> do {
               _ \<leftarrow> emitCli (Started args);
               State_Monad.return (Inr \<lparr>cpArgs = args, cpOp = op\<rparr>)
             })
        })
   }"

definition cocoonWait :: "cli_world \<Rightarrow> cmd_pipe \<Rightarrow> err option cli" where
  "cocoonWait w p = do {
     h \<leftarrow> State_Monad.get;
     _ \<leftarrow> emitCli (Waited (cpArgs p));
     State_Monad.return (map_option (\<lambda>x. wrapErr (cpOp p @ '': '') x []) (clWait w h))
   }"

definition ImageImport :: "cli_world \<Rightarrow> string \<Rightarrow> (err + cmd_pipe) cli" where
  "ImageImport w name = startCmdPipe w [''image'', ''import'', name] ''cocoon image import''"

definition SnapshotImport :: "cli_world \<Rightarrow> string \<Rightarrow> string \<Rightarrow> (err + cmd_pipe) cli" where
  "SnapshotImport w name description = do {
     r \<leftarrow> SnapshotRemoveIfExists w name;
     (case r of
        Some x \<Rightarrow> State_Monad.return (Inl x)
      | None \<Rightarrow> startCmdPipe w ([''snapshot'', ''import'', ''--name'', name] @
          (if description \<noteq> [] then [''--description'', description] else [])) ''cocoon snapshot import'')
   }"

definition SnapshotExport :: "cli_world \<Rightarrow> string \<Rightarrow> (err + cmd_pipe) cli" where
  "SnapshotExport w vmName = startCmdPipe w [''snapshot'', ''export'', vmName, ''-o'', ''-''] ''cocoon snapshot export''"

section \<open>The event stream\<close>

text \<open>What \<open>WatchEvents\<close> sends for the lines of the stream: \<open>decode\<close> is the JSON decoder. The scanner gives up
  at a line that does not fit its buffer; the context ending cuts the list short.\<close>

definition maxEventLineBytes :: nat where "maxEventLineBytes = 2 ^ 20"

fun eventsOf :: "(string \<Rightarrow> (string \<times> inspect_json) option) \<Rightarrow> string list \<Rightarrow> (string \<times> vm) list" where
  "eventsOf decode [] = []"
| "eventsOf decode (line # rest) =
     (if maxEventLineBytes \<le> length line then []
      else if trimSpace line = [] then eventsOf decode rest
      else (case decode (trimSpace line) of
          None \<Rightarrow> eventsOf decode rest
        | Some (event, raw) \<Rightarrow>
            (let v = inspectJSONToVM raw in
             if vID v = [] \<and> vName v = [] then eventsOf decode rest
             else (event, v) # eventsOf decode rest)))"

definition watchArgs :: "string list" where
  "watchArgs = [''vm'', ''status'', ''--event'', ''--format'', ''json'']"

text \<open>The stream's process is started with a pipe; once its lines ended, or the reader stopped, it is waited for, which closes the
  pipe. \<open>lines\<close> are the lines the reader takes.\<close>

definition WatchEvents ::
  "cli_world \<Rightarrow> (string \<Rightarrow> (string \<times> inspect_json) option) \<Rightarrow> string list \<Rightarrow> (err + (string \<times> vm) list) cli" where
  "WatchEvents w decode lines = do {
     h \<leftarrow> State_Monad.get;
     (case clPipe w h of
        Some x \<Rightarrow> State_Monad.return (Inl (wrapErr ''stdout pipe: '' x []))
      | None \<Rightarrow> do {
          _ \<leftarrow> emitCli (PipeOpened watchArgs);
          h \<leftarrow> State_Monad.get;
          (case clStart w h of
             Some x \<Rightarrow> do {
               _ \<leftarrow> emitCli (PipeClosed watchArgs);
               State_Monad.return (Inl (wrapErr ''start cocoon vm status: '' x []))
             }
           | None \<Rightarrow> do {
               _ \<leftarrow> emitCli (Started watchArgs);
               _ \<leftarrow> emitCli (PipeClosed watchArgs);
               _ \<leftarrow> emitCli (Waited watchArgs);
               State_Monad.return (Inr (eventsOf decode lines))
             })
        })
   }"

end
