(* ===== verification/Registry_Transfer.thy ===== *)
theory Registry_Transfer
  imports Cli
begin

text \<open>
  Snapshots and cloud images to and from the registry (\<open>src/snapshots/puller.go\<close>, \<open>pusher.go\<close>, \<open>config.go\<close>).
  The registry client, the manifest parser and the library that streams a snapshot or an image are
  parameters; the import process is the runtime's. The node-wide gates are semaphores: taking one may fail
  when the context ends, and it is freed on every return.
\<close>

record push_options =
  puName :: string
  puLocalName :: string
  puTag :: string
  puBaseImage :: string
  puAnnotations :: "string \<Rightarrow> string option"
  puZstdLevel :: int
  puChunkSizeMiB :: int
  puConcurrency :: int
  puMemoryBudgetMiB :: int

record transfer_config =
  tcZstdLevel :: int
  tcChunkSizeMiB :: int
  tcConcurrency :: int
  tcMemoryBudgetMiB :: int
  tcPullBudgetMiB :: int

text \<open>\<open>stream\<close> is asked with the manifest, the repository name, the concurrency and the memory budget.\<close>

record transfer_world =
  twGetManifest :: "string \<Rightarrow> string \<Rightarrow> err + string"
  twParse :: "string \<Rightarrow> err + string \<times> string"
  twArtifactTypeSnapshotV2 :: string
  twMediaTypeOCIIndex :: string
  twMediaTypeDockerIndex :: string
  twDefaultSnapshotTag :: string
  twGate :: "string \<Rightarrow> err option"
  twStream :: "string \<Rightarrow> string \<Rightarrow> int \<Rightarrow> int \<Rightarrow> err option"
  twCloudStream :: "string \<Rightarrow> string \<Rightarrow> err option"
  twClose :: "cmd_pipe \<Rightarrow> err option"
  twPush :: "push_options \<Rightarrow> err option"

definition defaultPullBudgetMiB :: int where "defaultPullBudgetMiB = 2048"

definition AnnotationFromNode :: string where "AnnotationFromNode = ''cocoonstack.snapshot.from-node''"

definition envInt :: "(string \<Rightarrow> int) \<Rightarrow> string \<Rightarrow> int" where
  "envInt getenv key = max (getenv key) 0"

definition TransferConfigFromEnv :: "(string \<Rightarrow> int) \<Rightarrow> transfer_config" where
  "TransferConfigFromEnv getenv =
     \<lparr>tcZstdLevel = envInt getenv ''SNAPSHOT_ZSTD_LEVEL'', tcChunkSizeMiB = envInt getenv ''SNAPSHOT_CHUNK_SIZE_MIB'',
      tcConcurrency = envInt getenv ''SNAPSHOT_TRANSFER_CONCURRENCY'',
      tcMemoryBudgetMiB = envInt getenv ''SNAPSHOT_MEMORY_BUDGET_MIB'',
      tcPullBudgetMiB = envInt getenv ''SNAPSHOT_PULL_BUDGET_MIB''\<rparr>"

section \<open>Pulling\<close>

definition snapshotNeedsPullGate :: "transfer_world \<Rightarrow> string \<Rightarrow> bool" where
  "snapshotNeedsPullGate t raw =
     (case twParse t raw of
        Inl x \<Rightarrow> False
      | Inr (artifactType, mediaType) \<Rightarrow>
          artifactType = twArtifactTypeSnapshotV2 t \<or> mediaType = twMediaTypeOCIIndex t \<or>
          mediaType = twMediaTypeDockerIndex t)"

text \<open>A section under a gate: not entered when the gate cannot be taken, freed when it is left.\<close>

definition withGate :: "transfer_world \<Rightarrow> string \<Rightarrow> err option cli \<Rightarrow> err option cli" where
  "withGate t gate m =
     (case twGate t gate of
        Some x \<Rightarrow> State_Monad.return (Some x)
      | None \<Rightarrow> do {
          _ \<leftarrow> emitCli (GateTaken gate);
          r \<leftarrow> m;
          _ \<leftarrow> emitCli (GateFreed gate);
          State_Monad.return r
        })"

definition closePipe :: "transfer_world \<Rightarrow> cmd_pipe \<Rightarrow> err option cli" where
  "closePipe t p = do {
     _ \<leftarrow> emitCli (PipeClosed (cpArgs p));
     State_Monad.return (twClose t p)
   }"

definition finishImport :: "transfer_world \<Rightarrow> cli_world \<Rightarrow> cmd_pipe \<Rightarrow> err option \<Rightarrow> string \<Rightarrow> err option cli" where
  "finishImport t w importer streamErr streamOp =
     (case streamErr of
        Some x \<Rightarrow> do {
          _ \<leftarrow> closePipe t importer;
          _ \<leftarrow> cocoonWait w importer;
          State_Monad.return (Some (wrapErr (streamOp @ '': '') x []))
        }
      | None \<Rightarrow> do {
          c \<leftarrow> closePipe t importer;
          (case c of
             Some x \<Rightarrow> do {
               _ \<leftarrow> cocoonWait w importer;
               State_Monad.return (Some (wrapErr ''close importer: '' x []))
             }
           | None \<Rightarrow> cocoonWait w importer)
        })"

text \<open>The import of a manifest that was fetched.\<close>

definition importSnapshot ::
  "transfer_world \<Rightarrow> cli_world \<Rightarrow> transfer_config \<Rightarrow> string \<Rightarrow> string \<Rightarrow> string \<Rightarrow> string \<Rightarrow> err option cli" where
  "importSnapshot t w cfg raw name localName description = do {
     i \<leftarrow> SnapshotImport w localName description;
     (case i of
        Inl x \<Rightarrow> State_Monad.return (Some (wrapErr ''open cocoon snapshot import: '' x []))
      | Inr importer \<Rightarrow>
          finishImport t w importer
            (twStream t raw name (tcConcurrency cfg) (orInt (tcPullBudgetMiB cfg) defaultPullBudgetMiB))
            ''stream snapshot'')
   }"

definition PullSnapshot ::
  "transfer_world \<Rightarrow> cli_world \<Rightarrow> transfer_config \<Rightarrow> string \<Rightarrow> string \<Rightarrow> string \<Rightarrow> string \<Rightarrow> err option cli" where
  "PullSnapshot t w cfg name tag localName description =
     (case twGetManifest t name tag of
        Inl x \<Rightarrow> State_Monad.return (Some (wrapErr (''get snapshot manifest '' @ name @ '':'' @ tag @ '': '') x []))
      | Inr raw \<Rightarrow>
          (let m = importSnapshot t w cfg raw name (orStr localName name) description in
           if snapshotNeedsPullGate t raw then withGate t ''pull'' m else m))"

definition EnsureCloudImageFromRaw ::
  "transfer_world \<Rightarrow> cli_world \<Rightarrow> string \<Rightarrow> string \<Rightarrow> string \<Rightarrow> bool \<Rightarrow> err option cli" where
  "EnsureCloudImageFromRaw t w name localName raw force =
     (let localName = orStr localName name in do {
        present \<leftarrow> (if force then State_Monad.return (Inr False)
          else do {
            r \<leftarrow> Image w localName;
            State_Monad.return (case r of
                None \<Rightarrow> Inr True
              | Some x \<Rightarrow> if errIs x ErrImageNotFound then Inr False
                  else Inl (wrapErr (''inspect local image '' @ localName @ '': '') x []))
          });
        (case present of
           Inl x \<Rightarrow> State_Monad.return (Some x)
         | Inr True \<Rightarrow> State_Monad.return None
         | Inr False \<Rightarrow> do {
             i \<leftarrow> ImageImport w localName;
             (case i of
                Inl x \<Rightarrow> State_Monad.return (Some (wrapErr ''open cocoon image import: '' x []))
              | Inr importer \<Rightarrow> finishImport t w importer (twCloudStream t raw name) ''stream cloud image'')
           })
      })"

section \<open>Pushing\<close>

text \<open>The annotations of the manifest: the caller's, and the node that pushes.\<close>

definition stampedAnnotations :: "string \<Rightarrow> (string \<Rightarrow> string option) \<Rightarrow> string \<Rightarrow> string option" where
  "stampedAnnotations nodeName annotations =
     (if nodeName \<noteq> [] then annotations(AnnotationFromNode \<mapsto> nodeName) else annotations)"

definition PushSnapshot ::
  "transfer_world \<Rightarrow> transfer_config \<Rightarrow> string \<Rightarrow> string \<Rightarrow> string \<Rightarrow> string \<Rightarrow> string \<Rightarrow> (string \<Rightarrow> string option) \<Rightarrow> err option cli" where
  "PushSnapshot t cfg nodeName localName repo tag baseImage annotations =
     (let repo = orStr repo localName; tag = orStr tag (twDefaultSnapshotTag t) in
      withGate t ''push'' (State_Monad.return
        (case twPush t \<lparr>puName = repo, puLocalName = localName, puTag = tag, puBaseImage = baseImage,
             puAnnotations = stampedAnnotations nodeName annotations, puZstdLevel = tcZstdLevel cfg,
             puChunkSizeMiB = tcChunkSizeMiB cfg, puConcurrency = tcConcurrency cfg,
             puMemoryBudgetMiB = tcMemoryBudgetMiB cfg\<rparr> of
           None \<Rightarrow> None
         | Some x \<Rightarrow> Some (wrapErr (''push snapshot '' @ repo @ '':'' @ tag @ '': '') x []))))"

end
