(* ===== verification/Runtime_Props.thy ===== *)
theory Runtime_Props
  imports Registry_Transfer "HOL-Library.Multiset"
begin

text \<open>
  What the production runtime and the registry transfers promise: a snapshot save that succeeds was saved and
  removed at most the snapshot that held its name, its wait for a lease ends, an error says that a VM is gone
  only on the evidence of the binary, and a transfer leaves no pipe open, no process unwaited and no gate
  taken.
\<close>

lemma wp_runCmd [simp]: "wp (runCmd w args) Q h = Q (clRun w h args) (h @ [Ran args])"
  by (simp add: runCmd_def)

lemma wp_emitCli [simp]: "wp (emitCli ev) Q h = Q () (h @ [ev])"
  by (simp add: emitCli_def)

lemma wp_nowCli [simp]: "wp (nowCli w) Q h = Q (clNow w h) h"
  by (simp add: nowCli_def)

lemma wp_sleepCli [simp]: "wp (sleepCli w d) Q h = Q (clSleep w h) (h @ [Slept d])"
  by (simp add: sleepCli_def)

lemma wp_get [simp]: "wp State_Monad.get Q h = Q h h"
  by (simp add: State_Monad.get_def)

section \<open>Waiting for a lease\<close>

text \<open>The clock never runs back, and a sleep that is not cut short lasts.\<close>

definition steadyClock :: "cli_world \<Rightarrow> bool" where
  "steadyClock w \<longleftrightarrow> (\<forall>h ev. clNow w h \<le> clNow w (h @ [ev])) \<and>
     (\<forall>h d. clSleep w h = None \<longrightarrow> clNow w h + d \<le> clNow w (h @ [Slept d]))"

lemma staleRmLoop_ends:
  assumes "steadyClock w" "deadline \<le> clNow w h + int n * staleSnapshotRmDelay"
  shows "wp (staleRmLoop w (Suc n) deadline ref) (\<lambda>r t. r \<noteq> None) h"
  using assms(2)
proof (induction n arbitrary: h)
  case 0
  moreover have "clNow w h \<le> clNow w (h @ [Ran [''snapshot'', ''rm'', ref]])" using assms(1) by (simp add: steadyClock_def)
  ultimately show ?case by (auto simp: wp_simps Let_def split: option.splits)
next
  case (Suc n)
  let ?h = "h @ [Ran [''snapshot'', ''rm'', ref]]"
  have "clNow w h \<le> clNow w ?h"
    "clSleep w ?h = None \<Longrightarrow> clNow w ?h + staleSnapshotRmDelay \<le> clNow w (?h @ [Slept staleSnapshotRmDelay])"
    using assms(1) unfolding steadyClock_def by blast+
  then have "wp (staleRmLoop w (Suc n) deadline ref) (\<lambda>r t. r \<noteq> None) (?h @ [Slept staleSnapshotRmDelay])"
    if "clSleep w ?h = None" using that Suc.prems by (intro Suc.IH) (simp add: algebra_simps)
  then show ?case
    by (subst staleRmLoop.simps) (auto simp: wp_simps Let_def simp del: staleRmLoop.simps split: option.splits)
qed

lemma staleRmLoop_fuel:
  assumes "steadyClock w" "deadline \<le> clNow w h + int n * staleSnapshotRmDelay" "Suc n \<le> fuel"
  shows "wp (staleRmLoop w fuel deadline ref) (\<lambda>r t. r \<noteq> None) h"
proof -
  obtain m where "fuel = Suc m" "n \<le> m" using assms(3) by (cases fuel) auto
  moreover have "int n * staleSnapshotRmDelay \<le> int m * staleSnapshotRmDelay"
    using \<open>n \<le> m\<close> by (simp add: staleSnapshotRmDelay_def)
  ultimately show ?thesis using staleRmLoop_ends [OF assms(1), of deadline h m ref] assms(2) by simp
qed

lemma removeStaleSnapshot_ends:
  "steadyClock w \<Longrightarrow> 61 \<le> fuel \<Longrightarrow> wp (removeStaleSnapshot w fuel ref) (\<lambda>r t. r \<noteq> None) h"
  using staleRmLoop_fuel [of w "clNow w h + staleSnapshotRmBudget" h 60 fuel ref]
  by (simp add: removeStaleSnapshot_def staleSnapshotRmBudget_def staleSnapshotRmDelay_def)

section \<open>Saving a snapshot\<close>

text \<open>The commands run since an earlier point.\<close>

definition ranSince :: "cli_event list \<Rightarrow> cli_event list \<Rightarrow> (string list \<Rightarrow> bool) \<Rightarrow> bool" where
  "ranSince h t P \<longleftrightarrow> (\<exists>evs. t = h @ evs \<and> (\<forall>args. Ran args \<in> set evs \<longrightarrow> P args))"

lemma ranSince_refl [simp]: "ranSince h h P"
  by (simp add: ranSince_def)

lemma ranSince_step: "ranSince h t P \<Longrightarrow> (\<forall>args. ev = Ran args \<longrightarrow> P args) \<Longrightarrow> ranSince h (t @ [ev]) P"
  by (auto simp: ranSince_def)

lemma ranSince_trans: "ranSince h t P \<Longrightarrow> ranSince t u P \<Longrightarrow> ranSince h u P"
  by (auto simp: ranSince_def)

lemma staleRmLoop_ran:
  "ranSince h0 h P \<Longrightarrow> P [''snapshot'', ''rm'', ref] \<Longrightarrow> wp (staleRmLoop w n deadline ref) (\<lambda>r t. ranSince h0 t P) h"
proof (induction n arbitrary: h)
  case (Suc n)
  let ?h = "h @ [Ran [''snapshot'', ''rm'', ref]]"
  have r: "ranSince h0 ?h P" using Suc.prems by (auto intro: ranSince_step)
  have "ranSince h0 (?h @ [Slept staleSnapshotRmDelay]) P" by (rule ranSince_step [OF r]) simp
  with r Suc.IH [of "?h @ [Slept staleSnapshotRmDelay]"] Suc.prems(2) show ?case
    by (auto simp: wp_simps Let_def split: option.splits)
qed simp

text \<open>The last thing that ran, and its answer.\<close>

definition lastRan :: "cli_world \<Rightarrow> string list \<Rightarrow> cli_event list \<Rightarrow> bool" where
  "lastRan w args t \<longleftrightarrow> (\<exists>pre. t = pre @ [Ran args] \<and> prFail (clRun w pre args) = None)"

lemma lastRan_here: "prFail (clRun w h args) = None \<Longrightarrow> lastRan w args (h @ [Ran args])"
  by (auto simp: lastRan_def)

text \<open>The snapshot that holds the name, as the answer to the first save names it.\<close>

definition nameHolder :: "cli_world \<Rightarrow> cli_event list \<Rightarrow> string \<Rightarrow> string \<Rightarrow> string" where
  "nameHolder w h vmName vmID =
     orStr (snapshotNameHolderID (prCombined (clRun w h (saveArgs vmName vmID)))) vmName"

lemma SnapshotSave_ran:
  assumes "\<And>args. args = saveArgs vmName vmID \<or>
      args = [''snapshot'', ''rm'', nameHolder w h vmName vmID] \<and>
      containsAny (prCombined (clRun w h (saveArgs vmName vmID))) snapshotNameTaken \<Longrightarrow> P args"
  shows "wp (SnapshotSave w fuel vmName vmID)
    (\<lambda>r t. ranSince h t P \<and> (r = Some None \<longrightarrow> lastRan w (saveArgs vmName vmID) t)) h"
proof -
  let ?s = "saveArgs vmName vmID" let ?h = "h @ [Ran (saveArgs vmName vmID)]"
  have s: "ranSince h (t @ [Ran ?s]) P" if "ranSince h t P" for t using that assms by (auto intro: ranSince_step)
  note r = s [OF ranSince_refl]
  have "wp (removeStaleSnapshot w fuel (nameHolder w h vmName vmID)) (\<lambda>r t. ranSince h t P) ?h"
    if "containsAny (prCombined (clRun w h ?s)) snapshotNameTaken"
    using staleRmLoop_ran [OF r, of "nameHolder w h vmName vmID"] assms that by (simp add: removeStaleSnapshot_def)
  then have "wp (removeStaleSnapshot w fuel (nameHolder w h vmName vmID))
      (\<lambda>rm t. ranSince h t P \<and> ranSince h (t @ [Ran ?s]) P) ?h"
    if "containsAny (prCombined (clRun w h ?s)) snapshotNameTaken"
    using that s by (auto elim!: wp_mono)
  then show ?thesis
    unfolding SnapshotSave_def nameHolder_def
    using r by (auto simp: wp_simps Let_def lastRan_here elim!: wp_mono split: option.splits)
qed

text \<open>C16: A snapshot save that succeeds ended with a save the binary answered without an error; the only other
  commands it ran remove the snapshot that held the name, and only after the binary said the name is
  taken.\<close>

theorem snapshot_save_safe:
  assumes "run_state (SnapshotSave w fuel vmName vmID) h = (r, t)"
  shows "(r = Some None \<longrightarrow> lastRan w (saveArgs vmName vmID) t) \<and>
    ranSince h t (\<lambda>args. args = saveArgs vmName vmID \<or>
      args = [''snapshot'', ''rm'', nameHolder w h vmName vmID] \<and>
      containsAny (prCombined (clRun w h (saveArgs vmName vmID))) snapshotNameTaken)"
  using wp_runD [OF SnapshotSave_ran [of vmName vmID w h "\<lambda>args. args = saveArgs vmName vmID \<or>
      args = [''snapshot'', ''rm'', nameHolder w h vmName vmID] \<and>
      containsAny (prCombined (clRun w h (saveArgs vmName vmID))) snapshotNameTaken" fuel] assms] by blast

text \<open>A save returns: with a clock that advances with every sleep the wait for the lease of a killed save ends
  within 61 rounds.\<close>

theorem snapshot_save_ends:
  assumes "steadyClock w" "61 \<le> fuel"
  shows "fst (run_state (SnapshotSave w fuel vmName vmID) h) \<noteq> None"
proof -
  have "wp (SnapshotSave w fuel vmName vmID) (\<lambda>r t. r \<noteq> None) h"
    unfolding SnapshotSave_def Let_def
    by (auto simp: wp_simps intro!: wp_mono [OF removeStaleSnapshot_ends [OF assms]] split: option.splits)
  from wp_run [OF this] show ?thesis .
qed

section \<open>Evidence that a VM is gone\<close>

text \<open>What the operating system and the decoders report carries none of the runtime's sentinels.\<close>

definition bareErrors :: "cli_world \<Rightarrow> bool" where
  "bareErrors w \<longleftrightarrow> (\<forall>h args x. prFail (clRun w h args) = Some x \<longrightarrow> errKinds x = []) \<and>
     (\<forall>s x. clInspectJSON w s = Inl x \<longrightarrow> errKinds x = [])"

text \<open>Inspecting a VM says it is gone exactly when the binary failed and its error text has one of the phrases
  for a missing VM; any other failure stays inconclusive.\<close>

theorem inspect_not_found:
  assumes "bareErrors w" "run_state (Inspect w vmID) h = (Inl x, t)"
  shows "errIs x ErrVMNotFound \<longleftrightarrow>
    (\<exists>y. prFail (clRun w h [''vm'', ''inspect'', vmID]) = Some y \<and>
      containsAny (errMsg y @ '' (stderr: '' @ trimSpace (prErrOut (clRun w h [''vm'', ''inspect'', vmID])) @ '')'')
        [''vm not found'', ''no such vm''])"
proof -
  have "wp (Inspect w vmID) (\<lambda>r t. r = Inl x) h" using assms(2) by (simp add: wp_def)
  then show ?thesis
    using assms(1)
    by (auto simp: Inspect_def runJSON_def wp_simps bareErrors_def parseInspectJSON_def isCocoonNotFound_def
      errContainsAny_def errIs_def wrapErr_def split: option.splits sum.splits if_splits)
qed

section \<open>The exec command line\<close>

text \<open>The arguments of an exec do not depend on the order in which the environment's map is iterated.\<close>

theorem exec_args_deterministic:
  assumes "distinct (map fst env)" "set env' = set env" "distinct env'"
  shows "buildExecArgs vmID argv env' interactive = buildExecArgs vmID argv env interactive"
proof -
  have "distinct env" using assms(1) by (simp add: distinct_map)
  then have "mset env' = mset env" using assms(2,3) set_eq_iff_mset_eq_distinct by blast
  moreover have "inj_on fst (set env)" using assms(1) by (simp add: distinct_map)
  ultimately have "sort_key fst env' = sort_key fst env"
    using assms(2) by (intro sort_key_inj_key_eq) simp_all
  then show ?thesis by (simp add: buildExecArgs_def)
qed

section \<open>Nothing is left open\<close>

text \<open>The pipes still open, the processes not yet waited for and the gates taken.\<close>

definition openPipes :: "cli_event list \<Rightarrow> string list \<Rightarrow> int" where
  "openPipes h a = int (count_list h (PipeOpened a)) - int (count_list h (PipeClosed a))"

definition unwaited :: "cli_event list \<Rightarrow> string list \<Rightarrow> int" where
  "unwaited h a = int (count_list h (Started a)) - int (count_list h (Waited a))"

definition gatesTaken :: "cli_event list \<Rightarrow> string \<Rightarrow> int" where
  "gatesTaken h g = int (count_list h (GateTaken g)) - int (count_list h (GateFreed g))"

definition samePending :: "cli_event list \<Rightarrow> cli_event list \<Rightarrow> bool" where
  "samePending h t \<longleftrightarrow> openPipes t = openPipes h \<and> unwaited t = unwaited h \<and> gatesTaken t = gatesTaken h"

lemmas pending_defs = samePending_def openPipes_def unwaited_def gatesTaken_def fun_eq_iff

lemmas pipe_defs = startCmdPipe_def cocoonWait_def closePipe_def finishImport_def

lemma samePending_refl [simp]: "samePending h h"
  by (simp add: samePending_def)

lemma samePending_ran [simp]: "samePending h (t @ [Ran args]) \<longleftrightarrow> samePending h t"
  by (simp add: pending_defs)

text \<open>A started import is closed and waited for whatever its stream and its close answer.\<close>

lemma import_pending:
  "samePending h0 h \<Longrightarrow>
   wp (startCmdPipe w args op) (case_sum (\<lambda>x. samePending h0) (\<lambda>p. wp (finishImport t w p e opn) (\<lambda>r. samePending h0))) h"
  by (auto simp: pipe_defs wp_simps pending_defs split: option.splits)

lemma imports_pending:
  assumes "samePending h0 h"
  shows "wp (importSnapshot t w cfg raw name localName description) (\<lambda>r. samePending h0) h"
    "wp (EnsureCloudImageFromRaw t w name localName raw force) (\<lambda>r. samePending h0) h"
  using assms
  unfolding importSnapshot_def SnapshotImport_def SnapshotRemoveIfExists_def EnsureCloudImageFromRaw_def ImageImport_def Image_def
  by (auto simp: wp_simps Let_def intro!: import_pending split: option.splits)

lemma gate_round:
  assumes "samePending (h @ [GateTaken g]) t"
  shows "samePending h (t @ [GateFreed g])"
proof -
  have "gatesTaken (t @ [GateFreed g]) x = gatesTaken h x" for x
  proof -
    have "gatesTaken t x = gatesTaken (h @ [GateTaken g]) x" using assms by (simp add: samePending_def)
    then show ?thesis by (cases "x = g") (simp_all add: gatesTaken_def)
  qed
  then have "gatesTaken (t @ [GateFreed g]) = gatesTaken h" by blast
  moreover have "openPipes (t @ [GateFreed g]) = openPipes h" "unwaited (t @ [GateFreed g]) = unwaited h"
    using assms by (auto simp: pending_defs)
  ultimately show ?thesis by (simp add: samePending_def)
qed

lemma gate_pending:
  assumes "\<And>h. wp m (\<lambda>r. samePending h) h"
  shows "wp (withGate t gate m) (\<lambda>r. samePending h) h"
  unfolding withGate_def
  by (auto simp: wp_simps gate_round intro!: wp_mono [OF assms] split: option.splits)

text \<open>The event stream: its pipe is closed and its process waited for, and every event it sends names its VM.\<close>

lemma watch_settles: "samePending h (snd (run_state (WatchEvents w decode lines) h))"
proof -
  have "wp (WatchEvents w decode lines) (\<lambda>_. samePending h) h"
    by (auto simp: WatchEvents_def emitCli_def wp_simps pending_defs split: option.split)
  from wp_run [OF this] show ?thesis .
qed

lemma events_named: "(kind, v) \<in> set (eventsOf decode lines) \<Longrightarrow> vID v \<noteq> [] \<or> vName v \<noteq> []"
  by (induction lines) (auto simp: Let_def split: if_splits option.splits prod.splits)


definition importedBy :: "transfer_world \<Rightarrow> cli_world \<Rightarrow> transfer_config \<Rightarrow> string \<Rightarrow> string \<Rightarrow> cli_event list \<Rightarrow> bool" where
  "importedBy t w cfg raw name h \<longleftrightarrow>
     twStream t raw name (tcConcurrency cfg) (orInt (tcPullBudgetMiB cfg) defaultPullBudgetMiB) = None \<and>
     (\<exists>pre args post. h = pre @ Waited args # post \<and> clWait w pre = None)"

lemma importedBy_step: "importedBy t w cfg raw name h \<Longrightarrow> importedBy t w cfg raw name (h @ [ev])"
  unfolding importedBy_def by (metis append.assoc append_Cons)

lemma importedBy_wait:
  "twStream t raw name (tcConcurrency cfg) (orInt (tcPullBudgetMiB cfg) defaultPullBudgetMiB) = None \<Longrightarrow>
   clWait w h = None \<Longrightarrow> importedBy t w cfg raw name (h @ [Waited args])"
  unfolding importedBy_def by blast

lemma finishImport_imports:
  "wp (finishImport t w p (twStream t raw name (tcConcurrency cfg) (orInt (tcPullBudgetMiB cfg) defaultPullBudgetMiB)) op)
     (\<lambda>r h. r = None \<longrightarrow> importedBy t w cfg raw name h) h"
  by (auto simp: finishImport_def closePipe_def cocoonWait_def wp_simps importedBy_wait [where h = "h @ [PipeClosed (cpArgs p)]", simplified]
    split: option.splits)

lemma importSnapshot_imports:
  "wp (importSnapshot t w cfg raw name localName description) (\<lambda>r h. r = None \<longrightarrow> importedBy t w cfg raw name h) h"
  unfolding importSnapshot_def
  by (auto simp: wp_simps finishImport_imports intro!: wp_mono [OF wp_True] split: sum.splits)

text \<open>A pull reports success only when the stream ended without an error and the import process exited
  cleanly.\<close>

theorem pull_succeeds_only_imported:
  assumes "run_state (PullSnapshot t w cfg name tag localName description) h = (None, h')"
  shows "\<exists>raw pre args post. twGetManifest t name tag = Inr raw \<and>
    twStream t raw name (tcConcurrency cfg) (orInt (tcPullBudgetMiB cfg) defaultPullBudgetMiB) = None \<and>
    h' = pre @ Waited args # post \<and> clWait w pre = None"
proof (cases "twGetManifest t name tag")
  case (Inr raw)
  let ?Q = "\<lambda>r h'. r = None \<longrightarrow> importedBy t w cfg raw name h'"
  have i: "wp (importSnapshot t w cfg raw name (orStr localName name) description) ?Q h" for h
    by (rule importSnapshot_imports)
  then have "wp (withGate t ''pull'' (importSnapshot t w cfg raw name (orStr localName name) description)) ?Q h"
    unfolding withGate_def by (auto simp: wp_simps importedBy_step intro!: wp_mono [OF i] split: option.splits)
  with i [of h] have "wp (PullSnapshot t w cfg name tag localName description) ?Q h"
    using Inr by (simp add: PullSnapshot_def Let_def)
  from wp_runD [OF this assms] Inr show ?thesis by (auto simp: importedBy_def)
next
  case (Inl x)
  with assms show ?thesis by (simp add: PullSnapshot_def)
qed

section \<open>Examples\<close>

definition exProc :: proc_result where
  "exProc = \<lparr>prOut = [], prErrOut = [], prCombined = [], prFail = None, prExit = None\<rparr>"

text \<open>The first save finds its name held by another snapshot; everything after succeeds.\<close>

definition exCli :: cli_world where
  "exCli = \<lparr>clRun = (\<lambda>h args. if h = [] then exProc\<lparr>prFail := Some (newErr ''exit status 1''), prErrOut := ''vm not found'',
       prCombined := ''name already in use by s7''\<rparr> else exProc),
     clNow = (\<lambda>h. sum_list (map (\<lambda>ev. case ev of Slept d \<Rightarrow> max d 0 | _ \<Rightarrow> 0) h)), clSleep = (\<lambda>_. None), clPipe = (\<lambda>_. None),
     clStart = (\<lambda>_. None), clWait = (\<lambda>_. None), clInspectJSON = (\<lambda>_. Inl (newErr [])), clVMListJSON = (\<lambda>_. Inl (newErr [])),
     clSnapshotJSON = (\<lambda>_. Inl (newErr [])), clSnapshotListJSON = (\<lambda>_. Inl (newErr [])), clOutcomeJSON = (\<lambda>_. Inl (newErr [])),
     clQuantity = (\<lambda>_. None)\<rparr>"

definition exTransfer :: transfer_world where
  "exTransfer = \<lparr>twGetManifest = (\<lambda>_ _. Inr []), twParse = (\<lambda>_. Inr ([], [])), twArtifactTypeSnapshotV2 = [],
     twMediaTypeOCIIndex = [], twMediaTypeDockerIndex = [], twDefaultSnapshotTag = ''latest'', twGate = (\<lambda>_. None),
     twStream = (\<lambda>_ _ _ _. None), twCloudStream = (\<lambda>_ _. None), twClose = (\<lambda>_. None), twPush = (\<lambda>_. None)\<rparr>"

lemma exCli_clock: "steadyClock exCli"
  by (auto simp: steadyClock_def exCli_def split: cli_event.split)

lemma exCli_bare: "bareErrors exCli"
  by (auto simp: bareErrors_def exCli_def exProc_def newErr_def)

theorem snapshot_save_ends_witness: "fst (run_state (SnapshotSave exCli 61 ''vm'' ''i'') []) \<noteq> None"
  by (rule snapshot_save_ends [OF exCli_clock]) simp

theorem snapshot_save_safe_witness:
  "lastRan exCli (saveArgs ''vm'' ''i'') (snd (run_state (SnapshotSave exCli 61 ''vm'' ''i'') []))"
proof -
  have "fst (run_state (SnapshotSave exCli 61 ''vm'' ''i'') []) = Some None" by code_simp
  with snapshot_save_safe [OF prod.collapse [symmetric], of exCli 61 "''vm''" "''i''" "[]"] show ?thesis by simp
qed

theorem inspect_not_found_witness: "\<exists>x t. run_state (Inspect exCli ''i'') [] = (Inl x, t) \<and> errIs x ErrVMNotFound"
proof -
  obtain x t where r: "run_state (Inspect exCli ''i'') [] = (Inl x, t)"
    by (auto simp: Inspect_def runJSON_def runCmd_def exCli_def exProc_def State_Monad.bind_def)
  have "containsAny (''exit status 1'' @ '' (stderr: '' @ trimSpace ''vm not found'' @ '')'') [''vm not found'', ''no such vm'']"
    by code_simp
  with inspect_not_found [OF exCli_bare r] r show ?thesis by (simp add: exCli_def exProc_def newErr_def)
qed

theorem exec_args_deterministic_witness:
  "buildExecArgs ''i'' [''ls''] [(''B'', ''2''), (''A'', ''1'')] False = buildExecArgs ''i'' [''ls''] [(''A'', ''1''), (''B'', ''2'')] False"
  by (rule exec_args_deterministic) auto

theorem pull_succeeds_only_imported_witness:
  "\<exists>pre args post. snd (run_state (PullSnapshot exTransfer exCli (TransferConfigFromEnv (\<lambda>_. 0)) ''r'' ''t'' [] []) [Slept 0]) =
     pre @ Waited args # post \<and> clWait exCli pre = None"
proof -
  have "fst (run_state (PullSnapshot exTransfer exCli (TransferConfigFromEnv (\<lambda>_. 0)) ''r'' ''t'' [] []) [Slept 0]) = None"
    by code_simp
  then show ?thesis
    using pull_succeeds_only_imported [of exTransfer exCli "TransferConfigFromEnv (\<lambda>_. 0)" "''r''" "''t''" "[]" "[]" "[Slept 0]"]
    by (metis prod.collapse)
qed

end
