(* ===== verification/Network.thy ===== *)
theory Network
  imports VM_Runtime
begin

text \<open>
  Addresses of guests (\<open>src/network/\<close>): the cached reader of cocoon-net's lease file, the release of a lease
  over the control socket, and the ICMP probe. The file system's, the socket's and the clock's answers are
  arguments, and so are the JSON decoder of the lease file and the parser of its timestamps.
\<close>

section \<open>Leases\<close>

definition DefaultLeasesPath :: string where "DefaultLeasesPath = ''/var/lib/cocoon/net/leases.json''"

record lease =
  lsMAC :: string
  lsIP :: string
  lsExpiresAt :: int

record cocoon_net_lease =
  cnMAC :: string
  cnIP :: string
  cnExpiry :: string

record lease_parser =
  lpPath :: string
  lpMtime :: int
  lpSize :: int
  lpByMAC :: "(string \<Rightarrow> lease option) option"

definition NewLeaseParser :: "string \<Rightarrow> lease_parser" where
  "NewLeaseParser path = \<lparr>lpPath = orStr path DefaultLeasesPath, lpMtime = 0, lpSize = 0, lpByMAC = None\<rparr>"

text \<open>One state of the lease file.\<close>

record lease_file =
  lfMtime :: int
  lfSize :: int
  lfRows :: "err + cocoon_net_lease list"

text \<open>\<open>parse\<close>: rows whose expiry does not parse are skipped.\<close>

definition parseRows :: "(string \<Rightarrow> int option) \<Rightarrow> cocoon_net_lease list \<Rightarrow> lease list" where
  "parseRows parseTime raw =
     List.map_filter (\<lambda>r. map_option (\<lambda>t. \<lparr>lsMAC = cnMAC r, lsIP = cnIP r, lsExpiresAt = t\<rparr>) (parseTime (cnExpiry r))) raw"

definition parseLeases :: "(string \<Rightarrow> int option) \<Rightarrow> string \<Rightarrow> err + lease_file \<Rightarrow> err + lease list" where
  "parseLeases parseTime path data =
     (case data of
        Inl x \<Rightarrow> Inl (wrapErr (''read lease file '' @ path @ '': '') x [])
      | Inr f \<Rightarrow>
          (case lfRows f of
             Inl x \<Rightarrow> Inl (wrapErr (''decode leases '' @ path @ '': '') x [])
           | Inr raw \<Rightarrow> Inr (parseRows parseTime raw)))"

definition indexByMAC :: "lease list \<Rightarrow> string \<Rightarrow> lease option" where
  "indexByMAC leases = foldl (\<lambda>m l. m(toLower (lsMAC l) \<mapsto> l)) (\<lambda>_. None) leases"

text \<open>\<open>refresh\<close>: the file as \<open>os.Stat\<close> sees it and as \<open>os.ReadFile\<close> sees it, a moment later.\<close>

definition refresh ::
  "(string \<Rightarrow> int option) \<Rightarrow> (err + lease_file) \<Rightarrow> (err + lease_file) \<Rightarrow> lease_parser \<Rightarrow> err option \<times> lease_parser" where
  "refresh parseTime stat data p =
     (case stat of
        Inl x \<Rightarrow> (Some (wrapErr (''stat lease file '' @ lpPath p @ '': '') x []), p)
      | Inr info \<Rightarrow>
          if lpByMAC p \<noteq> None \<and> lfMtime info = lpMtime p \<and> lfSize info = lpSize p then (None, p)
          else (case parseLeases parseTime (lpPath p) data of
              Inl x \<Rightarrow> (Some x, p)
            | Inr leases \<Rightarrow>
                (None, p\<lparr>lpByMAC := Some (indexByMAC leases), lpMtime := lfMtime info, lpSize := lfSize info\<rparr>)))"

definition noLease :: err where
  "noLease = Err [ErrNoLease] ''no cocoon-net lease for the requested MAC''"

definition LookupByMAC ::
  "(string \<Rightarrow> int option) \<Rightarrow> (err + lease_file) \<Rightarrow> (err + lease_file) \<Rightarrow> int \<Rightarrow> string \<Rightarrow> lease_parser \<Rightarrow> (err + lease) \<times> lease_parser" where
  "LookupByMAC parseTime stat data now mac p =
     (case refresh parseTime stat data p of
        (Some x, p) \<Rightarrow> (Inl x, p)
      | (None, p) \<Rightarrow>
          (case lpByMAC p of
             None \<Rightarrow> (Inl noLease, p)
           | Some m \<Rightarrow>
               (case m (toLower mac) of
                  Some l \<Rightarrow> if now < lsExpiresAt l then (Inr l, p)
                    else (Inl noLease, p)
                | None \<Rightarrow> (Inl noLease, p))))"

section \<open>Hardware addresses\<close>

text \<open>\<open>net.ParseMAC\<close> and \<open>HardwareAddr.String\<close>.\<close>

definition hexVal :: "char \<Rightarrow> nat option" where
  "hexVal c =
     (let n = of_char c :: nat in
      if 48 \<le> n \<and> n \<le> 57 then Some (n - 48)
      else if 97 \<le> n \<and> n \<le> 102 then Some (n - 87)
      else if 65 \<le> n \<and> n \<le> 70 then Some (n - 55) else None)"

text \<open>\<open>xtoi2\<close>: two hexadecimal digits, followed by the separator when anything follows.\<close>

definition xtoi2 :: "string \<Rightarrow> char \<Rightarrow> nat option" where
  "xtoi2 s sep =
     (if length s > 2 \<and> s ! 2 \<noteq> sep then None
      else (case s of
          a # b # _ \<Rightarrow> (case (hexVal a, hexVal b) of (Some x, Some y) \<Rightarrow> Some (16 * x + y) | _ \<Rightarrow> None)
        | _ \<Rightarrow> None))"

fun macOctets :: "nat \<Rightarrow> string \<Rightarrow> char \<Rightarrow> nat list option" where
  "macOctets 0 s sep = Some []"
| "macOctets (Suc n) s sep =
     (case xtoi2 s sep of
        None \<Rightarrow> None
      | Some b \<Rightarrow> map_option (\<lambda>bs. b # bs) (macOctets n (drop 3 s) sep))"

fun macWords :: "nat \<Rightarrow> string \<Rightarrow> char \<Rightarrow> nat list option" where
  "macWords 0 s sep = Some []"
| "macWords (Suc n) s sep =
     (case (xtoi2 (take 2 s) (CHR 0x00), xtoi2 (drop 2 s) sep) of
        (Some a, Some b) \<Rightarrow> map_option (\<lambda>bs. a # b # bs) (macWords n (drop 5 s) sep)
      | _ \<Rightarrow> None)"

definition ParseMAC :: "string \<Rightarrow> nat list option" where
  "ParseMAC s =
     (if length s < 14 then None
      else if s ! 2 = CHR '':'' \<or> s ! 2 = CHR ''-''
      then (let n = (length s + 1) div 3 in
            if (length s + 1) mod 3 \<noteq> 0 \<or> n \<notin> {6, 8, 20} then None else macOctets n s (s ! 2))
      else if s ! 4 = CHR ''.''
      then (let n = 2 * (length s + 1) div 5 in
            if (length s + 1) mod 5 \<noteq> 0 \<or> n \<notin> {6, 8, 20} then None else macWords (n div 2) s (s ! 4))
      else None)"

definition hexByte :: "nat \<Rightarrow> string" where
  "hexByte b = [hexDigit (b div 16), hexDigit (b mod 16)]"

definition macString :: "nat list \<Rightarrow> string" where
  "macString hw = joinStr (map hexByte hw) '':''"

section \<open>Releasing a lease\<close>

record http_answer =
  haCode :: nat
  haStatus :: string
  haBody :: string

text \<open>The two rounds of \<open>ReleaseByMAC\<close>; \<open>ask\<close> is the control socket's answer to each request. The requests
  are returned with the result.\<close>

definition releaseErr :: "string \<Rightarrow> http_answer \<Rightarrow> err" where
  "releaseErr mac a =
     newErr (''release lease for '' @ mac @ '': cocoon-net returned '' @ haStatus a @ '': '' @ trimSpace (haBody a))"

definition ReleaseByMAC :: "(nat \<Rightarrow> string \<Rightarrow> err + http_answer) \<Rightarrow> string \<Rightarrow> err option \<times> string list" where
  "ReleaseByMAC ask rawMAC =
     (case ParseMAC rawMAC of
        None \<Rightarrow> (Some (newErr (''parse MAC '' @ quoteStr rawMAC @ '': address '' @ rawMAC @ '': invalid MAC address'')), [])
      | Some hw \<Rightarrow>
          (let mac = macString hw; url = ''http://cocoon-net/v1/leases/'' @ mac in
           case ask 0 url of
             Inl x \<Rightarrow> (Some (wrapErr (''release lease for '' @ mac @ '': '') x []), [url])
           | Inr a \<Rightarrow>
               if haCode a = 204 then (None, [url])
               else if haCode a \<noteq> 500 then (Some (releaseErr mac a), [url])
               else (case ask 1 url of
                   Inl x \<Rightarrow> (Some (wrapErr (''release lease for '' @ mac @ '': '') x []), [url, url])
                 | Inr b \<Rightarrow> if haCode b = 204 then (None, [url, url]) else (Some (releaseErr mac b), [url, url]))))"

section \<open>Ping\<close>

text \<open>What the socket returns: an error, or a packet with the sender and, when it parses as an echo reply, the
  identifier it carries.\<close>

datatype 'ip icmp_read = ReadErr err | Packet "'ip option" "int option"

fun pingLoop :: "int \<Rightarrow> 'ip \<Rightarrow> err option \<Rightarrow> 'ip icmp_read list \<Rightarrow> err option option" where
  "pingLoop ident addr ctxErr [] = None"
| "pingLoop ident addr ctxErr (ReadErr x # rest) =
     Some (Some (case ctxErr of Some c \<Rightarrow> c | None \<Rightarrow> wrapErr ''read icmp reply: '' x []))"
| "pingLoop ident addr ctxErr (Packet peer echo # rest) =
     (if echo \<noteq> Some ident then pingLoop ident addr ctxErr rest
      else if peer \<noteq> None \<and> peer \<noteq> Some addr then pingLoop ident addr ctxErr rest
      else Some None)"

record 'ip ping_world =
  pgParseIP :: "string \<Rightarrow> 'ip option"
  pgListenErr :: "err option"
  pgMarshalErr :: "err option"
  pgDeadline :: bool
  pgSetDeadlineErr :: "err option"
  pgSendErr :: "err option"
  pgCtxErr :: "err option"
  pgReads :: "'ip icmp_read list"

definition Ping :: "'ip ping_world \<Rightarrow> int \<Rightarrow> string \<Rightarrow> err option option" where
  "Ping w ident ip =
     (case pgParseIP w ip of
        None \<Rightarrow> Some (Some (newErr (''invalid ip '' @ quoteStr ip)))
      | Some addr \<Rightarrow>
          (case pgListenErr w of
             Some x \<Rightarrow> Some (Some (wrapErr ''open icmp socket: '' x []))
           | None \<Rightarrow>
               (case pgMarshalErr w of
                  Some x \<Rightarrow> Some (Some (wrapErr ''marshal icmp echo: '' x []))
                | None \<Rightarrow>
                    if \<not> pgDeadline w then Some (Some (newErr ''icmp ping requires context deadline''))
                    else (case pgSetDeadlineErr w of
                        Some x \<Rightarrow> Some (Some (wrapErr ''set read deadline: '' x []))
                      | None \<Rightarrow>
                          (case pgSendErr w of
                             Some x \<Rightarrow> Some (Some (wrapErr (''send icmp echo to '' @ ip @ '': '') x []))
                           | None \<Rightarrow> pingLoop ident addr (pgCtxErr w) (pgReads w))))))"

end
