(* ===== verification/Network_Props.thy ===== *)
theory Network_Props
  imports Network
begin

text \<open>
  What the lease reader, the release of a lease and the probe promise: a cached lookup answers for a state the
  lease file was in during the call, addresses survive their canonical form, a release asks at most twice
  for the canonical address, and a probe succeeds only on a matching reply.
\<close>

section \<open>The cache of leases\<close>

lemma indexByMAC_find: "indexByMAC ls k = find (\<lambda>l. toLower (lsMAC l) = k) (rev ls)"
  by (induction ls rule: rev_induct) (auto simp: indexByMAC_def)

text \<open>What a state of the lease file says of an address: the last row for it, unless that has expired.\<close>

definition leaseOf :: "(string \<Rightarrow> int option) \<Rightarrow> lease_file \<Rightarrow> int \<Rightarrow> string \<Rightarrow> lease option" where
  "leaseOf parseTime f now mac =
     (case lfRows f of
        Inl x \<Rightarrow> None
      | Inr raw \<Rightarrow>
          (case find (\<lambda>l. toLower (lsMAC l) = toLower mac) (rev (parseRows parseTime raw)) of
             None \<Rightarrow> None
           | Some l \<Rightarrow> if now < lsExpiresAt l then Some l else None))"

text \<open>The file goes through states \<open>vs 0\<close>, \<open>vs 1\<close>, ... and no two of them share both modification time and size.\<close>

definition distinctStates :: "(nat \<Rightarrow> lease_file) \<Rightarrow> bool" where
  "distinctStates vs \<longleftrightarrow> (\<forall>a b. lfMtime (vs a) = lfMtime (vs b) \<and> lfSize (vs a) = lfSize (vs b) \<longrightarrow> a = b)"

text \<open>The cache was filled no later than state \<open>k\<close>, from a state no older than the one it is labelled with.\<close>

definition coherent :: "(string \<Rightarrow> int option) \<Rightarrow> (nat \<Rightarrow> lease_file) \<Rightarrow> nat \<Rightarrow> lease_parser \<Rightarrow> bool" where
  "coherent parseTime vs k p \<longleftrightarrow>
     (case lpByMAC p of
        None \<Rightarrow> True
      | Some m \<Rightarrow> (\<exists>a b raw. a \<le> b \<and> b \<le> k \<and> lpMtime p = lfMtime (vs a) \<and> lpSize p = lfSize (vs a) \<and>
          lfRows (vs b) = Inr raw \<and> m = indexByMAC (parseRows parseTime raw)))"

lemma coherent_new: "coherent parseTime vs k (NewLeaseParser path)"
  by (simp add: coherent_def NewLeaseParser_def)

lemma coherent_mono: "coherent parseTime vs k p \<Longrightarrow> k \<le> k' \<Longrightarrow> coherent parseTime vs k' p"
  unfolding coherent_def by (auto split: option.splits) (use order_trans in blast)

text \<open>A refresh that succeeds leaves an index of a state the file was in between the two system calls.\<close>

lemma refresh_current:
  assumes "distinctStates vs" "coherent parseTime vs k p" "k \<le> s" "s \<le> r"
    "refresh parseTime (Inr (vs s)) (Inr (vs r)) p = (None, p')"
  shows "coherent parseTime vs r p' \<and>
    (\<exists>v raw. s \<le> v \<and> v \<le> r \<and> lfRows (vs v) = Inr raw \<and> lpByMAC p' = Some (indexByMAC (parseRows parseTime raw)))"
proof (cases "lpByMAC p \<noteq> None \<and> lfMtime (vs s) = lpMtime p \<and> lfSize (vs s) = lpSize p")
  case True
  then obtain m where m: "lpByMAC p = Some m" by blast
  with assms(2) obtain a b raw where c: "a \<le> b" "b \<le> k" "lpMtime p = lfMtime (vs a)" "lpSize p = lfSize (vs a)"
    "lfRows (vs b) = Inr raw" "m = indexByMAC (parseRows parseTime raw)" by (auto simp: coherent_def)
  then have "a = s" using True assms(1) by (simp add: distinctStates_def)
  with c assms(3) have "b = s" by simp
  moreover have "p' = p" using assms(5) True by (simp add: refresh_def)
  ultimately show ?thesis
    using c m assms(4) coherent_mono [OF assms(2), of r] assms(3) by auto
next
  case False
  with assms(5) obtain raw where raw: "lfRows (vs r) = Inr raw"
    "p' = p\<lparr>lpByMAC := Some (indexByMAC (parseRows parseTime raw)), lpMtime := lfMtime (vs s), lpSize := lfSize (vs s)\<rparr>"
    by (auto simp: refresh_def parseLeases_def split: sum.splits if_splits)
  then have "lpByMAC p' = Some (indexByMAC (parseRows parseTime raw))" "lpMtime p' = lfMtime (vs s)" "lpSize p' = lfSize (vs s)"
    by simp_all
  with raw(1) assms(4) have "coherent parseTime vs r p'" unfolding coherent_def by auto
  with raw assms(4) show ?thesis by auto
qed

lemma refresh_failed:
  assumes "refresh parseTime (Inr f) (Inr g) p = (Some x, p')"
  shows "p' = p \<and> (\<exists>y. lfRows g = Inl y)"
  using assms by (auto simp: refresh_def parseLeases_def split: sum.splits if_splits)


section \<open>Hardware addresses\<close>

lemma hexVal_hexDigit: "n < 16 \<Longrightarrow> hexVal (hexDigit n) = Some n"
  by (auto simp: hexVal_def hexDigit_def Let_def)

lemma xtoi2_hexByte: "b < 256 \<Longrightarrow> rest = [] \<or> hd rest = sep \<Longrightarrow> xtoi2 (hexByte b @ rest) sep = Some b"
  by (cases rest) (auto simp: xtoi2_def hexByte_def hexVal_hexDigit)

lemma macOctets_string:
  "list_all (\<lambda>b. b < 256) hw \<Longrightarrow> macOctets (length hw) (macString hw) (CHR '':'') = Some hw"
proof (induction hw)
  case (Cons b hw)
  have "macString (b # hw) = hexByte b @ (if hw = [] then [] else '':'' @ macString hw)"
    by (cases hw) (simp_all add: macString_def)
  moreover have "drop 3 (hexByte b @ (if hw = [] then [] else '':'' @ macString hw)) = macString hw"
    by (simp add: hexByte_def macString_def)
  ultimately show ?case using Cons xtoi2_hexByte [of b "if hw = [] then [] else '':'' @ macString hw" "CHR '':''"] by simp
qed simp

lemma length_macString: "hw \<noteq> [] \<Longrightarrow> length (macString hw) + 1 = 3 * length hw"
proof (induction hw rule: induct_list012)
  case (3 a b hw)
  then show ?case by (simp add: macString_def hexByte_def)
qed (simp_all add: macString_def hexByte_def)

text \<open>A hardware address of any of the three lengths survives its canonical form.\<close>

theorem mac_roundtrip:
  assumes "length hw \<in> {6, 8, 20}" "list_all (\<lambda>b. b < 256) hw"
  shows "ParseMAC (macString hw) = Some hw"
proof -
  obtain a b hw' where hw: "hw = a # b # hw'" using assms(1) by (cases hw; cases "tl hw") auto
  have l: "length (macString hw) + 1 = 3 * length hw" using length_macString hw by blast
  then have "14 \<le> length (macString hw)" using assms(1) by auto
  moreover have "macString hw ! 2 = CHR '':''" by (simp add: hw macString_def hexByte_def)
  moreover have "(length (macString hw) + 1) div 3 = length hw" "(length (macString hw) + 1) mod 3 = 0" using l by simp_all
  ultimately show ?thesis using assms macOctets_string [OF assms(2)] by (simp add: ParseMAC_def Let_def not_less)
qed

section \<open>Releasing\<close>

text \<open>A release asks at most twice and only for the canonical form of the address, the second time only after an
  internal error; it succeeds exactly when the last answer was that the lease is gone.\<close>

theorem release_asks:
  assumes "ReleaseByMAC ask raw = (res, asked)" "ParseMAC raw = Some hw"
  shows "let url = ''http://cocoon-net/v1/leases/'' @ macString hw;
       code = (\<lambda>k. case ask k url of Inl x \<Rightarrow> 0 | Inr a \<Rightarrow> haCode a) in
     asked = replicate (if code 0 = 500 then 2 else 1) url \<and>
     (res = None \<longleftrightarrow> code (length asked - 1) = 204)"
  using assms by (auto simp: ReleaseByMAC_def Let_def numeral_2_eq_2 split: sum.splits if_splits)

section \<open>Probing\<close>

lemma pingLoop_sound:
  "pingLoop ident addr c reads = Some None \<Longrightarrow>
   \<exists>peer. Packet peer (Some ident) \<in> set reads \<and> (peer = None \<or> peer = Some addr)"
  by (induction ident addr c reads rule: pingLoop.induct) (auto split: if_splits option.splits)

text \<open>A probe succeeds only when a reply to its own identifier arrived, from the probed address where the sender
  is known.\<close>

theorem ping_sound:
  assumes "Ping w ident ip = Some None"
  shows "\<exists>addr peer. pgParseIP w ip = Some addr \<and> Packet peer (Some ident) \<in> set (pgReads w) \<and>
    (peer = None \<or> peer = Some addr)"
  using assms by (auto simp: Ping_def split: option.splits if_splits dest!: pingLoop_sound)

section \<open>Examples\<close>

definition exLeases :: "nat \<Rightarrow> lease_file" where
  "exLeases v = \<lparr>lfMtime = int v, lfSize = 1, lfRows = Inr [\<lparr>cnMAC = ''AA'', cnIP = natDigits v, cnExpiry = ''x''\<rparr>]\<rparr>"


theorem mac_roundtrip_witness: "ParseMAC (macString [2, 0, 94, 16, 0, 255]) = Some [2, 0, 94, 16, 0, 255]"
  by (rule mac_roundtrip) simp_all

theorem release_asks_witness:
  "snd (ReleaseByMAC (\<lambda>k url. Inr \<lparr>haCode = (if k = 0 then 500 else 204), haStatus = [], haBody = []\<rparr>) ''02-00-5E-10-00-FF'') =
     replicate 2 (''http://cocoon-net/v1/leases/'' @ ''02:00:5e:10:00:ff'')"
proof -
  have "ParseMAC ''02-00-5E-10-00-FF'' = Some [2, 0, 94, 16, 0, 255]" "macString [2, 0, 94, 16, 0, 255] = ''02:00:5e:10:00:ff''"
    by code_simp+
  with release_asks [OF prod.collapse [symmetric], of "''02-00-5E-10-00-FF''"
    "[2, 0, 94, 16, 0, 255]" "\<lambda>k url. Inr \<lparr>haCode = (if k = 0 then 500 else 204), haStatus = [], haBody = []\<rparr>"]
  show ?thesis by (simp add: Let_def)
qed

definition exPing :: "string ping_world" where
  "exPing = \<lparr>pgParseIP = Some, pgListenErr = None, pgMarshalErr = None, pgDeadline = True, pgSetDeadlineErr = None,
     pgSendErr = None, pgCtxErr = None, pgReads = [Packet (Some ''b'') (Some 7), Packet (Some ''a'') (Some 7)]\<rparr>"

theorem ping_sound_witness:
  "Ping exPing 7 ''a'' = Some None \<and> (\<exists>peer. Packet peer (Some 7) \<in> set (pgReads exPing) \<and> (peer = None \<or> peer = Some ''a''))"
proof -
  have p: "Ping exPing 7 ''a'' = Some None" by (simp add: Ping_def exPing_def)
  with ping_sound [OF p] show ?thesis by (auto simp: exPing_def)
qed

end
