(* ===== verification/Capacity.thy ===== *)
theory Capacity
  imports Model Decimal
begin

text \<open>
  The resources a node offers (\<open>src/provider/capacity.go\<close>, \<open>capacity_linux.go\<close>): capacity and allocatable from the
  host or from the environment, less the reserved share. Kubernetes' \<open>resource.Quantity\<close> is a parameter; a
  quantity is what its methods return. The answers of the host (environment, processors, \<open>/proc\<close> files, the file
  system) are arguments.
\<close>

record qty_lib =
  qlParse :: "string \<Rightarrow> err + quantity"
  qlNew :: "int \<Rightarrow> string \<Rightarrow> quantity"
  qlFormat :: "quantity \<Rightarrow> string"
  qlAdd :: "quantity \<Rightarrow> quantity \<Rightarrow> quantity"
  qlEqual :: "quantity \<Rightarrow> quantity \<Rightarrow> bool"

definition BinarySI :: string where "BinarySI = ''BinarySI''"
definition DecimalSI :: string where "DecimalSI = ''DecimalSI''"

definition zeroQty :: quantity where
  "zeroQty = \<lparr>qMilliValue = 0, qValue = 0, qIsZero = True, qString = ''0''\<rparr>"

text \<open>A \<open>/proc\<close> file: the error of opening it, or its lines and the error that ended the reading.\<close>

type_synonym proc_file = "err + string list \<times> err option"

text \<open>What \<open>statfs\<close> reports: blocks, available blocks (\<open>uint64\<close>) and the block size.\<close>

record statfs =
  sfBlocks :: int
  sfBavail :: int
  sfBsize :: int

record host =
  hoGetenv :: "string \<Rightarrow> string"
  hoNumCPU :: int
  hoMeminfo :: proc_file
  hoStatfs :: "string \<Rightarrow> err + statfs"

section \<open>Numbers\<close>

text \<open>\<open>strconv.ParseInt\<close> and its error.\<close>

definition parseInt :: "string \<Rightarrow> string \<Rightarrow> err + int" where
  "parseInt fn s =
     (case atoi s of
        Some v \<Rightarrow> Inr v
      | None \<Rightarrow>
          (let body = (if hasPrefix s ''-'' \<or> hasPrefix s ''+'' then tl s else s) in
           Inl (newErr (''strconv.'' @ fn @ '': parsing '' @ quoteStr s @ '': '' @
             (if body = [] \<or> \<not> list_all isDigit body then ''invalid syntax'' else ''value out of range'')))))"

section \<open>Keyed \<open>/proc\<close> files\<close>

text \<open>The scan: it stops once every wanted key has been seen. The flag says that it ended by that break.\<close>

fun keyedLoop :: "string \<Rightarrow> string list \<Rightarrow> string list \<Rightarrow> (string \<rightharpoonup> int) \<Rightarrow> (err + (string \<rightharpoonup> int)) \<times> bool" where
  "keyedLoop path want [] result = (Inr result, False)"
| "keyedLoop path want (line # rest) result =
     (case cutStr line '':'' of
        None \<Rightarrow> keyedLoop path want rest result
      | Some (key, value) \<Rightarrow>
          if key \<notin> set want then keyedLoop path want rest result
          else (case fieldsStr value of
              [] \<Rightarrow> keyedLoop path want rest result
            | part # _ \<Rightarrow>
                (case parseInt ''ParseInt'' part of
                   Inl x \<Rightarrow> (Inl (wrapErr (path @ '': parse '' @ key @ '': '') x []), False)
                 | Inr v \<Rightarrow>
                     (let result = result(key \<mapsto> v) in
                      if list_all (\<lambda>k. result k \<noteq> None) want then (Inr result, True)
                      else keyedLoop path want rest result))))"

definition ReadKeyedProcFile :: "string \<Rightarrow> proc_file \<Rightarrow> string list \<Rightarrow> err + (string \<rightharpoonup> int)" where
  "ReadKeyedProcFile path f names =
     (case f of
        Inl x \<Rightarrow> Inl (wrapErr (''open '' @ path @ '': '') x [])
      | Inr (lines, scanErr) \<Rightarrow>
          (case keyedLoop path names lines Map.empty of
             (Inl x, _) \<Rightarrow> Inl x
           | (Inr result, broke) \<Rightarrow>
               (case (if broke then None else scanErr) of
                  Some x \<Rightarrow> Inl (wrapErr (''read '' @ path @ '': '') x [])
                | None \<Rightarrow>
                    (case find (\<lambda>n. result n = None) names of
                       Some n \<Rightarrow> Inl (newErr (path @ '': '' @ n @ '' not found''))
                     | None \<Rightarrow> Inr result))))"

text \<open>A missing key of a Go map reads as zero.\<close>

definition fieldOf :: "err + (string \<rightharpoonup> int) \<Rightarrow> string \<Rightarrow> int" where
  "fieldOf r k = (case r of Inl x \<Rightarrow> 0 | Inr m \<Rightarrow> (case m k of None \<Rightarrow> 0 | Some v \<Rightarrow> v))"

section \<open>Reservation\<close>

definition defaultReservePercent :: int where "defaultReservePercent = 20"
definition defaultMaxPods :: int where "defaultMaxPods = 256"

definition reserveQuantity :: "qty_lib \<Rightarrow> quantity \<Rightarrow> int \<Rightarrow> quantity" where
  "reserveQuantity ql q pct =
     qlNew ql (wrap64 (quot (qMilliValue q * wrap64 (100 - pct)) 100000)) (qlFormat ql q)"

definition reservePercent :: "host \<Rightarrow> err + int" where
  "reservePercent h =
     (let v = hoGetenv h ''VK_RESERVE_PERCENT'' in
      if v = [] then Inr defaultReservePercent
      else (case atoi v of
          Some n \<Rightarrow> if n < 0 \<or> n > 100 then Inl (newErr (''parse VK_RESERVE_PERCENT='' @ quoteStr v @ '': must be 0-100'')) else Inr n
        | None \<Rightarrow> Inl (newErr (''parse VK_RESERVE_PERCENT='' @ quoteStr v @ '': must be 0-100''))))"

section \<open>Detection\<close>

definition parseEnvQuantity :: "qty_lib \<Rightarrow> string \<Rightarrow> string \<Rightarrow> err + quantity" where
  "parseEnvQuantity ql envKey v =
     (case qlParse ql v of Inl x \<Rightarrow> Inl (wrapErr (''parse '' @ envKey @ ''='' @ quoteStr v @ '': '') x []) | Inr q \<Rightarrow> Inr q)"

definition detectOrOverride :: "qty_lib \<Rightarrow> host \<Rightarrow> string \<Rightarrow> (err + quantity) \<Rightarrow> err + quantity" where
  "detectOrOverride ql h envKey detect =
     (let v = hoGetenv h envKey in if v \<noteq> [] then parseEnvQuantity ql envKey v else detect)"

definition detectCPU :: "qty_lib \<Rightarrow> host \<Rightarrow> err + quantity" where
  "detectCPU ql h =
     (if hoNumCPU h \<le> 0 then Inl (newErr (''runtime.NumCPU returned '' @ itoa (hoNumCPU h)))
      else Inr (qlNew ql (hoNumCPU h) DecimalSI))"

definition meminfoPath :: string where "meminfoPath = ''/proc/meminfo''"

definition detectMemory :: "qty_lib \<Rightarrow> host \<Rightarrow> err + quantity" where
  "detectMemory ql h =
     (case ReadKeyedProcFile meminfoPath (hoMeminfo h) [''MemTotal''] of
        Inl x \<Rightarrow> Inl x
      | Inr m \<Rightarrow> Inr (qlNew ql (wrap64 (fieldOf (Inr m) ''MemTotal'' * 1024)) BinarySI))"

definition hugepagesPrefix :: string where "hugepagesPrefix = ''hugepages-''"

definition hugepagesResourceName :: "qty_lib \<Rightarrow> int \<Rightarrow> string" where
  "hugepagesResourceName ql pageSizeKB =
     (if pageSizeKB = 0 then hugepagesPrefix @ ''2Mi''
      else hugepagesPrefix @ qString (qlNew ql (wrap64 (pageSizeKB * 1024)) BinarySI))"

definition detectHugepagesResource :: "qty_lib \<Rightarrow> host \<Rightarrow> err + quantity \<times> string" where
  "detectHugepagesResource ql h =
     (let v = hoGetenv h ''VK_NODE_HUGEPAGES'' in
      if v \<noteq> []
      then (case parseEnvQuantity ql ''VK_NODE_HUGEPAGES'' v of
          Inl x \<Rightarrow> Inl x
        | Inr q \<Rightarrow> Inr (q, hugepagesResourceName ql
            (fieldOf (ReadKeyedProcFile meminfoPath (hoMeminfo h) [''Hugepagesize'']) ''Hugepagesize'')))
      else
        (case ReadKeyedProcFile meminfoPath (hoMeminfo h) [''HugePages_Total'', ''Hugepagesize''] of
           Inl x \<Rightarrow> Inr (zeroQty, [])
         | Inr m \<Rightarrow>
             (let n = fieldOf (Inr m) ''HugePages_Total''; pageSizeKB = fieldOf (Inr m) ''Hugepagesize'' in
              if n = 0 \<or> pageSizeKB = 0 then Inr (zeroQty, [])
              else Inr (qlNew ql (wrap64 (wrap64 (n * pageSizeKB) * 1024)) BinarySI, hugepagesResourceName ql pageSizeKB))))"

definition CocoonRootDir :: "host \<Rightarrow> string" where
  "CocoonRootDir h = orStr (hoGetenv h ''COCOON_ROOT_DIR'') ''/var/lib/cocoon''"

text \<open>\<open>int64(stat.Blocks) * stat.Bsize\<close>.\<close>

definition statTotalBytes :: "statfs \<Rightarrow> int" where
  "statTotalBytes st = wrap64 (wrap64 (sfBlocks st) * sfBsize st)"

definition statAvailBytes :: "statfs \<Rightarrow> int" where
  "statAvailBytes st = wrap64 (wrap64 (sfBavail st) * sfBsize st)"

definition detectStorageOrOverride :: "qty_lib \<Rightarrow> host \<Rightarrow> err + quantity \<times> quantity" where
  "detectStorageOrOverride ql h =
     (let v = hoGetenv h ''VK_NODE_STORAGE'' in
      if v \<noteq> []
      then (case parseEnvQuantity ql ''VK_NODE_STORAGE'' v of Inl x \<Rightarrow> Inl x | Inr q \<Rightarrow> Inr (q, q))
      else (case hoStatfs h (CocoonRootDir h) of
          Inl x \<Rightarrow> Inl (wrapErr (''statfs '' @ CocoonRootDir h @ '': '') x [])
        | Inr st \<Rightarrow> Inr (qlNew ql (statTotalBytes st) BinarySI, qlNew ql (statAvailBytes st) BinarySI)))"

definition StorageBytes :: "host \<Rightarrow> int \<times> int" where
  "StorageBytes h =
     (case hoStatfs h (CocoonRootDir h) of Inl x \<Rightarrow> (0, 0) | Inr st \<Rightarrow> (statTotalBytes st, statAvailBytes st))"

text \<open>\<open>StorageAllocatable\<close>: nothing when the environment pins the storage.\<close>

definition StorageAllocatable :: "qty_lib \<Rightarrow> host \<Rightarrow> int \<Rightarrow> err + quantity option" where
  "StorageAllocatable ql h held =
     (if hoGetenv h ''VK_NODE_STORAGE'' \<noteq> [] then Inr None
      else (case reservePercent h of
          Inl x \<Rightarrow> Inl x
        | Inr pct \<Rightarrow>
            (case detectStorageOrOverride ql h of
               Inl x \<Rightarrow> Inl x
             | Inr (_, avail) \<Rightarrow> Inr (Some (reserveQuantity ql (qlAdd ql avail (qlNew ql held BinarySI)) pct)))))"

section \<open>The node's resources\<close>

type_synonym resource_list = "string \<rightharpoonup> quantity"

definition ResourceCPU :: string where "ResourceCPU = ''cpu''"
definition ResourceMemory :: string where "ResourceMemory = ''memory''"
definition ResourceEphemeralStorage :: string where "ResourceEphemeralStorage = ''ephemeral-storage''"
definition ResourcePods :: string where "ResourcePods = ''pods''"

definition wrapDetect :: "string \<Rightarrow> err + 'a \<Rightarrow> err + 'a" where
  "wrapDetect what r = (case r of Inl x \<Rightarrow> Inl (wrapErr (''detect '' @ what @ '': '') x []) | Inr a \<Rightarrow> Inr a)"

text \<open>The two lists that \<open>NodeResources\<close> builds from what it detected.\<close>

definition nodeCapacity :: "quantity \<Rightarrow> quantity \<Rightarrow> quantity \<Rightarrow> quantity \<Rightarrow> quantity \<Rightarrow> string \<Rightarrow> resource_list" where
  "nodeCapacity cpu mem storageTotal podsQ hugepages hugepagesName =
     (let base = [ResourceCPU \<mapsto> cpu, ResourceMemory \<mapsto> mem, ResourceEphemeralStorage \<mapsto> storageTotal, ResourcePods \<mapsto> podsQ] in
      if \<not> qIsZero hugepages then base(hugepagesName \<mapsto> hugepages) else base)"

definition nodeAllocatable :: "qty_lib \<Rightarrow> resource_list \<Rightarrow> quantity \<Rightarrow> int \<Rightarrow> resource_list" where
  "nodeAllocatable ql capacity storageAvail pct =
     (\<lambda>k. case capacity k of None \<Rightarrow> None
        | Some v \<Rightarrow> if k = ResourcePods then Some v else Some (reserveQuantity ql v pct))
     (ResourceEphemeralStorage \<mapsto> reserveQuantity ql storageAvail pct)"

definition NodeResources :: "qty_lib \<Rightarrow> host \<Rightarrow> err + resource_list \<times> resource_list" where
  "NodeResources ql h =
     (case reservePercent h of
        Inl x \<Rightarrow> Inl x
      | Inr pct \<Rightarrow>
     (case wrapDetect ''cpu'' (detectOrOverride ql h ''VK_NODE_CPU'' (detectCPU ql h)) of
        Inl x \<Rightarrow> Inl x
      | Inr cpu \<Rightarrow>
     (case wrapDetect ''memory'' (detectOrOverride ql h ''VK_NODE_MEM'' (detectMemory ql h)) of
        Inl x \<Rightarrow> Inl x
      | Inr mem \<Rightarrow>
     (case wrapDetect ''storage'' (detectStorageOrOverride ql h) of
        Inl x \<Rightarrow> Inl x
      | Inr (storageTotal, storageAvail) \<Rightarrow>
     (case wrapDetect ''hugepages'' (detectHugepagesResource ql h) of
        Inl x \<Rightarrow> Inl x
      | Inr (hugepages, hugepagesName) \<Rightarrow>
     (let rawPods = orStr (hoGetenv h ''VK_NODE_PODS'') (itoa defaultMaxPods) in
      case parseEnvQuantity ql ''VK_NODE_PODS'' rawPods of
        Inl x \<Rightarrow> Inl x
      | Inr podsQ \<Rightarrow>
          (let capacity = nodeCapacity cpu mem storageTotal podsQ hugepages hugepagesName in
           Inr (capacity, nodeAllocatable ql capacity storageAvail pct))))))))"

end
