(* ===== verification/Capacity_Props.thy ===== *)
theory Capacity_Props
  imports Capacity
begin

text \<open>
  What the node offers: the reserved share is taken off exactly, rounded down to whole units, no resource is
  offered beyond its capacity, and a keyed \<open>/proc\<close> file yields exactly the fields asked for.
\<close>

section \<open>Keyed files\<close>

text \<open>A line that gives a key a value.\<close>

definition lineGives :: "string \<Rightarrow> int \<Rightarrow> string \<Rightarrow> bool" where
  "lineGives key v line \<longleftrightarrow> (\<exists>rest part ps. cutStr line '':'' = Some (key, rest) \<and> fieldsStr rest = part # ps \<and> atoi part = Some v)"

lemma parseInt_Inr [simp]: "parseInt fn s = Inr v \<longleftrightarrow> atoi s = Some v"
  by (auto simp: parseInt_def Let_def split: option.splits)

lemma keyedLoop_sound:
  "keyedLoop path want ls m = (Inr m', b) \<Longrightarrow> m' k = Some v \<Longrightarrow> m k = Some v \<or> k \<in> set want \<and> (\<exists>line \<in> set ls. lineGives k v line)"
proof (induction ls arbitrary: m)
  case (Cons line rest)
  from Cons.prems(1) consider (skip) "keyedLoop path want rest m = (Inr m', b)"
    | (found) key val part ps x where "cutStr line '':'' = Some (key, val)" "key \<in> set want" "fieldsStr val = part # ps"
        "atoi part = Some x" "m' = m(key \<mapsto> x) \<or> keyedLoop path want rest (m(key \<mapsto> x)) = (Inr m', b)"
    by (auto simp: Let_def split: option.splits list.splits sum.splits if_splits)
  then show ?case
  proof cases
    case skip
    from Cons.IH [OF this Cons.prems(2)] show ?thesis by auto
  next
    case (found key val part ps x)
    then have "lineGives key x line" by (auto simp: lineGives_def)
    moreover have "(m(key \<mapsto> x)) k = Some v \<or> k \<in> set want \<and> (\<exists>line \<in> set rest. lineGives k v line)"
      using found(5) Cons.IH [of "m(key \<mapsto> x)"] Cons.prems(2) by blast
    ultimately show ?thesis using found(2) by (cases "k = key") auto
  qed
qed simp

text \<open>A keyed file that is read gives every field asked for, each from a line of the file for that key.\<close>

theorem read_keyed_sound:
  assumes "ReadKeyedProcFile path (Inr (ls, e)) names = Inr m" "n \<in> set names"
  shows "\<exists>v. m n = Some v \<and> (\<exists>line \<in> set ls. lineGives n v line)"
proof -
  obtain b where l: "keyedLoop path names ls Map.empty = (Inr m, b)" "find (\<lambda>n. m n = None) names = None"
    using assms(1) by (auto simp: ReadKeyedProcFile_def split: prod.splits sum.splits option.splits if_splits)
  then obtain v where "m n = Some v" using assms(2) by (auto simp: find_None_iff)
  with keyedLoop_sound [OF l(1) this] show ?thesis by auto
qed

section \<open>The reserved share\<close>

text \<open>What Kubernetes documents of a new quantity, within the range of its milli-value.\<close>

definition exactNew :: "qty_lib \<Rightarrow> bool" where
  "exactNew ql \<longleftrightarrow> (\<forall>v f. 0 \<le> v \<longrightarrow> 1000 * v < 2 ^ 63 \<longrightarrow> qMilliValue (qlNew ql v f) = 1000 * v)"

definition inRange :: "quantity \<Rightarrow> bool" where
  "inRange q \<longleftrightarrow> 0 \<le> qMilliValue q \<and> qMilliValue q < 2 ^ 63"

lemma reserve_value:
  assumes "exactNew ql" "inRange q" "0 \<le> pct" "pct \<le> 100"
  shows "qMilliValue (reserveQuantity ql q pct) = 1000 * (qMilliValue q * (100 - pct) div 100000)"
proof -
  let ?m = "qMilliValue q" let ?v = "?m * (100 - pct) div 100000"
  have p: "0 \<le> ?m * (100 - pct)" using assms(2-4) by (simp add: inRange_def)
  have "?m * (100 - pct) \<le> ?m * 100" using assms(2-4) by (intro mult_left_mono) (simp_all add: inRange_def)
  then have "?v \<le> ?m * 100 div 100000" by (intro zdiv_mono1) simp_all
  then have "1000 * ?v \<le> ?m" by linarith
  moreover have "0 \<le> ?v" using p by simp
  ultimately have v: "0 \<le> ?v" "1000 * ?v < 2 ^ 63" using assms(2) by (simp_all add: inRange_def)
  have "wrap64 (100 - pct) = 100 - pct" using assms(3,4) by (intro wrap64_id) simp_all
  moreover have "wrap64 ?v = ?v" using v by (intro wrap64_id) simp_all
  ultimately show ?thesis using assms(1) v p by (simp add: reserveQuantity_def exactNew_def quot_nonneg)
qed

text \<open>The allocatable share of a quantity is the given percentage of it, rounded down to a whole unit: never more
  than that share, and less than one unit below it.\<close>

theorem reserve_exact:
  assumes "exactNew ql" "inRange q" "0 \<le> pct" "pct \<le> 100"
  shows "qMilliValue (reserveQuantity ql q pct) mod 1000 = 0 \<and>
    100 * qMilliValue (reserveQuantity ql q pct) \<le> (100 - pct) * qMilliValue q \<and>
    (100 - pct) * qMilliValue q < 100 * (qMilliValue (reserveQuantity ql q pct) + 1000)"
proof -
  define x where "x = qMilliValue q * (100 - pct)"
  have r: "qMilliValue (reserveQuantity ql q pct) = 1000 * (x div 100000)" "(100 - pct) * qMilliValue q = x"
    using reserve_value [OF assms] by (simp_all add: x_def mult.commute)
  have "100000 * (x div 100000) \<le> x" "x < 100000 * (x div 100000) + 100000" by presburger+
  then show ?thesis unfolding r by simp
qed

section \<open>Capacity and allocatable\<close>

lemma reservePercent_range: "reservePercent h = Inr pct \<Longrightarrow> 0 \<le> pct \<and> pct \<le> 100"
  by (auto simp: reservePercent_def defaultReservePercent_def Let_def split: if_splits option.splits)

lemma reserve_le: "exactNew ql \<Longrightarrow> inRange q \<Longrightarrow> 0 \<le> pct \<Longrightarrow> pct \<le> 100 \<Longrightarrow> qMilliValue (reserveQuantity ql q pct) \<le> qMilliValue q"
proof -
  assume a: "exactNew ql" "inRange q" "0 \<le> pct" "pct \<le> 100"
  have "qMilliValue q * (100 - pct) \<le> qMilliValue q * 100" using a by (intro mult_left_mono) (simp_all add: inRange_def)
  with reserve_value [OF a] show ?thesis by linarith
qed

lemma hugepages_name:
  "detectHugepagesResource ql h = Inr (q, n) \<Longrightarrow> \<not> qIsZero q \<Longrightarrow> hasPrefix n hugepagesPrefix"
  by (auto simp: detectHugepagesResource_def hugepagesResourceName_def zeroQty_def Let_def split: if_splits sum.splits)

lemma NodeResources_Inr:
  assumes "NodeResources ql h = Inr (capacity, allocatable)"
  obtains pct cpu mem tq aq hp hpn podsQ where "reservePercent h = Inr pct" "detectStorageOrOverride ql h = Inr (tq, aq)"
    "capacity = nodeCapacity cpu mem tq podsQ hp hpn" "allocatable = nodeAllocatable ql capacity aq pct"
    "\<not> qIsZero hp \<longrightarrow> hasPrefix hpn hugepagesPrefix"
proof -
  obtain pct where 1: "reservePercent h = Inr pct" using assms by (cases "reservePercent h") (auto simp: NodeResources_def)
  obtain cpu where 2: "wrapDetect ''cpu'' (detectOrOverride ql h ''VK_NODE_CPU'' (detectCPU ql h)) = Inr cpu"
    using assms 1 by (cases "wrapDetect ''cpu'' (detectOrOverride ql h ''VK_NODE_CPU'' (detectCPU ql h))") (auto simp: NodeResources_def)
  obtain mem where 3: "wrapDetect ''memory'' (detectOrOverride ql h ''VK_NODE_MEM'' (detectMemory ql h)) = Inr mem"
    using assms 1 2 by (cases "wrapDetect ''memory'' (detectOrOverride ql h ''VK_NODE_MEM'' (detectMemory ql h))") (auto simp: NodeResources_def)
  obtain tq aq where 4: "detectStorageOrOverride ql h = Inr (tq, aq)"
    using assms 1 2 3 by (cases "detectStorageOrOverride ql h") (auto simp: NodeResources_def wrapDetect_def)
  obtain hp hpn where 5: "detectHugepagesResource ql h = Inr (hp, hpn)"
    using assms 1 2 3 4 by (cases "detectHugepagesResource ql h") (auto simp: NodeResources_def wrapDetect_def)
  obtain podsQ where 6: "parseEnvQuantity ql ''VK_NODE_PODS'' (orStr (hoGetenv h ''VK_NODE_PODS'') (itoa defaultMaxPods)) = Inr podsQ"
    using assms 1 2 3 4 5 by (cases "parseEnvQuantity ql ''VK_NODE_PODS'' (orStr (hoGetenv h ''VK_NODE_PODS'') (itoa defaultMaxPods))")
      (auto simp: NodeResources_def wrapDetect_def)
  from assms 1 2 3 4 5 6 have "capacity = nodeCapacity cpu mem tq podsQ hp hpn" "allocatable = nodeAllocatable ql capacity aq pct"
    by (auto simp: NodeResources_def wrapDetect_def Let_def)
  with that [OF 1 4] hugepages_name [OF 5] show thesis by blast
qed

text \<open>C38: The node offers the same resources as allocatable as it has in capacity, none beyond its capacity, and pods
  without a reservation, when what it detected is in range and the file system has no more available than in
  total.\<close>

theorem allocatable_within_capacity:
  assumes "exactNew ql" "NodeResources ql h = Inr (capacity, allocatable)"
    "\<And>k c. capacity k = Some c \<Longrightarrow> inRange c"
    "\<And>tq aq. detectStorageOrOverride ql h = Inr (tq, aq) \<Longrightarrow> inRange aq \<and> qMilliValue aq \<le> qMilliValue tq"
  shows "dom allocatable = dom capacity \<and> allocatable ResourcePods = capacity ResourcePods \<and>
    (\<forall>k c a. capacity k = Some c \<longrightarrow> allocatable k = Some a \<longrightarrow> qMilliValue a \<le> qMilliValue c)"
proof -
  obtain pct cpu mem tq aq hp hpn podsQ where d: "reservePercent h = Inr pct" "detectStorageOrOverride ql h = Inr (tq, aq)"
    "capacity = nodeCapacity cpu mem tq podsQ hp hpn" "allocatable = nodeAllocatable ql capacity aq pct"
    "\<not> qIsZero hp \<longrightarrow> hasPrefix hpn hugepagesPrefix" by (rule NodeResources_Inr [OF assms(2)])
  note p = reservePercent_range [OF d(1)]
  have n: "hpn \<noteq> ResourceEphemeralStorage" if "\<not> qIsZero hp"
    using d(5) that by (auto simp: ResourceEphemeralStorage_def hasPrefix_def hugepagesPrefix_def)
  then have s: "capacity ResourceEphemeralStorage = Some tq"
    by (auto simp: d(3) nodeCapacity_def ResourceEphemeralStorage_def ResourcePods_def Let_def)
  have al: "allocatable k = (if k = ResourceEphemeralStorage then Some (reserveQuantity ql aq pct)
      else case capacity k of None \<Rightarrow> None | Some v \<Rightarrow> Some (if k = ResourcePods then v else reserveQuantity ql v pct))" for k
    by (simp add: d(4) nodeAllocatable_def split: option.split)
  have "k \<in> dom allocatable \<longleftrightarrow> k \<in> dom capacity" for k using s by (cases "capacity k") (auto simp: al split: if_splits)
  then have "dom allocatable = dom capacity" by blast
  moreover have "allocatable ResourcePods = capacity ResourcePods"
    by (simp add: al ResourcePods_def ResourceEphemeralStorage_def split: option.split)
  moreover have "qMilliValue a \<le> qMilliValue c" if "capacity k = Some c" "allocatable k = Some a" for k c a
  proof (cases "k = ResourceEphemeralStorage")
    case True
    then have "c = tq" "a = reserveQuantity ql aq pct" using that s by (simp_all add: al)
    with assms(4) [OF d(2)] reserve_le [OF assms(1) _ conjunct1 [OF p] conjunct2 [OF p], of aq] show ?thesis by auto
  next
    case False
    with that have "a = c \<or> a = reserveQuantity ql c pct" by (auto simp: al split: if_splits)
    with reserve_le [OF assms(1) assms(3) [OF that(1)] conjunct1 [OF p] conjunct2 [OF p]] show ?thesis by auto
  qed
  ultimately show ?thesis by blast
qed

section \<open>Examples\<close>

definition exQty :: "int \<Rightarrow> string \<Rightarrow> quantity" where
  "exQty v f = \<lparr>qMilliValue = 1000 * v, qValue = v, qIsZero = (v = 0), qString = []\<rparr>"

definition exQtyLib :: qty_lib where
  "exQtyLib = \<lparr>qlParse = (\<lambda>s. case atoi s of None \<Rightarrow> Inl (newErr []) | Some v \<Rightarrow> Inr (exQty v [])), qlNew = exQty,
     qlFormat = (\<lambda>_. []), qlAdd = (\<lambda>a b. exQty (qValue a + qValue b) []), qlEqual = (\<lambda>a b. qValue a = qValue b)\<rparr>"

definition exHost :: host where
  "exHost = \<lparr>hoGetenv = (\<lambda>_. []), hoNumCPU = 8, hoMeminfo = Inr ([''MemTotal:  64 kB'', ''MemAvailable: 16 kB''], None),
     hoStatfs = (\<lambda>_. Inr \<lparr>sfBlocks = 100, sfBavail = 60, sfBsize = 10\<rparr>)\<rparr>"

lemma exQtyLib_exact: "exactNew exQtyLib"
  by (simp add: exactNew_def exQtyLib_def exQty_def)

theorem read_keyed_sound_witness:
  "\<exists>v. \<exists>line \<in> {''MemTotal:  64 kB''}. lineGives ''MemTotal'' v line"
proof -
  have "\<not> isl (ReadKeyedProcFile [] (Inr ([''MemTotal:  64 kB''], None)) [''MemTotal''])" by code_simp
  then obtain m where "ReadKeyedProcFile [] (Inr ([''MemTotal:  64 kB''], None)) [''MemTotal''] = Inr m"
    by (cases "ReadKeyedProcFile [] (Inr ([''MemTotal:  64 kB''], None)) [''MemTotal'']") auto
  from read_keyed_sound [OF this, of "''MemTotal''"] show ?thesis by auto
qed

theorem reserve_exact_witness: "qMilliValue (reserveQuantity exQtyLib (exQty 8 []) 20) mod 1000 = 0"
  using reserve_exact [OF exQtyLib_exact, of "exQty 8 []" 20] by (simp add: inRange_def exQty_def)

lemma exHost_detects:
  "reservePercent exHost = Inr 20"
  "wrapDetect ''cpu'' (detectOrOverride exQtyLib exHost ''VK_NODE_CPU'' (detectCPU exQtyLib exHost)) = Inr (exQty 8 [])"
  "wrapDetect ''memory'' (detectOrOverride exQtyLib exHost ''VK_NODE_MEM'' (detectMemory exQtyLib exHost)) = Inr (exQty 65536 [])"
  "detectStorageOrOverride exQtyLib exHost = Inr (exQty 1000 [], exQty 600 [])"
  "detectHugepagesResource exQtyLib exHost = Inr (zeroQty, [])"
  by code_simp+

lemma exHost_pods:
  "parseEnvQuantity exQtyLib ''VK_NODE_PODS'' (orStr (hoGetenv exHost ''VK_NODE_PODS'') (itoa defaultMaxPods)) = Inr (exQty 256 [])"
  by (simp add: parseEnvQuantity_def exQtyLib_def exHost_def orStr_def defaultMaxPods_def atoi_itoa)

lemma exHost_resources:
  "NodeResources exQtyLib exHost =
     (let c = nodeCapacity (exQty 8 []) (exQty 65536 []) (exQty 1000 []) (exQty 256 []) zeroQty [] in
      Inr (c, nodeAllocatable exQtyLib c (exQty 600 []) 20))"
  using exHost_detects exHost_pods by (simp add: NodeResources_def wrapDetect_def Let_def)

theorem allocatable_within_capacity_witness:
  "\<exists>capacity allocatable. NodeResources exQtyLib exHost = Inr (capacity, allocatable) \<and> dom allocatable = dom capacity"
proof -
  obtain c a where r: "NodeResources exQtyLib exHost = Inr (c, a)" by (simp add: exHost_resources Let_def)
  have "inRange q" if "c k = Some q" for k q
    using that r by (auto simp: exHost_resources nodeCapacity_def Let_def zeroQty_def inRange_def exQty_def split: if_splits)
  moreover have "inRange aq \<and> qMilliValue aq \<le> qMilliValue tq" if "detectStorageOrOverride exQtyLib exHost = Inr (tq, aq)" for tq aq
    using that exHost_detects(4) by (auto simp: inRange_def exQty_def)
  ultimately show ?thesis using allocatable_within_capacity [OF exQtyLib_exact r] r by blast
qed

end
