(* ===== verification/Stats.thy ===== *)
theory Stats
  imports Events Capacity Paths
begin

text \<open>
  Usage statistics (\<open>src/provider/cocoon/stats.go\<close>, \<open>stats_linux.go\<close>, \<open>src/vm/cgroup.go\<close>, the types of
  \<open>src/provider/provider.go\<close>): the parsers of the kernel's files, the sample of the tracked VMs with its short
  cache, and the two reports built from it. \<open>float64\<close> is left abstract: \<open>'f\<close> with the operations the code uses.
\<close>

section \<open>Numbers and lines\<close>

text \<open>\<open>strconv.ParseInt\<close> with its error dropped: zero on a syntax error, the nearest bound when out of range.\<close>

definition looseInt :: "string \<Rightarrow> int" where
  "looseInt s =
     (let neg = hasPrefix s ''-''; body = (if neg \<or> hasPrefix s ''+'' then tl s else s);
          v = (if neg then - int (digitsVal body) else int (digitsVal body))
      in if body = [] \<or> \<not> list_all isDigit body then 0 else max (- (2 ^ 63)) (min v (2 ^ 63 - 1)))"

text \<open>\<open>strconv.ParseUint\<close> likewise; it takes no sign.\<close>

definition looseUint :: "string \<Rightarrow> int" where
  "looseUint s = (if s = [] \<or> \<not> list_all isDigit s then 0 else min (int (digitsVal s)) (2 ^ 64 - 1))"

text \<open>\<open>strings.Lines\<close> without the line ends.\<close>

fun linesAcc :: "string \<Rightarrow> string \<Rightarrow> string list" where
  "linesAcc [] acc = (if acc = [] then [] else [rev acc])"
| "linesAcc (c # s) acc = (if c = CHR 0x0A then rev acc # linesAcc s [] else linesAcc s (c # acc))"

definition linesOf :: "string \<Rightarrow> string list" where
  "linesOf s = linesAcc s []"

record 'f float_lib =
  flOfInt :: "int \<Rightarrow> 'f"
  flParse :: "string \<Rightarrow> 'f"
  flAdd :: "'f \<Rightarrow> 'f \<Rightarrow> 'f"
  flDiv :: "'f \<Rightarrow> 'f \<Rightarrow> 'f"
  flNanos :: "'f \<Rightarrow> int"

section \<open>Files of the kernel\<close>

text \<open>The columns of \<open>/proc/stat\<close> that do not count as busy: idle, iowait, guest and guest_nice.\<close>

definition skippedColumn :: "nat \<Rightarrow> bool" where
  "skippedColumn i \<longleftrightarrow> i = 3 \<or> i = 4 \<or> i = 8 \<or> i = 9"

fun busyLoop :: "nat \<Rightarrow> string list \<Rightarrow> int \<Rightarrow> int" where
  "busyLoop i [] acc = acc"
| "busyLoop i (s # ss) acc =
     (if skippedColumn i then busyLoop (Suc i) ss acc else busyLoop (Suc i) ss (wrap64 (acc + looseInt s)))"

definition busyTicks :: "string \<Rightarrow> int" where
  "busyTicks line = busyLoop 0 (tl (fieldsStr line)) 0"

definition busyCPUSecondsFromStat :: "'f float_lib \<Rightarrow> string \<Rightarrow> 'f" where
  "busyCPUSecondsFromStat fl line = flDiv fl (flOfInt fl (busyTicks line)) (flOfInt fl 100)"

definition readNodeCPUSeconds :: "'f float_lib \<Rightarrow> proc_file \<Rightarrow> 'f" where
  "readNodeCPUSeconds fl f =
     (case f of
        Inl x \<Rightarrow> flOfInt fl 0
      | Inr (ls, _) \<Rightarrow>
          (case find (\<lambda>l. hasPrefix l ''cpu '') ls of
             None \<Rightarrow> flOfInt fl 0
           | Some l \<Rightarrow> busyCPUSecondsFromStat fl l))"

definition readNodeMemoryWorkingSet :: "proc_file \<Rightarrow> int" where
  "readNodeMemoryWorkingSet f =
     (case ReadKeyedProcFile meminfoPath f [''MemTotal'', ''MemAvailable''] of
        Inl x \<Rightarrow> 0
      | Inr m \<Rightarrow> wrap64 (wrap64 (fieldOf (Inr m) ''MemTotal'' - fieldOf (Inr m) ''MemAvailable'') * 1024))"

text \<open>\<open>strings.CutLast\<close> at a closing parenthesis.\<close>

definition afterLastParen :: "string \<Rightarrow> string option" where
  "afterLastParen s =
     (if CHR '')'' \<in> set s then Some (rev (takeWhile (\<lambda>c. c \<noteq> CHR '')'') (rev s))) else None)"

definition procStatFields :: "string \<Rightarrow> string list" where
  "procStatFields s = (case afterLastParen s of None \<Rightarrow> [] | Some after \<Rightarrow> fieldsStr after)"

definition parseProcStatCPUSeconds :: "'f float_lib \<Rightarrow> string \<Rightarrow> 'f" where
  "parseProcStatCPUSeconds fl s =
     (let fields = procStatFields s in
      if length fields < 13 then flOfInt fl 0
      else flDiv fl (flAdd fl (flParse fl (fields ! 11)) (flParse fl (fields ! 12))) (flOfInt fl 100))"

definition parseProcStatRSS :: "string \<Rightarrow> int \<Rightarrow> int" where
  "parseProcStatRSS s pageSize =
     (let fields = procStatFields s in
      if length fields < 22 then 0 else wrap64 (looseInt (fields ! 21) * pageSize))"

definition readProcNetDev :: "proc_file \<Rightarrow> string \<Rightarrow> int \<times> int" where
  "readProcNetDev f iface =
     (case f of
        Inl x \<Rightarrow> (0, 0)
      | Inr (ls, _) \<Rightarrow>
          (let prefix = iface @ '':'' in
           case find (\<lambda>l. hasPrefix l prefix) (map trimSpace ls) of
             None \<Rightarrow> (0, 0)
           | Some l \<Rightarrow>
               (let fields = fieldsStr (drop (length prefix) l) in
                if length fields < 9 then (0, 0) else (looseUint (fields ! 0), looseUint (fields ! 8)))))"

text \<open>\<open>cpu.stat\<close> of a cgroup: a later line for a key replaces an earlier one.\<close>

definition cpuStatStep :: "int \<times> int \<times> int \<Rightarrow> string \<Rightarrow> int \<times> int \<times> int" where
  "cpuStatStep acc line =
     (case acc of (usage, throttled, nr) \<Rightarrow>
        (case cutStr (trimSpace line) '' '' of
           None \<Rightarrow> acc
         | Some (key, value) \<Rightarrow>
             (case atoi value of
                None \<Rightarrow> acc
              | Some n \<Rightarrow>
                  if key = ''usage_usec'' then (n, throttled, nr)
                  else if key = ''throttled_usec'' then (usage, n, nr)
                  else if key = ''nr_throttled'' then (usage, throttled, n) else acc)))"

definition parseCPUStat :: "string \<Rightarrow> int \<times> int \<times> int" where
  "parseCPUStat s = foldl cpuStatStep (0, 0, 0) (linesOf s)"

definition DefaultCgroupParent :: string where "DefaultCgroupParent = ''cocoon.slice''"

text \<open>The parent slice: \<open>EnvOrDefault\<close> of \<open>COCOON_CGROUP_PARENT\<close>.\<close>

definition cgroupParent :: "host \<Rightarrow> string" where
  "cgroupParent h = orStr (hoGetenv h ''COCOON_CGROUP_PARENT'') DefaultCgroupParent"

definition scopePath :: "string \<Rightarrow> string \<Rightarrow> string" where
  "scopePath parent vmID = cleanAbs (''/sys/fs/cgroup/'' @ parent @ ''/vm-'' @ vmID @ ''.scope/cpu.stat'')"

definition ScopeCPUStat :: "'f float_lib \<Rightarrow> (string \<Rightarrow> err + string) \<Rightarrow> string \<Rightarrow> string \<Rightarrow> 'f \<times> 'f \<times> int" where
  "ScopeCPUStat fl readFile parent vmID =
     (case readFile (scopePath parent vmID) of
        Inl x \<Rightarrow> (flOfInt fl 0, flOfInt fl 0, 0)
      | Inr s \<Rightarrow>
          (case parseCPUStat s of (usage, throttled, nr) \<Rightarrow>
             (flDiv fl (flOfInt fl usage) (flOfInt fl 1000000), flDiv fl (flOfInt fl throttled) (flOfInt fl 1000000), nr)))"

section \<open>Samples\<close>

record 'f vm_stats =
  vtVMName :: string
  vtPodName :: string
  vtNamespace :: string
  vtBackend :: string
  vtTap :: string
  vtStartedAt :: "int option"
  vtCPUSeconds :: 'f
  vtCPUThrottledSeconds :: 'f
  vtCPUThrottledPeriods :: int
  vtMemoryRSS :: int
  vtDiskCOW :: int
  vtNetRxBytes :: int
  vtNetTxBytes :: int

record 'f node_stats =
  ndCPUSeconds :: 'f
  ndMemoryUsedBytes :: int
  ndStorageAvailable :: int
  ndStorageTotal :: int

text \<open>A sample that was never collected has no time.\<close>

record 'f sample =
  smVMs :: "'f vm_stats list"
  smNode :: "'f node_stats"
  smTracked :: "string \<Rightarrow> int"
  smCollectedAt :: "int option"

record 'f vm_snapshot =
  vnID :: string
  vnPID :: int
  vnDiskPath :: string
  vnHypervisor :: string
  vnStats :: "'f vm_stats"

definition statsSampleTTL :: int where "statsSampleTTL = 2 * second"

text \<open>The tracked pods that have a VM, in the order \<open>keys\<close> of the range over the pod table.\<close>

definition trackedPairs :: "string list \<Rightarrow> prov \<Rightarrow> (podptr \<times> vmptr) list" where
  "trackedPairs keys s =
     List.map_filter (\<lambda>k. case (pods s k, vmsByPod s k) of (Some p, Some v) \<Rightarrow> Some (p, v) | _ \<Rightarrow> None) keys"

definition snapOf :: "'f float_lib \<Rightarrow> env \<Rightarrow> prov \<Rightarrow> podptr \<times> vmptr \<Rightarrow> 'f vm_snapshot" where
  "snapOf fl e s pv =
     (case pv of (p, v) \<Rightarrow>
        (let spec = mParseVMSpec (lib e) (podAt s p) in
         \<lparr>vnID = vpID v, vnPID = vPID (vpVM v), vnDiskPath = vDiskPath (vpVM v), vnHypervisor = vHypervisor (vpVM v),
          vnStats = \<lparr>vtVMName = vsVMName spec, vtPodName = ptName p, vtNamespace = ptNamespace p, vtBackend = vsBackend spec,
            vtTap = (case vNetworkConfigs (vpVM v) of [] \<Rightarrow> [] | nc # _ \<Rightarrow> ncTap nc),
            vtStartedAt = stStartTime (pStatus (podAt s p)),
            vtCPUSeconds = flOfInt fl 0, vtCPUThrottledSeconds = flOfInt fl 0, vtCPUThrottledPeriods = 0, vtMemoryRSS = 0,
            vtDiskCOW = 0, vtNetRxBytes = 0, vtNetTxBytes = 0\<rparr>\<rparr>))"

definition snapshotTrackedVMs ::
  "'f float_lib \<Rightarrow> env \<Rightarrow> string list \<Rightarrow> prov \<Rightarrow> 'f vm_snapshot list \<times> (string \<Rightarrow> int)" where
  "snapshotTrackedVMs fl e keys s =
     (let tracked = trackedPairs keys s in
      (map (snapOf fl e s) (filter (\<lambda>(p, v). vPID (vpVM v) \<noteq> 0) tracked),
       \<lambda>ns. int (length (filter (\<lambda>(p, v). ptNamespace p = ns) tracked))))"

text \<open>What the host answers while a sample is taken.\<close>

record stats_world =
  skProcStat :: "int \<Rightarrow> string option"
  skNetDev :: "int \<Rightarrow> proc_file"
  skReadFile :: "string \<Rightarrow> err + string"
  skFileSize :: "string \<Rightarrow> int option"
  skBlocks :: "string \<Rightarrow> int option"
  skNodeStat :: proc_file
  skHost :: host
  skPageSize :: int

definition readProcStat :: "stats_world \<Rightarrow> int \<Rightarrow> string" where
  "readProcStat k pid = (case skProcStat k pid of None \<Rightarrow> [] | Some s \<Rightarrow> s)"

definition fileSize :: "stats_world \<Rightarrow> string \<Rightarrow> int" where
  "fileSize k path = (if path = [] then 0 else case skFileSize k path of None \<Rightarrow> 0 | Some n \<Rightarrow> n)"

definition sampleVM :: "'f float_lib \<Rightarrow> stats_world \<Rightarrow> 'f vm_snapshot \<Rightarrow> 'f vm_stats" where
  "sampleVM fl k s =
     (let stat = readProcStat k (vnPID s);
          used = (if vnHypervisor s = macosHypervisor
            then (vnStats s)\<lparr>vtCPUSeconds := parseProcStatCPUSeconds fl stat,
                   vtMemoryRSS := parseProcStatRSS stat (skPageSize k), vtDiskCOW := fileSize k (vnDiskPath s)\<rparr>
            else (case ScopeCPUStat fl (skReadFile k) (cgroupParent (skHost k)) (vnID s) of (cpu, throttled, nr) \<Rightarrow>
              (vnStats s)\<lparr>vtMemoryRSS := parseProcStatRSS stat (skPageSize k), vtCPUSeconds := cpu,
                   vtCPUThrottledSeconds := throttled, vtCPUThrottledPeriods := nr,
                   vtDiskCOW := COWSize (skBlocks k) (CocoonRootDir (skHost k)) (vnHypervisor s) (vnID s)\<rparr>))
      in if vtTap used \<noteq> []
         then (case readProcNetDev (skNetDev k (vnPID s)) (vtTap used) of (rx, tx) \<Rightarrow>
           used\<lparr>vtNetRxBytes := rx, vtNetTxBytes := tx\<rparr>)
         else used)"

text \<open>\<open>CollectVMStats\<close>: \<open>t0\<close> is the time of the call and \<open>t1\<close> the time the sample is complete. The result is
  the new cached sample as well.\<close>

definition CollectVMStats ::
  "'f float_lib \<Rightarrow> env \<Rightarrow> stats_world \<Rightarrow> string list \<Rightarrow> prov \<Rightarrow> int \<Rightarrow> int \<Rightarrow> 'f sample \<Rightarrow> 'f sample" where
  "CollectVMStats fl e k keys s t0 t1 cached =
     (if (case smCollectedAt cached of None \<Rightarrow> False | Some t \<Rightarrow> t0 - t < statsSampleTTL) then cached
      else
        (case snapshotTrackedVMs fl e keys s of (snaps, tracked) \<Rightarrow>
           \<lparr>smVMs = map (sampleVM fl k) snaps,
            smNode = \<lparr>ndCPUSeconds = readNodeCPUSeconds fl (skNodeStat k),
              ndMemoryUsedBytes = readNodeMemoryWorkingSet (hoMeminfo (skHost k)),
              ndStorageAvailable = snd (StorageBytes (skHost k)), ndStorageTotal = fst (StorageBytes (skHost k))\<rparr>,
            smTracked = tracked, smCollectedAt = Some t1\<rparr>))"

definition vmDiskHeld :: "'f float_lib \<Rightarrow> env \<Rightarrow> stats_world \<Rightarrow> string list \<Rightarrow> prov \<Rightarrow> int" where
  "vmDiskHeld fl e k keys s =
     foldl (\<lambda>held sn. if vnHypervisor sn \<noteq> macosHypervisor
         then wrap64 (held + COWSize (skBlocks k) (CocoonRootDir (skHost k)) (vnHypervisor sn) (vnID sn)) else held)
       0 (fst (snapshotTrackedVMs fl e keys s))"

section \<open>Reports\<close>

record network_stats =
  nwName :: string
  nwRxBytes :: int
  nwTxBytes :: int

definition buildNetworkStats :: "'f vm_stats \<Rightarrow> network_stats option" where
  "buildNetworkStats s =
     (if vtNetRxBytes s = 0 \<and> vtNetTxBytes s = 0 then None
      else Some \<lparr>nwName = vtTap s, nwRxBytes = vtNetRxBytes s, nwTxBytes = vtNetTxBytes s\<rparr>)"

text \<open>\<open>cpuMemStats\<close>: nanoseconds of CPU and bytes of memory.\<close>

definition cpuMemStats :: "'f float_lib \<Rightarrow> 'f \<Rightarrow> int \<Rightarrow> int \<times> int" where
  "cpuMemStats fl cpuSeconds memBytes = (flNanos fl cpuSeconds, max memBytes 0)"

record pod_stats =
  psNamespace :: string
  psName :: string
  psStartTime :: int
  psContainer :: string
  psUsage :: "int \<times> int"
  psNetwork :: "network_stats option"

record summary =
  syNodeName :: string
  syStartTime :: int
  syNodeUsage :: "int \<times> int"
  syPods :: "pod_stats list"

definition podStatsOf :: "'f float_lib \<Rightarrow> int \<Rightarrow> 'f vm_stats \<Rightarrow> pod_stats" where
  "podStatsOf fl now s =
     \<lparr>psNamespace = vtNamespace s, psName = vtPodName s,
      psStartTime = (case vtStartedAt s of None \<Rightarrow> now | Some t \<Rightarrow> t), psContainer = containerName,
      psUsage = cpuMemStats fl (vtCPUSeconds s) (vtMemoryRSS s), psNetwork = buildNetworkStats s\<rparr>"

definition summaryOf :: "'f float_lib \<Rightarrow> string \<Rightarrow> int \<Rightarrow> int \<Rightarrow> 'f sample \<Rightarrow> summary" where
  "summaryOf fl nodeName startTime now sm =
     \<lparr>syNodeName = nodeName, syStartTime = startTime,
      syNodeUsage = cpuMemStats fl (ndCPUSeconds (smNode sm)) (ndMemoryUsedBytes (smNode sm)),
      syPods = map (podStatsOf fl now) (smVMs sm)\<rparr>"

text \<open>The summary and the sample it leaves in the cache; \<open>now\<close> is read before the sample is taken.\<close>

definition GetStatsSummary ::
  "'f float_lib \<Rightarrow> env \<Rightarrow> stats_world \<Rightarrow> string list \<Rightarrow> prov \<Rightarrow> string \<Rightarrow> int \<Rightarrow> int \<Rightarrow> int \<Rightarrow> int \<Rightarrow> 'f sample \<Rightarrow>
   summary \<times> 'f sample" where
  "GetStatsSummary fl e k keys s nodeName startTime now t0 t1 cached =
     (let sm = CollectVMStats fl e k keys s t0 t1 cached in (summaryOf fl nodeName startTime now sm, sm))"

datatype metric_type = COUNTER | GAUGE

record 'f metric =
  mtLabels :: "(string \<times> string) list"
  mtValue :: 'f
  mtTimestampMs :: int

record 'f metric_family =
  mfamName :: string
  mfamType :: metric_type
  mfamMetrics :: "'f metric list"

definition containerLabels :: "'f vm_stats \<Rightarrow> (string \<times> string) list" where
  "containerLabels s = [(''namespace'', vtNamespace s), (''pod'', vtPodName s), (''container'', containerName)]"

definition podLabels :: "'f vm_stats \<Rightarrow> (string \<times> string) list" where
  "podLabels s = [(''namespace'', vtNamespace s), (''pod'', vtPodName s)]"

definition family :: "string \<Rightarrow> metric_type \<Rightarrow> int \<Rightarrow> ('f vm_stats \<Rightarrow> (string \<times> string) list) \<Rightarrow> ('f vm_stats \<Rightarrow> 'f) \<Rightarrow>
  'f vm_stats list \<Rightarrow> 'f metric_family" where
  "family name ty ms labels val vms =
     \<lparr>mfamName = name, mfamType = ty,
      mfamMetrics = map (\<lambda>s. \<lparr>mtLabels = labels s, mtValue = val s, mtTimestampMs = ms\<rparr>) vms\<rparr>"

text \<open>The families of one sample: \<open>unixMs\<close> and \<open>unixSec\<close> read a time in milliseconds and seconds.\<close>

definition metricsOf ::
  "'f float_lib \<Rightarrow> (int option \<Rightarrow> int) \<Rightarrow> (int \<Rightarrow> int) \<Rightarrow> 'f sample \<Rightarrow> 'f metric_family list" where
  "metricsOf fl unixMs unixSec sm =
     (let ms = unixMs (smCollectedAt sm); vms = smVMs sm; started = filter (\<lambda>s. vtStartedAt s \<noteq> None) vms;
          nodeMetric = (\<lambda>v. [\<lparr>mtLabels = [], mtValue = v, mtTimestampMs = ms\<rparr>])
      in [\<lparr>mfamName = ''node_cpu_usage_seconds_total'', mfamType = COUNTER, mfamMetrics = nodeMetric (ndCPUSeconds (smNode sm))\<rparr>,
          \<lparr>mfamName = ''node_memory_working_set_bytes'', mfamType = GAUGE,
           mfamMetrics = nodeMetric (flOfInt fl (ndMemoryUsedBytes (smNode sm)))\<rparr>]
         @ (if vms \<noteq> [] then
             [family ''container_cpu_usage_seconds_total'' COUNTER ms containerLabels vtCPUSeconds vms,
              family ''container_memory_working_set_bytes'' GAUGE ms containerLabels (\<lambda>s. flOfInt fl (vtMemoryRSS s)) vms,
              family ''container_cpu_cfs_throttled_seconds_total'' COUNTER ms containerLabels vtCPUThrottledSeconds vms,
              family ''container_cpu_cfs_throttled_periods_total'' COUNTER ms containerLabels (\<lambda>s. flOfInt fl (vtCPUThrottledPeriods s)) vms,
              family ''pod_cpu_usage_seconds_total'' COUNTER ms podLabels vtCPUSeconds vms,
              family ''pod_memory_working_set_bytes'' GAUGE ms podLabels (\<lambda>s. flOfInt fl (vtMemoryRSS s)) vms]
            else [])
         @ (if started \<noteq> [] then
             [family ''container_start_time_seconds'' GAUGE ms containerLabels
               (\<lambda>s. flOfInt fl (unixSec (the (vtStartedAt s)))) started]
            else []))"

definition GetMetricsResource ::
  "'f float_lib \<Rightarrow> env \<Rightarrow> stats_world \<Rightarrow> string list \<Rightarrow> prov \<Rightarrow> (int option \<Rightarrow> int) \<Rightarrow> (int \<Rightarrow> int) \<Rightarrow> int \<Rightarrow> int \<Rightarrow>
   'f sample \<Rightarrow> 'f metric_family list \<times> 'f sample" where
  "GetMetricsResource fl e k keys s unixMs unixSec t0 t1 cached =
     (let sm = CollectVMStats fl e k keys s t0 t1 cached in (metricsOf fl unixMs unixSec sm, sm))"

end
