(* ===== verification/Stats_Props.thy ===== *)
theory Stats_Props
  imports Stats Capacity_Props
begin

text \<open>
  What the parsers and the sample promise: the columns after a process name of any shape, the busy share of the processor
  line, the counters of a cgroup, and that a sample lists exactly the tracked VMs that run.
\<close>

section \<open>Words and lines\<close>

definition word :: "string \<Rightarrow> bool" where
  "word s \<longleftrightarrow> s \<noteq> [] \<and> list_all (\<lambda>c. \<not> isSpace c) s"

lemma isSpace_blank [simp]: "isSpace (CHR '' '')" "isSpace (CHR 0x0A)"
  by (simp_all add: isSpace_def)

lemma fieldsAcc_word: "list_all (\<lambda>c. \<not> isSpace c) w \<Longrightarrow> fieldsAcc (w @ s) acc = fieldsAcc s (rev w @ acc)"
  by (induction w arbitrary: acc) auto

lemma fieldsStr_join:
  assumes "list_all word ws" and "list_all isSpace t"
  shows "fieldsStr (joinStr ws '' '' @ t) = ws"
proof -
  have blank: "fieldsAcc t [] = []" using assms(2) by (induction t) auto
  have ended: "fieldsAcc t (rev w) = [w]" if "w \<noteq> []" for w
    using assms(2) that blank by (cases t) auto
  show ?thesis
    unfolding fieldsStr_def using assms(1)
    by (induction ws "'' ''" rule: joinStr.induct)
      (auto simp: blank ended fieldsAcc_word word_def)
qed

lemma linesAcc_line: "CHR 0x0A \<notin> set l \<Longrightarrow> linesAcc (l @ CHR 0x0A # s) acc = (rev acc @ l) # linesAcc s []"
  by (induction l arbitrary: acc) auto

lemma linesOf_line: "CHR 0x0A \<notin> set l \<Longrightarrow> linesOf (l @ CHR 0x0A # s) = l # linesOf s"
  by (simp add: linesOf_def linesAcc_line)

lemma cutStr_word: "c \<notin> set k \<Longrightarrow> cutStr (k @ c # v) [c] = Some (k, v)"
  by (induction k) (auto simp: hasPrefix_def)

lemma trimSpace_words:
  assumes "word k" and "word v"
  shows "trimSpace (k @ '' '' @ v) = k @ '' '' @ v"
proof -
  have front: "dropWhile isSpace (w @ s) = w @ s" if "word w" for w s
    using that by (cases w) (auto simp: word_def)
  have "word (rev v)" using assms(2) by (simp add: word_def)
  with assms front [of k "'' '' @ v"] front [of "rev v" "rev (k @ '' '')"] show ?thesis
    by (simp add: trimSpace_def)
qed

lemma itoa_word: "word (itoa n)"
proof -
  have "itoa n \<noteq> []" using natDigits_digits by (simp add: itoa_def)
  moreover have "\<not> isSpace c" if "c \<in> set (itoa n)" for c
    using itoa_chars [OF that] by (auto simp: isDigit_def isSpace_def)
  ultimately show ?thesis by (auto simp: word_def list_all_iff)
qed

section \<open>Process lines\<close>

lemma afterLastParen_split: "CHR '')'' \<notin> set t \<Longrightarrow> afterLastParen (s @ CHR '')'' # t) = Some t"
proof -
  assume "CHR '')'' \<notin> set t"
  then have "takeWhile (\<lambda>c. c \<noteq> CHR '')'') (rev t @ CHR '')'' # rev s) = rev t"
    by (subst takeWhile_append2) auto
  then show ?thesis by (simp add: afterLastParen_def)
qed

text \<open>The name of a process may hold spaces and closing parentheses. Whatever it is, the columns after it are read at
  their places: the resident pages times the page size, wrapped to 64 bits, and user plus system time over the clock rate.\<close>

theorem proc_stat_any_name:
  assumes "list_all (\<lambda>f. word f \<and> CHR '')'' \<notin> set f) cols" and "22 \<le> length cols"
  shows "parseProcStatRSS (pid @ '' ('' @ comm @ '') '' @ joinStr cols '' '' @ [CHR 0x0A]) pageSize =
           wrap64 (looseInt (cols ! 21) * pageSize)
         \<and> parseProcStatCPUSeconds fl (pid @ '' ('' @ comm @ '') '' @ joinStr cols '' '' @ [CHR 0x0A]) =
           flDiv fl (flAdd fl (flParse fl (cols ! 11)) (flParse fl (cols ! 12))) (flOfInt fl 100)"
proof -
  let ?t = "'' '' @ joinStr cols '' '' @ [CHR 0x0A]"
  have free: "CHR '')'' \<notin> set (joinStr cols '' '')"
    using assms(1) by (induction cols "'' ''" rule: joinStr.induct) auto
  have "afterLastParen ((pid @ '' ('' @ comm) @ CHR '')'' # ?t) = Some ?t"
    by (rule afterLastParen_split) (use free in simp)
  moreover have "list_all word cols" using assms(1) by (simp add: list_all_iff)
  then have "fieldsStr ?t = cols"
    using fieldsStr_join [of cols "[CHR 0x0A]"] by (simp add: fieldsStr_def)
  ultimately have "procStatFields (pid @ '' ('' @ comm @ '') '' @ joinStr cols '' '' @ [CHR 0x0A]) = cols"
    by (simp add: procStatFields_def)
  with assms(2) show ?thesis by (simp add: parseProcStatRSS_def parseProcStatCPUSeconds_def Let_def)
qed

definition exFloat :: "int float_lib" where
  "exFloat = \<lparr>flOfInt = id, flParse = looseInt, flAdd = (+), flDiv = (div), flNanos = (\<lambda>s. s * 1000000000)\<rparr>"

theorem proc_stat_any_name_witness:
  "parseProcStatRSS (''7'' @ '' ('' @ ''a) b'' @ '') '' @ joinStr (replicate 21 ''0'' @ [''25'']) '' '' @ [CHR 0x0A]) 4096 = 102400"
proof -
  have "looseInt ''25'' = 25" by code_simp
  moreover have "wrap64 102400 = 102400" by (simp add: wrap64_id)
  moreover have "list_all (\<lambda>f. word f \<and> CHR '')'' \<notin> set f) (replicate 21 ''0'' @ [''25''])" by code_simp
  ultimately show ?thesis
    using proc_stat_any_name [of "replicate 21 ''0'' @ [''25'']" "''7''" "''a) b''" 4096 exFloat]
    by (simp add: nth_append)
qed

section \<open>The processor line\<close>

lemma wrap64_idem: "wrap64 (wrap64 a + b) = wrap64 (a + b)"
  by (simp add: wrap64_def mod_simps ac_simps)

lemma busyLoop_sum:
  "wrap64 acc = acc \<Longrightarrow>
   busyLoop i ss acc = wrap64 (acc + sum_list (map looseInt (nths ss {j. \<not> skippedColumn (i + j)})))"
proof (induction ss arbitrary: i acc)
  case (Cons s ss)
  have shift: "{j. \<not> skippedColumn (Suc i + j)} = {j. Suc j \<in> {j. \<not> skippedColumn (i + j)}}" by simp
  have again: "wrap64 (wrap64 (acc + looseInt s)) = wrap64 (acc + looseInt s)"
    using wrap64_idem [of _ 0] by simp
  show ?case
    using Cons.IH [OF Cons.prems, of "Suc i"] Cons.IH [OF again, of "Suc i"]
    by (simp add: nths_Cons shift wrap64_idem add.assoc)
qed simp

text \<open>The busy time of a processor line is the sum, modulo 64 bits, of every column but idle, iowait, guest and
  guest_nice, however many columns the kernel prints.\<close>

theorem busy_columns:
  "busyTicks line =
     wrap64 (sum_list (map looseInt (nths (tl (fieldsStr line)) {i. i \<noteq> 3 \<and> i \<noteq> 4 \<and> i \<noteq> 8 \<and> i \<noteq> 9})))"
  unfolding busyTicks_def by (simp add: busyLoop_sum [of 0 0, simplified] wrap64_id skippedColumn_def)

section \<open>The counters of a cgroup\<close>

definition statLine :: "string \<times> int \<Rightarrow> string" where
  "statLine kv = fst kv @ '' '' @ itoa (snd kv) @ [CHR 0x0A]"

definition valueOr :: "int \<Rightarrow> (string \<times> int) list \<Rightarrow> string \<Rightarrow> int" where
  "valueOr d kvs key = (case map_of kvs key of None \<Rightarrow> d | Some v \<Rightarrow> v)"

lemma word_no_space: "word w \<Longrightarrow> CHR '' '' \<notin> set w \<and> CHR 0x0A \<notin> set w"
  by (auto simp: word_def list_all_iff)

lemma cpuStatStep_line:
  assumes "word k" and "- (2 ^ 63) \<le> n" and "n < 2 ^ 63"
  shows "cpuStatStep (u, t, r) (k @ '' '' @ itoa n) =
     (if k = ''usage_usec'' then n else u, if k = ''throttled_usec'' then n else t, if k = ''nr_throttled'' then n else r)"
  using trimSpace_words [OF assms(1) itoa_word] word_no_space [OF assms(1)] cutStr_word [of "CHR '' ''" k "itoa n"]
    atoi_itoa [OF assms(2,3)]
  by (simp add: cpuStatStep_def)

lemma linesOf_stat:
  "list_all (\<lambda>(k, n). word k) kvs \<Longrightarrow> linesOf (concat (map statLine kvs)) = map (\<lambda>(k, n). k @ '' '' @ itoa n) kvs"
proof (induction kvs)
  case (Cons kv kvs)
  have "CHR 0x0A \<notin> set (fst kv @ '' '' @ itoa (snd kv))"
    using Cons.prems word_no_space itoa_word by (auto simp: split_beta)
  from linesOf_line [OF this] Cons show ?case by (simp add: statLine_def split_beta)
qed (simp add: linesOf_def)

lemma valueOr_Cons: "k \<notin> fst ` set kvs \<Longrightarrow> valueOr (if k = key then n else d) kvs key = valueOr d ((k, n) # kvs) key"
  using map_of_eq_None_iff [of kvs k] by (auto simp: valueOr_def)

lemma fold_cpuStat:
  assumes "list_all (\<lambda>(k, n). word k \<and> - (2 ^ 63) \<le> n \<and> n < 2 ^ 63) kvs" and "distinct (map fst kvs)"
  shows "foldl cpuStatStep (u, t, r) (map (\<lambda>(k, n). k @ '' '' @ itoa n) kvs) =
     (valueOr u kvs ''usage_usec'', valueOr t kvs ''throttled_usec'', valueOr r kvs ''nr_throttled'')"
  using assms
proof (induction kvs arbitrary: u t r)
  case (Cons kv kvs)
  obtain k n where kv: "kv = (k, n)" by (cases kv)
  have step: "cpuStatStep (u, t, r) (k @ '' '' @ itoa n) =
     (if k = ''usage_usec'' then n else u, if k = ''throttled_usec'' then n else t, if k = ''nr_throttled'' then n else r)"
    using Cons.prems kv by (intro cpuStatStep_line) auto
  have new: "k \<notin> fst ` set kvs" using Cons.prems(2) kv by simp
  have "list_all (\<lambda>(k, n). word k \<and> - (2 ^ 63) \<le> n \<and> n < 2 ^ 63) kvs" and "distinct (map fst kvs)"
    using Cons.prems by auto
  note ih = Cons.IH [OF this]
  show ?case by (simp only: kv list.map foldl.simps prod.case step ih valueOr_Cons [OF new])
qed (simp add: valueOr_def)

text \<open>Reading back the \<open>cpu.stat\<close> a kernel prints, one \<open>key value\<close> line per counter in any order and with any
  other counters beside them, yields the three counters, zero for one that is not printed.\<close>

theorem cpu_stat_roundtrip:
  assumes "list_all (\<lambda>(k, n). word k \<and> - (2 ^ 63) \<le> n \<and> n < 2 ^ 63) kvs" and "distinct (map fst kvs)"
  shows "parseCPUStat (concat (map statLine kvs)) =
     (valueOr 0 kvs ''usage_usec'', valueOr 0 kvs ''throttled_usec'', valueOr 0 kvs ''nr_throttled'')"
proof -
  have "list_all (\<lambda>(k, n). word k) kvs" using assms(1) by (auto simp: list_all_iff)
  then show ?thesis
    using fold_cpuStat [OF assms] by (simp add: parseCPUStat_def linesOf_stat)
qed

theorem cpu_stat_roundtrip_witness:
  "parseCPUStat (concat (map statLine [(''user_usec'', 5), (''nr_throttled'', 3), (''usage_usec'', 12)])) = (12, 0, 3)"
proof -
  have "list_all (\<lambda>(k, n). word k \<and> - (2 ^ 63) \<le> n \<and> n < 2 ^ 63)
      [(''user_usec'', 5 :: int), (''nr_throttled'', 3), (''usage_usec'', 12)]" by code_simp
  then show ?thesis
    using cpu_stat_roundtrip [of "[(''user_usec'', 5), (''nr_throttled'', 3), (''usage_usec'', 12)]"]
    by (simp add: valueOr_def)
qed

section \<open>Samples\<close>

lemma sampleVM_identity:
  "vtNamespace (sampleVM fl k sn) = vtNamespace (vnStats sn)" "vtPodName (sampleVM fl k sn) = vtPodName (vnStats sn)"
  by (simp_all add: sampleVM_def Let_def split: prod.split)

definition runningPods :: "string list \<Rightarrow> prov \<Rightarrow> (string \<times> string) list" where
  "runningPods keys s =
     map (\<lambda>(p, v). (ptNamespace p, ptName p)) (filter (\<lambda>(p, v). vPID (vpVM v) \<noteq> 0) (trackedPairs keys s))"

lemma running_le:
  "length (filter (\<lambda>(n, nm). n = ns) (map (\<lambda>(p, v). (ptNamespace p, ptName p)) (filter (\<lambda>(p, v). vPID (vpVM v) \<noteq> 0) xs)))
   \<le> length (filter (\<lambda>(p, v). ptNamespace p = ns) xs)"
  by (induction xs) auto

text \<open>A summary is built from the cached sample only while that is less than two seconds old. Otherwise it lists, in
  the order of the pod table, exactly the tracked pods whose VM has a process, and the new sample counts every tracked VM
  of a namespace, running or not.\<close>

theorem summary_lists_running:
  "case GetStatsSummary fl e k keys s nodeName startTime now t0 t1 cached of (sy, sm) \<Rightarrow>
     (sm = cached \<and> (\<exists>t. smCollectedAt cached = Some t \<and> t0 - t < 2 * second))
     \<or> smCollectedAt sm = Some t1
       \<and> map (\<lambda>ps. (psNamespace ps, psName ps)) (syPods sy) = runningPods keys s
       \<and> (\<forall>ns. smTracked sm ns = int (length (filter (\<lambda>(p, v). ptNamespace p = ns) (trackedPairs keys s)))
             \<and> int (length (filter (\<lambda>(n, nm). n = ns) (runningPods keys s))) \<le> smTracked sm ns)"
proof (cases "case smCollectedAt cached of None \<Rightarrow> False | Some t \<Rightarrow> t0 - t < statsSampleTTL")
  case True
  then show ?thesis
    by (auto simp: GetStatsSummary_def CollectVMStats_def Let_def statsSampleTTL_def split: option.splits)
next
  case False
  let ?P = "filter (\<lambda>(p, v). vPID (vpVM v) \<noteq> 0) (trackedPairs keys s)"
  have ids: "map (\<lambda>ps. (psNamespace ps, psName ps)) (map (podStatsOf fl now) (map (sampleVM fl k) (map (snapOf fl e s) ?P)))
      = runningPods keys s"
    by (auto simp: podStatsOf_def sampleVM_identity snapOf_def runningPods_def Let_def)
  have le: "length (filter (\<lambda>(n, nm). n = ns) (runningPods keys s)) \<le>
      length (filter (\<lambda>(p, v). ptNamespace p = ns) (trackedPairs keys s))" for ns
    unfolding runningPods_def by (rule running_le)
  show ?thesis
    using False ids le
    by (simp add: GetStatsSummary_def CollectVMStats_def summaryOf_def snapshotTrackedVMs_def Let_def)
qed

end
