(* ===== verification/Metrics.thy ===== *)
theory Metrics
  imports Stats Complex_Main
begin

text \<open>
  The Prometheus collectors (\<open>src/metrics/metrics.go\<close>, \<open>vm_collector.go\<close>): what is declared, what \<open>Register\<close>
  installs, and what the VM collector sends in one scrape. \<open>prometheus\<close> itself is not modelled; its documented
  demands on a descriptor are the predicate \<open>accepted\<close>.
\<close>

datatype metric_kind = Counter | Histogram "rat list"

record desc =
  dcName :: string
  dcLabels :: "string list"

text \<open>A collector is a descriptor and the kind of its metrics.\<close>

record collector = desc +
  clKind :: metric_kind

definition metricNamespace :: string where "metricNamespace = ''cocoon''"
definition metricSubsystem :: string where "metricSubsystem = ''vk''"
definition labelNamespace :: string where "labelNamespace = ''namespace''"
definition labelResult :: string where "labelResult = ''result''"

text \<open>\<open>prometheus.BuildFQName\<close> on the collectors' namespace and subsystem.\<close>

definition fqName :: "string \<Rightarrow> string" where
  "fqName n = metricNamespace @ ''_'' @ metricSubsystem @ ''_'' @ n"

definition counterVec :: "string \<Rightarrow> string list \<Rightarrow> collector" where
  "counterVec name labels = \<lparr>dcName = fqName name, dcLabels = labels, clKind = Counter\<rparr>"

definition counter :: "string \<Rightarrow> collector" where
  "counter name = \<lparr>dcName = fqName name, dcLabels = [], clKind = Counter\<rparr>"

definition histogramVec :: "string \<Rightarrow> rat list \<Rightarrow> string list \<Rightarrow> collector" where
  "histogramVec name buckets labels = \<lparr>dcName = fqName name, dcLabels = labels, clKind = Histogram buckets\<rparr>"

definition histogram :: "string \<Rightarrow> rat list \<Rightarrow> collector" where
  "histogram name buckets = \<lparr>dcName = fqName name, dcLabels = [], clKind = Histogram buckets\<rparr>"

section \<open>The declared collectors\<close>

definition PodLifecycleTotal :: collector where
  "PodLifecycleTotal = counterVec ''pod_lifecycle_total'' [''op'', labelResult, ''reason'']"

definition SnapshotPullTotal :: collector where
  "SnapshotPullTotal = counterVec ''snapshot_pull_total'' [labelResult]"

definition SnapshotVerifyTotal :: collector where
  "SnapshotVerifyTotal = counterVec ''snapshot_verify_total'' [labelResult]"

definition SnapshotSaveTotal :: collector where
  "SnapshotSaveTotal = counterVec ''snapshot_save_total'' [labelResult]"

definition SnapshotPushTotal :: collector where
  "SnapshotPushTotal = counterVec ''snapshot_push_total'' [labelResult]"

definition CloneFromDirTotal :: collector where
  "CloneFromDirTotal = counterVec ''clone_from_dir_total'' [labelResult]"

definition OrphanVMTotal :: collector where
  "OrphanVMTotal = counter ''orphan_vm_total''"

definition VMInspectTransientFailTotal :: collector where
  "VMInspectTransientFailTotal = counter ''vm_inspect_transient_fail_total''"

definition PodEvictFailureTotal :: collector where
  "PodEvictFailureTotal = counter ''pod_evict_failure_total''"

definition ReconcileAdoptByNameTotal :: collector where
  "ReconcileAdoptByNameTotal = counter ''reconcile_adopt_by_name_total''"

definition StaleCreateReconcileTotal :: collector where
  "StaleCreateReconcileTotal = counterVec ''stale_create_reconcile_total'' [''outcome'']"

definition StartupResumeTotal :: collector where
  "StartupResumeTotal = counterVec ''startup_resume_total'' [''op'']"

definition HibernateEvidenceTotal :: collector where
  "HibernateEvidenceTotal = counterVec ''hibernate_evidence_total'' [''verdict'']"

definition VMBootDuration :: collector where
  "VMBootDuration = histogramVec ''vm_boot_duration_seconds''
     [1 / 2, 1, 2, 5, 10, 30, 60, 120, 300] [labelNamespace, ''mode'', ''backend'']"

definition SnapshotSaveDuration :: collector where
  "SnapshotSaveDuration = histogramVec ''snapshot_save_duration_seconds'' [1, 2, 5, 10, 30, 60, 120] [labelNamespace]"

definition SnapshotPushDuration :: collector where
  "SnapshotPushDuration = histogramVec ''snapshot_push_duration_seconds'' [1, 5, 10, 30, 60, 120, 300] [labelNamespace]"

definition SnapshotPullDuration :: collector where
  "SnapshotPullDuration = histogram ''snapshot_pull_duration_seconds'' [1, 5, 10, 30, 60, 120, 300]"

definition PeerRestoreTotal :: collector where
  "PeerRestoreTotal = counterVec ''snapshot_peer_restore_total'' [labelResult]"

definition PeerRestoreDuration :: collector where
  "PeerRestoreDuration = histogramVec ''snapshot_peer_restore_duration_seconds''
     [1, 5 / 2, 5, 15 / 2, 10, 15, 30, 60, 120] [labelNamespace]"

definition ProbeDuration :: collector where
  "ProbeDuration = histogramVec ''probe_duration_seconds''
     [1 / 1000, 1 / 200, 1 / 100, 1 / 20, 1 / 10, 1 / 2, 1, 5] [labelNamespace]"

definition HibernateTotal :: collector where
  "HibernateTotal = counterVec ''hibernate_total'' [labelNamespace, ''phase'', labelResult]"

definition LeaseReleaseTotal :: collector where
  "LeaseReleaseTotal = counterVec ''lease_release_total'' [labelResult]"

definition WakeTotal :: collector where
  "WakeTotal = counterVec ''wake_total'' [labelResult]"

definition WakeIPWaitTotal :: collector where
  "WakeIPWaitTotal = counterVec ''wake_ip_wait_total'' [labelNamespace, labelResult]"

definition WakeRenewNudgeTotal :: collector where
  "WakeRenewNudgeTotal = counterVec ''wake_renew_nudge_total'' [labelResult]"

definition PostCloneTotal :: collector where
  "PostCloneTotal = counterVec ''postclone_total'' [''kind'', labelResult]"

definition PostCloneRetryAttempts :: collector where
  "PostCloneRetryAttempts = histogramVec ''postclone_retry_attempts'' [1, 2, 5, 10, 20, 40, 60] [labelResult]"

text \<open>\<open>Register\<close>, in its order.\<close>

definition Register :: "collector list" where
  "Register =
     [PodLifecycleTotal, SnapshotSaveTotal, SnapshotPullTotal, SnapshotPushTotal, SnapshotVerifyTotal,
      CloneFromDirTotal, OrphanVMTotal, VMInspectTransientFailTotal, PodEvictFailureTotal,
      ReconcileAdoptByNameTotal, StaleCreateReconcileTotal, StartupResumeTotal, HibernateEvidenceTotal,
      VMBootDuration, SnapshotSaveDuration, SnapshotPushDuration, SnapshotPullDuration, PeerRestoreTotal,
      PeerRestoreDuration, ProbeDuration, HibernateTotal, LeaseReleaseTotal, WakeTotal, WakeIPWaitTotal,
      WakeRenewNudgeTotal, PostCloneTotal, PostCloneRetryAttempts]"

section \<open>The VM collector\<close>

record vm_collector =
  vmCPUDesc :: desc
  vmThrottledDesc :: desc
  vmThrottledPerDesc :: desc
  vmMemDesc :: desc
  vmDiskDesc :: desc
  vmNetRxDesc :: desc
  vmNetTxDesc :: desc
  vmTableDesc :: desc
  nodeCPUDesc :: desc
  nodeMemDesc :: desc
  nodeStorAvail :: desc
  nodeStorTotal :: desc

definition vmLabels :: "string list" where
  "vmLabels = [''vm'', ''pod'', ''namespace'', ''backend'']"

definition newDesc :: "string \<Rightarrow> string list \<Rightarrow> desc" where
  "newDesc n labels = \<lparr>dcName = fqName n, dcLabels = labels\<rparr>"

definition NewVMCollector :: vm_collector where
  "NewVMCollector =
     \<lparr>vmCPUDesc = newDesc ''vm_cpu_seconds_total'' vmLabels,
      vmThrottledDesc = newDesc ''vm_cpu_throttled_seconds_total'' vmLabels,
      vmThrottledPerDesc = newDesc ''vm_cpu_throttled_periods_total'' vmLabels,
      vmMemDesc = newDesc ''vm_memory_rss_bytes'' vmLabels,
      vmDiskDesc = newDesc ''vm_disk_cow_bytes'' vmLabels,
      vmNetRxDesc = newDesc ''vm_network_rx_bytes_total'' vmLabels,
      vmNetTxDesc = newDesc ''vm_network_tx_bytes_total'' vmLabels,
      vmTableDesc = newDesc ''vm_table_size'' [labelNamespace],
      nodeCPUDesc = newDesc ''node_cpu_seconds_total'' [],
      nodeMemDesc = newDesc ''node_memory_used_bytes'' [],
      nodeStorAvail = newDesc ''node_storage_available_bytes'' [],
      nodeStorTotal = newDesc ''node_storage_total_bytes'' []\<rparr>"

definition Describe :: "vm_collector \<Rightarrow> desc list" where
  "Describe c =
     [vmCPUDesc c, vmThrottledDesc c, vmThrottledPerDesc c, vmMemDesc c, vmDiskDesc c, vmNetRxDesc c,
      vmNetTxDesc c, vmTableDesc c, nodeCPUDesc c, nodeMemDesc c, nodeStorAvail c, nodeStorTotal c]"

text \<open>A constant metric: descriptor, value type, value and label values.\<close>

type_synonym 'f const_metric = "desc \<times> metric_type \<times> 'f \<times> string list"

definition vmMetrics :: "'f float_lib \<Rightarrow> vm_collector \<Rightarrow> 'f vm_stats \<Rightarrow> 'f const_metric list" where
  "vmMetrics fl c v =
     (let labels = [vtVMName v, vtPodName v, vtNamespace v, vtBackend v] in
      [(vmCPUDesc c, COUNTER, vtCPUSeconds v, labels),
       (vmThrottledDesc c, COUNTER, vtCPUThrottledSeconds v, labels),
       (vmThrottledPerDesc c, COUNTER, flOfInt fl (vtCPUThrottledPeriods v), labels),
       (vmMemDesc c, GAUGE, flOfInt fl (vtMemoryRSS v), labels),
       (vmDiskDesc c, GAUGE, flOfInt fl (vtDiskCOW v), labels),
       (vmNetRxDesc c, COUNTER, flOfInt fl (vtNetRxBytes v), labels),
       (vmNetTxDesc c, COUNTER, flOfInt fl (vtNetTxBytes v), labels)])"

text \<open>One scrape: \<open>nss\<close> is the order of the range over the namespaces of the sample.\<close>

definition Collect :: "'f float_lib \<Rightarrow> vm_collector \<Rightarrow> string list \<Rightarrow> 'f sample \<Rightarrow> 'f const_metric list" where
  "Collect fl c nss sm =
     concat (map (vmMetrics fl c) (smVMs sm))
     @ map (\<lambda>ns. (vmTableDesc c, GAUGE, flOfInt fl (smTracked sm ns), [ns])) nss
     @ [(nodeCPUDesc c, COUNTER, ndCPUSeconds (smNode sm), []),
        (nodeMemDesc c, GAUGE, flOfInt fl (ndMemoryUsedBytes (smNode sm)), []),
        (nodeStorAvail c, GAUGE, flOfInt fl (ndStorageAvailable (smNode sm)), []),
        (nodeStorTotal c, GAUGE, flOfInt fl (ndStorageTotal (smNode sm)), [])]"

section \<open>What Prometheus demands\<close>

text \<open>Characters of metric and label names, without the colon that is kept for rules.\<close>

definition nameChar :: "char \<Rightarrow> bool" where
  "nameChar c \<longleftrightarrow> (let n = of_char c :: nat in 97 \<le> n \<and> n \<le> 122 \<or> 65 \<le> n \<and> n \<le> 90 \<or> n = 95)"

definition validName :: "string \<Rightarrow> bool" where
  "validName s \<longleftrightarrow> s \<noteq> [] \<and> nameChar (hd s) \<and> list_all (\<lambda>c. nameChar c \<or> isDigit c) s"

text \<open>\<open>MustRegister\<close> and the constructors panic on anything else: valid names, distinct labels, increasing buckets and no
  \<open>le\<close> label on a histogram.\<close>

definition accepted :: "('a desc_scheme) \<Rightarrow> bool" where
  "accepted d \<longleftrightarrow> validName (dcName d) \<and> list_all validName (dcLabels d) \<and> distinct (dcLabels d)"

definition acceptedKind :: "collector \<Rightarrow> bool" where
  "acceptedKind c \<longleftrightarrow>
     (case clKind c of Counter \<Rightarrow> True
      | Histogram bs \<Rightarrow> sorted_wrt (<) bs \<and> bs \<noteq> [] \<and> ''le'' \<notin> set (dcLabels c))"

end
