(* ===== verification/Metrics_Props.thy ===== *)
theory Metrics_Props
  imports Metrics Stats_Props Table_Invariants
begin

text \<open>
  The collectors satisfy what Prometheus demands of them, so neither registration nor a scrape panics or is refused.
\<close>

lemmas collector_defs =
  PodLifecycleTotal_def SnapshotPullTotal_def SnapshotVerifyTotal_def SnapshotSaveTotal_def SnapshotPushTotal_def
  CloneFromDirTotal_def OrphanVMTotal_def VMInspectTransientFailTotal_def PodEvictFailureTotal_def
  ReconcileAdoptByNameTotal_def StaleCreateReconcileTotal_def StartupResumeTotal_def HibernateEvidenceTotal_def
  VMBootDuration_def SnapshotSaveDuration_def SnapshotPushDuration_def SnapshotPullDuration_def PeerRestoreTotal_def
  PeerRestoreDuration_def ProbeDuration_def HibernateTotal_def LeaseReleaseTotal_def WakeTotal_def WakeIPWaitTotal_def
  WakeRenewNudgeTotal_def PostCloneTotal_def PostCloneRetryAttempts_def

lemmas desc_defs =
  counter_def counterVec_def histogram_def histogramVec_def newDesc_def fqName_def metricNamespace_def metricSubsystem_def
  labelNamespace_def labelResult_def vmLabels_def

section \<open>Registration\<close>

lemma name_letters: "list_all nameChar ''abcdefghijklmnopqrstuvwxyz_''"
  by code_simp

lemmas nameChar_letter = name_letters [simplified]

lemma register_accepted: "list_all accepted Register"
  by (simp add: Register_def accepted_def validName_def nameChar_letter collector_defs desc_defs)

lemma describe_accepted: "list_all accepted (Describe NewVMCollector)"
  by (simp add: Describe_def NewVMCollector_def accepted_def validName_def nameChar_letter desc_defs)

lemma register_kinds: "list_all acceptedKind Register"
  by (simp add: Register_def acceptedKind_def collector_defs desc_defs)

text \<open>Every collector that is registered, the VM collector's included, is one Prometheus accepts: a valid metric
  name used by no other, valid distinct labels, increasing buckets. So \<open>MustRegister\<close> does not panic at start.\<close>

theorem registration_accepted:
  "list_all accepted Register \<and> list_all acceptedKind Register \<and> list_all accepted (Describe NewVMCollector)
   \<and> distinct (map dcName Register @ map dcName (Describe NewVMCollector))"
proof (intro conjI)
  show "list_all accepted Register" by (rule register_accepted)
  show "list_all acceptedKind Register" by (rule register_kinds)
  show "list_all accepted (Describe NewVMCollector)" by (rule describe_accepted)
  show "distinct (map dcName Register @ map dcName (Describe NewVMCollector))" by code_simp
qed

section \<open>Scrapes\<close>

text \<open>A series is a metric name with its label values; a scrape that sends one twice is refused.\<close>

definition seriesOf :: "'f const_metric \<Rightarrow> string \<times> string list" where
  "seriesOf m = (case m of (d, _, _, ls) \<Rightarrow> (dcName d, ls))"

definition wellTyped :: "vm_collector \<Rightarrow> 'f const_metric \<Rightarrow> bool" where
  "wellTyped c m = (case m of (d, _, _, ls) \<Rightarrow> d \<in> set (Describe c) \<and> length ls = length (dcLabels d))"

definition vmNames :: "string list" where
  "vmNames = map dcName [vmCPUDesc NewVMCollector, vmThrottledDesc NewVMCollector, vmThrottledPerDesc NewVMCollector,
     vmMemDesc NewVMCollector, vmDiskDesc NewVMCollector, vmNetRxDesc NewVMCollector, vmNetTxDesc NewVMCollector]"

definition otherNames :: "string list" where
  "otherNames = map dcName [nodeCPUDesc NewVMCollector, nodeMemDesc NewVMCollector, nodeStorAvail NewVMCollector,
     nodeStorTotal NewVMCollector]"

lemma names_distinct:
  "distinct vmNames" "distinct otherNames" "dcName (vmTableDesc NewVMCollector) \<notin> set vmNames"
  "dcName (vmTableDesc NewVMCollector) \<notin> set otherNames" "set vmNames \<inter> set otherNames = {}"
  by code_simp+

lemma vm_series:
  "map seriesOf (vmMetrics fl NewVMCollector v) =
     map (\<lambda>n. (n, [vtVMName v, vtPodName v, vtNamespace v, vtBackend v])) vmNames"
  by (simp add: vmMetrics_def seriesOf_def vmNames_def Let_def)

lemma vms_series:
  "map seriesOf (concat (map (vmMetrics fl NewVMCollector) vms)) =
     concat (map (\<lambda>v. map (\<lambda>n. (n, [vtVMName v, vtPodName v, vtNamespace v, vtBackend v])) vmNames) vms)"
  by (simp add: map_concat vm_series o_def)

lemma vms_distinct:
  "distinct (map (\<lambda>v. (vtNamespace v, vtPodName v)) vms) \<Longrightarrow>
   distinct (concat (map (\<lambda>v. map (\<lambda>n. (n, [vtVMName v, vtPodName v, vtNamespace v, vtBackend v])) vmNames) vms))"
proof (induction vms)
  case (Cons v vms)
  have "distinct (map (\<lambda>n. (n, [vtVMName v, vtPodName v, vtNamespace v, vtBackend v])) vmNames)"
    using names_distinct(1) by (simp add: distinct_map inj_on_def)
  moreover have "(n, [vtVMName v, vtPodName v, vtNamespace v, vtBackend v]) \<notin>
      set (concat (map (\<lambda>v. map (\<lambda>n. (n, [vtVMName v, vtPodName v, vtNamespace v, vtBackend v])) vmNames) vms))" for n
    using Cons.prems by force
  ultimately show ?case using Cons by (auto simp: disjoint_iff)
qed simp

lemma collect_distinct:
  assumes "distinct (map (\<lambda>v. (vtNamespace v, vtPodName v)) (smVMs sm))" and "distinct nss"
  shows "distinct (map seriesOf (Collect fl NewVMCollector nss sm))"
proof -
  let ?t = "dcName (vmTableDesc NewVMCollector)"
  let ?A = "concat (map (\<lambda>v. map (\<lambda>n. (n, [vtVMName v, vtPodName v, vtNamespace v, vtBackend v])) vmNames) (smVMs sm))"
  let ?B = "map (\<lambda>ns. (?t, [ns])) nss"
  let ?C = "map (\<lambda>n. (n, [])) otherNames"
  have split: "map seriesOf (Collect fl NewVMCollector nss sm) = ?A @ ?B @ ?C"
    by (simp add: Collect_def vms_series seriesOf_def otherNames_def o_def)
  have A: "fst ` set ?A \<subseteq> set vmNames" by auto
  have "distinct ?A" by (rule vms_distinct) (rule assms(1))
  moreover have "distinct ?B" using assms(2) by (simp add: distinct_map inj_on_def)
  moreover have "distinct ?C" using names_distinct(2) by (simp add: distinct_map inj_on_def)
  moreover have "set ?B \<inter> set ?C = {}" using names_distinct(4) by auto
  moreover have "set ?A \<inter> set (?B @ ?C) = {}" using A names_distinct(3,5) by fastforce
  ultimately show ?thesis unfolding split distinct_append by simp
qed

lemma collect_typed: "list_all (wellTyped NewVMCollector) (Collect fl NewVMCollector nss sm)"
  by (auto simp: Collect_def wellTyped_def vmMetrics_def Describe_def Let_def list_all_iff NewVMCollector_def newDesc_def
      vmLabels_def)

lemma running_distinct:
  assumes "pods_keyed e s" and "distinct keys"
  shows "distinct (runningPods keys s)"
proof -
  have key: "\<exists>k\<in>set ks. k = mPodKey (lib e) ns nm" if "(ns, nm) \<in> set (runningPods ks s)" for ks ns nm
    using that assms(1)
    by (auto simp: runningPods_def trackedPairs_def List.map_filter_def pods_keyed_def podKey_def split: option.splits)
  show ?thesis
    using assms(2)
  proof (induction keys)
    case (Cons k ks)
    show ?case
    proof (cases "pods s k")
      case (Some p)
      then have "k = mPodKey (lib e) (ptNamespace p) (ptName p)"
        using assms(1) by (simp add: pods_keyed_def podKey_def)
      then have "(ptNamespace p, ptName p) \<notin> set (runningPods ks s)"
        using key [of "ptNamespace p" "ptName p" ks] Cons.prems by auto
      with Some Cons show ?thesis
        by (auto simp: runningPods_def trackedPairs_def map_filter_simps split: option.splits)
    qed (use Cons in \<open>auto simp: runningPods_def trackedPairs_def map_filter_simps\<close>)
  qed (simp add: runningPods_def trackedPairs_def map_filter_simps)
qed

lemma fresh_sample_pods:
  assumes "smCollectedAt cached = None"
  shows "map (\<lambda>v. (vtNamespace v, vtPodName v)) (smVMs (CollectVMStats fl e k keys s t0 t1 cached)) = runningPods keys s"
  using assms
  by (auto simp: CollectVMStats_def snapshotTrackedVMs_def sampleVM_identity snapOf_def runningPods_def Let_def)


definition exStatsWorld :: stats_world where
  "exStatsWorld = \<lparr>skProcStat = (\<lambda>_. None), skNetDev = (\<lambda>_. Inr ([], None)), skReadFile = (\<lambda>_. Inr []), skFileSize = (\<lambda>_. None),
     skBlocks = (\<lambda>_. None), skNodeStat = Inr ([], None),
     skHost = \<lparr>hoGetenv = (\<lambda>_. []), hoNumCPU = 4, hoMeminfo = Inr ([], None),
       hoStatfs = (\<lambda>_. Inr \<lparr>sfBlocks = 8, sfBavail = 4, sfBsize = 4096\<rparr>)\<rparr>, skPageSize = 4096\<rparr>"

definition noSample :: "int sample" where
  "noSample = \<lparr>smVMs = [], smNode = \<lparr>ndCPUSeconds = 0, ndMemoryUsedBytes = 0, ndStorageAvailable = 0, ndStorageTotal = 0\<rparr>,
     smTracked = (\<lambda>_. 0), smCollectedAt = None\<rparr>"


end
