(* ===== verification/Node.thy ===== *)
theory Node
  imports Macos Status Reconcile Registry_Transfer Network Stats Complex_Main
begin

text \<open>
  The node around the provider (\<open>src/main.go\<close>, \<open>provider/cocoon/nodeprovider.go\<close>, \<open>access.go\<close>, the orphan policy of
  \<open>provider/provider.go\<close>): the node object as it is registered, the labels and the endpoint that are re-asserted after
  registration, the storage that is pushed as VM disks grow, the built provider, and the container endpoints.
  The labels and the taint key of \<open>cocoon-common\<close> and the retry function of \<open>virtual-kubelet\<close> are parameters.
\<close>

section \<open>Configuration\<close>

definition OrphanAlert :: string where "OrphanAlert = ''alert''"

definition ParseOrphanPolicy :: "string \<Rightarrow> err + string" where
  "ParseOrphanPolicy s =
     (let p = toLower (trimSpace s) in
      if p = OrphanAlert \<or> p = OrphanDestroy \<or> p = OrphanKeep then Inr p
      else Inl (newErr (''orphan policy must be '' @ OrphanAlert @ '', '' @ OrphanDestroy @ '' or '' @ OrphanKeep
             @ '', got '' @ quoteStr s)))"

definition defaultKubeletAPIPort :: int where "defaultKubeletAPIPort = 10250"

text \<open>\<open>strconv.ParseUint\<close> at 16 bits.\<close>

definition parseUint16 :: "string \<Rightarrow> int option" where
  "parseUint16 s =
     (if s = [] \<or> \<not> list_all isDigit s \<or> 2 ^ 16 \<le> digitsVal s then None else Some (int (digitsVal s)))"

definition kubeletAPIPort :: "host \<Rightarrow> int" where
  "kubeletAPIPort h =
     (case parseUint16 (hoGetenv h ''VK_KUBELET_PORT'') of
        Some p \<Rightarrow> if p > 0 then p else defaultKubeletAPIPort
      | None \<Rightarrow> defaultKubeletAPIPort)"

record build_opts =
  boNodeName :: string
  boSnapshotCompatibilityClass :: string
  boOCIRegistry :: string
  boLeasesPath :: string
  boControlSocket :: string
  boCocoonBin :: string
  boMacosBin :: string
  boMacosVNCPassword :: string
  boOrphanPolicy :: string
  boRestoreMode :: string
  boStagingDir :: string
  boPeerPort :: string

text \<open>The registry client, of which only the repository it is for is kept.\<close>

definition buildRegistry :: "build_opts \<Rightarrow> err + string" where
  "buildRegistry opts =
     (if boOCIRegistry opts = [] then Inl (newErr ''OCI_REGISTRY must be set'') else Inr (boOCIRegistry opts))"

datatype pinger = NopPinger | ICMPPinger

text \<open>What \<open>buildProvider\<close> puts together: the provider's settings, and the parts that carry settings of their own.
  \<open>base\<close> holds the settings that are not chosen here.\<close>

record built =
  bpConfig :: config
  bpState :: prov
  bpBinary :: string
  bpMacosBin :: string
  bpRegistry :: string
  bpTransfer :: transfer_config
  bpPusherNode :: string
  bpStagingRoot :: string
  bpLeases :: lease_parser
  bpControlSocket :: string
  bpPinger :: pinger

definition defaultCocoonBinary :: string where "defaultCocoonBinary = ''/usr/local/bin/cocoon''"

definition builtConfig :: "config \<Rightarrow> build_opts \<Rightarrow> string \<Rightarrow> string \<Rightarrow> config" where
  "builtConfig base opts restoreMode orphanPolicy =
     base\<lparr>cfgNodeName := boNodeName opts, cfgCompatibilityClass := boSnapshotCompatibilityClass opts,
       cfgClientset := True, cfgMacosVNCPassword := boMacosVNCPassword opts, cfgPuller := True, cfgPullerRegistry := True,
       cfgPusher := True, cfgPeerRestorer := True, cfgPeerPort := boPeerPort opts, cfgRegistry := True,
       cfgLeaseParser := True, cfgLeaseReleaser := True, cfgGuestSAC := True, cfgProbes := True,
       cfgOrphanPolicy := orphanPolicy, cfgRestoreMode := restoreMode\<rparr>"

definition buildProvider :: "config \<Rightarrow> (string \<Rightarrow> int) \<Rightarrow> bool \<Rightarrow> build_opts \<Rightarrow> err + built" where
  "buildProvider base env icmp opts =
     (case ParseRestoreMode (boRestoreMode opts) of
        Inl x \<Rightarrow> Inl (wrapErr ''parse VK_RESTORE_MODE: '' x [])
      | Inr restoreMode \<Rightarrow>
     (case ParseOrphanPolicy (boOrphanPolicy opts) of
        Inl x \<Rightarrow> Inl (wrapErr ''parse VK_ORPHAN_POLICY: '' x [])
      | Inr orphanPolicy \<Rightarrow>
     (case buildRegistry opts of
        Inl x \<Rightarrow> Inl (wrapErr ''construct registry client: '' x [])
      | Inr registry \<Rightarrow>
          Inr \<lparr>bpConfig = builtConfig base opts restoreMode orphanPolicy, bpState = NewProvider,
            bpBinary = orStr (boCocoonBin opts) defaultCocoonBinary, bpMacosBin = boMacosBin opts, bpRegistry = registry,
            bpTransfer = TransferConfigFromEnv env, bpPusherNode = boNodeName opts, bpStagingRoot = boStagingDir opts,
            bpLeases = NewLeaseParser (boLeasesPath opts), bpControlSocket = boControlSocket opts,
            bpPinger = (if icmp then ICMPPinger else NopPinger)\<rparr>)))"

section \<open>The node object\<close>

record node_consts =
  LabelNodePool :: string
  LabelSnapshotCompatibilityClass :: string
  TolerationKey :: string

record taint =
  tnKey :: string
  tnValue :: string
  tnEffect :: string

record node_condition =
  ncoType :: string
  ncoStatus :: string
  ncoReason :: string
  ncoMessage :: string

text \<open>The labels are a Go map, which may be nil.\<close>

record node =
  noLabels :: "(string \<rightharpoonup> string) option"
  noProviderID :: string
  noTaints :: "taint list"
  noKubeletVersion :: string
  noConditions :: "node_condition list"
  noAddresses :: "(string \<times> string) list"
  noCapacity :: resource_list
  noAllocatable :: resource_list
  noPort :: int

definition roleLabel :: string where "roleLabel = ''node-role.kubernetes.io/cocoon-vm''"

definition applyNodeLabels :: "node_consts \<Rightarrow> string \<Rightarrow> string \<Rightarrow> node \<Rightarrow> node" where
  "applyNodeLabels nc nodePool cls n =
     (let m0 = (case noLabels n of None \<Rightarrow> Map.empty | Some m \<Rightarrow> m);
          m1 = m0(LabelNodePool nc \<mapsto> nodePool, roleLabel \<mapsto> [])
      in n\<lparr>noLabels := Some (m1(LabelSnapshotCompatibilityClass nc := (if cls = [] then None else Some cls)))\<rparr>)"

definition nodeCondition :: "string \<Rightarrow> string \<Rightarrow> string \<Rightarrow> string \<Rightarrow> node_condition" where
  "nodeCondition ty st reason msg = \<lparr>ncoType = ty, ncoStatus = st, ncoReason = reason, ncoMessage = msg\<rparr>"

definition defaultNodeConditions :: "node_condition list" where
  "defaultNodeConditions =
     [nodeCondition ''Ready'' ''True'' ''KubeletReady'' ''vk-cocoon is ready'',
      nodeCondition ''DiskPressure'' ''False'' ''KubeletHasNoDiskPressure'' ''vk-cocoon has no disk pressure'',
      nodeCondition ''MemoryPressure'' ''False'' ''KubeletHasSufficientMemory'' ''vk-cocoon has sufficient memory'',
      nodeCondition ''PIDPressure'' ''False'' ''KubeletHasSufficientPID'' ''vk-cocoon has sufficient PID available'',
      nodeCondition ''NetworkUnavailable'' ''False'' ''RouteCreated'' ''NodeController create implicit route'']"

record node_setup =
  nsPool :: string
  nsClass :: string
  nsVersion :: string
  nsIP :: string
  nsName :: string
  nsProviderID :: string
  nsCapacity :: resource_list
  nsAllocatable :: resource_list

text \<open>The node part of \<open>newProvider\<close>.\<close>

definition setupNode :: "node_consts \<Rightarrow> host \<Rightarrow> node_setup \<Rightarrow> node \<Rightarrow> node" where
  "setupNode nc h u n =
     (let n1 = (applyNodeLabels nc (nsPool u) (nsClass u) n)
            \<lparr>noKubeletVersion := nsVersion u, noConditions := defaultNodeConditions,
             noAddresses := [(''InternalIP'', nsIP u), (''Hostname'', nsName u)],
             noCapacity := nsCapacity u, noAllocatable := nsAllocatable u, noPort := kubeletAPIPort h\<rparr>;
          n2 = (if nsProviderID u \<noteq> [] then n1\<lparr>noProviderID := nsProviderID u\<rparr> else n1)
      in if list_ex (\<lambda>t. tnKey t = TolerationKey nc) (noTaints n2) then n2
         else n2\<lparr>noTaints := noTaints n2 @ [\<lparr>tnKey = TolerationKey nc, tnValue = ''cocoon'', tnEffect = ''NoSchedule''\<rparr>]\<rparr>)"

section \<open>Re-asserting labels and endpoint\<close>

datatype node_event =
    NodeSleep int
  | NodeGet
  | NodeUpdate node
  | NodeUpdateStatus node

text \<open>The API server and the context: each answer depends on the calls before it.\<close>

record node_world =
  nwGet :: "node_event list \<Rightarrow> err + node"
  nwUpdate :: "node_event list \<Rightarrow> node \<Rightarrow> err + node"
  nwUpdateStatus :: "node_event list \<Rightarrow> node \<Rightarrow> err option"
  nwSleep :: "node_event list \<Rightarrow> bool"

type_synonym 'a nodes = "(node_event list, 'a) state"

definition nodeCall :: "(node_event list \<Rightarrow> 'a) \<Rightarrow> node_event \<Rightarrow> 'a nodes" where
  "nodeCall ans ev = State (\<lambda>h. (ans h, h @ [ev]))"

definition endpointPatchWait :: int where "endpointPatchWait = 5 * second"
definition endpointPatchRetry :: int where "endpointPatchRetry = 2 * second"
definition nodePatchAttempts :: nat where "nodePatchAttempts = 10"

text \<open>\<open>n\<close> attempts are left; a failed attempt that is not the last waits, and gives up when the context ends.\<close>

fun patchAttempts :: "node_world \<Rightarrow> node_consts \<Rightarrow> int \<Rightarrow> string \<Rightarrow> string \<Rightarrow> nat \<Rightarrow> unit nodes" where
  "patchAttempts w nc port pool cls 0 = State_Monad.return ()"
| "patchAttempts w nc port pool cls (Suc n) =
     (let again = (if n = 0 then State_Monad.return ()
            else do {
              ok \<leftarrow> nodeCall (nwSleep w) (NodeSleep endpointPatchRetry);
              if ok then patchAttempts w nc port pool cls n else State_Monad.return ()
            })
      in do {
        got \<leftarrow> nodeCall (nwGet w) NodeGet;
        case got of
          Inl _ \<Rightarrow> again
        | Inr nodeObj \<Rightarrow> do {
            let labelled = applyNodeLabels nc pool cls nodeObj;
            r \<leftarrow> nodeCall (\<lambda>h. nwUpdate w h labelled) (NodeUpdate labelled);
            case r of
              Inl _ \<Rightarrow> again
            | Inr updated \<Rightarrow> do {
                let st = updated\<lparr>noPort := port\<rparr>;
                x \<leftarrow> nodeCall (\<lambda>h. nwUpdateStatus w h st) (NodeUpdateStatus st);
                case x of Some _ \<Rightarrow> again | None \<Rightarrow> State_Monad.return ()
              }
          }
      })"

definition patchNodeLabelsAndEndpoint :: "node_world \<Rightarrow> node_consts \<Rightarrow> host \<Rightarrow> string \<Rightarrow> string \<Rightarrow> unit nodes" where
  "patchNodeLabelsAndEndpoint w nc h pool cls = do {
     ok \<leftarrow> nodeCall (nwSleep w) (NodeSleep endpointPatchWait);
     if ok then patchAttempts w nc (kubeletAPIPort h) pool cls nodePatchAttempts else State_Monad.return ()
   }"

section \<open>Pushing storage\<close>

record node_provider =
  npBase :: "node option"
  npLastSent :: quantity

definition NewNodeProvider :: "node option \<Rightarrow> node_provider" where
  "NewNodeProvider base =
     \<lparr>npBase = base,
      npLastSent = (case base of None \<Rightarrow> zeroQty
        | Some b \<Rightarrow> (case noAllocatable b ResourceEphemeralStorage of None \<Rightarrow> zeroQty | Some q \<Rightarrow> q))\<rparr>"

text \<open>One refresh: \<open>reading\<close> is what \<open>StorageAllocatable\<close> answered for the disk held. The result is the node handed to
  the callback, if any. It runs only on a provider with a base node.\<close>

definition pushStorage :: "qty_lib \<Rightarrow> err + quantity option \<Rightarrow> node_provider \<Rightarrow> node option \<times> node_provider" where
  "pushStorage ql r np =
     (case r of
        Inl _ \<Rightarrow> (None, np)
      | Inr None \<Rightarrow> (None, np)
      | Inr (Some q) \<Rightarrow>
          if qlEqual ql q (npLastSent np) then (None, np)
          else (map_option (\<lambda>b. b\<lparr>noAllocatable := (noAllocatable b)(ResourceEphemeralStorage \<mapsto> q)\<rparr>) (npBase np),
                np\<lparr>npLastSent := q\<rparr>))"

text \<open>\<open>NotifyNodeStatus\<close>: one refresh at once and one per tick, on the host as each finds it and the disk held then.\<close>

fun NotifyNodeStatus :: "qty_lib \<Rightarrow> (host \<times> int) list \<Rightarrow> node_provider \<Rightarrow> node list \<times> node_provider" where
  "NotifyNodeStatus ql [] np = ([], np)"
| "NotifyNodeStatus ql ((h, held) # ticks) np =
     (if npBase np = None then ([], np)
      else
        (case pushStorage ql (StorageAllocatable ql h held) np of (sent, np1) \<Rightarrow>
         (case NotifyNodeStatus ql ticks np1 of (rest, np2) \<Rightarrow>
            ((case sent of None \<Rightarrow> rest | Some n \<Rightarrow> n # rest), np2))))"

section \<open>The pod controller's hooks\<close>

text \<open>An error that keeps the VM is not retried; \<open>dflt\<close> is \<open>node.DefaultRetryFunc\<close> on the same arguments.\<close>

definition retryPodSync :: "int option \<times> err option \<Rightarrow> err \<Rightarrow> int option \<times> err option" where
  "retryPodSync dflt x = (if errIs x ErrDeleteKeptVM then (None, None) else dflt)"

datatype limiter = Backoff int int | MaxOf limiter limiter | Bucket rat int

definition podRetryBaseDelay :: int where "podRetryBaseDelay = 5 * 10 ^ 6"
definition podRetryMaxDelay :: int where "podRetryMaxDelay = 1000 * second"

text \<open>The rate limiter of each of the three queues, from the client's limits or the library's defaults.\<close>

definition podLimiter :: "rat \<Rightarrow> int \<Rightarrow> rat \<Rightarrow> int \<Rightarrow> limiter" where
  "podLimiter defaultQPS defaultBurst qps burst =
     (let q = (if qps = 0 then defaultQPS else qps); b = orInt burst defaultBurst;
          backoff = Backoff podRetryBaseDelay podRetryMaxDelay
      in if q < 0 then backoff else MaxOf backoff (Bucket q b))"

text \<open>What the informer's delete handler is given.\<close>

datatype informer_obj = ObjPod podptr | DeletedFinalStateUnknown informer_obj | ObjOther

definition onPodUpdate :: "env \<Rightarrow> podptr \<Rightarrow> unit act" where
  "onPodUpdate e p = RefreshKeepSnapshotOnDelete e p"

definition onPodDelete :: "env \<Rightarrow> informer_obj \<Rightarrow> unit act" where
  "onPodDelete e obj =
     (case (case obj of DeletedFinalStateUnknown o' \<Rightarrow> o' | _ \<Rightarrow> obj) of
        ObjPod p \<Rightarrow> DeleteFailedMacosCreate e p
      | _ \<Rightarrow> State_Monad.return ())"

section \<open>Container endpoints\<close>

text \<open>\<open>v\<close> is the VM that \<open>vmForPod\<close> found.\<close>

definition GetContainerLogs :: "cli_world \<Rightarrow> vmptr option \<Rightarrow> int \<Rightarrow> (err + string) cli" where
  "GetContainerLogs w v tailLines =
     (case v of
        None \<Rightarrow> State_Monad.return (Inr (''vk-cocoon: pod has no live VM'' @ [CHR 0x0A]))
      | Some v \<Rightarrow> Logs w (vpID v) (if tailLines \<le> 0 then 200 else tailLines))"

definition RunInContainer ::
  "cli_world \<Rightarrow> string \<Rightarrow> string \<Rightarrow> vmptr option \<Rightarrow> string list \<Rightarrow> bool \<Rightarrow> (err \<times> int option) option cli" where
  "RunInContainer w ns podName v cmd stdin =
     (case v of
        None \<Rightarrow> State_Monad.return (Some (newErr (''pod '' @ ns @ ''/'' @ podName @ '' has no live VM''), None))
      | Some v \<Rightarrow> Exec w (vpID v) cmd [] stdin)"

definition AttachToContainer :: "err option" where
  "AttachToContainer = Some (newErr ''vk-cocoon: AttachToContainer is not implemented'')"

definition PortForward :: "err option" where
  "PortForward = Some (newErr ''vk-cocoon: PortForward is not implemented'')"

end
