(* ===== verification/Node_Props.thy ===== *)
theory Node_Props
  imports Node Table_Invariants Capacity_Props
begin

text \<open>
  What the node's wiring promises: valid settings, a registration that can be repeated, labels and endpoint that land once
  the API server answers, and storage pushes that change one field and follow the last reading.
\<close>

section \<open>Settings\<close>

lemma ParseRestoreMode_Inr: "ParseRestoreMode s = Inr m \<Longrightarrow> m \<in> {RestoreCopy, RestoreOnDemand, RestoreMmap}"
  by (auto simp: ParseRestoreMode_def Let_def split: if_splits)

lemma ParseOrphanPolicy_Inr: "ParseOrphanPolicy s = Inr m \<Longrightarrow> m \<in> {OrphanAlert, OrphanDestroy, OrphanKeep}"
  by (auto simp: ParseOrphanPolicy_def Let_def split: if_splits)

text \<open>A provider is built only from settings that parse, and then every setting is of its type: restore mode and
  orphan policy are canonical values, whatever case and blanks they were written with, the registry is named, the
  transfer limits are not negative, and every optional part is present, so no handler takes a path for a missing one.\<close>

theorem built_provider_typed:
  assumes "buildProvider base env icmp opts = Inr b"
  shows "cfgRestoreMode (bpConfig b) \<in> {RestoreCopy, RestoreOnDemand, RestoreMmap}
    \<and> cfgRestoreMode (bpConfig b) = toLower (trimSpace (boRestoreMode opts))
    \<and> cfgOrphanPolicy (bpConfig b) \<in> {OrphanAlert, OrphanDestroy, OrphanKeep}
    \<and> cfgOrphanPolicy (bpConfig b) = toLower (trimSpace (boOrphanPolicy opts))
    \<and> bpRegistry b \<noteq> [] \<and> bpBinary b \<noteq> []
    \<and> list_all (\<lambda>n. 0 \<le> n) [tcZstdLevel (bpTransfer b), tcChunkSizeMiB (bpTransfer b), tcConcurrency (bpTransfer b),
        tcMemoryBudgetMiB (bpTransfer b), tcPullBudgetMiB (bpTransfer b)]
    \<and> list_all (\<lambda>f. f (bpConfig b)) [cfgClientset, cfgPuller, cfgPullerRegistry, cfgPusher, cfgPeerRestorer, cfgRegistry,
        cfgLeaseParser, cfgLeaseReleaser, cfgGuestSAC, cfgProbes]
    \<and> tab_reachable e (bpState b)"
proof -
  obtain m o' r where m: "ParseRestoreMode (boRestoreMode opts) = Inr m"
    and o': "ParseOrphanPolicy (boOrphanPolicy opts) = Inr o'" and r: "buildRegistry opts = Inr r"
    using assms by (auto simp: buildProvider_def split: sum.splits)
  have modes: "m = toLower (trimSpace (boRestoreMode opts))" "o' = toLower (trimSpace (boOrphanPolicy opts))" "r \<noteq> []"
    using m o' r by (auto simp: ParseRestoreMode_def ParseOrphanPolicy_def buildRegistry_def Let_def split: if_splits)
  from assms m o' r have "bpConfig b = builtConfig base opts m o'" and "bpRegistry b = r" and "bpState b = NewProvider"
    and "bpTransfer b = TransferConfigFromEnv env" and "bpBinary b = orStr (boCocoonBin opts) defaultCocoonBinary"
    by (auto simp: buildProvider_def)
  with modes ParseRestoreMode_Inr [OF m] ParseOrphanPolicy_Inr [OF o'] show ?thesis
    by (simp add: builtConfig_def TransferConfigFromEnv_def envInt_def orStr_def defaultCocoonBinary_def tab_reachable.init)
qed

definition exOpts :: build_opts where
  "exOpts = \<lparr>boNodeName = ''n1'', boSnapshotCompatibilityClass = [], boOCIRegistry = ''reg/x'', boLeasesPath = [],
     boControlSocket = ''/run/s'', boCocoonBin = [], boMacosBin = [], boMacosVNCPassword = [],
     boOrphanPolicy = '' Keep '', boRestoreMode = ''MMAP'', boStagingDir = ''/st'', boPeerPort = ''12501''\<rparr>"

theorem built_provider_typed_witness:
  "case buildProvider (cfg exEnv) (\<lambda>_. - 1) True exOpts of
     Inl _ \<Rightarrow> False
   | Inr b \<Rightarrow> cfgRestoreMode (bpConfig b) = RestoreMmap \<and> cfgOrphanPolicy (bpConfig b) = OrphanKeep"
proof -
  have p: "ParseRestoreMode ''MMAP'' = Inr RestoreMmap" "ParseOrphanPolicy '' Keep '' = Inr OrphanKeep"
    and l: "toLower (trimSpace ''MMAP'') = RestoreMmap" "toLower (trimSpace '' Keep '') = OrphanKeep"
    by code_simp+
  obtain b where "buildProvider (cfg exEnv) (\<lambda>_. - 1) True exOpts = Inr b"
    by (simp add: buildProvider_def exOpts_def p buildRegistry_def)
  with built_provider_typed [OF this, of exEnv] l show ?thesis by (simp add: exOpts_def)
qed

section \<open>Registration\<close>

lemma kubelet_port: "1 \<le> kubeletAPIPort h \<and> kubeletAPIPort h < 2 ^ 16"
proof -
  have "p < 2 ^ 16" if "parseUint16 s = Some p" for s p
    using that by (auto simp: parseUint16_def split: if_splits)
  then show ?thesis
    by (auto simp: kubeletAPIPort_def defaultKubeletAPIPort_def split: option.splits)
qed

lemma labels_again: "applyNodeLabels nc pool cls (applyNodeLabels nc pool cls n) = applyNodeLabels nc pool cls n"
  by (auto simp: applyNodeLabels_def Let_def fun_eq_iff)

text \<open>Setting a node up twice is setting it up once: one taint, the same labels.\<close>

lemma setup_again: "setupNode nc h u (setupNode nc h u n) = setupNode nc h u n"
proof (rule node.equality)
  have labels: "noLabels (setupNode nc h u x) = noLabels (applyNodeLabels nc (nsPool u) (nsClass u) x)" for x
    by (simp add: setupNode_def Let_def)
  have same: "noLabels (applyNodeLabels nc p c x) = noLabels (applyNodeLabels nc p c y)" if "noLabels x = noLabels y" for p c x y
    using that by (simp add: applyNodeLabels_def Let_def)
  have "noLabels (setupNode nc h u (setupNode nc h u n)) =
      noLabels (applyNodeLabels nc (nsPool u) (nsClass u) (applyNodeLabels nc (nsPool u) (nsClass u) n))"
    unfolding labels by (rule same) (rule labels)
  then show "noLabels (setupNode nc h u (setupNode nc h u n)) = noLabels (setupNode nc h u n)"
    by (simp add: labels_again labels)
qed (simp_all add: setupNode_def applyNodeLabels_def Let_def)

section \<open>Labels and endpoint\<close>

definition gets :: "node_event list \<Rightarrow> nat" where
  "gets h = length (filter (\<lambda>ev. ev = NodeGet) h)"

lemma gets_simps [simp]:
  "gets [] = 0" "gets (h @ h') = gets h + gets h'" "gets (NodeGet # h) = Suc (gets h)" "gets (NodeSleep d # h) = gets h"
  "gets (NodeUpdate n # h) = gets h" "gets (NodeUpdateStatus n # h) = gets h"
  by (simp_all add: gets_def)

definition endpointLanded :: "node_world \<Rightarrow> int \<Rightarrow> node_event list \<Rightarrow> bool" where
  "endpointLanded w port h \<longleftrightarrow>
     (\<exists>h0 n u. let st = u\<lparr>noPort := port\<rparr> in h = h0 @ [NodeUpdate n, NodeUpdateStatus st]
        \<and> nwUpdate w h0 n = Inr u \<and> nwUpdateStatus w (h0 @ [NodeUpdate n]) st = None)"

definition rightEvent :: "node_consts \<Rightarrow> int \<Rightarrow> string \<Rightarrow> string \<Rightarrow> node_event \<Rightarrow> bool" where
  "rightEvent nc port pool cls ev =
     (case ev of NodeUpdate n \<Rightarrow> applyNodeLabels nc pool cls n = n | NodeUpdateStatus n \<Rightarrow> noPort n = port | _ \<Rightarrow> True)"

lemma rightEvent_simps [simp]:
  "rightEvent nc port pool cls NodeGet" "rightEvent nc port pool cls (NodeSleep d)"
  "rightEvent nc port pool cls (NodeUpdate (applyNodeLabels nc pool cls n))"
  "rightEvent nc port pool cls (NodeUpdateStatus (n\<lparr>noPort := port\<rparr>))"
  by (simp_all add: rightEvent_def labels_again)

lemma wp_nodeCall [simp]: "wp (nodeCall ans ev) Q h = Q (ans h) (h @ [ev])"
  by (simp add: nodeCall_def)

lemma patch_events:
  "wp (patchAttempts w nc port pool cls n)
     (\<lambda>_ h'. \<exists>evs. h' = h @ evs \<and> gets evs \<le> n \<and> list_all (rightEvent nc port pool cls) evs) h"
proof (induction n arbitrary: h)
  case 0
  show ?case by simp
next
  case (Suc n)
  let ?ok = "list_all (rightEvent nc port pool cls)"
  define again where "again = (if n = 0 then State_Monad.return () else do {
      ok \<leftarrow> nodeCall (nwSleep w) (NodeSleep endpointPatchRetry);
      if ok then patchAttempts w nc port pool cls n else State_Monad.return () })"
  have again: "wp again (\<lambda>_ h'. \<exists>evs. h' = h @ evs \<and> gets evs \<le> Suc n \<and> ?ok evs) (h @ pre)"
    if "gets pre \<le> 1" and "?ok pre" for pre
  proof (cases "n \<noteq> 0 \<and> nwSleep w (h @ pre)")
    case True
    have "wp (patchAttempts w nc port pool cls n) (\<lambda>_ h'. \<exists>evs. h' = h @ evs \<and> gets evs \<le> Suc n \<and> ?ok evs)
        ((h @ pre) @ [NodeSleep endpointPatchRetry])"
    proof (rule wp_mono [OF Suc.IH], elim exE conjE)
      fix r h' evs
      assume "h' = ((h @ pre) @ [NodeSleep endpointPatchRetry]) @ evs" and "gets evs \<le> n" and "?ok evs"
      with that show "\<exists>evs. h' = h @ evs \<and> gets evs \<le> Suc n \<and> ?ok evs"
        by (intro exI [of _ "pre @ [NodeSleep endpointPatchRetry] @ evs"]) simp
    qed
    with True show ?thesis by (simp add: again_def)
  next
    case False
    with that show ?thesis by (auto simp: again_def intro!: exI)
  qed
  show ?case
    using again [of "[NodeGet]"] again [of "[NodeGet, NodeUpdate (applyNodeLabels nc pool cls _)]"]
      again [of "[NodeGet, NodeUpdate (applyNodeLabels nc pool cls _), NodeUpdateStatus (_\<lparr>noPort := port\<rparr>)]"]
    by (auto simp: again_def [symmetric] Let_def split: sum.splits option.splits)
qed

lemma patch_lands:
  assumes "\<And>h. nwSleep w h"
    and "\<And>h. j \<le> gets h \<Longrightarrow> \<exists>n. nwGet w h = Inr n"
    and "\<And>h n. j < gets h \<Longrightarrow> \<exists>u. nwUpdate w h n = Inr u"
    and "\<And>h n. j < gets h \<Longrightarrow> nwUpdateStatus w h n = None"
    and "gets h \<le> j" and "j < gets h + n"
  shows "wp (patchAttempts w nc port pool cls n) (\<lambda>_. endpointLanded w port) h"
  using assms(5,6)
proof (induction n arbitrary: h)
  case 0
  then show ?case by simp
next
  case (Suc n)
  define again where "again = (if n = 0 then State_Monad.return () else do {
      ok \<leftarrow> nodeCall (nwSleep w) (NodeSleep endpointPatchRetry);
      if ok then patchAttempts w nc port pool cls n else State_Monad.return () })"
  have again: "wp again (\<lambda>_. endpointLanded w port) (h @ NodeGet # evs)" if "gets evs = 0" and "gets h < j" for evs
  proof -
    have "n \<noteq> 0" using that(2) Suc.prems by (cases n) auto
    with Suc.IH [of "h @ NodeGet # evs @ [NodeSleep endpointPatchRetry]"] that Suc.prems assms(1) show ?thesis
      by (simp add: again_def)
  qed
  have endpointLanded: "endpointLanded w port (h @ [NodeGet, NodeUpdate n', NodeUpdateStatus (u\<lparr>noPort := port\<rparr>)])"
    if "nwUpdate w (h @ [NodeGet]) n' = Inr u"
      and "nwUpdateStatus w (h @ [NodeGet, NodeUpdate n']) (u\<lparr>noPort := port\<rparr>) = None" for n' u
    using that unfolding endpointLanded_def Let_def by (intro exI [of _ "h @ [NodeGet]"]) auto
  show ?case
  proof (cases "gets h < j")
    case True
    then show ?thesis
      using again [OF _ True] endpointLanded
      by (auto simp: again_def [symmetric] Let_def split: sum.splits option.splits)
  next
    case False
    obtain n' where g: "nwGet w h = Inr n'" using assms(2) [of h] False by auto
    obtain u where u: "nwUpdate w (h @ [NodeGet]) (applyNodeLabels nc pool cls n') = Inr u"
      using assms(3) [of "h @ [NodeGet]"] False by fastforce
    have "nwUpdateStatus w (h @ [NodeGet, NodeUpdate (applyNodeLabels nc pool cls n')]) (u\<lparr>noPort := port\<rparr>) = None"
      using False by (intro assms(4)) simp
    with g u endpointLanded show ?thesis by (simp add: Let_def)
  qed
qed


definition exNode :: node where
  "exNode = \<lparr>noLabels = None, noProviderID = [], noTaints = [], noKubeletVersion = [], noConditions = [], noAddresses = [],
     noCapacity = Map.empty, noAllocatable = Map.empty, noPort = 0\<rparr>"

definition exNodeWorld :: node_world where
  "exNodeWorld = \<lparr>nwGet = (\<lambda>h. if gets h < 2 then Inl (newErr ''not found'') else Inr exNode), nwUpdate = (\<lambda>h n. Inr n),
     nwUpdateStatus = (\<lambda>h n. None), nwSleep = (\<lambda>h. True)\<rparr>"

definition exNodeConsts :: node_consts where
  "exNodeConsts = \<lparr>LabelNodePool = ''pool'', LabelSnapshotCompatibilityClass = ''class'', TolerationKey = ''cocoon''\<rparr>"


section \<open>Storage pushes\<close>

text \<open>The quantity a pushed node carries.\<close>

definition storageOf :: "node \<Rightarrow> quantity option" where
  "storageOf n = noAllocatable n ResourceEphemeralStorage"

definition pushed :: "node \<Rightarrow> node \<Rightarrow> bool" where
  "pushed b n \<longleftrightarrow> (\<exists>q. n = b\<lparr>noAllocatable := (noAllocatable b)(ResourceEphemeralStorage \<mapsto> q)\<rparr>)"

text \<open>No push repeats the amount that was last sent.\<close>

fun changing :: "qty_lib \<Rightarrow> quantity \<Rightarrow> node list \<Rightarrow> bool" where
  "changing ql before [] \<longleftrightarrow> True"
| "changing ql before (n # ns) \<longleftrightarrow>
     (case storageOf n of None \<Rightarrow> False | Some q \<Rightarrow> \<not> qlEqual ql q before \<and> changing ql q ns)"

lemma notify_pushes:
  assumes "NotifyNodeStatus ql ticks np = (sent, np')" and "npBase np = Some b"
  shows "list_all (pushed b) sent \<and> changing ql (npLastSent np) sent \<and> npBase np' = Some b
    \<and> npLastSent np' = (if sent = [] then npLastSent np else the (storageOf (last sent)))"
  using assms
proof (induction ticks arbitrary: np sent)
  case (Cons t ticks)
  obtain h held where t: "t = (h, held)" by (cases t)
  obtain one np1 where one: "pushStorage ql (StorageAllocatable ql h held) np = (one, np1)" by fastforce
  obtain rest where rest: "NotifyNodeStatus ql ticks np1 = (rest, np')"
    and sent: "sent = (case one of None \<Rightarrow> rest | Some n \<Rightarrow> n # rest)"
    using Cons.prems one by (auto simp: t split: prod.splits)
  have "npBase np1 = Some b"
    using one Cons.prems(2) by (auto simp: pushStorage_def split: sum.splits option.splits if_splits)
  note ih = Cons.IH [OF rest this]
  show ?case
  proof (cases one)
    case None
    then have "np1 = np"
      using one Cons.prems(2) by (auto simp: pushStorage_def split: sum.splits option.splits if_splits)
    with ih None sent show ?thesis by simp
  next
    case (Some n)
    then obtain q where n: "n = b\<lparr>noAllocatable := (noAllocatable b)(ResourceEphemeralStorage \<mapsto> q)\<rparr>"
      and q: "\<not> qlEqual ql q (npLastSent np)" "npLastSent np1 = q"
      using one Cons.prems(2) by (auto simp: pushStorage_def split: sum.splits option.splits if_splits)
    have "pushed b n" using n by (auto simp: pushed_def)
    with ih Some sent n q show ?thesis by (simp add: storageOf_def)
  qed
qed simp

lemma notify_last:
  assumes "NotifyNodeStatus ql (ticks @ [(h, held)]) np = (sent, np')" and "npBase np \<noteq> None"
    and "StorageAllocatable ql h held = Inr (Some q)" and "\<And>q. qlEqual ql q q"
  shows "qlEqual ql q (npLastSent np')"
  using assms(1,2)
proof (induction ticks arbitrary: np sent)
  case Nil
  then show ?case using assms(3,4) by (auto simp: pushStorage_def split: if_splits)
next
  case (Cons t ticks)
  obtain h' held' where t: "t = (h', held')" by (cases t)
  obtain one np1 where one: "pushStorage ql (StorageAllocatable ql h' held') np = (one, np1)" by fastforce
  obtain rest where rest: "NotifyNodeStatus ql (ticks @ [(h, held)]) np1 = (rest, np')"
    using Cons.prems one by (auto simp: t split: prod.splits)
  have "npBase np1 \<noteq> None"
    using one Cons.prems(2) by (auto simp: pushStorage_def split: sum.splits option.splits if_splits)
  from Cons.IH [OF rest this] show ?case .
qed

text \<open>C40: every node pushed over any sequence of refreshes is the registered node with only its allocatable ephemeral
  storage replaced, no push repeats the amount sent before it, and after a refresh that could read the disk the last amount
  sent, the registered one if none was, equals the amount read.\<close>

theorem storage_pushes_track:
  assumes "NotifyNodeStatus ql (ticks @ [(h, held)]) (NewNodeProvider (Some b)) = (sent, np)"
    and "StorageAllocatable ql h held = Inr (Some q)" and "\<And>q. qlEqual ql q q"
  shows "list_all (pushed b) sent
    \<and> changing ql (case storageOf b of None \<Rightarrow> zeroQty | Some q \<Rightarrow> q) sent
    \<and> qlEqual ql q (case storageOf (last (b # sent)) of None \<Rightarrow> zeroQty | Some q \<Rightarrow> q)"
proof -
  have base: "npBase (NewNodeProvider (Some b)) = Some b" by (simp add: NewNodeProvider_def)
  note p = notify_pushes [OF assms(1) base]
  have "qlEqual ql q (npLastSent np)" using notify_last [OF assms(1) _ assms(2,3)] base by simp
  moreover have "storageOf n \<noteq> None" if "pushed b n" for n using that by (auto simp: pushed_def storageOf_def)
  then have "sent \<noteq> [] \<longrightarrow> storageOf (last sent) \<noteq> None" using p by (auto simp: list_all_iff)
  ultimately show ?thesis
    using p by (auto simp: NewNodeProvider_def storageOf_def split: if_splits)
qed

theorem storage_pushes_track_witness:
  "list_all (pushed exNode) (fst (NotifyNodeStatus exQtyLib ([] @ [(exHost, 0)]) (NewNodeProvider (Some exNode))))"
proof -
  have "StorageAllocatable exQtyLib exHost 0 =
      Inr (Some (reserveQuantity exQtyLib (qlAdd exQtyLib (exQty 600 []) (qlNew exQtyLib 0 BinarySI)) 20))"
    using exHost_detects by (simp add: StorageAllocatable_def exHost_def)
  moreover have "qlEqual exQtyLib q q" for q by (simp add: exQtyLib_def)
  ultimately show ?thesis
    using storage_pushes_track [where b = exNode and ticks = "[]", OF prod.collapse [symmetric]] by blast
qed

end
