(* ===== verification/Pipe.thy ===== *)
theory Pipe
  imports Decimal VM_Runtime
begin

text \<open>
  Widening the pipes of a transfer (\<open>src/vm/pipe_linux.go\<close>): the wanted size first, and the system's limit when the kernel
  refuses that to an unprivileged process.
\<close>

definition transferPipeBytes :: int where "transferPipeBytes = 8 * 2 ^ 20"

datatype fcntl_error = EPERM | OtherErrno string

definition errnoErr :: "fcntl_error \<Rightarrow> err" where
  "errnoErr x = newErr (case x of EPERM \<Rightarrow> ''operation not permitted'' | OtherErrno m \<Rightarrow> m)"

text \<open>\<open>/proc/sys/fs/pipe-max-size\<close> as it is read.\<close>

definition readPipeMaxSize :: "err + string \<Rightarrow> err + int" where
  "readPipeMaxSize raw =
     (case raw of
        Inl x \<Rightarrow> Inl (wrapErr ''read pipe max size: '' x [])
      | Inr s \<Rightarrow>
          (case atoi (trimSpace s) of
             None \<Rightarrow> Inl (newErr (''parse pipe max size '' @ quoteStr (trimSpace s)))
           | Some n \<Rightarrow>
               if n \<le> 0 then Inl (newErr (''pipe max size must be positive, got '' @ itoa n)) else Inr n))"

text \<open>The error, and the sizes asked of the kernel in order. \<open>setSize\<close> answers a request by the ones before it.\<close>

definition widenPipe :: "bool \<Rightarrow> (int list \<Rightarrow> int \<Rightarrow> fcntl_error option) \<Rightarrow> err + string \<Rightarrow> err option \<times> int list" where
  "widenPipe isFile setSize raw =
     (if \<not> isFile then (None, [])
      else
        (case setSize [] transferPipeBytes of
           None \<Rightarrow> (None, [transferPipeBytes])
         | Some (OtherErrno m) \<Rightarrow> (Some (wrapErr ''set pipe size: '' (errnoErr (OtherErrno m)) []), [transferPipeBytes])
         | Some EPERM \<Rightarrow>
             (case readPipeMaxSize raw of
                Inl x \<Rightarrow> (Some x, [transferPipeBytes])
              | Inr limit \<Rightarrow>
                  (let want = min limit transferPipeBytes in
                   (map_option (\<lambda>x. wrapErr ''set pipe fallback size: '' (errnoErr x) []) (setSize [transferPipeBytes] want),
                    [transferPipeBytes, want])))))"

lemma readPipeMaxSize_pos: "readPipeMaxSize raw = Inr n \<Longrightarrow> 0 < n"
  by (auto simp: readPipeMaxSize_def split: sum.splits option.splits if_splits)

text \<open>Whatever the system file holds, at most two sizes are asked for, both positive and within the wanted size, and success
  means that the kernel took the last of them.\<close>

lemma widen_within:
  assumes "widenPipe True setSize raw = (r, asked)"
  shows "length asked \<le> 2 \<and> list_all (\<lambda>n. 0 < n \<and> n \<le> transferPipeBytes) asked
    \<and> (r = None \<longrightarrow> setSize (butlast asked) (last asked) = None)"
  using assms readPipeMaxSize_pos [of raw]
  by (auto simp: widenPipe_def Let_def transferPipeBytes_def min_def split: option.splits fcntl_error.splits sum.splits if_splits)

end
