(* ===== verification/Background.thy ===== *)
theory Background
  imports Events_Props Table_Invariants Macos
begin

text \<open>
  Background work of the provider: the VM watcher and the shutdown of \<open>provider.go\<close>, and the process helpers of
  \<open>macos.go\<close>. The watcher runs until its context ends; a run is given by the streams it gets, one per round, and the
  theorems hold for every number of rounds.
\<close>

section \<open>The VM watcher\<close>

fun handleEvents :: "env \<Rightarrow> (string \<times> vm) list \<Rightarrow> unit act" where
  "handleEvents e [] = State_Monad.return ()"
| "handleEvents e ((kind, ev) # evs) = do { _ \<leftarrow> handleEvent e kind ev; handleEvents e evs }"

text \<open>Each round is a start that failed or the events of a stream until it closed.\<close>

fun vmWatchLoop :: "env \<Rightarrow> int \<Rightarrow> (err + (string \<times> vm) list) list \<Rightarrow> unit act" where
  "vmWatchLoop e delay [] = State_Monad.return ()"
| "vmWatchLoop e delay (Inl x # rounds) = do {
     c \<leftarrow> ctxErr e;
     (if c \<noteq> None then State_Monad.return ()
      else do {
        z \<leftarrow> sleepCtx e delay;
        (if z \<noteq> None then State_Monad.return () else vmWatchLoop e (watchBackoff delay) rounds)
      })
   }"
| "vmWatchLoop e delay (Inr evs # rounds) = do {
     _ \<leftarrow> handleEvents e evs;
     c \<leftarrow> ctxErr e;
     (if c \<noteq> None then State_Monad.return ()
      else do {
        now \<leftarrow> timeNow e;
        _ \<leftarrow> writing e (gcStaleRestarts now);
        z \<leftarrow> sleepCtx e (2 * second);
        (if z \<noteq> None then State_Monad.return () else vmWatchLoop e second rounds)
      })
   }"

definition StartVMWatcher :: "env \<Rightarrow> (err + (string \<times> vm) list) list \<Rightarrow> unit act" where
  "StartVMWatcher e rounds = vmWatchLoop e second rounds"

section \<open>Shutdown\<close>

text \<open>\<open>Close\<close>: the lifecycle context ends under the lock, the jobs are waited for, then the probes stop.\<close>

definition closeLocked :: "prov \<Rightarrow> prov" where
  "closeLocked s = s\<lparr>closed := True\<rparr>"

definition Close :: "env \<Rightarrow> unit act" where
  "Close e = do {
     _ \<leftarrow> writing e closeLocked;
     (if cfgProbes (cfg e) then writing e (\<lambda>s. s\<lparr>probes := mgrClose (probes s)\<rparr>) else State_Monad.return ())
   }"

section \<open>Processes of macOS guests\<close>

text \<open>How a \<open>cocoon-macos\<close> command is run: a launch is detached from the caller's context, and a command that changes a VM is
  asked to stop and given time instead of being killed.\<close>

record macos_command =
  mcBinary :: string
  mcArgs :: "string list"
  mcDetached :: bool
  mcGraceful :: bool

definition defaultMacosBinary :: string where "defaultMacosBinary = ''/usr/local/bin/cocoon-macos''"

definition isVMVerb :: "string \<Rightarrow> string list \<Rightarrow> bool" where
  "isVMVerb verb args \<longleftrightarrow> 2 \<le> length args \<and> args ! 0 = ''vm'' \<and> args ! 1 = verb"

definition macosCommand :: "string \<Rightarrow> string list \<Rightarrow> macos_command" where
  "macosCommand macosBin args =
     (let isLaunch = isVMVerb ''run'' args \<or> isVMVerb ''start'' args in
      \<lparr>mcBinary = orStr macosBin defaultMacosBinary, mcArgs = args, mcDetached = isLaunch,
       mcGraceful = isLaunch \<or> isVMVerb ''rm'' args\<rparr>)"

text \<open>The output and error: the diagnostics are appended only when the command failed.\<close>

definition macosOutput :: "string \<Rightarrow> string \<Rightarrow> err option \<Rightarrow> string \<times> err option" where
  "macosOutput out errOut x = (case x of None \<Rightarrow> (out, None) | Some x \<Rightarrow> (out @ errOut, Some x))"

definition macosPidAlive :: "(int \<Rightarrow> err option) \<Rightarrow> (int \<Rightarrow> err option) \<Rightarrow> int \<Rightarrow> bool" where
  "macosPidAlive findProcess signal0 pid \<longleftrightarrow> 0 < pid \<and> findProcess pid = None \<and> signal0 pid = None"

text \<open>The readiness probe: what the connection sends first, at most 16 bytes of it, must begin with the banner.\<close>

definition macosSSHReady :: "err + string \<Rightarrow> string \<Rightarrow> bool \<times> string" where
  "macosSSHReady conn addr =
     (case conn of
        Inl x \<Rightarrow> (False, ''ssh probe '' @ addr @ '': '' @ errMsg x)
      | Inr sent \<Rightarrow>
          (let buf = take 16 sent in
           if buf \<noteq> [] \<and> hasPrefix buf ''SSH-'' then (True, ''ssh ok'') else (False, ''no ssh banner at '' @ addr)))"

section \<open>Watching is safe\<close>

lemma evictionSafe_append: "evictionSafe as \<Longrightarrow> evictionSafe bs \<Longrightarrow> evictionSafe (as @ bs)"
  by (auto simp: evictionSafe_def intro: preceded_append)

lemma evictionSafe_quiet [simp]:
  "evictionSafe []" "evictionSafe [TCtxErr r]" "evictionSafe [TSleep d z]" "evictionSafe [TNow n]"
  by (auto simp: evictionSafe_def preceded_def Cons_eq_append_conv isKDelete_def isRemoveOf_def)

lemma produces_seq:
  assumes "produces m (\<lambda>_ cs. evictionSafe cs)" and "\<And>r. produces (f r) (\<lambda>_ cs. evictionSafe cs)"
  shows "produces (State_Monad.bind m f) (\<lambda>_ cs. evictionSafe cs)"
  by (rule produces_bind [OF assms(1)])
    (auto intro: produces_weaken [OF assms(2)] evictionSafe_append)

lemma handleEvents_safe: "ctx_ok e \<Longrightarrow> produces (handleEvents e evs) (\<lambda>_ cs. evictionSafe cs)"
  by (induction e evs rule: handleEvents.induct)
    (auto simp: handleEvent_def intro!: produces_return produces_seq handleVMGone_safe)

lemma vmWatchLoop_safe: "ctx_ok e \<Longrightarrow> produces (vmWatchLoop e delay rounds) (\<lambda>_ cs. evictionSafe cs)"
  by (induction e delay rounds rule: vmWatchLoop.induct)
    (auto simp: ctxErr_def sleepCtx_def timeNow_def
      intro!: produces_return produces_seq produces_ext produces_writing handleEvents_safe)



text \<open>The delay between reconnects never leaves the range from one second to a minute.\<close>

lemma watch_delay: "second \<le> d \<Longrightarrow> d \<le> 60 * second \<Longrightarrow> second \<le> watchBackoff d \<and> watchBackoff d \<le> 60 * second"
  by (simp add: watchBackoff_def second_def)

section \<open>Nothing starts after the shutdown\<close>

lemma track_spawns: "jobs (trackPodLocked e p v s) = jobs s \<and> closed (trackPodLocked e p v s) = closed s"
  by (simp add: trackPodLocked_def reassertLifecycleLocked_def setVMLocked_def applyStatus_def setAnnots_def Let_def
      split: option.split)

lemma tab_step_closed:
  assumes "tab_step e s t" and "closed s"
  shows "closed t \<and> jobs t = jobs s"
  using assms
  by (induction rule: tab_step.induct)
    (auto simp: track_spawns trackPodUnlessDeletingLocked_def trackPodIncarnationLocked_def untrackLocked_def
      untrackIncarnationLocked_def detachIncarnationLocked_def dropVMLocked_def indexOrphanByNameLocked_def
      applyLifecycleLocked_def applyStatus_def setAnnots_def recordLifecycleFlushed_def dropSupersededLifecycle_def
      seedLifecycleLocked_def failCreateLocked_def plain_tab_defs setVMLocked_def Let_def
      split: option.splits prod.splits if_splits)

inductive tab_steps :: "env \<Rightarrow> prov \<Rightarrow> prov \<Rightarrow> bool" for e where
  done_steps: "tab_steps e s s"
| more_steps: "tab_steps e s t \<Longrightarrow> tab_step e t u \<Longrightarrow> tab_steps e s u"

text \<open>C39: once \<open>Close\<close> ended the lifecycle context, no critical section of any goroutine adds a job: the wait for the running ones
  cannot be overtaken by a new one.\<close>

theorem close_spawns_nothing:
  assumes "tab_steps e (closeLocked s) t"
  shows "closed t \<and> jobs t = jobs s"
  using assms
proof (induction "closeLocked s" t rule: tab_steps.induct)
  case done_steps
  show ?case by (simp add: closeLocked_def)
next
  case (more_steps t u)
  then show ?case using tab_step_closed [of e t u] by simp
qed

theorem close_spawns_nothing_witness:
  "jobs (goBackgroundLocked (JobRecheck ''id1'') (closeLocked exProv)) = jobs exProv"
  using close_spawns_nothing [OF tab_steps.more_steps [OF tab_steps.done_steps tab_step.spawn]] by blast

end
