(* ===== verification/Startup.thy ===== *)
theory Startup
  imports Node Background
begin

text \<open>
  The program's start and end (\<open>main\<close> of \<open>src/main.go\<close>): the settings it reads, the checks that end it, and the order in which
  the parts come up. What the libraries and the startup pass answer are arguments; a fatal error is the event \<open>Exit\<close>.
\<close>

section \<open>Addresses\<close>

text \<open>\<open>net.SplitHostPort\<close>: the last colon separates, brackets protect the colons of a host.\<close>

definition lastColon :: "string \<Rightarrow> nat option" where
  "lastColon s = (if CHR '':'' \<in> set s then Some (length s - 1 - length (takeWhile (\<lambda>c. c \<noteq> CHR '':'') (rev s))) else None)"

definition addrErr :: "string \<Rightarrow> string \<Rightarrow> err" where
  "addrErr s why = newErr (''address '' @ s @ '': '' @ why)"

definition SplitHostPort :: "string \<Rightarrow> err + string \<times> string" where
  "SplitHostPort s =
     (case lastColon s of
        None \<Rightarrow> Inl (addrErr s ''missing port in address'')
      | Some i \<Rightarrow>
          if hasPrefix s ''[''
          then (let k = length (takeWhile (\<lambda>c. c \<noteq> CHR '']'') s) in
                if k = length s then Inl (addrErr s ''missing ']' in address'')
                else if Suc k = length s then Inl (addrErr s ''missing port in address'')
                else if Suc k \<noteq> i
                then Inl (addrErr s (if s ! Suc k = CHR '':'' then ''too many colons in address'' else ''missing port in address''))
                else if CHR ''['' \<in> set (drop 1 s) then Inl (addrErr s ''unexpected '[' in address'')
                else if CHR '']'' \<in> set (drop (Suc k) s) then Inl (addrErr s ''unexpected ']' in address'')
                else Inr (take (k - 1) (drop 1 s), drop (Suc i) s))
          else if CHR '':'' \<in> set (take i s) then Inl (addrErr s ''too many colons in address'')
          else if CHR ''['' \<in> set s then Inl (addrErr s ''unexpected '[' in address'')
          else if CHR '']'' \<in> set s then Inl (addrErr s ''unexpected ']' in address'')
          else Inr (take i s, drop (Suc i) s))"

section \<open>Settings\<close>

definition defaultNodeName :: string where "defaultNodeName = ''cocoon-pool''"
definition defaultStagingDir :: string where "defaultStagingDir = ''/var/lib/cocoon/vk-staging''"
definition defaultPeerAddr :: string where "defaultPeerAddr = '':12501''"
definition DefaultControlSocket :: string where "DefaultControlSocket = ''/run/cocoon-net/control.sock''"

text \<open>What the libraries and the process's surroundings answer: \<open>mwEnvOrDefault\<close> is \<open>EnvOrDefault\<close> of cocoon-common, and
  \<open>mwNodeExit\<close> says whether the node's \<open>Run\<close>, which has its own goroutine, fails, and after how many of the remaining steps.\<close>

record main_world =
  mwLogSetup :: "err option"
  mwLabelErrors :: "string \<Rightarrow> string list"
  mwDetectNodeIP :: "err + string"
  mwLoadConfig :: "err option"
  mwClientset :: "err option"
  mwTLS :: "err option"
  mwReconcile :: "built \<Rightarrow> err option"
  mwNewNode :: "node_setup \<Rightarrow> err option"
  mwICMP :: bool
  mwEnvInt :: "string \<Rightarrow> int"
  mwBase :: config
  mwVersion :: string
  mwDefaultNodePool :: string
  mwEnvOrDefault :: "string \<Rightarrow> string \<Rightarrow> string"
  mwNodeExit :: "nat option"

definition buildOptsOf :: "main_world \<Rightarrow> host \<Rightarrow> string \<Rightarrow> build_opts" where
  "buildOptsOf w h peerPort =
     \<lparr>boNodeName = mwEnvOrDefault w ''VK_NODE_NAME'' defaultNodeName,
      boSnapshotCompatibilityClass = hoGetenv h ''VK_SNAPSHOT_CPU_CLASS'', boOCIRegistry = hoGetenv h ''OCI_REGISTRY'',
      boLeasesPath = mwEnvOrDefault w ''VK_LEASES_PATH'' DefaultLeasesPath,
      boControlSocket = mwEnvOrDefault w ''VK_COCOON_NET_CONTROL_SOCKET'' DefaultControlSocket,
      boCocoonBin = mwEnvOrDefault w ''VK_COCOON_BIN'' [], boMacosBin = mwEnvOrDefault w ''VK_COCOON_MACOS_BIN'' [],
      boMacosVNCPassword = hoGetenv h ''COCOON_MACOS_VNC_PASSWORD'',
      boOrphanPolicy = mwEnvOrDefault w ''VK_ORPHAN_POLICY'' OrphanDestroy,
      boRestoreMode = mwEnvOrDefault w ''VK_RESTORE_MODE'' RestoreMmap,
      boStagingDir = mwEnvOrDefault w ''VK_STAGING_DIR'' defaultStagingDir, boPeerPort = peerPort\<rparr>"

section \<open>The sequence\<close>

datatype main_event =
    Exit string
  | CollectorsRegistered
  | StagingSwept string
  | ProviderBuilt built
  | Reconciled
  | WatcherStarted
  | LifecycleReconcilerStarted
  | ReclaimerStarted
  | NodeCreated node_setup
  | VMCollectorRegistered
  | NodeStarted
  | EndpointPatcherStarted
  | ServersEnded
  | ProviderClosed

definition nodeSetupOf :: "main_world \<Rightarrow> host \<Rightarrow> string \<Rightarrow> resource_list \<Rightarrow> resource_list \<Rightarrow> node_setup" where
  "nodeSetupOf w h ip capacity allocatable =
     \<lparr>nsPool = mwEnvOrDefault w ''VK_NODE_POOL'' (mwDefaultNodePool w), nsClass = hoGetenv h ''VK_SNAPSHOT_CPU_CLASS'',
      nsVersion = mwVersion w, nsIP = ip, nsName = mwEnvOrDefault w ''VK_NODE_NAME'' defaultNodeName,
      nsProviderID = hoGetenv h ''VK_PROVIDER_ID'', nsCapacity = capacity, nsAllocatable = allocatable\<rparr>"

text \<open>The node is created and started, the servers run until the signal, and the provider is closed; a node that exits with an
  error ends the program wherever it is.\<close>

definition runNode :: "main_world \<Rightarrow> node_setup \<Rightarrow> main_event list" where
  "runNode w u =
     (if mwNewNode w u \<noteq> None then [Exit ''create virtual-kubelet node'']
      else [NodeCreated u, VMCollectorRegistered, NodeStarted] @
        (let rest = [EndpointPatcherStarted, ServersEnded, ProviderClosed] in
         case mwNodeExit w of None \<Rightarrow> rest | Some n \<Rightarrow> take n rest @ [Exit ''virtual-kubelet node exited'']))"

text \<open>From the built provider on: reconcile, start the workers, run the node.\<close>

definition startProvider :: "main_world \<Rightarrow> built \<Rightarrow> node_setup \<Rightarrow> main_event list" where
  "startProvider w b u =
     (if mwReconcile w b \<noteq> None then [Exit ''startup reconcile failed; refusing to register node'']
      else [Reconciled, WatcherStarted, LifecycleReconcilerStarted, ReclaimerStarted] @ runNode w u)"

text \<open>From the loaded configuration on.\<close>

definition bringUp :: "qty_lib \<Rightarrow> main_world \<Rightarrow> host \<Rightarrow> string \<Rightarrow> string \<Rightarrow> main_event list" where
  "bringUp ql w h peerPort nodeIP =
     CollectorsRegistered #
     (if mwTLS w \<noteq> None then [Exit ''tls setup'']
      else (case NodeResources ql h of
          Inl _ \<Rightarrow> [Exit ''node resources'']
        | Inr (capacity, allocatable) \<Rightarrow>
            StagingSwept (mwEnvOrDefault w ''VK_STAGING_DIR'' defaultStagingDir) #
            (case buildProvider (mwBase w) (mwEnvInt w) (mwICMP w) (buildOptsOf w h peerPort) of
               Inl _ \<Rightarrow> [Exit ''build provider'']
             | Inr b \<Rightarrow> ProviderBuilt b # startProvider w b (nodeSetupOf w h nodeIP capacity allocatable))))"

definition mainProgram :: "qty_lib \<Rightarrow> main_world \<Rightarrow> host \<Rightarrow> main_event list" where
  "mainProgram ql w h =
     (if mwLogSetup w \<noteq> None then [Exit ''log setup'']
      else if ValidateMacosVNCPassword (hoGetenv h ''COCOON_MACOS_VNC_PASSWORD'') \<noteq> None
      then [Exit ''invalid COCOON_MACOS_VNC_PASSWORD'']
      else (case SplitHostPort (mwEnvOrDefault w ''VK_PEER_ADDR'' defaultPeerAddr) of
          Inl _ \<Rightarrow> [Exit ''parse VK_PEER_ADDR'']
        | Inr (_, peerPort) \<Rightarrow>
            if mwLabelErrors w (hoGetenv h ''VK_SNAPSHOT_CPU_CLASS'') \<noteq> [] then [Exit ''invalid VK_SNAPSHOT_CPU_CLASS'']
            else (case (if mwEnvOrDefault w ''VK_NODE_IP'' [] = [] then mwDetectNodeIP w else Inr (mwEnvOrDefault w ''VK_NODE_IP'' [])) of
                Inl _ \<Rightarrow> [Exit ''detect node ip'']
              | Inr nodeIP \<Rightarrow>
                  if mwLoadConfig w \<noteq> None then [Exit ''load kubeconfig'']
                  else if mwClientset w \<noteq> None then [Exit ''build clientset'']
                  else bringUp ql w h peerPort nodeIP)))"

section \<open>Order of the start\<close>

lemma lastColon_last: "CHR '':'' \<notin> set t \<Longrightarrow> lastColon (s @ CHR '':'' # t) = Some (length s)"
proof -
  assume "CHR '':'' \<notin> set t"
  then have "takeWhile (\<lambda>c. c \<noteq> CHR '':'') (rev t @ CHR '':'' # rev s) = rev t"
    by (subst takeWhile_append2) auto
  then show ?thesis by (simp add: lastColon_def)
qed

text \<open>A plain host and port are split where they were joined.\<close>

lemma split_joined:
  assumes "set host \<inter> {CHR '':'', CHR ''['', CHR '']''} = {}" and "set port \<inter> {CHR '':'', CHR ''['', CHR '']''} = {}"
  shows "SplitHostPort (host @ '':'' @ port) = Inr (host, port)"
proof -
  have "\<not> hasPrefix (host @ CHR '':'' # port) ''[''"
    using assms(1) by (cases host) (auto simp: hasPrefix_def)
  with assms lastColon_last [of port host] show ?thesis
    by (auto simp: SplitHostPort_def)
qed

definition isExit :: "main_event \<Rightarrow> bool" where
  "isExit ev = (case ev of Exit _ \<Rightarrow> True | _ \<Rightarrow> False)"

lemma isExit_simps [simp]:
  "isExit (Exit x)" "\<not> isExit CollectorsRegistered" "\<not> isExit (StagingSwept d)" "\<not> isExit (ProviderBuilt b)"
  "\<not> isExit Reconciled" "\<not> isExit WatcherStarted" "\<not> isExit LifecycleReconcilerStarted" "\<not> isExit ReclaimerStarted"
  "\<not> isExit (NodeCreated u)" "\<not> isExit VMCollectorRegistered" "\<not> isExit NodeStarted"
  by (simp_all add: isExit_def)

lemma rest_no_exit: "ev \<in> set (take n [EndpointPatcherStarted, ServersEnded, ProviderClosed]) \<Longrightarrow> \<not> isExit ev"
  by (auto simp: isExit_def dest!: in_set_takeD)

lemmas main_defs = mainProgram_def bringUp_def startProvider_def runNode_def

definition ended :: "main_event list \<Rightarrow> bool" where
  "ended evs \<longleftrightarrow> evs \<noteq> [] \<and> (isExit (last evs) \<or> last evs = ProviderClosed) \<and> list_all (\<lambda>ev. \<not> isExit ev) (butlast evs)"

lemma ended_Exit [simp]: "ended [Exit x]"
  by (simp add: ended_def)

lemma ended_Cons [simp]: "\<not> isExit ev \<Longrightarrow> ended evs \<Longrightarrow> ended (ev # evs)"
  by (simp add: ended_def)

lemma ended_runNode [simp]: "ended (runNode w u)"
proof (cases "mwNodeExit w")
  case None
  then show ?thesis by (simp add: runNode_def Let_def) (simp add: ended_def isExit_def)
next
  case (Some n)
  then show ?thesis
    by (auto simp: runNode_def Let_def ended_def list_all_iff butlast_append dest: rest_no_exit)
qed

text \<open>Every run ends by closing the provider or by a fatal error, after which nothing runs.\<close>

lemma main_ends:
  "mainProgram ql w h \<noteq> [] \<and> (isExit (last (mainProgram ql w h)) \<or> last (mainProgram ql w h) = ProviderClosed)
   \<and> list_all (\<lambda>ev. \<not> isExit ev) (butlast (mainProgram ql w h))"
proof -
  have "ended (startProvider w b u)" for b u
    by (simp add: startProvider_def)
  then have "ended (bringUp ql w h port ip)" for port ip
    by (simp add: bringUp_def split: sum.split prod.split)
  then have "ended (mainProgram ql w h)"
    by (simp add: mainProgram_def split: sum.split prod.split)
  then show ?thesis by (simp add: ended_def)
qed

lemma exit_starts_nothing:
  "take n [EndpointPatcherStarted, ServersEnded, ProviderClosed] @ [Exit x] \<noteq> ys @ NodeStarted # post"
proof
  assume "take n [EndpointPatcherStarted, ServersEnded, ProviderClosed] @ [Exit x] = ys @ NodeStarted # post"
  then have "NodeStarted \<in> set (take n [EndpointPatcherStarted, ServersEnded, ProviderClosed] @ [Exit x])" by simp
  then show False by (auto dest: in_set_takeD)
qed

text \<open>The node is started only after the provider was built from valid settings, the startup pass over its VMs succeeded and
  the workers run; it has the detected resources. Unless the node itself fails, the run ends by closing the provider.\<close>

lemma node_starts_reconciled:
  assumes "mainProgram ql w h = pre @ NodeStarted # post"
  shows "\<exists>b u. ProviderBuilt b \<in> set pre \<and> mwReconcile w b = None \<and> Reconciled \<in> set pre \<and> WatcherStarted \<in> set pre
    \<and> NodeCreated u \<in> set pre \<and> NodeResources ql h = Inr (nsCapacity u, nsAllocatable u) \<and> (mwNodeExit w = None \<longrightarrow> last post = ProviderClosed)"
  using assms
  by (auto simp: main_defs nodeSetupOf_def Let_def Cons_eq_append_conv exit_starts_nothing split: if_splits sum.splits prod.splits option.splits)

end
