(* ===== verification/Workers.thy ===== *)
theory Workers
  imports Background Gc_Props Lifecycle_Props Status Preserves
begin

text \<open>
  The workers the provider keeps running (\<open>provider.go\<close>, \<open>lifecycle.go\<close>, \<open>gc.go\<close>): how they are started, and their rounds.
  How often a ticker calls its function before its context ends is not the worker's doing: the rounds are an argument, each
  with the order in which its range over a table takes the keys, and the theorems hold for all of them.
\<close>

section \<open>Rounds of a ticker\<close>

fun ticks :: "('k \<Rightarrow> unit act) \<Rightarrow> 'k list \<Rightarrow> unit act" where
  "ticks f [] = State_Monad.return ()"
| "ticks f (k # ks) = do { _ \<leftarrow> f k; ticks f ks }"

section \<open>Lifecycle annotations\<close>

text \<open>\<open>reconcileAllLifecycle\<close>: the intents whose last flushed snapshot is not their current one are collected under the lock,
  then each is published. A key is cut at its first slash.\<close>

record lc_drift =
  ldNamespace :: string
  ldName :: string
  ldUID :: string
  ldStatus :: lifecycle_status

definition driftOf :: "string \<Rightarrow> lifecycle_entry \<Rightarrow> lc_drift" where
  "driftOf key c = (case (case cutStr key ''/'' of None \<Rightarrow> (key, []) | Some parts \<Rightarrow> parts) of
     (ns, name) \<Rightarrow> \<lparr>ldNamespace = ns, ldName = name, ldUID = leUID c, ldStatus = leStatus c\<rparr>)"

definition lifecycleDrifts :: "env \<Rightarrow> string list \<Rightarrow> prov \<Rightarrow> lc_drift list" where
  "lifecycleDrifts e keys s = List.map_filter (\<lambda>key.
     case lifecycleIntent s key of
       None \<Rightarrow> None
     | Some c \<Rightarrow> if lifecycleDrifted e c then Some (driftOf key c) else None) keys"

definition reconcileAllLifecycle :: "env \<Rightarrow> string list \<Rightarrow> unit act" where
  "reconcileAllLifecycle e keys = do {
     drifts \<leftarrow> reading e (lifecycleDrifts e keys);
     ticks (\<lambda>d. reconcileLifecycleDrift e (ldNamespace d) (ldName d) (ldUID d) (ldStatus d)) drifts
   }"

text \<open>A round of the worker also starts the operations that are due again; it has one order for each table.\<close>

definition lifecycleRound :: "env \<Rightarrow> string list \<times> string list \<Rightarrow> unit act" where
  "lifecycleRound e orders = do { _ \<leftarrow> reconcileAllLifecycle e (fst orders); retryDueOps e (snd orders) }"

definition runLifecycleReconciler :: "env \<Rightarrow> (string list \<times> string list) list \<Rightarrow> unit act" where
  "runLifecycleReconciler e rounds = ticks (lifecycleRound e) rounds"

definition StartLifecycleReconciler :: "env \<Rightarrow> unit act" where
  "StartLifecycleReconciler e = goBackground e JobLifecycleReconciler"

section \<open>Pod status\<close>

definition initialStatusPushDelay :: int where "initialStatusPushDelay = 10 * second"

definition runStatusReconciler :: "env \<Rightarrow> string list \<Rightarrow> string list list \<Rightarrow> unit act" where
  "runStatusReconciler e first rounds = do {
     z \<leftarrow> sleepCtx e initialStatusPushDelay;
     (if z \<noteq> None then State_Monad.return ()
      else do { _ \<leftarrow> reconcilePodStatuses e first; ticks (reconcilePodStatuses e) rounds })
   }"

definition setNotifyHook :: "prov \<Rightarrow> prov" where
  "setNotifyHook s = s\<lparr>notifyHook := True\<rparr>"

definition NotifyPods :: "env \<Rightarrow> unit act" where
  "NotifyPods e = do { _ \<leftarrow> writing e setNotifyHook; goBackground e JobStatusReconciler }"

section \<open>Local snapshots\<close>

definition runSnapshotReclaimer :: "env \<Rightarrow> string list \<Rightarrow> string list list \<Rightarrow> unit act" where
  "runSnapshotReclaimer e first rounds = do {
     _ \<leftarrow> reclaimLocalSnapshots e first;
     ticks (reclaimLocalSnapshots e) rounds
   }"

definition StartSnapshotReclaimer :: "env \<Rightarrow> unit act" where
  "StartSnapshotReclaimer e = goBackground e JobSnapshotReclaimer"

section \<open>Rounds keep what one round keeps\<close>

lemma wp_ticks:
  assumes "\<And>k s. k \<in> set ks \<Longrightarrow> I s \<Longrightarrow> wp (f k) (\<lambda>_ t. I t \<and> (\<exists>cs. trace t = trace s @ cs \<and> list_all P cs)) s"
    and "I s"
  shows "wp (ticks f ks) (\<lambda>_ t. I t \<and> (\<exists>cs. trace t = trace s @ cs \<and> list_all P cs)) s"
  using assms
proof (induction ks arbitrary: s)
  case (Cons k ks)
  have "wp (f k) (\<lambda>_ t. I t \<and> (\<exists>cs. trace t = trace s @ cs \<and> list_all P cs)) s"
    using Cons.prems by simp
  then have "wp (f k) (\<lambda>_. wp (ticks f ks) (\<lambda>_ t. I t \<and> (\<exists>cs. trace t = trace s @ cs \<and> list_all P cs))) s"
  proof (rule wp_mono)
    fix r t
    assume t: "I t \<and> (\<exists>cs. trace t = trace s @ cs \<and> list_all P cs)"
    have "wp (ticks f ks) (\<lambda>_ u. I u \<and> (\<exists>cs. trace u = trace t @ cs \<and> list_all P cs)) t"
      using Cons.IH [of t] Cons.prems(1) t by simp
    then show "wp (ticks f ks) (\<lambda>_ t. I t \<and> (\<exists>cs. trace t = trace s @ cs \<and> list_all P cs)) t"
      by (rule wp_mono) (use t in auto)
  qed
  then show ?case by simp
qed simp

section \<open>Reclamation beside other goroutines\<close>

text \<open>Other goroutines may do anything that keeps an invariant.\<close>

definition undisturbed :: "env \<Rightarrow> (prov \<Rightarrow> bool) \<Rightarrow> bool" where
  "undisturbed e I \<longleftrightarrow> (\<forall>n s. I s \<longrightarrow> I (interfere e n s))"

lemma undisturbed_quiet: "quiet e \<Longrightarrow> undisturbed e I"
  by (simp add: undisturbed_def quiet_def)

context ghost_free
begin

lemma wp_reading_kept:
  assumes "undisturbed e I" and "I s" and "\<And>t. I t \<Longrightarrow> trace t = trace s \<Longrightarrow> Q (f t) t"
  shows "wp (reading e f) Q s"
  using assms by (auto simp: reading_def locked_def yield_def Let_def ghost undisturbed_def)

lemma inv_reclaimSnapshot: "preserves I (reclaimSnapshot e inUse sn)"
  unfolding reclaimSnapshot_def removeSnapshotDetached_def removeLocalSnapshots_def rtSnapshotRemove_def
    verifyLocalSnapshot_def fetchHibernateManifest_def regGetManifest_def fetchSnapshotConfig_def Let_def
  by (intro preserves_intros inv_ext)

lemma inv_reclaimEach: "preserves I (reclaimEach e inUse sns)"
  by (induction sns) (auto intro!: preserves_intros inv_reclaimSnapshot)

end

definition tracksAs :: "string \<Rightarrow> podptr \<Rightarrow> pod \<Rightarrow> prov \<Rightarrow> bool" where
  "tracksAs key p q s \<longleftrightarrow> pods s key = Some p \<and> podAt s p = q"

interpretation tracking: ghost_free "tracksAs key p q" for key p q
  by unfold_locales (simp_all add: tracksAs_def podAt_def)

definition needs :: "env \<Rightarrow> pod \<Rightarrow> string \<Rightarrow> bool" where
  "needs e q u \<longleftrightarrow> u = vsVMName (mParseVMSpec (lib e) q) \<or>
     (\<exists>repo tag. mParseRef (lib e) (vsImage (mParseVMSpec (lib e) q)) = (repo, tag) \<and> u = localSnapshotName e repo tag)"

lemma needs_in_use: "tracksAs key p q s \<Longrightarrow> key \<in> set keys \<Longrightarrow> needs e q u \<Longrightarrow> u \<in> set (snapshotNamesInUse e keys s)"
  using map_filter_mem [of key keys "pods s" p]
  by (auto simp: tracksAs_def needs_def snapshotNamesInUse_def Let_def case_prod_beta intro!: bexI [of _ p])

definition sparing :: "env \<Rightarrow> string \<Rightarrow> call \<Rightarrow> bool" where
  "sparing e u c \<longleftrightarrow> (\<forall>r. c \<noteq> RSnapshotRemove u r \<and> c \<noteq> RSnapshotRemove (u @ HibernateImportSuffix (konst e)) r)"

lemma pass_spares:
  assumes "undisturbed e (tracksAs key p q)" and "key \<in> set keys" and "needs e q u"
    and "\<not> hasSuffix u (HibernateImportSuffix (konst e))"
    and "\<not> hasPrefix (u @ HibernateImportSuffix (konst e)) ''fork-''" and "tracksAs key p q s"
  shows "wp (reclaimLocalSnapshots e keys)
    (\<lambda>_ t. tracksAs key p q t \<and> (\<exists>cs. trace t = trace s @ cs \<and> list_all (sparing e u) cs)) s"
proof -
  have each: "wp (reclaimEach e (snapshotNamesInUse e keys t) sns)
      (\<lambda>_ t. tracksAs key p q t \<and> (\<exists>cs. trace t = trace s @ cs \<and> list_all (sparing e u) cs)) t"
    if t: "tracksAs key p q t" "trace t = trace s @ [RSnapshotList (Inr sns)]" for t sns
  proof (rule wp_preserves_calls [OF tracking.inv_reclaimEach emits_reclaimEach t(1)])
    fix r v cs
    assume v: "tracksAs key p q v" "trace v = trace t @ cs" "list_all (reclaims e (snapshotNamesInUse e keys t)) cs"
    have "sparing e u c" if "c \<in> set cs" for c
      using v(3) that reclaims_spares [OF needs_in_use [OF t(1) assms(2,3)] assms(4,5)]
      by (auto simp: sparing_def list_all_iff)
    with v t(2) show "tracksAs key p q v \<and> (\<exists>cs. trace v = trace s @ cs \<and> list_all (sparing e u) cs)"
      by (auto simp: list_all_iff sparing_def)
  qed
  show ?thesis
  proof (cases "wSnapshotList (ask e) (trace s)")
    case (Inl x)
    then show ?thesis
      using assms(6) by (simp add: reclaimLocalSnapshots_def rtSnapshotList_def tracking.ghost sparing_def)
  next
    case (Inr sns)
    then show ?thesis
      by (simp add: reclaimLocalSnapshots_def rtSnapshotList_def)
        (rule tracking.wp_reading_kept [OF assms(1)], simp_all add: tracking.ghost assms(6) each)
  qed
qed



section \<open>Retries\<close>

lemma opRetryDelay_bounds:
  "prev = 0 \<or> opRetryBaseDelay \<le> prev \<Longrightarrow> opRetryBaseDelay \<le> opRetryDelay prev \<and> opRetryDelay prev \<le> opRetryMaxDelay"
  by (auto simp: opRetryDelay_def orInt_def opRetryMaxDelay_def opRetryBaseDelay_def second_def min_def)

lemma spawned_retries:
  "quiet e \<Longrightarrow> wp (spawnRetries e ks) (\<lambda>_ t. closed t = closed s \<and>
     jobs t = jobs s @ (if closed s then [] else map JobRetryOp ks)) s"
proof (induction ks arbitrary: s)
  case (Cons k ks)
  let ?u = "(goBackgroundLocked (JobRetryOp k) (s\<lparr>tick := Suc (tick s)\<rparr>))\<lparr>trace := trace s, tick := Suc (tick s)\<rparr>"
  have "wp (spawnRetries e ks) (\<lambda>_ t. closed t = closed s \<and> jobs t = jobs s @ (if closed s then [] else map JobRetryOp (k # ks))) ?u"
    by (rule wp_mono [OF Cons.IH [OF Cons.prems]]) (auto simp: goBackgroundLocked_def)
  with Cons.prems show ?case by (simp add: wp_quiet)
qed simp

text \<open>An update that failed is owed a retry, and the first round after its delay starts it.\<close>

lemma failed_update_retried:
  assumes "quiet e" and "pods s (podKey e p) = Some q" "ptUID q = ptUID p" and "\<not> closed s"
    and "t = snd (run_state (retryOpLater e p prev) s)"
    and "wNow (ask e) (trace s) + opRetryDelay prev \<le> wNow (ask e) (trace t)" and "podKey e p \<in> set keys"
  shows "JobRetryOp (podKey e p) \<in> set (jobs (snd (run_state (retryDueOps e keys) t)))"
proof -
  let ?now = "wNow (ask e) (trace s)"
  have "wp (retryOpLater e p prev) (\<lambda>_ t. \<not> closed t \<and>
      opRetries t (podKey e p) = Some \<lparr>orDelay = opRetryDelay prev, orDue = ?now + opRetryDelay prev\<rparr>) s"
    using assms(1-4) by (simp add: retryOpLater_def timeNow_def wp_quiet retryOpLaterLocked_def trackedPodMatchesLocked_def)
  from wp_run [OF this, folded assms(5)] have t: "\<not> closed t"
    "opRetries t (podKey e p) = Some \<lparr>orDelay = opRetryDelay prev, orDue = ?now + opRetryDelay prev\<rparr>" by simp_all
  let ?due = "\<lambda>key. case opRetries t key of None \<Rightarrow> False | Some r \<Rightarrow> opDue (wNow (ask e) (trace t)) r"
  let ?u = "t\<lparr>trace := trace t @ [TNow (wNow (ask e) (trace t))], tick := Suc (tick t)\<rparr>"
  have "wp (spawnRetries e (filter ?due keys)) (\<lambda>_ u. JobRetryOp (podKey e p) \<in> set (jobs u)) ?u"
    by (rule wp_mono [OF spawned_retries [OF assms(1)]]) (use t assms(6,7) in \<open>auto simp: opDue_def\<close>)
  then have "wp (retryDueOps e keys) (\<lambda>_ u. JobRetryOp (podKey e p) \<in> set (jobs u)) t"
    by (simp add: retryDueOps_def timeNow_def wp_quiet assms(1))
  from wp_run [OF this] show ?thesis .
qed

section \<open>Annotations converge\<close>

text \<open>The API server accepts what it is sent, and \<open>meta.PodKey\<close> joins namespace and name by a slash.\<close>

definition accepting :: "env \<Rightarrow> bool" where
  "accepting e \<longleftrightarrow> cfgClientset (cfg e) \<and> (\<forall>h ns n uid an. wPatch (ask e) h ns n uid an = None) \<and>
     (\<forall>h ns n uid st. wStatusPatch (ask e) h ns n uid st = None)"

definition joinsKeys :: "env \<Rightarrow> bool" where
  "joinsKeys e \<longleftrightarrow> (\<forall>ns n. mPodKey (lib e) ns n = ns @ ''/'' @ n)"

definition flushedEntry :: "env \<Rightarrow> lifecycle_entry \<Rightarrow> lifecycle_entry" where
  "flushedEntry e c = c\<lparr>leFlushed := mStatusSnapshot (lib e) (leStatus c)\<rparr>"

lemma flushedEntry_sel [simp]:
  "leUID (flushedEntry e c) = leUID c" "leStatus (flushedEntry e c) = leStatus c"
  "flushedEntry e (flushedEntry e c) = flushedEntry e c" "\<not> lifecycleDrifted e (flushedEntry e c)"
  by (simp_all add: flushedEntry_def lifecycleDrifted_def)

lemma drift_key:
  assumes "joinsKeys e" and "key = podKey e p"
  shows "mPodKey (lib e) (ldNamespace (driftOf key c)) (ldName (driftOf key c)) = key"
proof -
  have "key = ptNamespace p @ ''/'' @ ptName p" using assms by (simp add: joinsKeys_def podKey_def)
  then obtain a b where cut: "cutStr key ''/'' = Some (a, b)" using cutStr_append by metis
  with cutStr_Some [OF cut] assms(1) show ?thesis by (simp add: driftOf_def joinsKeys_def)
qed

text \<open>A flush of an intent the table holds marks it flushed.\<close>

definition flushes :: "env \<Rightarrow> string \<Rightarrow> lifecycle_entry \<Rightarrow> prov \<Rightarrow> prov \<Rightarrow> bool" where
  "flushes e key c s t \<longleftrightarrow>
     lifecycleIntent t = (lifecycleIntent s)(key \<mapsto> flushedEntry e c) \<and> pods t = pods s \<and>
     (\<exists>cs ns n. trace t = trace s @ cs \<and> mPodKey (lib e) ns n = key \<and>
        KPatch ns n (leUID c) (mStatusAnnotations (lib e) (leStatus c)) None \<in> set cs)"

lemma flush_accepted:
  assumes "quiet e" "accepting e" "mPodKey (lib e) ns n = key" "lifecycleIntent s key = Some d"
    and "leUID d = leUID c" "leStatus d = leStatus c"
  shows "wp (flushLifecycle e ns n (leUID c) (leStatus c)) (\<lambda>_. flushes e key d s) s"
  using assms
  by (auto simp: flushLifecycle_def lifecyclePatchAttempts_def numeral_3_eq_3 wp_quiet lifecycleOwnedLocked_def
      patchIncarnationAnnotations_def kubePatch_def accepting_def recordLifecycleFlushed_def flushes_def flushedEntry_def
      map_option_case fun_eq_iff)

text \<open>Actions that leave intents and pods alone.\<close>

definition tablesAre :: "(string \<rightharpoonup> lifecycle_entry) \<Rightarrow> (string \<rightharpoonup> podptr) \<Rightarrow> prov \<Rightarrow> bool" where
  "tablesAre L P s \<longleftrightarrow> lifecycleIntent s = L \<and> pods s = P"

interpretation tabs: ghost_free "tablesAre L P" for L P
  by unfold_locales (simp_all add: tablesAre_def)

lemmas tabs_intros = preserves_intros tabs.inv_ext tabs.inv_reading tabs.inv_locked tabs.inv_writing

lemma tabs_refreshStatus: "quiet e \<Longrightarrow> preserves (tablesAre L P) (refreshStatus e p)"
  unfolding refreshStatus_def GetPodStatus_def GetPod_def vmForPod_def resolveVMIP_def setVMIP_def lookupByMAC_def timeNow_def
  by (intro tabs_intros)
    (auto simp: tablesAre_def deepCopy_def updateTrackedVM_def setVMLocked_def allocVM_def setStatus_def Let_def
      split: option.split)

lemma tabs_notify: "quiet e \<Longrightarrow> preserves (tablesAre L P) (notify e p)"
  unfolding notify_def
  by (intro tabs_intros)
    (auto simp: tablesAre_def deepCopy_def stampLifecycleIntentLocked_def applyStatus_def setAnnots_def Let_def
      split: option.split)

definition aside :: "prov \<Rightarrow> prov \<Rightarrow> bool" where
  "aside s t \<longleftrightarrow> lifecycleIntent t = lifecycleIntent s \<and> pods t = pods s \<and> (\<exists>cs. trace t = trace s @ cs)"

lemma wp_aside:
  assumes "\<And>L P. preserves (tablesAre L P) m" and "emits m R" and "\<And>r t. aside s t \<Longrightarrow> Q r t"
  shows "wp m Q s"
  by (rule wp_preserves_calls [OF assms(1) assms(2), of "lifecycleIntent s" "pods s"])
    (auto simp: tablesAre_def aside_def intro: assms(3))

lemma flushes_aside:
  assumes "aside s t" and "flushes e key d t u" and "aside u v"
  shows "flushes e key d s v"
  using assms unfolding flushes_def aside_def by (auto, metis append.assoc set_append UnCI)

lemma publish_accepted:
  assumes "quiet e" "accepting e"
  shows "wp (publishPodStatus e p) (\<lambda>r t. r = None \<and> aside s t) s"
  using assms
  by (simp add: publishPodStatus_def patchWithRetry_def lifecyclePatchAttempts_def numeral_3_eq_3 wp_quiet kubeStatusPatch_def
      accepting_def aside_def)

lemma ready_accepted:
  assumes "quiet e" "accepting e" "podKey e q = key" "lifecycleIntent s key = Some d"
    and "leUID d = ptUID q" "leStatus d = status"
  shows "wp (publishReadyLifecycle e q status) (\<lambda>_. flushes e key d s) s"
proof -
  have flush: "wp (flushLifecycle e (ptNamespace q) (ptName q) (ptUID q) status)
      (\<lambda>_. wp (notify e q) (\<lambda>_. flushes e key d s)) u" if u: "aside s u" for u
  proof -
    have "wp (flushLifecycle e (ptNamespace q) (ptName q) (ptUID q) status) (\<lambda>_. flushes e key d u) u"
      using flush_accepted [of e "ptNamespace q" "ptName q" key u d d] assms u by (simp add: podKey_def aside_def)
    then show ?thesis
    proof (rule wp_mono)
      fix r v
      assume "flushes e key d u v"
      then show "wp (notify e q) (\<lambda>_. flushes e key d s) v"
        by (intro wp_aside [OF tabs_notify [OF assms(1)] emits_notify [where P = "\<lambda>_. True"]])
          (auto intro: flushes_aside [OF u])
    qed
  qed
  have "wp (publishPodStatus e q) (\<lambda>r. wp (if r \<noteq> None then State_Monad.return ()
      else do { _ \<leftarrow> flushLifecycle e (ptNamespace q) (ptName q) (ptUID q) status; notify e q }) (\<lambda>_. flushes e key d s)) t"
    if t: "aside s t" for t
    by (rule wp_mono [OF publish_accepted [OF assms(1,2)]]) (use t in \<open>auto simp: aside_def intro!: flush\<close>)
  then show ?thesis
    unfolding publishReadyLifecycle_def
    by (simp add: wp_aside [OF tabs_refreshStatus [OF assms(1)] emits_refreshStatus])
qed

lemma drift_accepted:
  assumes "quiet e" "accepting e" "joinsKeys e" "pods_keyed e s" "intents_owned s" "key = podKey e p"
    and "lifecycleIntent s key = Some d" "leUID d = leUID c" "leStatus d = leStatus c"
  shows "wp (reconcileLifecycleDrift e (ldNamespace (driftOf key c)) (ldName (driftOf key c)) (leUID c) (leStatus c))
    (\<lambda>_. flushes e key d s) s"
proof -
  let ?ns = "ldNamespace (driftOf key c)" and ?n = "ldName (driftOf key c)"
  have k: "mPodKey (lib e) ?ns ?n = key" by (rule drift_key [OF assms(3,6)])
  have flush: "wp (flushLifecycle e ?ns ?n (leUID c) (leStatus c)) (\<lambda>_. flushes e key d s) (s\<lparr>tick := m\<rparr>)" for m
    by (rule wp_mono [OF flush_accepted [OF assms(1,2) k, of _ d c]])
      (use assms(7-9) in \<open>auto simp: flushes_def\<close>)
  show ?thesis
  proof (cases "lsState (leStatus c) = LifecycleStateReady")
    case False
    then show ?thesis using flush [of "tick s"] by (simp add: reconcileLifecycleDrift_def)
  next
    case True
    show ?thesis
    proof (cases "pods s key")
      case None
      with True k flush show ?thesis by (simp add: reconcileLifecycleDrift_def GetPod_def wp_quiet assms(1))
    next
      case (Some q)
      have q: "podKey e q = key" "ptUID q = leUID d"
        using Some assms(4,5,7) by (simp_all add: pods_keyed_def intents_owned_def)
      let ?q = "\<lparr>ptAddr = nextAddr s, ptMeta = ptMeta q\<rparr>"
      let ?t = "snd (deepCopy q s)\<lparr>tick := Suc (tick s)\<rparr>"
      have "wp (publishReadyLifecycle e ?q (leStatus c)) (\<lambda>_. flushes e key d ?t) ?t"
        by (rule ready_accepted [OF assms(1,2)])
          (use q assms(7-9) in \<open>simp_all add: podKey_def deepCopy_def\<close>)
      then have "wp (publishReadyLifecycle e ?q (leStatus c)) (\<lambda>_. flushes e key d s) ?t"
        by (rule wp_mono) (simp add: flushes_def deepCopy_def)
      with True k Some show ?thesis
        by (simp add: reconcileLifecycleDrift_def GetPod_def wp_quiet assms(1) deepCopy_def Let_def)
    qed
  qed
qed

text \<open>A pass over some keys: their intents end up flushed, the others stay.\<close>

definition flushedOn :: "env \<Rightarrow> (string \<rightharpoonup> lifecycle_entry) \<Rightarrow> string set \<Rightarrow> (string \<rightharpoonup> lifecycle_entry)" where
  "flushedOn e I K = (\<lambda>key. if key \<in> K then map_option (flushedEntry e) (I key) else I key)"

definition published :: "env \<Rightarrow> string \<Rightarrow> lifecycle_entry \<Rightarrow> call list \<Rightarrow> bool" where
  "published e key c cs \<longleftrightarrow>
     (\<exists>ns n. mPodKey (lib e) ns n = key \<and> KPatch ns n (leUID c) (mStatusAnnotations (lib e) (leStatus c)) None \<in> set cs)"

lemma published_append: "published e key c cs \<Longrightarrow> published e key c (as @ cs @ bs)"
  by (auto simp: published_def)

lemma flushedOn_at:
  assumes "I key = Some c"
  obtains d where "flushedOn e I K key = Some d" "leUID d = leUID c" "leStatus d = leStatus c"
    "flushedEntry e d = flushedEntry e c"
  using assms that by (cases "key \<in> K") (auto simp: flushedOn_def)

lemma flushedOn_insert: "I key = Some c \<Longrightarrow> (flushedOn e I K)(key \<mapsto> flushedEntry e c) = flushedOn e I (insert key K)"
  by (auto simp: flushedOn_def)

lemma owned_flushedOn:
  assumes "intents_owned s" and "lifecycleIntent t = flushedOn e (lifecycleIntent s) K" and "pods t = pods s"
  shows "intents_owned t"
  using assms by (auto simp: intents_owned_def flushedOn_def split: if_splits)

lemma drift_pass:
  assumes ok: "quiet e" "accepting e" "joinsKeys e" and owned: "pods_keyed e s" "intents_owned s"
    and keys: "\<forall>key \<in> set ks. \<exists>c p. lifecycleIntent s key = Some c \<and> key = podKey e p"
    and "lifecycleIntent t = flushedOn e (lifecycleIntent s) K" and "pods t = pods s"
  shows "wp (ticks (\<lambda>d. reconcileLifecycleDrift e (ldNamespace d) (ldName d) (ldUID d) (ldStatus d))
      (map (\<lambda>key. driftOf key (the (lifecycleIntent s key))) ks))
    (\<lambda>_ u. lifecycleIntent u = flushedOn e (lifecycleIntent s) (K \<union> set ks) \<and> pods u = pods s \<and>
      (\<exists>cs. trace u = trace t @ cs \<and> (\<forall>key \<in> set ks. published e key (the (lifecycleIntent s key)) cs))) t"
  using keys assms(7,8)
proof (induction ks arbitrary: t K)
  case (Cons key ks)
  obtain c p where c: "lifecycleIntent s key = Some c" "key = podKey e p" using Cons.prems(1) by auto
  obtain d where d: "lifecycleIntent t key = Some d" "leUID d = leUID c" "leStatus d = leStatus c"
    "flushedEntry e d = flushedEntry e c"
    using flushedOn_at [of "lifecycleIntent s" key c e K] c(1) Cons.prems(2) by metis
  have sel: "ldUID (driftOf key c) = leUID c" "ldStatus (driftOf key c) = leStatus c"
    by (simp_all add: driftOf_def split: prod.split)
  have keyed: "pods_keyed e t" using owned(1) Cons.prems(3) by (simp add: pods_keyed_def)
  note step = drift_accepted [OF ok keyed owned_flushedOn [OF owned(2) Cons.prems(2,3)] c(2) d(1-3)]
  let ?Q = "\<lambda>_ u. lifecycleIntent u = flushedOn e (lifecycleIntent s) (K \<union> set (key # ks)) \<and> pods u = pods s \<and>
      (\<exists>cs. trace u = trace t @ cs \<and> (\<forall>k \<in> set (key # ks). published e k (the (lifecycleIntent s k)) cs))"
  have rest: "wp (ticks (\<lambda>d. reconcileLifecycleDrift e (ldNamespace d) (ldName d) (ldUID d) (ldStatus d))
      (map (\<lambda>key. driftOf key (the (lifecycleIntent s key))) ks)) ?Q u" if u: "flushes e key d t u" for u
  proof -
    have tabs: "lifecycleIntent u = flushedOn e (lifecycleIntent s) (insert key K)" "pods u = pods s"
      using u Cons.prems(2,3) flushedOn_insert [of "lifecycleIntent s" key c e K] c(1) d(4) by (simp_all add: flushes_def)
    obtain as where as: "trace u = trace t @ as" "published e key c as"
      using u d(2,3) by (auto simp: flushes_def published_def)
    show ?thesis
    proof (rule wp_mono [OF Cons.IH [OF _ tabs]])
      show "\<forall>key \<in> set ks. \<exists>c p. lifecycleIntent s key = Some c \<and> key = podKey e p" using Cons.prems(1) by simp
    next
      fix r v
      assume v: "lifecycleIntent v = flushedOn e (lifecycleIntent s) (insert key K \<union> set ks) \<and> pods v = pods s \<and>
        (\<exists>cs. trace v = trace u @ cs \<and> (\<forall>key \<in> set ks. published e key (the (lifecycleIntent s key)) cs))"
      then obtain bs where bs: "trace v = trace u @ bs" "\<forall>key \<in> set ks. published e key (the (lifecycleIntent s key)) bs"
        by blast
      have "\<forall>k \<in> set (key # ks). published e k (the (lifecycleIntent s k)) (as @ bs)"
        using as(2) bs(2) c(1) published_append [of e _ _ as "[]" bs] published_append [of e _ _ bs as "[]"] by auto
      with v as(1) bs(1) show "?Q r v" by auto
    qed
  qed
  show ?case using wp_mono [OF step rest] by (simp add: c(1) sel)
qed simp

lemma lifecycleDrifts_map:
  "lifecycleDrifts e keys s = map (\<lambda>key. driftOf key (the (lifecycleIntent s key)))
     (filter (\<lambda>key. \<exists>c. lifecycleIntent s key = Some c \<and> lifecycleDrifted e c) keys)"
  by (induction keys) (auto simp: lifecycleDrifts_def map_filter_simps split: option.split)


text \<open>A pod whose Ready state was staged, and not flushed.\<close>

definition exStaged :: prov where
  "exStaged = snd (applyLifecycleLocked exEnv exPod LifecycleStateReady [] (trackPodLocked exEnv exPod None NewProvider))"

lemma exStaged_reachable: "tab_reachable exEnv exStaged"
  unfolding exStaged_def
  by (rule tab_reachable.step [OF tab_reachable.step [OF tab_reachable.init tab_step.track] tab_step.apply_lc])

lemma exStaged_intent: "\<exists>c. lifecycleIntent exStaged = [''ns/a'' \<mapsto> c] \<and> leFlushed c = []"
  by (simp add: exStaged_def applyLifecycleLocked_def podKey_def Let_def ex_defs) (rule exI, rule conjI, rule refl, simp)


end
