(* ===== verification/System.thy ===== *)
theory System
  imports Workers Update_Props Reconcile_Props
begin

text \<open>
  The whole provider: what the kubelet library, the API server's informer, the event stream, the probes and the background
  goroutines can make it do, each as one entry point. Entry points run beside each other through the interference at every
  critical section; the theorems are about each of them, from any state.
\<close>

section \<open>Background jobs\<close>

text \<open>How far a job gets before its context ends: bounds on the rounds of its loops, whether \<open>TryLock\<close> succeeds, and the orders in
  which ranges over a table take its keys; \<open>paDur\<close> renders a duration.\<close>

record pace =
  paDur :: "int \<Rightarrow> string"
  paPolls :: nat
  paTries :: nat
  paRounds :: nat
  paFree :: bool
  paFirst :: "string list"
  paOrders :: "string list list"
  paLifecycle :: "(string list \<times> string list) list"

definition resumeOpNamed :: "string \<Rightarrow> resume_op" where
  "resumeOpNamed n = (case List.find (\<lambda>oper. resumeName oper = n)
       [resumeOpHibernate, resumeOpPostClone, resumeOpReadyWait, resumeOpClassifyNIC, resumeOpSnapshot] of
     None \<Rightarrow> resumeOpNone | Some oper \<Rightarrow> oper)"

definition ignoring :: "'a act \<Rightarrow> unit act" where
  "ignoring m = do { _ \<leftarrow> m; State_Monad.return () }"

definition runJob :: "env \<Rightarrow> pace \<Rightarrow> job \<Rightarrow> unit act" where
  "runJob e pa j = (case j of
      JobMarkReadyAfterIP p spec v kind \<Rightarrow> markReadyAfterIP e (paDur pa) (paPolls pa) p spec v kind
    | JobPostClone p spec v img oper kind \<Rightarrow>
        ignoring (runPostCloneSetup e (paDur pa) (paPolls pa) (paTries pa) p spec v img oper kind)
    | JobRemoveSnapshot name \<Rightarrow> removeSnapshotDetached e name
    | JobRecheck vmID \<Rightarrow> ignoring (runDeferredRecheck e (paRounds pa) vmID)
    | JobRetryOp key \<Rightarrow> retryOp e (paFree pa) key
    | JobReadyWait p spec v kind oper \<Rightarrow> runReadyWait e (paDur pa) (paPolls pa) p spec v kind oper
    | JobResume key p spec v name kind \<Rightarrow>
        resumeJob e (paDur pa) (paPolls pa) (paTries pa) (paRounds pa) key p spec v (resumeOpNamed name) kind
    | JobDeletePod p \<Rightarrow> do { q \<leftarrow> State (deepCopy p); ignoring (DeletePod e q) }
    | JobWatchBusyCreate vmID name settled \<Rightarrow> ignoring (watchJob e (paRounds pa) vmID name settled)
    | JobStatusReconciler \<Rightarrow> runStatusReconciler e (paFirst pa) (paOrders pa)
    | JobLifecycleReconciler \<Rightarrow> runLifecycleReconciler e (paLifecycle pa)
    | JobSnapshotReclaimer \<Rightarrow> runSnapshotReclaimer e (paFirst pa) (paOrders pa))"

lemma resumeOpNamed_resumeName: "resumeOpNamed (resumeName oper) = oper"
  by (cases oper) (simp_all add: resumeOpNamed_def resumeName_def)

section \<open>Entry points\<close>

datatype entry =
    EnStartup "string list"
  | EnCreate podptr
  | EnUpdate podptr
  | EnDelete podptr
  | EnGetStatus string string
  | EnUpdated podptr
  | EnDeleted podptr
  | EnNotifyPods
  | EnLifecycleReconciler
  | EnSnapshotReclaimer
  | EnWatch "(err + (string \<times> vm) list) list"
  | EnProbe podptr
  | EnMacosProbe podptr
  | EnProbeUpdate string string
  | EnMacosUpdate string string
  | EnJob job
  | EnClose

definition runEntry :: "env \<Rightarrow> pace \<Rightarrow> entry \<Rightarrow> unit act" where
  "runEntry e pa en = (case en of
      EnStartup keys \<Rightarrow> ignoring (StartupReconcile e keys)
    | EnCreate p \<Rightarrow> ignoring (CreatePod e p)
    | EnUpdate p \<Rightarrow> ignoring (UpdatePod e p)
    | EnDelete p \<Rightarrow> ignoring (DeletePod e p)
    | EnGetStatus ns name \<Rightarrow> ignoring (GetPodStatus e ns name)
    | EnUpdated p \<Rightarrow> RefreshKeepSnapshotOnDelete e p
    | EnDeleted p \<Rightarrow> DeleteFailedMacosCreate e p
    | EnNotifyPods \<Rightarrow> NotifyPods e
    | EnLifecycleReconciler \<Rightarrow> StartLifecycleReconciler e
    | EnSnapshotReclaimer \<Rightarrow> StartSnapshotReclaimer e
    | EnWatch rounds \<Rightarrow> StartVMWatcher e rounds
    | EnProbe p \<Rightarrow> startProbeIfEnabled e p
    | EnMacosProbe p \<Rightarrow> startMacosProbe e p
    | EnProbeUpdate ns name \<Rightarrow> buildOnUpdate e ns name
    | EnMacosUpdate ns name \<Rightarrow> publishMacosReadiness e ns name
    | EnJob j \<Rightarrow> runJob e pa j
    | EnClose \<Rightarrow> Close e)"

section \<open>Boots\<close>

text \<open>Every boot rests on calls made before it: the answer that nothing is hibernated under the name it boots, or a source vouched
  for under that name.\<close>

definition evidenced :: "env \<Rightarrow> call list \<Rightarrow> bool" where
  "evidenced e cs \<longleftrightarrow> (\<forall>as c bs. cs = as @ c # bs \<longrightarrow> boots c \<longrightarrow>
     evidenceAbsent e (bootName c) as \<or> restoresFrom e (bootName c) c as)"

lemma evidenced_bootSafe: "bootSafe e n cs \<Longrightarrow> evidenced e cs"
  by (auto simp: evidenced_def bootSafe_def)

lemma evidenced_tame: "list_all tame cs \<Longrightarrow> evidenced e cs"
  by (auto simp: evidenced_def tame_def)

lemma emits_done [emits_intros]: "emits m P \<Longrightarrow> emits (ignoring m) P"
  unfolding ignoring_def by (intro emits_intros)

lemma emits_ticks: "(\<And>k. emits (f k) P) \<Longrightarrow> emits (ticks f ks) P"
  by (induction ks) (auto intro!: emits_intros)

lemma emits_tame_GetPodStatus [emits_intros]: "emits (GetPodStatus e ns name) tame"
  by (rule emits_tame_book [OF emits_weaken [OF emits_GetPodStatus statusRead_bookkeeping]])

lemma emits_setStatus: "emits (State (\<lambda>s. ((), setStatus p f s))) P"
  by (simp add: emits_def setStatus_def)

lemma tame_rest [simp]:
  "tame (KGetPod ns n r)" "tame (RSnapshotList sns)" "tame (RStart i z)" "tame (RRemove i z)"
  "tame (XMatch i n m)"
  by (simp_all add: tame_def boots_def evicts_def)

lemmas emits_tame_status [emits_intros] =
  emits_tame_book [OF emits_book_refreshStatus] emits_tame_book [OF emits_book_flush]
  emits_tame_book [OF emits_book_publishReady] emits_tame_book [OF emits_book_notify]

declare emits_newPod [emits_intros]

lemma emits_tame_repair: "emits (reconcilePodStatuses e keys) tame"
proof -
  have "emits (reconcilePodStatus e p) tame" for p
    unfolding reconcilePodStatus_def repairStatus_def republishStatus_def kubeGetPod_def vmForPod_def
    by (intro emits_intros emits_setStatus) simp_all
  then have "emits (reconcileEach e ps) tame" for ps
    by (induction ps) (auto intro!: emits_intros)
  then show ?thesis unfolding reconcilePodStatuses_def by (intro emits_intros)
qed

lemma emits_tame_lifecycleRound: "emits (lifecycleRound e orders) tame"
proof -
  have "emits (spawnRetries e keys) tame" for keys
    by (induction keys) (auto intro!: emits_intros)
  then show ?thesis
    unfolding lifecycleRound_def reconcileAllLifecycle_def reconcileLifecycleDrift_def retryDueOps_def timeNow_def
    by (intro emits_intros emits_ticks) simp_all
qed

lemma emits_tame_reclaim: "emits (reclaimLocalSnapshots e keys) tame"
proof -
  have "emits (reclaimSnapshot e inUse sn) tame" for inUse sn
    unfolding reclaimSnapshot_def removeSnapshotDetached_def rtSnapshotRemove_def verifyLocalSnapshot_def
      fetchSnapshotConfig_def Let_def
    by (intro emits_intros) simp_all
  then have "emits (reclaimEach e inUse sns) tame" for inUse sns
    by (induction sns) (auto intro!: emits_intros)
  then show ?thesis unfolding reclaimLocalSnapshots_def rtSnapshotList_def by (intro emits_intros) simp
qed

lemma emits_tame_claimed [emits_intros]: "emits (deletePodClaimed e p) tame"
  unfolding deletePodClaimed_def deleteManagedPod_def deleteMacosPod_def removeMacosGuest_def removeAndForget_def
    saveAndPushSnapshot_def saveAndPush_def forgetPod_def forgetProbe_def succeedAndNotify_def backoffIfResuming_def
    releaseDHCPLeases_def vmForPod_def macosExec_def rtInspect_def rtSnapshotSave_def snapshotAnnotations_def pushSnapshot_def
  by (intro emits_intros emits_setStatus emits_tame_leases) simp_all

lemma emits_tame_delete [emits_intros]: "emits (DeletePod e p) tame"
  unfolding DeletePod_def deletePod_def
  by (intro emits_intros emits_podLock) (auto intro!: emits_intros split: delete_claim.split)

lemma emits_tame_inspect [emits_intros]: "emits (inspectWithRetry e i) tame"
proof -
  have "emits (inspectLoop e k j b i) tame" for k j b
    by (induction k arbitrary: j) (auto intro!: emits_intros simp: rtInspect_def sleepCtx_def)
  then show ?thesis unfolding inspectWithRetry_def .
qed

text \<open>The watcher and the deferred recheck may evict; they boot nothing.\<close>

definition noBoot :: "call \<Rightarrow> bool" where
  "noBoot c \<longleftrightarrow> \<not> boots c"

lemma evidenced_noBoot: "list_all noBoot cs \<Longrightarrow> evidenced e cs"
  by (auto simp: evidenced_def noBoot_def)

lemma emits_tame_noBoot: "emits m tame \<Longrightarrow> emits m noBoot"
  by (erule emits_weaken) (simp add: tame_def noBoot_def)

lemma noBoot_simps [simp]:
  "noBoot (KDelete ns n uid z)" "noBoot (TSleep d z)" "noBoot (TCtxErr z)" "noBoot (TNow t)" "noBoot (EEvent w a b)"
  "noBoot (RStart i z)" "noBoot (RInspect i v)" "noBoot (XMatch i n m)"
  by (simp_all add: noBoot_def boots_def)

lemma emits_noBoot_evict [emits_intros]: "emits (evictPod e key p reason message) noBoot"
proof -
  have "emits (deleteLoop e n i p) noBoot" for n i
    by (induction n arbitrary: i) (auto intro!: emits_intros simp: kubeDelete_def sleepCtx_def ctxErr_def)
  then show ?thesis
    unfolding evictPod_def deletePodWithRetry_def untrackIncarnation_def forgetProbe_def
    by (intro emits_intros emits_setStatus emits_tame_noBoot [OF emits_tame_book [OF emits_book_notify]])
qed

lemma emits_noBoot_match [emits_intros]: "emits (podForVMMatch e i n) noBoot"
  unfolding podForVMMatch_def pickMatch_def by (intro emits_intros) simp_all

lemma emits_noBoot_removal [emits_intros]:
  "emits (removeThenEvict e v key p reason message) noBoot" "emits (evictGoneIncarnation e key p v reason message) noBoot"
  unfolding removeThenEvict_def evictGoneIncarnation_def scheduleDeferredRecheck_def releaseDHCPLeases_def
  by (intro emits_intros emits_tame_noBoot [OF emits_tame_removeVM] emits_tame_noBoot [OF emits_tame_leases])+

lemma emits_noBoot_gone [emits_intros]: "emits (handleVMGone e v) noBoot"
proof -
  have "emits (liftClearedHibernateFailure e p) noBoot" for p
    unfolding liftClearedHibernateFailure_def
    by (intro emits_intros emits_tame_noBoot [OF emits_tame_lift] emits_tame_noBoot [OF emits_tame_retry]
        emits_tame_noBoot [OF emits_tame_book [OF emits_book_markReady]])
  then show ?thesis
    unfolding handleVMGone_def restartOrEvict_def scheduleDeferredRecheck_def timeNow_def rtStart_def rtInspect_def
    by (intro emits_intros emits_tame_noBoot [OF emits_tame_inspect]) simp_all
qed

lemma emits_noBoot_watch: "emits (StartVMWatcher e rounds) noBoot"
proof -
  have "emits (handleEvents e evs) noBoot" for evs
    by (induction e evs rule: handleEvents.induct) (auto intro!: emits_intros simp: handleEvent_def)
  then have "emits (vmWatchLoop e delay rounds) noBoot" for delay
    by (induction e delay rounds rule: vmWatchLoop.induct)
      (auto intro!: emits_intros simp: ctxErr_def sleepCtx_def timeNow_def)
  then show ?thesis by (simp add: StartVMWatcher_def)
qed

lemma emits_noBoot_recheck: "emits (runDeferredRecheck e rounds i) noBoot"
proof -
  have "emits (recheckRound e i deadline) noBoot" for deadline
    unfolding recheckRound_def timeNow_def rtInspect_def by (intro emits_intros) simp_all
  then have "emits (recheckLoop e n i delay maxDelay deadline) noBoot" for n delay maxDelay deadline
    by (induction n arbitrary: delay) (auto intro!: emits_intros simp: sleepCtx_def)
  then show ?thesis unfolding runDeferredRecheck_def timeNow_def by (intro emits_intros) simp_all
qed

lemma emits_tame_readyAfterIP [emits_intros]: "emits (markReadyAfterIP e dur polls p spec v kind) tame"
proof -
  have "emits (pollIP e ns name i renewAt nudged) tame" for ns name i renewAt nudged
    unfolding pollIP_def timeNow_def by (intro emits_intros emits_resolveVMIP) simp_all
  moreover have "emits (execGuestIpconfig e i cmd) tame" for i cmd
    unfolding execGuestIpconfig_def rtExec_def by (intro emits_intros) simp_all
  ultimately have "emits (waitIPLoop e n ns name i pause deadline renewAt nudged) tame"
    for n ns name i pause deadline renewAt nudged
    by (induction n arbitrary: nudged)
      (auto intro!: emits_intros simp: timeNow_def sleepCtx_def split: ip_poll.split)
  then have "emits (waitForFreshIP e polls p spec i kind) tame" for i
    unfolding waitForFreshIP_def timeNow_def by (intro emits_intros) simp_all
  then show ?thesis
    unfolding markReadyAfterIP_def ctxErr_def setLifecycleStateForWake_def emitEvent_def Let_def
    by (intro emits_intros) simp_all
qed

lemma tame_guest [simp]: "tame (SDial path z)" "tame (SRun args z)" "tame (FStat path b)"
  by (simp_all add: tame_def boots_def evicts_def)

lemma emits_tame_sacLoops: "emits (sacEnumLoop e n want nums) tame" "emits (sacSetLoop e n num ni) tame"
  by (induction n arbitrary: nums)
    (auto intro!: emits_intros simp: sacRun_def emitEvent_def sleepCtx_def Let_def)

lemma emits_tame_setNICs: "emits (sacSetNICs e xs) tame"
  by (induction xs) (auto intro!: emits_intros emits_tame_sacLoops split: option.splits)

lemma emits_tame_postCloneState [emits_intros]:
  "emits (markPostCloneState e p st) tame" "emits (setPodAnnotation e p k x) tame"
  unfolding markPostCloneState_def setPodAnnotation_def by (intro emits_intros)+

lemma emits_tame_sac [emits_intros]: "emits (runWindowsSAC e p v oper) tame"
  unfolding runWindowsSAC_def applyWindowsStaticIP_def sacEnumerateNICs_def sacDial_def emitEvent_def
  by (intro emits_intros emits_tame_sacLoops emits_tame_setNICs) simp_all

lemma emits_tame_readyWait [emits_intros]: "emits (runReadyWait e dur polls p spec v kind oper) tame"
  unfolding runReadyWait_def by (intro emits_intros)

lemma emits_tame_postClone [emits_intros]: "emits (runPostCloneSetup e dur polls tries p spec v img oper kind) tame"
proof -
  have "emits (postCloneLoop e n i argv k errs) tame" for n i argv k errs
    by (induction n arbitrary: k errs)
      (auto intro!: emits_intros simp: attemptPostClone_def rtExec_def ctxErr_def emitEvent_def sleepCtx_def Let_def)
  moreover have "emits (planPostClone e spec w img) tame" for w
    unfolding planPostClone_def statExists_def by (intro emits_intros) simp_all
  moreover have "emits (settlePostClone e dur polls p spec v oper kind plan r) tame" for plan r
    unfolding settlePostClone_def postCloneDone_def postCloneExhausted_def emitPostCloneHint_def emitEvent_def
    by (auto intro!: emits_intros split: option.splits sum.splits)
  ultimately show ?thesis unfolding runPostCloneSetup_def by (intro emits_intros)
qed

lemma emits_tame_resume [emits_intros]: "emits (resumeJob e dur polls tries rounds key p spec v oper kind) tame"
proof -
  have "emits (classifyLoop e n p name delay maxDelay) tame" for n name delay maxDelay
    by (induction n arbitrary: delay)
      (auto intro!: emits_intros simp: hibernateEvidence_def rtSnapshot_def ctxErr_def sleepCtx_def split: prod.split)
  then have "emits (resumeBody e dur polls tries rounds p spec v oper kind) tame"
    unfolding resumeBody_def resumeHibernate_def classifyNICRecovery_def rtStart_def
    by (auto intro!: emits_intros emits_case_bool split: resume_op.split)
  then show ?thesis unfolding resumeJob_def by (intro emits_intros)
qed

lemma tame_listing [simp]: "tame (KListPods qs)" "tame (RList vs)" "tame (RReconcileStaleCreate i z)"
  by (simp_all add: tame_def boots_def evicts_def)

lemma emits_tame_orphan [emits_intros]: "emits (handleOrphan e v) tame"
  unfolding handleOrphan_def indexOrphanByName_def by (intro emits_intros)

lemma emits_tame_settled [emits_intros]: "emits (classifySettledCreate e i) tame" "emits (listNodePods e) tame"
  unfolding classifySettledCreate_def rtInspect_def listNodePods_def kubeListPods_def by (intro emits_intros; simp)+

lemma emits_tame_watchJob [emits_intros]: "emits (watchJob e rounds i name settled) tame"
proof -
  have "emits (watchLoop e n i delay maxDelay deadline) tame" for n delay maxDelay deadline
    by (induction n arbitrary: delay)
      (auto intro!: emits_intros simp: sleepCtx_def timeNow_def rtReconcileStaleCreate_def settleCommittedCreate_def
        vmNameWanted_def indexOrphanByName_def split: prod.split option.split)
  then show ?thesis unfolding watchJob_def timeNow_def by (intro emits_intros) simp_all
qed

lemma emits_tame_owed: "emits (dispatchOwedWork e keys) tame"
proof -
  have "emits (resumeAll e work) tame" for work
    by (induction e work rule: resumeAll.induct)
      (auto intro!: emits_intros simp: resumeOwedWork_def dispatchResume_def emitEvent_def)
  then show ?thesis unfolding dispatchOwedWork_def by (intro emits_intros)
qed

lemma emits_tame_probes [emits_intros]: "emits (startProbeIfEnabled e p) tame"
  unfolding startProbeIfEnabled_def by (intro emits_intros emits_tame_startProbe)

lemma emits_tame_startupPass: "emits (startupPass e keys qs vms) tame"
proof -
  have pod: "emits (reconcilePod e vs p) tame" for vs p
    unfolding reconcilePod_def adoptByVMName_def reconcileNoVMID_def reconcileStaleHibernate_def trackPod_def
      seedLifecycleIntentFromPod_def liftClearedHibernateFailure_def
    by (intro emits_intros)
  have pods: "emits (reconcilePods e vs ps) tame" for vs ps
    by (induction ps) (auto intro!: emits_intros pod)
  have macos: "emits (reconcileMacosPod e p spec) tame" for p spec
    unfolding reconcileMacosPod_def registerMacosVM_def seedLifecycleIntentFromPod_def macosProcessAlive_def
    by (intro emits_intros) simp_all
  have probes: "emits (startupProbes e rs) tame" for rs
    by (induction rs) (auto intro!: emits_intros macos split: pod_outcome.split)
  have orphans: "emits (handleOrphans e ids vs) tame" for ids vs
    by (induction vs) (auto intro!: emits_intros)
  have news: "emits (newVMs ws) tame" "emits (newPods ps) tame" for ws ps
    by (induction ws, auto intro!: emits_intros, induction ps, auto intro!: emits_intros)
  show ?thesis unfolding startupPass_def by (intro emits_intros pods probes orphans news emits_tame_owed)
qed

lemma emits_tame_staleCreate: "emits (reconcileStaleCreate e v) tame"
proof -
  have "emits (watchBusyCreate e i name) tame" for i name
    unfolding watchBusyCreate_def by (intro emits_intros) (simp add: emits_def)
  then show ?thesis
    unfolding reconcileStaleCreate_def rtReconcileStaleCreate_def
    by (intro emits_intros) (auto intro!: emits_intros split: stale_create_outcome.split)
qed

lemma emits_tame_startup: "emits (StartupReconcile e keys) tame"
proof -
  have "emits (reconcileStaleCreates e vms) tame" for vms
    by (induction vms) (auto intro!: emits_intros emits_tame_staleCreate)
  then show ?thesis
    unfolding StartupReconcile_def rtList_def
    by (intro emits_intros) (auto intro!: emits_intros emits_tame_startupPass split: sum.split option.split)
qed

section \<open>What every entry point keeps\<close>

text \<open>A contract on the calls of an action: kept by calls that neither boot a guest nor delete a pod, by boots on evidence, and by
  sequences. It then holds of every entry point, once it holds of the two that evict.\<close>

locale call_contract =
  fixes e :: env and Q :: "call list \<Rightarrow> bool"
  assumes tame_ok: "list_all tame cs \<Longrightarrow> Q cs"
    and append_ok: "Q as \<Longrightarrow> Q bs \<Longrightarrow> Q (as @ bs)"
    and boot_ok: "bootSafe e n cs \<Longrightarrow> Q cs"
begin

lemma tame_keeps: "emits m tame \<Longrightarrow> produces m (\<lambda>_. Q)"
  by (erule produces_emits) (rule tame_ok)

lemma return_keeps: "produces (State_Monad.return x) (\<lambda>_. Q)"
  by (rule tame_keeps [OF emits_return])

lemma bind_keeps:
  assumes "produces m (\<lambda>_. Q)" and "\<And>r. produces (f r) (\<lambda>_. Q)"
  shows "produces (State_Monad.bind m f) (\<lambda>_. Q)"
  by (rule produces_bind [OF assms(1)]) (auto intro: produces_weaken [OF assms(2)] append_ok)

lemma first_keeps: "emits m tame \<Longrightarrow> (\<And>r. produces (f r) (\<lambda>_. Q)) \<Longrightarrow> produces (State_Monad.bind m f) (\<lambda>_. Q)"
  by (rule bind_keeps [OF tame_keeps])

lemma ignoring_keeps: "produces m (\<lambda>_. Q) \<Longrightarrow> produces (ignoring m) (\<lambda>_. Q)"
  unfolding ignoring_def by (rule bind_keeps [OF _ return_keeps])

lemma deferring_keeps: "produces m (\<lambda>_. Q) \<Longrightarrow> emits fin tame \<Longrightarrow> produces (deferring m fin) (\<lambda>_. Q)"
  unfolding deferring_def by (rule bind_keeps [OF _ first_keeps [OF _ return_keeps]])

lemma create_keeps:
  assumes "registry_ok e" "restore_mark_ok e"
  shows "produces (CreatePod e p) (\<lambda>_. Q)"
  unfolding produces_def using wp_run [OF CreatePod_safe [OF assms]] boot_ok by blast

lemma update_keeps:
  assumes "registry_ok e" "restore_mark_ok e"
  shows "produces (updatePod e p) (\<lambda>_. Q)"
proof -
  have tracked: "produces (updateTracked e p spec v want ref) (\<lambda>_. Q)" for spec v want ref
    by (rule produces_weaken [OF updateTracked_safe [OF assms(1)] boot_ok])
  have detach: "emits (detachIncarnation e key uid v) tame" for key uid v
    unfolding detachIncarnation_def forgetProbe_def by (intro emits_intros)
  have "produces (updateLookedUp e p spec want ref found) (\<lambda>_. Q)" for spec want ref found
    unfolding updateLookedUp_def
    by (auto intro!: first_keeps return_keeps create_keeps [OF assms] tracked detach emits_intros
        split: prod.split sum.split bool.split)
  then show ?thesis
    unfolding updatePod_def backoffIfResuming_def trackedIncarnation_def
    by (auto intro!: first_keeps return_keeps emits_intros split: option.split)
qed

lemma retry_keeps:
  assumes "registry_ok e" "restore_mark_ok e"
  shows "produces (retryOp e free key) (\<lambda>_. Q)"
proof -
  have "produces (do { _ \<leftarrow> updatePod e q; State_Monad.return () }) (\<lambda>_. Q)" for q
    by (rule bind_keeps [OF update_keeps [OF assms] return_keeps])
  then show ?thesis
    unfolding retryOp_def timeNow_def
    by (intro first_keeps [OF emits_podLock])
      (auto intro!: first_keeps [OF emits_locked] first_keeps [OF emits_ext] return_keeps split: prod.split option.split)
qed

lemma job_keeps:
  assumes "registry_ok e" "restore_mark_ok e" and recheck: "\<And>n i. produces (runDeferredRecheck e n i) (\<lambda>_. Q)"
  shows "produces (runJob e pa j) (\<lambda>_. Q)"
proof -
  have copy: "emits (State (deepCopy p)) tame" for p by (simp add: emits_def deepCopy_def)
  have removal: "emits (removeSnapshotDetached e name) tame" for name
    unfolding removeSnapshotDetached_def rtSnapshotRemove_def by (intro emits_intros) simp
  have workers: "emits (runStatusReconciler e first orders) tame" "emits (runLifecycleReconciler e rounds) tame"
    "emits (runSnapshotReclaimer e first orders) tame" for first orders rounds
    unfolding runStatusReconciler_def sleepCtx_def runLifecycleReconciler_def runSnapshotReclaimer_def
    by (intro emits_intros emits_ticks emits_tame_repair emits_tame_lifecycleRound emits_tame_reclaim; simp)+
  show ?thesis
  proof (cases j)
    case (JobRecheck i)
    then show ?thesis by (simp add: runJob_def ignoring_keeps recheck)
  next
    case (JobRetryOp key)
    then show ?thesis by (simp add: runJob_def retry_keeps assms)
  qed (auto simp: runJob_def intro!: tame_keeps emits_intros copy removal workers)
qed

lemma entry_keeps:
  assumes "registry_ok e" "restore_mark_ok e" "\<And>n i. produces (runDeferredRecheck e n i) (\<lambda>_. Q)"
    and "\<And>rounds. produces (StartVMWatcher e rounds) (\<lambda>_. Q)"
  shows "produces (runEntry e pa en) (\<lambda>_. Q)"
proof -
  have quiets: "emits (Close e) tame" "emits (NotifyPods e) tame" "emits (StartLifecycleReconciler e) tame"
    "emits (StartSnapshotReclaimer e) tame" "emits (RefreshKeepSnapshotOnDelete e p) tame"
    "emits (DeleteFailedMacosCreate e p) tame" "emits (buildOnUpdate e ns name) tame" for p ns name
    unfolding Close_def NotifyPods_def StartLifecycleReconciler_def StartSnapshotReclaimer_def RefreshKeepSnapshotOnDelete_def
      DeleteFailedMacosCreate_def buildOnUpdate_def
    by (intro emits_intros)+
  show ?thesis
  proof (cases en)
    case (EnCreate p)
    then show ?thesis by (simp add: runEntry_def ignoring_keeps create_keeps assms)
  next
    case (EnUpdate p)
    have "produces (UpdatePod e p) (\<lambda>_. Q)"
      unfolding UpdatePod_def by (rule first_keeps [OF emits_podLock update_keeps [OF assms(1,2)]])
    with EnUpdate show ?thesis by (simp add: runEntry_def ignoring_keeps)
  next
    case (EnWatch rounds)
    then show ?thesis by (simp add: runEntry_def assms)
  next
    case (EnJob j)
    then show ?thesis by (simp add: runEntry_def job_keeps assms)
  qed (auto simp: runEntry_def intro!: tame_keeps emits_tame_startup quiets emits_intros)
qed

end

section \<open>The two contracts\<close>

lemma evidenced_append:
  assumes "evidenced e cs" and "evidenced e ds"
  shows "evidenced e (cs @ ds)"
  unfolding evidenced_def
proof (intro allI impI)
  fix as c bs
  assume eq: "cs @ ds = as @ c # bs" and c: "boots c"
  from eq consider us where "cs = as @ c # us" | us where "as = cs @ us" "ds = us @ c # bs"
    by (auto simp: append_eq_append_conv2 Cons_eq_append_conv append_eq_Cons_conv)
  then show "evidenceAbsent e (bootName c) as \<or> restoresFrom e (bootName c) c as"
  proof cases
    case 1
    with assms(1) c show ?thesis unfolding evidenced_def by blast
  next
    case 2
    with assms(2) c have "evidenceAbsent e (bootName c) us \<or> restoresFrom e (bootName c) c us"
      unfolding evidenced_def by blast
    with 2(1) show ?thesis
      using evidenceAbsent_mono [of e "bootName c" us as] restoresFrom_mono [of e "bootName c" c us as] by auto
  qed
qed

interpretation booting: call_contract e "evidenced e" for e
  by unfold_locales (auto intro: evidenced_tame evidenced_append evidenced_bootSafe)

lemma evicts_isKDelete: "evicts = isKDelete"
  by (auto simp: fun_eq_iff evicts_def isKDelete_def split: call.split)

interpretation evicting: call_contract e "preceded isKDelete provesGone" for e
proof unfold_locales
  show "list_all tame cs \<Longrightarrow> preceded isKDelete provesGone cs" for cs
    by (rule preceded_none) (auto simp: tame_def evicts_isKDelete list_all_iff list_ex_iff)
  show "preceded isKDelete provesGone as \<Longrightarrow> preceded isKDelete provesGone bs \<Longrightarrow> preceded isKDelete provesGone (as @ bs)"
    for as bs by (simp add: preceded_append)
  show "bootSafe e n cs \<Longrightarrow> preceded isKDelete provesGone cs" for n cs
    by (auto simp: bootSafe_def evicts_isKDelete preceded_def)
qed

lemma entry_boots_evidenced:
  assumes "registry_ok e" "restore_mark_ok e"
  shows "produces (runEntry e pa en) (\<lambda>_. evidenced e)"
  by (rule booting.entry_keeps [OF assms])
    (auto intro!: produces_emits [OF emits_noBoot_recheck] produces_emits [OF emits_noBoot_watch] simp: evidenced_noBoot)

lemma entry_evicts_proven:
  assumes "registry_ok e" "restore_mark_ok e" "ctx_ok e"
  shows "produces (runEntry e pa en) (\<lambda>_. preceded isKDelete provesGone)"
proof (rule evicting.entry_keeps [OF assms(1,2)])
  show "produces (StartVMWatcher e rounds) (\<lambda>_. preceded isKDelete provesGone)" for rounds
    unfolding StartVMWatcher_def
    by (rule produces_weaken [OF vmWatchLoop_safe [OF assms(3)]]) (simp add: evictionSafe_def)
  show "produces (runDeferredRecheck e n i) (\<lambda>_. preceded isKDelete provesGone)" for n i
    unfolding runDeferredRecheck_def
    by (intro produces_case_prod evicting.deferring_keeps evicting.first_keeps recheckLoop_calls [OF assms(3)])
      (auto simp: timeNow_def intro!: emits_intros)
qed

text \<open>A pace for the examples.\<close>

definition exPace :: pace where
  "exPace = \<lparr>paDur = (\<lambda>_. []), paPolls = 1, paTries = 1, paRounds = 1, paFree = True, paFirst = [''ns/a''], paOrders = [],
     paLifecycle = [([''ns/a''], [])]\<rparr>"

end
