(* ===== verification/Spec2Isabelle.thy ===== *)
theory Spec2Isabelle
  imports Table_Invariants Macos_Props Gc_Props Status_Props Reconcile_Props Peer_Props Runtime_Props Network_Props Capacity_Props
    Stats_Props Metrics_Props Node_Props Pipe Startup System
begin

text \<open>
  Verification of \<open>vk-cocoon\<close>, a virtual-kubelet provider that runs Kubernetes pods as cocoon MicroVMs.

  \<^bold>\<open>The program.\<close> The provider (\<open>src/provider/cocoon\<close>) keeps tables of pods, VMs, lifecycle intents and claims under one
  mutex. Pod handlers (create, update, delete), VM events, periodic reconcilers and resumed operations run
  concurrently; each is a sequence of critical sections over the tables and of calls outside: the \<open>cocoon\<close> CLI
  (\<open>src/vm\<close>), the OCI registry and peer nodes (\<open>src/snapshots\<close>), the lease file and the network (\<open>src/network\<close>), the guest's
  console (\<open>src/guest/sac\<close>), the API server. Probes (\<open>src/probes\<close>) report readiness back. \<open>src/main.go\<close> builds the provider,
  registers the node with its capacity (\<open>src/provider\<close>) and exposes statistics and metrics (\<open>src/metrics\<close>).

  \<^bold>\<open>The model.\<close> A handler is an action \<open>'a act\<close>, a state monad over \<open>prov\<close> (theory \<open>Model\<close>): the tables, a heap of pod cells
  (pods are shared by pointer), and a trace of the outside calls. \<open>locked\<close> and \<open>reading\<close> are critical sections;
  before each the environment may run any other goroutine's sections (\<open>interfere\<close>). A call outside is answered by a function
  of the trace (\<open>ask\<close>), so every answer the world may give, and any change of mind between two calls, is one
  choice of the environment. Errors are values of \<open>err\<close>, which keeps the sentinels \<open>errors.Is\<close> sees. Libraries that are not in
  the repository (\<open>cocoon-common\<close>, Kubernetes quantities, JSON, HTTP, floating point) are parameters.

  \<^bold>\<open>Theories and sources.\<close>

  \<^item> \<open>Prelude\<close>, \<open>Decimal\<close>, \<open>Base64\<close>, \<open>Paths\<close>: what is used of Go's strings, \<open>strconv\<close>, \<open>encoding/base64\<close> and \<open>path/filepath\<close>; the
    weakest-precondition calculus; the interfaces \<open>claim\<close> (exclusive keys) and \<open>backoff\<close> (growing delays), interpreted
    on the claims of \<open>Tables\<close> and on the delays of \<open>Probes\<close> and \<open>Events\<close>.
  \<^item> \<open>Probes\<close> (\<open>probes/probes.go\<close>): manager and agent loop.
  \<^item> \<open>VM_Runtime\<close>, \<open>Cli\<close>, \<open>Pipe\<close> (\<open>vm/runtime.go\<close>, \<open>inspect.go\<close>, \<open>rundir.go\<close>, \<open>cocoon_cli.go\<close>, \<open>pipe_linux.go\<close>): data, argument
    vectors, error classification, and every verb of the CLI client as the commands it runs.
  \<^item> \<open>Model\<close>, \<open>Actions\<close>, \<open>Tables\<close> (\<open>provider.go\<close> and the critical sections of the other files): state, monad, and each
    critical section as a function on the tables, named after its Go function with the suffix \<open>Locked\<close>.
  \<^item> \<open>Lifecycle\<close> (\<open>lifecycle.go\<close>, \<open>status.go\<close>, \<open>observability.go\<close>), \<open>Status\<close> (\<open>status.go\<close>), \<open>Delete\<close> (\<open>delete.go\<close>, \<open>snapshot.go\<close>),
    \<open>Events\<close> (\<open>provider.go\<close>, \<open>retry.go\<close>), \<open>Sources\<close> and \<open>Create\<close> (\<open>create.go\<close>, \<open>compatibility.go\<close>), \<open>Hibernate\<close> and \<open>Update\<close> (\<open>update.go\<close>,
    \<open>resume.go\<close>), \<open>Postclone\<close> (\<open>postclone.go\<close>), \<open>SAC\<close> (\<open>guest/sac/sac.go\<close>), \<open>Macos\<close> (\<open>macos.go\<close>), \<open>Gc\<close> (\<open>gc.go\<close>), \<open>Reconcile\<close>
    (\<open>reconcile.go\<close>): the handlers.
  \<^item> \<open>Peer\<close>, \<open>Peer_Transfer\<close> (\<open>snapshots/peer.go\<close>, \<open>staging.go\<close>, \<open>extents_linux.go\<close>): serving and restoring snapshot files.
  \<^item> \<open>Registry_Transfer\<close> (\<open>snapshots/puller.go\<close>, \<open>pusher.go\<close>, \<open>config.go\<close>): transfers to and from the registry.
  \<^item> \<open>Network\<close> (\<open>network/dhcp.go\<close>, \<open>release.go\<close>, \<open>ping.go\<close>): leases, their release, echo requests.
  \<^item> \<open>Capacity\<close> (\<open>provider/capacity.go\<close>, \<open>capacity_linux.go\<close>), \<open>Stats\<close> (\<open>provider/cocoon/stats.go\<close>, \<open>stats_linux.go\<close>,
    \<open>vm/cgroup.go\<close>), \<open>Metrics\<close> (\<open>metrics/metrics.go\<close>, \<open>vm_collector.go\<close>): what the node offers and what it reports.
  \<^item> \<open>Node\<close> (\<open>main.go\<close>, \<open>nodeprovider.go\<close>, \<open>access.go\<close>, \<open>provider/provider.go\<close>): building the provider, the node object, patches
    after registration, storage pushes, container endpoints. \<open>Startup\<close> (\<open>main.go\<close>): settings and the order of the start.
  \<^item> \<open>Background\<close> (\<open>provider.go\<close>, \<open>macos.go\<close>): the VM watcher over any sequence of event streams, the shutdown, the processes of
    macOS guests. \<open>Workers\<close> (\<open>lifecycle.go\<close>, \<open>provider.go\<close>, \<open>gc.go\<close>): the periodic workers, how they start and their rounds.
  \<^item> \<open>System\<close>: the background jobs and the entry points of the provider, each dispatched to the handler that models it.
  \<^item> \<open>Frames\<close>, \<open>Preserves\<close>: which actions leave the tables alone, and the interface \<open>ghost_free\<close> of invariants that no call or
    allocation disturbs, interpreted on the bindings of \<open>Reconcile_Props\<close>, the pod cells of \<open>Status_Props\<close> and the tables
    of \<open>Workers\<close>.
  \<^item> \<open>Example_Env\<close>: a concrete environment, on which properties with hypotheses are evaluated.

  \<^bold>\<open>What is shown.\<close> The theories \<open>*_Props\<close>, \<open>Table_Invariants\<close>, \<open>Probes\<close>, \<open>SAC\<close>, \<open>Background\<close> and \<open>Workers\<close> hold the
  properties of the components, this theory the two that span them.

  \<^item> No guest state is lost: a guest is never booted over hibernated state, whatever entry point runs, and no entry
    point evicts a pod whose VM is not proven gone; a VM is destroyed only after its snapshot was saved and pushed, or it was proven gone, or it is an orphan under that policy; reclamation spares
    what is in use, in every round; a wake source is verified against the registry.
  \<^item> Order of publication: Ready follows the status and the post-clone fixup; an incarnation's intent only moves forward,
    never belongs to another incarnation, and its annotations converge once the API server accepts patches.
  \<^item> Exclusion and frames: delete claims exclude each other; an undisturbed delete, eviction or hibernation changes exactly
    what it should; nothing is started after the shutdown.
  \<^item> Transfers: a restored directory equals the peer's byte for byte under every schedule, stays in its staging
    directory, is checked slice by slice, and vanishes when the restore fails; registry transfers settle their pipes, processes
    and gates on every path.
  \<^item> Commands: a snapshot is saved without losing another's; stale removal ends.
  \<^item> Reports: allocatable stays within capacity, a scrape is one Prometheus accepts in every reachable state, the kernel's
    files are read at the right columns, the status comparison is equality of a view.
  \<^item> Wiring: settings are of their types, the node starts only after the startup pass succeeded, labels and endpoint land
    once the API server answers, storage pushes follow the last reading.

  \<^bold>\<open>Bounds and fuel.\<close> Loops with a fixed number of attempts recurse on it (three lifecycle patches, ten node patches, two
  release requests). Loops that end by a clock or by the world take fuel and return \<open>None\<close> when it runs out; a property then
  shows that some fuel is enough: the lease wait, the busy-create watcher and the deferred recheck by their budget
  over their interval, the post-clone retry by the deadline, the stale-snapshot removal by 61 rounds (30 seconds in steps
  of half a second), the extent scan by one round per byte since each advances the offset. Integers are mathematical where
  the source's cannot overflow and \<open>wrap64\<close>, \<open>wrap32\<close> or \<open>word\<close> where they can.

  \<^bold>\<open>Findings.\<close> \<open>Peer_Props.slice_bounds_check\<close>: the bounds check of a plan overflows. \<open>Peer_Props.root_is_plain_name\<close>: the name
  of the root passes as plain. \<open>Gc_Props.reclaim_import_collision\<close>: a VM name that ends in the import suffix loses its
  snapshot. \<open>Macos_Props.vnc_adopt_unchecked\<close>: an adopted VNC port is neither bounded nor unique.
  \<open>Lifecycle_Props.ready_after_status\<close>: Ready is exposed without an accepted status when the context ends between attempts.

  \<^bold>\<open>Not modelled.\<close> When a ticker fires and when a goroutine runs: the rounds are arguments, and interleavings are the
  environment's interference, with the workers of a fan-out in order; logging and metric increments; help texts;
  sockets and subprocesses, which answer from the environment; the stubs for other platforms; \<open>guest.go\<close>, an
  interface, and \<open>version.go\<close>, build-time strings. Strings are bytes, so case folding and blanks are those of ASCII.
\<close>

section \<open>The whole provider\<close>



text \<open>C2: no entry point deletes a pod from the API server without proof. In any state and under any interference, each delete is
  preceded, within the same entry, by the answer that a VM does not exist, or by its removal.\<close>

theorem system_evicts_proven:
  assumes "registry_ok e" and "restore_mark_ok e" and "ctx_ok e"
  shows "\<exists>cs. trace (snd (run_state (runEntry e pa en) s)) = trace s @ cs \<and> preceded isKDelete provesGone cs"
  using entry_evicts_proven [OF assms] by (metis producesD)

theorem system_evicts_proven_witness:
  "registry_ok exGone \<and> restore_mark_ok exGone \<and> ctx_ok exGone \<and>
   preceded isKDelete provesGone
     (trace (snd (run_state (runEntry exGone exPace (EnWatch [Inr [(''DELETED'', exVM)]])) exProv)))"
proof -
  have ok: "registry_ok exGone" "restore_mark_ok exGone" "ctx_ok exGone"
    by (simp_all add: registry_ok_def restore_mark_ok_def exWorld_def exLib_def exAn_def)
  then show ?thesis
    using system_evicts_proven [OF ok, of exPace "EnWatch [Inr [(''DELETED'', exVM)]]" exProv] by simp
qed

end
